(* ===== verification/Prelude.thy ===== *)
theory Prelude
  imports Main "HOL-Library.Word" "HOL-Library.Char_ord" "HOL-Library.List_Lexorder"
    "HOL-Library.Product_Lexorder" "HOL-Library.Multiset" "HOL-Library.Code_Target_Nat"
begin

unbundle bit_operations_syntax

section \<open>Shared vocabulary and library facts\<close>

text \<open>
  Machine integers are words of their width. A \<^verbatim>\<open>std::string\<close> is a \<^typ>\<open>string\<close>, whose characters
  are bytes and whose order (lexicographic, by unsigned byte) is the one of \<^verbatim>\<open>std::string\<close>.
  The algorithms of the standard library that the program calls are defined here once:
  \<open>sort_by\<close> (\<^verbatim>\<open>std::sort\<close>, \<^verbatim>\<open>std::stable_sort\<close>), \<^const>\<open>remdups_adj\<close> (\<^verbatim>\<open>std::unique\<close>),
  \<open>lower_bound\<close> and \<open>binary_search\<close> (the halving loop of the library), \<open>string_of_nat\<close>
  (\<^verbatim>\<open>std::to_string\<close>) and searching a string for a character.
\<close>

type_synonym byte = "8 word"
type_synonym bytes = "byte list"
type_synonym u16 = "16 word"
type_synonym u32 = "32 word"
type_synonym u64 = "64 word"
type_synonym i64 = "64 word" \<comment> \<open>read with \<^const>\<open>sint\<close>\<close>

named_theorems codec \<open>what a reader does on the bytes of a writer\<close>

subsection \<open>Sorting by a comparator\<close>

fun insort_by :: "('a \<Rightarrow> 'a \<Rightarrow> bool) \<Rightarrow> 'a \<Rightarrow> 'a list \<Rightarrow> 'a list" where
  "insort_by lt x [] = [x]"
| "insort_by lt x (y # ys) = (if lt y x then y # insort_by lt x ys else x # y # ys)"

definition sort_by :: "('a \<Rightarrow> 'a \<Rightarrow> bool) \<Rightarrow> 'a list \<Rightarrow> 'a list" where
  "sort_by lt xs = foldr (insort_by lt) xs []"

lemma mset_insort_by [simp]: "mset (insort_by lt x ys) = add_mset x (mset ys)"
  by (induction ys) auto

lemma mset_sort_by [simp]: "mset (sort_by lt xs) = mset xs"
  unfolding sort_by_def by (induction xs) auto

lemma set_sort_by [simp]: "set (sort_by lt xs) = set xs"
  by (metis mset_sort_by set_mset_mset)

lemma length_sort_by [simp]: "length (sort_by lt xs) = length xs"
  by (metis mset_sort_by size_mset)

lemma sort_by_Nil [simp]: "sort_by lt [] = []"
  by (simp add: sort_by_def)

lemma sort_by_eq_Nil [simp]: "sort_by lt xs = [] \<longleftrightarrow> xs = []"
  by (metis length_0_conv length_sort_by)

lemma distinct_sort_by [simp]: "distinct (sort_by lt xs) \<longleftrightarrow> distinct xs"
  by (metis mset_eq_imp_distinct_iff mset_sort_by)

lemma sort_by_Cons: "sort_by lt (x # xs) = insort_by lt x (sort_by lt xs)"
  by (simp add: sort_by_def)

text \<open>
  The contract of a comparator: it is the order of some key. The facts of the library
  about \<^const>\<open>sort_key\<close> (sortedness, stability, uniqueness of the result) then hold of the
  sort. Every comparator of the program is an interpretation of this locale.
\<close>

locale comparator =
  fixes lt :: "'a \<Rightarrow> 'a \<Rightarrow> bool" and key :: "'a \<Rightarrow> 'k :: linorder"
  assumes lt_key: "lt a b \<longleftrightarrow> key a < key b"
begin

lemma insort_by_key: "insort_by lt x ys = insort_key key x ys"
  by (induction ys) (auto simp: lt_key not_less)

lemma sort_by_key: "sort_by lt xs = sort_key key xs"
  unfolding sort_by_def sort_key_def by (induction xs) (auto simp: insort_by_key)

lemma sorted_sort_by: "sorted (map key (sort_by lt xs))"
  by (simp add: sort_by_key)

lemma sort_by_sorted: "sorted (map key xs) \<Longrightarrow> sort_by lt xs = xs"
  by (simp add: sort_by_key sorted_sort_id sort_key_id_if_sorted)

text \<open>With pairwise distinct keys the sorted sequence does not depend on the input order.\<close>

lemma sort_by_unique:
  assumes "mset xs = mset ys" and "distinct (map key xs)"
  shows "sort_by lt xs = sort_by lt ys"
proof (rule map_sorted_distinct_set_unique)
  show "inj_on key (set (sort_by lt xs) \<union> set (sort_by lt ys))"
    using assms by (metis Un_absorb distinct_map set_mset_mset set_sort_by)
  show "sorted (map key (sort_by lt xs))" "sorted (map key (sort_by lt ys))"
    by (rule sorted_sort_by)+
  show "distinct (map key (sort_by lt xs))" "distinct (map key (sort_by lt ys))"
    using assms by (metis mset_eq_imp_distinct_iff mset_map mset_sort_by)+
  show "set (sort_by lt xs) = set (sort_by lt ys)"
    using assms(1) by (metis set_mset_mset set_sort_by)
qed

lemma sort_by_strict:
  assumes "distinct (map key xs)"
  shows "sorted_wrt (<) (map key (sort_by lt xs))"
proof -
  have "distinct (map key (sort_by lt xs))"
    using assms by (metis mset_eq_imp_distinct_iff mset_map mset_sort_by)
  with sorted_sort_by show ?thesis by (simp add: strict_sorted_iff)
qed

end

text \<open>\<^verbatim>\<open>std::sort\<close> without a comparator uses the order of the element type.\<close>

interpretation std_less: comparator "(<) :: 'a :: linorder \<Rightarrow> 'a \<Rightarrow> bool" "\<lambda>x. x"
  by unfold_locales simp

definition std_sort :: "'a :: linorder list \<Rightarrow> 'a list" where
  "std_sort xs = sort_by (<) xs"

lemma std_sort_sort: "std_sort xs = sort xs"
  by (simp add: std_sort_def std_less.sort_by_key)

definition sort_unique :: "'a :: linorder list \<Rightarrow> 'a list" where
  "sort_unique xs = remdups_adj (std_sort xs)"

lemma sorted_remdups_adj_strict: "sorted (xs :: 'a :: linorder list) \<Longrightarrow> sorted_wrt (<) (remdups_adj xs)"
  by (induction xs rule: remdups_adj.induct) (auto simp: less_le)

lemma set_sort_unique [simp]: "set (sort_unique xs) = set xs"
  by (simp add: sort_unique_def std_sort_sort)

lemma sort_unique_strict: "sorted_wrt (<) (sort_unique xs)"
  by (simp add: sort_unique_def std_sort_sort sorted_remdups_adj_strict)

lemma sort_unique_eqI: "set xs = set ys \<Longrightarrow> sort_unique xs = sort_unique ys"
  by (metis set_sort_unique sort_unique_strict strict_sorted_equal)

lemma sort_unique_id: "sorted_wrt (<) xs \<Longrightarrow> sort_unique xs = xs"
  by (metis set_sort_unique sort_unique_strict strict_sorted_equal)

lemma sort_unique_idem [simp]: "sort_unique (sort_unique xs) = sort_unique xs"
  by (rule sort_unique_id) (rule sort_unique_strict)

text \<open>The scan for equal neighbours that follows a sort.\<close>

fun adjacent_dup :: "'a list \<Rightarrow> bool" where
  "adjacent_dup (x # y # xs) \<longleftrightarrow> x = y \<or> adjacent_dup (y # xs)"
| "adjacent_dup _ \<longleftrightarrow> False"

lemma adjacent_dup_sorted: "sorted (xs :: 'a :: linorder list) \<Longrightarrow> adjacent_dup xs \<longleftrightarrow> \<not> distinct xs"
proof (induction xs rule: adjacent_dup.induct)
  case (1 x y xs)
  then show ?case by (cases "x = y") (auto simp: less_le)
qed auto

lemma adjacent_dup_std_sort: "adjacent_dup (std_sort xs) \<longleftrightarrow> \<not> distinct xs"
  by (simp add: std_sort_sort adjacent_dup_sorted)

text \<open>A loop that maps a list and returns at the first error.\<close>

fun collect :: "('a \<Rightarrow> 'e + 'b) \<Rightarrow> 'a list \<Rightarrow> 'e + 'b list" where
  "collect f [] = Inr []"
| "collect f (x # xs) =
     (case f x of Inl e \<Rightarrow> Inl e
      | Inr y \<Rightarrow> (case collect f xs of Inl e \<Rightarrow> Inl e | Inr ys \<Rightarrow> Inr (y # ys)))"

lemma collect_Inr_iff: "collect f xs = Inr ys \<longleftrightarrow> map f xs = map Inr ys"
proof (induction xs arbitrary: ys)
  case (Cons x xs)
  show ?case
  proof (cases ys)
    case (Cons z zs)
    then show ?thesis
      using Cons.IH [of zs] by (cases "f x"; cases "collect f xs") auto
  qed (auto split: sum.splits)
qed auto

lemma collect_Inr_set: "collect f xs = Inr ys \<Longrightarrow> y \<in> set ys \<Longrightarrow> \<exists>x \<in> set xs. f x = Inr y"
proof -
  assume "collect f xs = Inr ys" "y \<in> set ys"
  then have "set (map f xs) = set (map Inr ys)" "Inr y \<in> set (map Inr ys)" by (simp_all only: collect_Inr_iff) auto
  then have "Inr y \<in> f ` set xs" by auto
  then show ?thesis by auto
qed

lemma collect_id: "(\<And>x. x \<in> set xs \<Longrightarrow> f x = Inr x) \<Longrightarrow> collect f xs = Inr xs"
  by (simp add: collect_Inr_iff)

lemma collect_length: "collect f xs = Inr ys \<Longrightarrow> length ys = length xs"
  by (metis collect_Inr_iff length_map)

lemma collect_perm:
  assumes "collect f xs = Inr ys" "mset xs = mset xs'"
  obtains ys' where "collect f xs' = Inr ys'" "mset ys' = mset ys"
proof -
  have f: "f x = Inr (projr (f x))" if "x \<in> set xs" for x
  proof -
    have "set (map f xs) = set (map Inr ys)" using assms(1) by (simp only: collect_Inr_iff)
    with that have "f x \<in> Inr ` set ys" by auto
    then show ?thesis by auto
  qed
  have "set xs' = set xs" using assms(2) by (metis set_mset_mset)
  with f have "collect f xs' = Inr (map (projr \<circ> f) xs')" by (auto simp: collect_Inr_iff)
  moreover have "ys = map (projr \<circ> f) xs"
  proof -
    from assms(1) have "map f xs = map Inr ys" by (simp only: collect_Inr_iff)
    from arg_cong [OF this, of "map projr"] show ?thesis by (simp add: comp_def)
  qed
  ultimately show ?thesis using that assms(2) by (metis mset_map)
qed

subsection \<open>Binary search\<close>

text \<open>
  The loop of \<^verbatim>\<open>std::lower_bound\<close>: \<open>below\<close> is the comparison of an element with the sought value.
  It is defined on every range; on a range that is partitioned by \<open>below\<close> it returns the
  partition point.
\<close>

function lower_bound_loop :: "('a \<Rightarrow> bool) \<Rightarrow> 'a list \<Rightarrow> nat \<Rightarrow> nat \<Rightarrow> nat" where
  "lower_bound_loop below xs first len =
     (if len = 0 then first
      else let half = len div 2; mid = first + half in
        if below (xs ! mid) then lower_bound_loop below xs (mid + 1) (len - half - 1)
        else lower_bound_loop below xs first half)"
  by pat_completeness auto
termination by (relation "measure (\<lambda>(_, _, _, len). len)") auto

declare lower_bound_loop.simps [simp del]

definition lower_bound :: "('a \<Rightarrow> bool) \<Rightarrow> 'a list \<Rightarrow> nat" where
  "lower_bound below xs = lower_bound_loop below xs 0 (length xs)"

definition binary_search :: "'a :: linorder list \<Rightarrow> 'a \<Rightarrow> bool" where
  "binary_search xs v =
     (let i = lower_bound (\<lambda>x. x < v) xs in i < length xs \<and> \<not> v < xs ! i)"

lemma lower_bound_loop_partition:
  assumes below: "\<And>i. i < length xs \<Longrightarrow> below (xs ! i) \<longleftrightarrow> i < n"
    and "first \<le> n" "n \<le> first + len" "first + len \<le> length xs"
  shows "lower_bound_loop below xs first len = n"
  using assms(2-)
proof (induction len arbitrary: first rule: less_induct)
  case (less len)
  show ?case
  proof (cases "len = 0")
    case True
    with less.prems show ?thesis by (subst lower_bound_loop.simps) simp
  next
    case False
    define mid where "mid = first + len div 2"
    have mid: "mid < length xs" "mid < first + len" "first \<le> mid"
      using False less.prems by (auto simp: mid_def)
    have unfold: "lower_bound_loop below xs first len =
        (if mid < n then lower_bound_loop below xs (mid + 1) (len - len div 2 - 1)
         else lower_bound_loop below xs first (len div 2))"
      by (subst lower_bound_loop.simps) (simp only: Let_def mid_def [symmetric] below [OF mid(1)] False if_False)
    have "lower_bound_loop below xs (mid + 1) (len - len div 2 - 1) = n" if "mid < n"
      by (rule less.IH) (use that False mid less.prems in \<open>auto simp: mid_def\<close>)
    moreover have "lower_bound_loop below xs first (len div 2) = n" if "\<not> mid < n"
      by (rule less.IH) (use that False mid less.prems in \<open>auto simp: mid_def\<close>)
    ultimately show ?thesis by (metis unfold)
  qed
qed

lemma lower_bound_takeWhile:
  assumes "sorted_wrt (\<lambda>a b. below b \<longrightarrow> below a) xs"
  shows "lower_bound below xs = length (takeWhile below xs)"
  unfolding lower_bound_def
proof (rule lower_bound_loop_partition)
  fix i assume i: "i < length xs"
  show "below (xs ! i) \<longleftrightarrow> i < length (takeWhile below xs)"
  proof
    assume b: "below (xs ! i)"
    show "i < length (takeWhile below xs)"
    proof (rule ccontr)
      assume "\<not> i < length (takeWhile below xs)"
      then have n: "length (takeWhile below xs) \<le> i" by simp
      with i have "\<not> below (xs ! length (takeWhile below xs))"
        by (metis le_less_trans nth_length_takeWhile)
      with n b i show False
        using assms by (metis le_neq_implies_less sorted_wrt_nth_less)
    qed
  qed (metis nth_mem set_takeWhileD takeWhile_nth)
qed (auto simp: length_takeWhile_le)

lemma takeWhile_less_nth:
  fixes xs :: "'a :: linorder list"
  assumes "sorted xs" and "v \<in> set xs"
  shows "length (takeWhile (\<lambda>x. x < v) xs) < length xs \<and> xs ! length (takeWhile (\<lambda>x. x < v) xs) = v"
  using assms by (induction xs) auto

lemma binary_search_sorted:
  assumes "sorted xs"
  shows "binary_search xs v \<longleftrightarrow> v \<in> set xs"
proof -
  let ?n = "length (takeWhile (\<lambda>x. x < v) xs)"
  have n: "lower_bound (\<lambda>x. x < v) xs = ?n"
    by (rule lower_bound_takeWhile) (use assms in \<open>auto simp: sorted_wrt_iff_nth_less intro: le_less_trans\<close>)
  have "v \<in> set xs" if "?n < length xs" "\<not> v < xs ! ?n"
    using that by (metis linorder_less_linear nth_length_takeWhile nth_mem)
  with takeWhile_less_nth [OF assms, of v] show ?thesis
    by (auto simp: binary_search_def n Let_def)
qed

subsection \<open>Characters, decimal text and splitting\<close>

definition digit_char :: "nat \<Rightarrow> char" where
  "digit_char d = char_of (48 + d)"

definition is_digit :: "char \<Rightarrow> bool" where
  "is_digit c \<longleftrightarrow> 48 \<le> (of_char c :: nat) \<and> (of_char c :: nat) \<le> 57"

fun string_of_nat :: "nat \<Rightarrow> string" where
  "string_of_nat n =
     (if n < 10 then [digit_char n] else string_of_nat (n div 10) @ [digit_char (n mod 10)])"

declare string_of_nat.simps [simp del]

definition string_of_int :: "int \<Rightarrow> string" where
  "string_of_int i = (if i < 0 then ''-'' @ string_of_nat (nat (- i)) else string_of_nat (nat i))"

definition nat_of_digits :: "string \<Rightarrow> nat" where
  "nat_of_digits s = foldl (\<lambda>n c. 10 * n + (of_char c - 48)) 0 s"

lemma is_digit_digit_char [simp]: "d < 10 \<Longrightarrow> is_digit (digit_char d)"
  by (simp add: is_digit_def digit_char_def)

lemma of_char_digit_char [simp]: "d < 10 \<Longrightarrow> of_char (digit_char d) = 48 + d"
  by (simp add: digit_char_def)

lemma nat_of_digits_snoc [simp]:
  "nat_of_digits (s @ [c]) = 10 * nat_of_digits s + (of_char c - 48)"
  by (simp add: nat_of_digits_def)

lemma nat_of_digits_Nil [simp]: "nat_of_digits [] = 0"
  by (simp add: nat_of_digits_def)

lemma nat_of_digits_string_of_nat [simp]: "nat_of_digits (string_of_nat n) = n"
proof (induction n rule: string_of_nat.induct)
  case (1 n)
  show ?case
  proof (cases "n < 10")
    case True
    then show ?thesis
      using nat_of_digits_snoc [of "[]" "digit_char n"] by (simp add: string_of_nat.simps [of n])
  next
    case False
    with 1 show ?thesis by (simp add: string_of_nat.simps [of n])
  qed
qed

lemma string_of_nat_not_Nil [simp]: "string_of_nat n \<noteq> []"
  by (simp add: string_of_nat.simps [of n])

lemma string_of_nat_digits: "c \<in> set (string_of_nat n) \<Longrightarrow> is_digit c"
proof (induction n rule: string_of_nat.induct)
  case (1 n)
  then show ?case by (auto simp: string_of_nat.simps [of n] split: if_splits)
qed

lemma length_string_of_nat: "0 < k \<Longrightarrow> n < 10 ^ k \<Longrightarrow> length (string_of_nat n) \<le> k"
proof (induction k arbitrary: n)
  case (Suc k)
  show ?case
  proof (cases "n < 10")
    case False
    with Suc.prems have "0 < k" by (cases k) auto
    moreover have "n div 10 < 10 ^ k" using Suc.prems(2) by (simp add: div_less_iff_less_mult mult.commute)
    ultimately show ?thesis using Suc.IH [of "n div 10"] False by (simp add: string_of_nat.simps [of n])
  qed (simp add: string_of_nat.simps [of n])
qed simp

text \<open>\<open>before c s\<close> and \<open>after c s\<close> are the two sides of the first occurrence of \<open>c\<close> in \<open>s\<close>
  (\<^verbatim>\<open>find\<close> followed by \<^verbatim>\<open>substr\<close>); \<open>c \<in> set s\<close> is the test \<^verbatim>\<open>find(c) != npos\<close>.\<close>

definition before :: "'a \<Rightarrow> 'a list \<Rightarrow> 'a list" where
  "before c s = takeWhile (\<lambda>x. x \<noteq> c) s"

definition after :: "'a \<Rightarrow> 'a list \<Rightarrow> 'a list" where
  "after c s = tl (dropWhile (\<lambda>x. x \<noteq> c) s)"

lemma before_append [simp]: "c \<notin> set a \<Longrightarrow> before c (a @ c # b) = a"
  unfolding before_def by (induction a) auto

lemma after_append [simp]: "c \<notin> set a \<Longrightarrow> after c (a @ c # b) = b"
  unfolding after_def by (induction a) auto

lemma before_id [simp]: "c \<notin> set a \<Longrightarrow> before c a = a"
  unfolding before_def by (induction a) auto

lemma not_in_before [simp]: "c \<notin> set (before c s)"
  by (auto simp: before_def dest: set_takeWhileD)

lemma before_after: "c \<in> set s \<Longrightarrow> before c s @ c # after c s = s"
  unfolding before_def after_def
  by (induction s) auto

lemma length_after: "s \<noteq> [] \<Longrightarrow> length (after c s) < length s"
proof (cases s)
  case (Cons x xs)
  have "length (tl (dropWhile (\<lambda>x. x \<noteq> c) s)) \<le> length xs"
    using length_dropWhile_le [of "\<lambda>x. x \<noteq> c" s] by (simp add: Cons)
  then show ?thesis by (simp add: after_def Cons)
qed simp

lemma length_after_pair:
  "a \<noteq> [] \<or> b \<noteq> [] \<Longrightarrow> length (after c a) + length (after c b) < length a + length b"
proof -
  have "length (after c s) \<le> length s" for s :: "'a list"
    using length_after [of s c] by (cases s) (auto simp: after_def)
  then show "a \<noteq> [] \<or> b \<noteq> [] \<Longrightarrow> ?thesis"
    using length_after [of a c] length_after [of b c] by (metis add_less_le_mono add_le_less_mono)
qed

lemma set_before: "set (before c s) \<subseteq> set s"
  by (auto simp: before_def dest: set_takeWhileD)

lemma set_after: "set (after c s) \<subseteq> set s"
  unfolding after_def by (induction s) auto

subsection \<open>Words as byte sequences\<close>

text \<open>Least significant byte first: the shift loops of the byte codec.\<close>

definition le_bytes :: "nat \<Rightarrow> 'a :: len word \<Rightarrow> bytes" where
  "le_bytes n w = map (\<lambda>i. ucast (drop_bit (8 * i) w AND 255)) [0..<n]"

fun le_word :: "bytes \<Rightarrow> 'a :: len word" where
  "le_word [] = 0"
| "le_word (b # bs) = ucast b OR push_bit 8 (le_word bs)"

lemma length_le_bytes [simp]: "length (le_bytes n w) = n"
  by (simp add: le_bytes_def)

lemma bit_le_word:
  "bit (le_word bs :: 'a :: len word) k \<longleftrightarrow>
     k < LENGTH('a) \<and> k div 8 < length bs \<and> bit (bs ! (k div 8)) (k mod 8)"
proof (induction bs arbitrary: k)
  case (Cons b bs)
  show ?case
  proof (cases "k < 8")
    case True
    then show ?thesis by (auto simp: bit_simps)
  next
    case False
    then have k: "k div 8 = Suc ((k - 8) div 8)" "k mod 8 = (k - 8) mod 8"
      by (auto simp: le_div_geq le_mod_geq)
    have "\<not> bit b k" using False bit_imp_le_length [of b k] by auto
    with False show ?thesis by (auto simp: bit_simps Cons.IH k)
  qed
qed simp

lemma bit_255: "bit (255 :: 'a :: len word) k \<longleftrightarrow> k < LENGTH('a) \<and> k < 8"
proof -
  have "(255 :: 'a word) = mask 8" by (simp add: mask_eq_exp_minus_1)
  then show ?thesis by (simp only: bit_mask_iff) (auto simp: bit_simps)
qed

lemma ucast_and_255 [simp]: "ucast (x AND 255) = (ucast (x :: 'a :: len word) :: byte)"
proof (rule bit_eqI)
  fix n assume "possible_bit TYPE(8 word) n"
  then have "n < 8" by simp
  moreover have "bit x n \<Longrightarrow> n < LENGTH('a)" by (rule bit_imp_le_length)
  ultimately show "bit (ucast (x AND 255) :: byte) n \<longleftrightarrow> bit (ucast x :: byte) n"
    by (simp only: bit_ucast_iff bit_and_iff bit_255) auto
qed

lemma le_bytes_nth: "i < n \<Longrightarrow> le_bytes n w ! i = ucast (drop_bit (8 * i) w)"
  by (simp add: le_bytes_def)

lemma le_word_le_bytes:
  assumes "LENGTH('a) \<le> 8 * n"
  shows "le_word (le_bytes n w) = (w :: 'a :: len word)"
proof (rule bit_eqI)
  fix k assume "possible_bit TYPE('a word) k"
  then have k: "k < LENGTH('a)" by simp
  have "k div 8 < n" using k assms by (simp add: div_less_iff_less_mult mult.commute)
  with k show "bit (le_word (le_bytes n w) :: 'a word) k \<longleftrightarrow> bit w k"
    by (auto simp: bit_le_word le_bytes_nth bit_simps)
qed

lemma le_bytes_le_word:
  assumes "length bs = n" and "8 * n \<le> LENGTH('a)"
  shows "le_bytes n (le_word bs :: 'a :: len word) = bs"
proof (rule nth_equalityI)
  fix i assume i: "i < length (le_bytes n (le_word bs :: 'a word))"
  show "le_bytes n (le_word bs :: 'a word) ! i = bs ! i"
  proof (rule bit_eqI)
    fix k assume "possible_bit TYPE(8 word) k"
    then have "k < 8" by simp
    moreover have "8 * i + k < LENGTH('a)" using i assms \<open>k < 8\<close> by simp
    moreover have "(8 * i + k) div 8 = i" "(8 * i + k) mod 8 = k" using \<open>k < 8\<close> by auto
    ultimately show "bit (le_bytes n (le_word bs :: 'a word) ! i) k \<longleftrightarrow> bit (bs ! i) k"
      using i assms by (auto simp: le_bytes_nth bit_simps bit_le_word)
  qed
qed (use assms in simp)

end
