(* ===== verification/Status_Ids.thy ===== *)
theory Status_Ids
  imports Prelude
begin

section \<open>Error domain, identities and generations\<close>

text \<open>
  \<^verbatim>\<open>core/status.hpp\<close>, \<^verbatim>\<open>core/ids.hpp\<close>, \<^verbatim>\<open>core/ids.cpp\<close> and the clock arithmetic of \<^verbatim>\<open>core/time.cpp\<close>.
  A \<^verbatim>\<open>Status\<close> is its machine-readable code: the message that accompanies a code is diagnostic
  text that no operation of the program reads back, and is left out. \<^verbatim>\<open>Result<T>\<close> is the sum
  of an error code and a value. An identity is a 128-bit value whose array of bytes is read
  most significant byte first, so that the order of the array is the order of the number.
\<close>

text \<open>
  \<^verbatim>\<open>ErrorCode\<close> is an enumeration with the fixed underlying type \<^verbatim>\<open>uint16_t\<close>, and a decoder casts
  integers to it: the type holds every 16-bit value, and the enumerators are names for some
  of them.
\<close>

datatype error_code = ErrorCode (error_value: u16)

type_synonym 'a result = "error_code + 'a"

abbreviation EC_Ok :: error_code where "EC_Ok \<equiv> ErrorCode 0"
abbreviation EC_InvalidArgument :: error_code where "EC_InvalidArgument \<equiv> ErrorCode 1"
abbreviation EC_MalformedData :: error_code where "EC_MalformedData \<equiv> ErrorCode 2"
abbreviation EC_MalformedAdvertisement :: error_code where "EC_MalformedAdvertisement \<equiv> ErrorCode 3"
abbreviation EC_MalformedVersionRange :: error_code where "EC_MalformedVersionRange \<equiv> ErrorCode 4"
abbreviation EC_NonFiniteQuantity :: error_code where "EC_NonFiniteQuantity \<equiv> ErrorCode 5"
abbreviation EC_ImpossibleQuantity :: error_code where "EC_ImpossibleQuantity \<equiv> ErrorCode 6"
abbreviation EC_BoundsExceeded :: error_code where "EC_BoundsExceeded \<equiv> ErrorCode 7"
abbreviation EC_Overflow :: error_code where "EC_Overflow \<equiv> ErrorCode 8"
abbreviation EC_UnsupportedCapability :: error_code where "EC_UnsupportedCapability \<equiv> ErrorCode 20"
abbreviation EC_UnknownCapability :: error_code where "EC_UnknownCapability \<equiv> ErrorCode 21"
abbreviation EC_CapabilityMismatch :: error_code where "EC_CapabilityMismatch \<equiv> ErrorCode 22"
abbreviation EC_CapabilityDowngrade :: error_code where "EC_CapabilityDowngrade \<equiv> ErrorCode 23"
abbreviation EC_ContradictoryCapabilities :: error_code where "EC_ContradictoryCapabilities \<equiv> ErrorCode 24"
abbreviation EC_MissingMandatoryCapability :: error_code where "EC_MissingMandatoryCapability \<equiv> ErrorCode 25"
abbreviation EC_CompatibilityRejection :: error_code where "EC_CompatibilityRejection \<equiv> ErrorCode 40"
abbreviation EC_VendorMismatch :: error_code where "EC_VendorMismatch \<equiv> ErrorCode 41"
abbreviation EC_ArchitectureMismatch :: error_code where "EC_ArchitectureMismatch \<equiv> ErrorCode 42"
abbreviation EC_RuntimeMismatch :: error_code where "EC_RuntimeMismatch \<equiv> ErrorCode 43"
abbreviation EC_RuntimeVersionUnsupported :: error_code where "EC_RuntimeVersionUnsupported \<equiv> ErrorCode 44"
abbreviation EC_IsaIncompatible :: error_code where "EC_IsaIncompatible \<equiv> ErrorCode 45"
abbreviation EC_InsufficientMemory :: error_code where "EC_InsufficientMemory \<equiv> ErrorCode 46"
abbreviation EC_NumericModeUnsupported :: error_code where "EC_NumericModeUnsupported \<equiv> ErrorCode 47"
abbreviation EC_PolicyMismatch :: error_code where "EC_PolicyMismatch \<equiv> ErrorCode 48"
abbreviation EC_PortabilityConstraintViolated :: error_code where "EC_PortabilityConstraintViolated \<equiv> ErrorCode 49"
abbreviation EC_MigrationUnsupported :: error_code where "EC_MigrationUnsupported \<equiv> ErrorCode 50"
abbreviation EC_StaleEpoch :: error_code where "EC_StaleEpoch \<equiv> ErrorCode 60"
abbreviation EC_StaleAgent :: error_code where "EC_StaleAgent \<equiv> ErrorCode 61"
abbreviation EC_StaleBoot :: error_code where "EC_StaleBoot \<equiv> ErrorCode 62"
abbreviation EC_StaleDeviceGeneration :: error_code where "EC_StaleDeviceGeneration \<equiv> ErrorCode 63"
abbreviation EC_StaleCapabilityGeneration :: error_code where "EC_StaleCapabilityGeneration \<equiv> ErrorCode 64"
abbreviation EC_StalePolicy :: error_code where "EC_StalePolicy \<equiv> ErrorCode 65"
abbreviation EC_StaleDecision :: error_code where "EC_StaleDecision \<equiv> ErrorCode 66"
abbreviation EC_StaleMigration :: error_code where "EC_StaleMigration \<equiv> ErrorCode 67"
abbreviation EC_StaleFederationGeneration :: error_code where "EC_StaleFederationGeneration \<equiv> ErrorCode 68"
abbreviation EC_StaleEvidence :: error_code where "EC_StaleEvidence \<equiv> ErrorCode 69"
abbreviation EC_AuthorityRevoked :: error_code where "EC_AuthorityRevoked \<equiv> ErrorCode 70"
abbreviation EC_UnknownAccelerator :: error_code where "EC_UnknownAccelerator \<equiv> ErrorCode 80"
abbreviation EC_UnknownAgent :: error_code where "EC_UnknownAgent \<equiv> ErrorCode 81"
abbreviation EC_UnknownEntity :: error_code where "EC_UnknownEntity \<equiv> ErrorCode 82"
abbreviation EC_DuplicateIdentity :: error_code where "EC_DuplicateIdentity \<equiv> ErrorCode 83"
abbreviation EC_DuplicateLiveBoot :: error_code where "EC_DuplicateLiveBoot \<equiv> ErrorCode 84"
abbreviation EC_AlreadyExists :: error_code where "EC_AlreadyExists \<equiv> ErrorCode 85"
abbreviation EC_NotFound :: error_code where "EC_NotFound \<equiv> ErrorCode 86"
abbreviation EC_InvalidTransition :: error_code where "EC_InvalidTransition \<equiv> ErrorCode 87"
abbreviation EC_NotAdmitted :: error_code where "EC_NotAdmitted \<equiv> ErrorCode 88"
abbreviation EC_Fenced :: error_code where "EC_Fenced \<equiv> ErrorCode 89"
abbreviation EC_Retired :: error_code where "EC_Retired \<equiv> ErrorCode 90"
abbreviation EC_DuplicateMessage :: error_code where "EC_DuplicateMessage \<equiv> ErrorCode 91"
abbreviation EC_ProtocolViolation :: error_code where "EC_ProtocolViolation \<equiv> ErrorCode 100"
abbreviation EC_UnknownMessageType :: error_code where "EC_UnknownMessageType \<equiv> ErrorCode 101"
abbreviation EC_UnsupportedProtocolVersion :: error_code where "EC_UnsupportedProtocolVersion \<equiv> ErrorCode 102"
abbreviation EC_FrameTooLarge :: error_code where "EC_FrameTooLarge \<equiv> ErrorCode 103"
abbreviation EC_TruncatedFrame :: error_code where "EC_TruncatedFrame \<equiv> ErrorCode 104"
abbreviation EC_CorruptPayload :: error_code where "EC_CorruptPayload \<equiv> ErrorCode 105"
abbreviation EC_TransportFailure :: error_code where "EC_TransportFailure \<equiv> ErrorCode 106"
abbreviation EC_ConnectionClosed :: error_code where "EC_ConnectionClosed \<equiv> ErrorCode 107"
abbreviation EC_HandshakeFailed :: error_code where "EC_HandshakeFailed \<equiv> ErrorCode 108"
abbreviation EC_PersistenceFailure :: error_code where "EC_PersistenceFailure \<equiv> ErrorCode 120"
abbreviation EC_IntegrityFailure :: error_code where "EC_IntegrityFailure \<equiv> ErrorCode 121"
abbreviation EC_TruncatedStore :: error_code where "EC_TruncatedStore \<equiv> ErrorCode 122"
abbreviation EC_UnsupportedStoreVersion :: error_code where "EC_UnsupportedStoreVersion \<equiv> ErrorCode 123"
abbreviation EC_CorruptStore :: error_code where "EC_CorruptStore \<equiv> ErrorCode 124"
abbreviation EC_ResourceExhausted :: error_code where "EC_ResourceExhausted \<equiv> ErrorCode 140"
abbreviation EC_ShutdownInProgress :: error_code where "EC_ShutdownInProgress \<equiv> ErrorCode 141"
abbreviation EC_Cancelled :: error_code where "EC_Cancelled \<equiv> ErrorCode 142"
abbreviation EC_Timeout :: error_code where "EC_Timeout \<equiv> ErrorCode 143"
abbreviation EC_InternalInvariantViolation :: error_code where "EC_InternalInvariantViolation \<equiv> ErrorCode 144"
abbreviation EC_Unsupported :: error_code where "EC_Unsupported \<equiv> ErrorCode 145"

definition is_staleness :: "error_code \<Rightarrow> bool" where
  "is_staleness c \<longleftrightarrow> c \<in> {EC_StaleEpoch, EC_StaleAgent, EC_StaleBoot, EC_StaleDeviceGeneration,
     EC_StaleCapabilityGeneration, EC_StalePolicy, EC_StaleDecision, EC_StaleMigration,
     EC_StaleFederationGeneration, EC_StaleEvidence, EC_AuthorityRevoked}"

definition is_compatibility_outcome :: "error_code \<Rightarrow> bool" where
  "is_compatibility_outcome c \<longleftrightarrow> c \<in> {EC_CompatibilityRejection, EC_VendorMismatch,
     EC_ArchitectureMismatch, EC_RuntimeMismatch, EC_RuntimeVersionUnsupported, EC_IsaIncompatible,
     EC_InsufficientMemory, EC_NumericModeUnsupported, EC_PolicyMismatch,
     EC_PortabilityConstraintViolated, EC_MigrationUnsupported, EC_UnsupportedCapability,
     EC_UnknownCapability, EC_CapabilityMismatch, EC_MissingMandatoryCapability}"

definition result_code :: "'a result \<Rightarrow> error_code" where
  "result_code r = (case r of Inl c \<Rightarrow> c | Inr _ \<Rightarrow> EC_Ok)"

lemma result_code_simps [simp]: "result_code (Inl c) = c" "result_code (Inr v) = EC_Ok"
  by (simp_all add: result_code_def)

subsection \<open>Identities\<close>

datatype id128 = Id128 (id_word: "128 word")

type_synonym federation_id = id128
type_synonym agent_id = id128
type_synonym agent_boot_id = id128
type_synonym node_id = id128
type_synonym accelerator_id = id128
type_synonym physical_device_id = id128
type_synonym vendor_id = id128
type_synonym architecture_id = id128
type_synonym capability_set_id = id128
type_synonym evidence_id = id128
type_synonym workload_class_id = id128
type_synonym workload_requirement_id = id128
type_synonym compatibility_decision_id = id128
type_synonym migration_plan_id = id128
type_synonym policy_id = id128
type_synonym decision_id = id128
type_synonym session_id = id128

definition nil_id :: id128 where
  "nil_id = Id128 0"

definition id_bytes :: "id128 \<Rightarrow> bytes" where
  "id_bytes i = rev (le_bytes 16 (id_word i))"

definition is_nil :: "id128 \<Rightarrow> bool" where
  "is_nil i \<longleftrightarrow> list_all (\<lambda>b. b = 0) (id_bytes i)"

definition id_from_bytes :: "bytes \<Rightarrow> id128" where
  "id_from_bytes bs = Id128 (le_word (rev (take 16 bs @ replicate (16 - length bs) 0)))"

definition hex_digit :: "nat \<Rightarrow> char" where
  "hex_digit n = ''0123456789abcdef'' ! n"

definition hex_value :: "char \<Rightarrow> nat option" where
  "hex_value c =
     (let v = of_char c :: nat in
      if 48 \<le> v \<and> v \<le> 57 then Some (v - 48)
      else if 97 \<le> v \<and> v \<le> 102 then Some (v - 97 + 10)
      else if 65 \<le> v \<and> v \<le> 70 then Some (v - 65 + 10)
      else None)"

definition byte_hex :: "byte \<Rightarrow> string" where
  "byte_hex b = [hex_digit (unat b div 16), hex_digit (unat b mod 16)]"

definition id_to_hex :: "id128 \<Rightarrow> string" where
  "id_to_hex i = concat (map byte_hex (id_bytes i))"

fun hex_pairs :: "string \<Rightarrow> bytes option" where
  "hex_pairs (h # l # rest) =
     (case (hex_value h, hex_value l) of
        (Some high, Some low) \<Rightarrow> map_option ((#) (of_nat (high * 16 + low))) (hex_pairs rest)
      | _ \<Rightarrow> None)"
| "hex_pairs _ = Some []"

definition id_parse :: "string \<Rightarrow> id128 option" where
  "id_parse hex = (if length hex \<noteq> 32 then None else map_option id_from_bytes (hex_pairs hex))"

instantiation id128 :: linorder
begin
definition less_eq_id128 :: "id128 \<Rightarrow> id128 \<Rightarrow> bool" where
  "less_eq_id128 a b \<longleftrightarrow> id_word a \<le> id_word b"
definition less_id128 :: "id128 \<Rightarrow> id128 \<Rightarrow> bool" where
  "less_id128 a b \<longleftrightarrow> id_word a < id_word b"
instance
  by standard (auto simp: less_eq_id128_def less_id128_def id128.expand)
end

instantiation error_code :: linorder
begin
definition less_eq_error_code :: "error_code \<Rightarrow> error_code \<Rightarrow> bool" where
  "less_eq_error_code a b \<longleftrightarrow> error_value a \<le> error_value b"
definition less_error_code :: "error_code \<Rightarrow> error_code \<Rightarrow> bool" where
  "less_error_code a b \<longleftrightarrow> error_value a < error_value b"
instance
  by standard (auto simp: less_eq_error_code_def less_error_code_def error_code.expand)
end

lemma length_id_bytes [simp]: "length (id_bytes i) = 16"
  by (simp add: id_bytes_def)

lemma id_from_bytes_id_bytes [simp]: "id_from_bytes (id_bytes i) = i"
  by (simp add: id_from_bytes_def id_bytes_def le_word_le_bytes)

lemma id_bytes_id_from_bytes: "length bs = 16 \<Longrightarrow> id_bytes (id_from_bytes bs) = bs"
  by (simp add: id_from_bytes_def id_bytes_def le_bytes_le_word)

lemma hex_value_hex_digit [simp]: "n < 16 \<Longrightarrow> hex_value (hex_digit n) = Some n"
proof -
  have "\<forall>n \<in> set [0..<16]. hex_value (hex_digit n) = Some n" by code_simp
  then show "n < 16 \<Longrightarrow> hex_value (hex_digit n) = Some n" by simp
qed

lemma hex_pairs_concat [simp]: "hex_pairs (concat (map byte_hex bs)) = Some bs"
proof (induction bs)
  case (Cons b bs)
  have "unat b < 256" using unsigned_less [of b, where ?'a = nat] by simp
  then have "unat b div 16 < 16" "unat b mod 16 < 16" by auto
  moreover have "of_nat (unat b div 16 * 16 + unat b mod 16) = b"
    by (simp only: div_mult_mod_eq) simp
  ultimately show ?case using Cons by (simp add: byte_hex_def del: of_nat_add of_nat_mult)
qed simp

lemma length_concat_byte_hex [simp]: "length (concat (map byte_hex bs)) = 2 * length bs"
  by (induction bs) (auto simp: byte_hex_def)

lemma id_bytes_nil: "id_bytes nil_id = replicate 16 0"
  by (simp add: id_bytes_def nil_id_def le_bytes_def map_replicate_const)

lemma is_nil_iff: "is_nil i \<longleftrightarrow> i = nil_id"
proof
  assume "is_nil i"
  then have "id_bytes i = replicate 16 0"
    by (intro replicate_eqI) (simp_all add: is_nil_def list_all_iff)
  then have "id_from_bytes (id_bytes i) = id_from_bytes (id_bytes nil_id)"
    by (simp only: id_bytes_nil)
  then show "i = nil_id" by simp
qed (simp add: is_nil_def id_bytes_nil list_all_iff)

subsection \<open>Generations and clocks\<close>

type_synonym generation = u64

definition gen_next :: "generation \<Rightarrow> generation" where
  "gen_next g = (if g = 0xFFFFFFFFFFFFFFFF then g else g + 1)"

lemma unat_gen_next: "unat (gen_next g) = min (unat g + 1) (2 ^ 64 - 1)"
proof (cases "g = 0xFFFFFFFFFFFFFFFF")
  case False
  then have "unat g \<noteq> unat (0xFFFFFFFFFFFFFFFF :: u64)" by (metis unsigned_word_eqI)
  then have "unat g \<noteq> 2 ^ 64 - 1" by simp
  with unsigned_less [of g, where ?'a = nat] have "unat g + 1 < 2 ^ 64" by simp
  with False show ?thesis by (simp add: gen_next_def unat_word_ariths)
qed (simp add: gen_next_def)

lemma gen_next_gt: "g \<noteq> 0xFFFFFFFFFFFFFFFF \<Longrightarrow> g < gen_next g"
proof -
  assume "g \<noteq> 0xFFFFFFFFFFFFFFFF"
  then have "unat g \<noteq> unat (0xFFFFFFFFFFFFFFFF :: u64)" by (metis unsigned_word_eqI)
  with unsigned_less [of g, where ?'a = nat] show "g < gen_next g"
    by (simp add: word_less_nat_alt unat_gen_next)
qed

lemma gen_next_ge: "g \<le> gen_next g"
  using gen_next_gt by (cases "g = 0xFFFFFFFFFFFFFFFF") (auto simp: gen_next_def order.strict_implies_order)

lemma gen_next_pos: "gen_next g \<noteq> 0"
  using gen_next_gt [of g] by (cases "g = 0xFFFFFFFFFFFFFFFF") (auto simp: gen_next_def)

text \<open>Instants are counts of nanoseconds; \<^verbatim>\<open>age_nanos\<close> is clamped below at zero.\<close>

definition age_nanos :: "int \<Rightarrow> int \<Rightarrow> u64" where
  "age_nanos earlier later = (if later \<le> earlier then 0 else word_of_int (later - earlier))"

end
