(* ===== verification/Floats.thy ===== *)
theory Floats
  imports Prelude
begin

section \<open>Binary64 quantities\<close>

text \<open>
  The program uses \<^verbatim>\<open>double\<close> in three ways: comparisons, the two products of a requirement weight
  with a constant that are rounded to an integer score, and \<^verbatim>\<open>printf("%.9g")\<close>. A double is its 64-bit
  pattern. The value of a finite one is an integer multiple of \<open>2 ^ -1074\<close>, so that everything is
  exact integer arithmetic on that multiple: \<open>dbl_scaled\<close> is the multiple, \<open>rne53\<close> rounds to 53
  significant bits (to nearest, ties to even) and \<open>llround_scaled\<close> is \<^verbatim>\<open>std::llround\<close>.
\<close>

type_synonym double = u64

definition dbl_negative :: "double \<Rightarrow> bool" where
  "dbl_negative x \<longleftrightarrow> bit x 63"

definition dbl_exponent :: "double \<Rightarrow> nat" where
  "dbl_exponent x = unat (drop_bit 52 x AND 0x7FF)"

definition dbl_mantissa :: "double \<Rightarrow> nat" where
  "dbl_mantissa x = unat (x AND 0xFFFFFFFFFFFFF)"

definition dbl_finite :: "double \<Rightarrow> bool" where
  "dbl_finite x \<longleftrightarrow> dbl_exponent x \<noteq> 2047"

definition dbl_nan :: "double \<Rightarrow> bool" where
  "dbl_nan x \<longleftrightarrow> dbl_exponent x = 2047 \<and> dbl_mantissa x \<noteq> 0"

definition dbl_magnitude :: "double \<Rightarrow> nat" where
  "dbl_magnitude x =
     (if dbl_exponent x = 0 then dbl_mantissa x
      else (2 ^ 52 + dbl_mantissa x) * 2 ^ (dbl_exponent x - 1))"

definition dbl_scaled :: "double \<Rightarrow> int" where
  "dbl_scaled x = (if dbl_negative x then - int (dbl_magnitude x) else int (dbl_magnitude x))"

text \<open>Infinities have exponent 2047 and the largest magnitude, so the comparison of magnitudes
  orders them correctly as well.\<close>

definition dbl_le :: "double \<Rightarrow> double \<Rightarrow> bool" where
  "dbl_le a b \<longleftrightarrow> \<not> dbl_nan a \<and> \<not> dbl_nan b \<and> dbl_scaled a \<le> dbl_scaled b"

definition dbl_eq :: "double \<Rightarrow> double \<Rightarrow> bool" where
  "dbl_eq a b \<longleftrightarrow> \<not> dbl_nan a \<and> \<not> dbl_nan b \<and> dbl_scaled a = dbl_scaled b"

fun bit_length :: "nat \<Rightarrow> nat" where
  "bit_length n = (if n = 0 then 0 else Suc (bit_length (n div 2)))"

declare bit_length.simps [simp del]

definition rne53 :: "nat \<Rightarrow> nat" where
  "rne53 n =
     (let shift = bit_length n - 53; q = n div 2 ^ shift; r = n mod 2 ^ shift;
          up = 2 * r > 2 ^ shift \<or> (2 * r = 2 ^ shift \<and> shift > 0 \<and> odd q)
      in (if up then q + 1 else q) * 2 ^ shift)"

definition dbl_of_int_scaled :: "int \<Rightarrow> int" where
  "dbl_of_int_scaled i = sgn i * int (rne53 (nat \<bar>i\<bar>)) * 2 ^ 1074"

definition llround_scaled :: "nat \<Rightarrow> nat" where
  "llround_scaled n = (2 * n + 2 ^ 1074) div 2 ^ 1075"

text \<open>\<^verbatim>\<open>std::llround(weight * factor)\<close> for a finite weight and an integral factor.\<close>

definition weight_score :: "double \<Rightarrow> nat \<Rightarrow> int" where
  "weight_score weight factor =
     (let n = int (llround_scaled (rne53 (dbl_magnitude weight * factor)))
      in if dbl_negative weight then - n else n)"

definition dbl_one_e9 :: double where
  "dbl_one_e9 = 0x41CDCD6500000000"

subsection \<open>Decimal rendering\<close>

definition strip_zeros :: "string \<Rightarrow> string" where
  "strip_zeros s = rev (dropWhile (\<lambda>c. c = CHR ''0'') (rev s))"

definition pad_left :: "nat \<Rightarrow> string \<Rightarrow> string" where
  "pad_left n s = replicate (n - length s) (CHR ''0'') @ s"

definition with_fraction :: "string \<Rightarrow> string \<Rightarrow> string" where
  "with_fraction whole fraction =
     (let f = strip_zeros fraction in if f = [] then whole else whole @ ''.'' @ f)"

definition div_half_even :: "nat \<Rightarrow> nat \<Rightarrow> nat" where
  "div_half_even a b =
     (let q = a div b; r = a mod b in if 2 * r > b \<or> (2 * r = b \<and> odd q) then q + 1 else q)"

definition decimal_exponent :: "nat \<Rightarrow> int" where
  "decimal_exponent n =
     (if n \<ge> 2 ^ 1074 then int (length (string_of_nat (n div 2 ^ 1074))) - 1
      else - int (length (string_of_nat ((2 ^ 1074 - 1) div n))))"

definition decimal_digits9 :: "nat \<Rightarrow> nat \<times> int" where
  "decimal_digits9 n =
     (let x = decimal_exponent n;
          d = (if x \<le> 8 then div_half_even (n * 10 ^ nat (8 - x)) (2 ^ 1074)
               else div_half_even n (2 ^ 1074 * 10 ^ nat (x - 8)))
      in if d = 10 ^ 9 then (10 ^ 8, x + 1) else (d, x))"

definition format_g9 :: "double \<Rightarrow> string" where
  "format_g9 v =
     (let sign = (if dbl_negative v then ''-'' else []) in
      if dbl_nan v then sign @ ''nan''
      else if \<not> dbl_finite v then sign @ ''inf''
      else if dbl_magnitude v = 0 then sign @ ''0''
      else let (d, x) = decimal_digits9 (dbl_magnitude v); ds = string_of_nat d in
        if x < -4 \<or> x \<ge> 9
        then sign @ with_fraction (take 1 ds) (drop 1 ds) @ (if x < 0 then ''e-'' else ''e+'') @
             pad_left 2 (string_of_nat (nat \<bar>x\<bar>))
        else if x \<ge> 0 then sign @ with_fraction (take (nat x + 1) ds) (drop (nat x + 1) ds)
        else sign @ with_fraction ''0'' (replicate (nat (- x) - 1) (CHR ''0'') @ ds))"

subsection \<open>Bounds\<close>

lemma bit_length_bounds: "0 < n \<Longrightarrow> 2 ^ (bit_length n - 1) \<le> n \<and> n < 2 ^ bit_length n"
proof (induction n rule: bit_length.induct)
  case (1 n)
  show ?case
  proof (cases "n div 2 = 0")
    case True
    with 1 have "n = 1" by simp
    then show ?thesis by (simp add: bit_length.simps)
  next
    case False
    then have pos: "0 < bit_length (n div 2)" by (subst bit_length.simps) simp
    from 1 False have IH: "2 ^ (bit_length (n div 2) - 1) \<le> n div 2" "n div 2 < 2 ^ bit_length (n div 2)" by auto
    have "(2 :: nat) ^ bit_length (n div 2) = 2 * 2 ^ (bit_length (n div 2) - 1)"
      using pos by (simp add: power_eq_if)
    moreover have "2 * p \<le> n" if "p \<le> n div 2" for p using that by linarith
    moreover have "n < 2 * p" if "n div 2 < p" for p using that by linarith
    ultimately have "2 ^ bit_length (n div 2) \<le> n" "n < 2 * 2 ^ bit_length (n div 2)"
      using IH by (metis, metis)
    moreover have "bit_length n = Suc (bit_length (n div 2))" using 1(2) by (subst bit_length.simps) simp
    ultimately show ?thesis by simp
  qed
qed

lemma rne53_le: "rne53 n \<le> 2 * n"
proof (cases "n = 0")
  case True
  then show ?thesis by (simp add: rne53_def bit_length.simps Let_def)
next
  case False
  define s where "s = bit_length n - 53"
  show ?thesis
  proof (cases "s = 0")
    case True
    then show ?thesis by (simp add: rne53_def Let_def s_def)
  next
    case pos: False
    have "rne53 n \<le> (n div 2 ^ s + 1) * 2 ^ s" by (auto simp: rne53_def Let_def s_def [symmetric])
    also have "\<dots> = n div 2 ^ s * 2 ^ s + 2 ^ s" by simp
    also have "n div 2 ^ s * 2 ^ s \<le> n" by simp
    also have "(2 :: nat) ^ s \<le> 2 ^ (bit_length n - 1)"
      using pos by (intro power_increasing) (auto simp: s_def)
    also have "\<dots> \<le> n" using bit_length_bounds [of n] False by blast
    finally show ?thesis by simp
  qed
qed

lemma rne53_small: "bit_length n \<le> 53 \<Longrightarrow> rne53 n = n"
  by (simp add: rne53_def Let_def)

lemma llround_scaled_le: "llround_scaled (2 ^ 1074 * n) \<le> n"
proof -
  have "2 * (2 ^ 1074 * n) + 2 ^ 1074 < 2 ^ 1075 * Suc n" by simp
  then show ?thesis unfolding llround_scaled_def by (metis less_Suc_eq_le less_mult_imp_div_less mult.commute)
qed

lemma llround_scaled_mono: "m \<le> n \<Longrightarrow> llround_scaled m \<le> llround_scaled n"
  unfolding llround_scaled_def by (intro div_le_mono) simp

lemma weight_score_bound:
  assumes "dbl_magnitude w \<le> 2 ^ 1074 * b"
  shows "\<bar>weight_score w k\<bar> \<le> int (2 * (b * k))"
proof -
  have "rne53 (dbl_magnitude w * k) \<le> 2 * (dbl_magnitude w * k)" by (rule rne53_le)
  also have "\<dots> \<le> 2 ^ 1074 * (2 * (b * k))" using mult_le_mono1 [OF assms, of k] by simp
  finally have "llround_scaled (rne53 (dbl_magnitude w * k)) \<le> 2 * (b * k)"
    using llround_scaled_mono llround_scaled_le order_trans by blast
  then have "int (llround_scaled (rne53 (dbl_magnitude w * k))) \<le> int (2 * (b * k))"
    by (simp only: of_nat_le_iff)
  then show ?thesis by (simp add: weight_score_def Let_def)
qed

end
