(* ===== verification/Bytes.thy ===== *)
theory Bytes
  imports Status_Ids Floats
begin

section \<open>The byte codec\<close>

text \<open>
  \<^verbatim>\<open>core/bytes.hpp\<close> and \<^verbatim>\<open>core/bytes.cpp\<close>. A \<^verbatim>\<open>ByteWriter\<close> only appends, so a writer method is
  the sequence of bytes it appends and a serializer is their concatenation. A \<^verbatim>\<open>ByteReader\<close> is
  the record of its buffer, its offset, and its sticky failure; a reader method takes the reader
  and returns the value it stored (\<^const>\<open>None\<close> when it returned false) with the reader after it.
  \<open>rbind\<close> is the short-circuit \<^verbatim>\<open>||\<close> chain of the deserializers.

  The locale \<open>codec\<close> is the contract of a serializer and its deserializer; the locale
  \<open>bounded_reader\<close> is the memory-safety contract of a reader method.
\<close>

subsection \<open>Writer\<close>

definition byte_of_char :: "char \<Rightarrow> byte" where
  "byte_of_char c = of_nat (of_char c)"

definition char_of_byte :: "byte \<Rightarrow> char" where
  "char_of_byte b = char_of (unat b)"

definition w_u8 :: "byte \<Rightarrow> bytes" where
  "w_u8 v = [v]"

definition w_boolean :: "bool \<Rightarrow> bytes" where
  "w_boolean v = w_u8 (if v then 1 else 0)"

definition w_u16 :: "u16 \<Rightarrow> bytes" where
  "w_u16 v = le_bytes 2 v"

definition w_u32 :: "u32 \<Rightarrow> bytes" where
  "w_u32 v = le_bytes 4 v"

definition w_u64 :: "u64 \<Rightarrow> bytes" where
  "w_u64 v = le_bytes 8 v"

definition w_i64 :: "int \<Rightarrow> bytes" where
  "w_i64 v = w_u64 (word_of_int v)"

definition w_raw :: "bytes \<Rightarrow> bytes" where
  "w_raw bs = bs"

definition w_bytes :: "bytes \<Rightarrow> bytes" where
  "w_bytes bs = w_u32 (of_nat (length bs)) @ w_raw bs"

definition w_string :: "string \<Rightarrow> bytes" where
  "w_string s = w_bytes (map byte_of_char s)"

definition w_id128 :: "id128 \<Rightarrow> bytes" where
  "w_id128 i = w_raw (id_bytes i)"

definition w_generation :: "generation \<Rightarrow> bytes" where
  "w_generation g = w_u64 g"

subsection \<open>Reader\<close>

record reader =
  rd_data :: bytes
  rd_offset :: nat
  rd_failed :: bool
  rd_error :: error_code

type_synonym 'a rd = "reader \<Rightarrow> 'a option \<times> reader"

definition rd_init :: "bytes \<Rightarrow> reader" where
  "rd_init bs = \<lparr>rd_data = bs, rd_offset = 0, rd_failed = False, rd_error = EC_Ok\<rparr>"

definition rd_remaining :: "reader \<Rightarrow> nat" where
  "rd_remaining r = (if rd_failed r then 0 else length (rd_data r) - rd_offset r)"

definition rd_fail :: "error_code \<Rightarrow> reader \<Rightarrow> reader" where
  "rd_fail c r = (if rd_failed r then r else r\<lparr>rd_failed := True, rd_error := c\<rparr>)"

definition rd_require :: "nat \<Rightarrow> reader \<Rightarrow> bool \<times> reader" where
  "rd_require n r =
     (if rd_failed r then (False, r)
      else if n > length (rd_data r) - rd_offset r then (False, rd_fail EC_TruncatedFrame r)
      else (True, r))"

definition rbind :: "'a rd \<Rightarrow> ('a \<Rightarrow> 'b rd) \<Rightarrow> 'b rd" where
  "rbind p f r = (case p r of (None, r') \<Rightarrow> (None, r') | (Some v, r') \<Rightarrow> f v r')"

definition rret :: "'a \<Rightarrow> 'a rd" where
  "rret v r = (Some v, r)"

definition rfail :: "error_code \<Rightarrow> 'a rd" where
  "rfail c r = (None, rd_fail c r)"

definition rguard :: "bool \<Rightarrow> error_code \<Rightarrow> 'a rd \<Rightarrow> 'a rd" where
  "rguard b c p = (if b then p else rfail c)"

definition r_raw :: "nat \<Rightarrow> bytes rd" where
  "r_raw n r =
     (case rd_require n r of
        (False, r') \<Rightarrow> (None, r')
      | (True, r') \<Rightarrow> (Some (take n (drop (rd_offset r') (rd_data r'))),
                       r'\<lparr>rd_offset := rd_offset r' + n\<rparr>))"

definition r_u8 :: "byte rd" where
  "r_u8 r =
     (case rd_require 1 r of
        (False, r') \<Rightarrow> (None, r')
      | (True, r') \<Rightarrow> (Some (rd_data r' ! rd_offset r'), r'\<lparr>rd_offset := rd_offset r' + 1\<rparr>))"

definition r_boolean :: "bool rd" where
  "r_boolean = rbind r_u8 (\<lambda>raw. rguard (raw \<le> 1) EC_MalformedData (rret (raw = 1)))"

definition r_word :: "nat \<Rightarrow> ('a :: len word) rd" where
  "r_word n r =
     (case rd_require n r of
        (False, r') \<Rightarrow> (None, r')
      | (True, r') \<Rightarrow> (Some (le_word (map (\<lambda>i. rd_data r' ! (rd_offset r' + i)) [0..<n])),
                       r'\<lparr>rd_offset := rd_offset r' + n\<rparr>))"

definition r_u16 :: "u16 rd" where
  "r_u16 = r_word 2"

definition r_u32 :: "u32 rd" where
  "r_u32 = r_word 4"

definition r_u64 :: "u64 rd" where
  "r_u64 = r_word 8"

definition r_i64 :: "int rd" where
  "r_i64 = rbind r_u64 (\<lambda>raw. rret (sint raw))"

definition r_bytes :: "nat \<Rightarrow> bytes rd" where
  "r_bytes max_bytes = rbind r_u32 (\<lambda>declared.
     rguard (unat declared \<le> max_bytes) EC_BoundsExceeded (r_raw (unat declared)))"

definition r_string :: "nat \<Rightarrow> string rd" where
  "r_string max_bytes = rbind r_u32 (\<lambda>declared.
     rguard (unat declared \<le> max_bytes) EC_BoundsExceeded
       (rbind (r_raw (unat declared)) (\<lambda>bs. rret (map char_of_byte bs))))"

definition r_skip :: "nat \<Rightarrow> unit rd" where
  "r_skip n r =
     (case rd_require n r of
        (False, r') \<Rightarrow> (None, r')
      | (True, r') \<Rightarrow> (Some (), r'\<lparr>rd_offset := rd_offset r' + n\<rparr>))"

definition r_id128 :: "id128 rd" where
  "r_id128 = rbind (r_raw 16) (\<lambda>bs. rret (id_from_bytes bs))"

definition r_generation :: "generation rd" where
  "r_generation = r_u64"

definition r_count :: "nat \<Rightarrow> nat \<Rightarrow> nat rd" where
  "r_count max_count min_bytes_per_item = rbind r_u32 (\<lambda>declared.
     rguard (unat declared \<le> max_count) EC_BoundsExceeded
       (\<lambda>r. if min_bytes_per_item \<noteq> 0 \<and> unat declared * min_bytes_per_item > rd_remaining r
            then rfail EC_TruncatedFrame r
            else (Some (unat declared), r)))"

text \<open>The loop that reads a counted sequence.\<close>

fun r_times :: "nat \<Rightarrow> 'a rd \<Rightarrow> 'a list rd" where
  "r_times 0 p = rret []"
| "r_times (Suc n) p = rbind p (\<lambda>x. rbind (r_times n p) (\<lambda>xs. rret (x # xs)))"

definition r_list :: "nat \<Rightarrow> nat \<Rightarrow> 'a rd \<Rightarrow> 'a list rd" where
  "r_list max_count min_bytes_per_item p = rbind (r_count max_count min_bytes_per_item) (\<lambda>n. r_times n p)"

definition w_list :: "('a \<Rightarrow> bytes) \<Rightarrow> 'a list \<Rightarrow> bytes" where
  "w_list enc xs = w_u32 (of_nat (length xs)) @ concat (map enc xs)"

definition w_f64 :: "double \<Rightarrow> bytes" where
  "w_f64 v = w_u64 v"

definition r_f64 :: "double rd" where
  "r_f64 = rbind r_u64 (\<lambda>bits. rguard (dbl_finite bits) EC_NonFiniteQuantity (rret bits))"

subsection \<open>Memory safety of readers\<close>

text \<open>
  A reader is well formed when its offset is inside its buffer. A reader method is bounded when
  it keeps the buffer, only moves the offset forward and never past the end, fails exactly when
  it returns no value, and does nothing on a reader that has already failed.
\<close>

definition rd_wf :: "reader \<Rightarrow> bool" where
  "rd_wf r \<longleftrightarrow> rd_offset r \<le> length (rd_data r)"

definition advances :: "reader \<Rightarrow> 'a option \<times> reader \<Rightarrow> bool" where
  "advances r out \<longleftrightarrow> rd_wf (snd out) \<and> rd_data (snd out) = rd_data r \<and>
     rd_offset r \<le> rd_offset (snd out) \<and> (fst out = None \<longleftrightarrow> rd_failed (snd out))"

definition bounded :: "'a rd \<Rightarrow> bool" where
  "bounded p \<longleftrightarrow> (\<forall>r. rd_wf r \<longrightarrow> advances r (p r) \<and> (rd_failed r \<longrightarrow> p r = (None, r)))"

locale bounded_reader =
  fixes rd :: "'a rd"
  assumes bounded: "bounded rd"
begin

lemma wf: "rd_wf r \<Longrightarrow> rd_wf (snd (rd r))"
  using bounded [unfolded bounded_def, rule_format, of r] by (simp add: advances_def)

lemma keeps_data: "rd_wf r \<Longrightarrow> rd_data (snd (rd r)) = rd_data r"
  using bounded [unfolded bounded_def, rule_format, of r] by (simp add: advances_def)

lemma failure: "rd_wf r \<Longrightarrow> fst (rd r) = None \<longleftrightarrow> rd_failed (snd (rd r))"
  using bounded [unfolded bounded_def, rule_format, of r] by (simp add: advances_def)

lemma failed: "rd_wf r \<Longrightarrow> rd_failed r \<Longrightarrow> rd r = (None, r)"
  using bounded [unfolded bounded_def, rule_format, of r] by (simp add: advances_def)

end

text \<open>\<open>bounded_live\<close> is the contract of the rest of a chain, which only runs on a reader that has
  not failed.\<close>

definition bounded_live :: "'a rd \<Rightarrow> bool" where
  "bounded_live p \<longleftrightarrow> (\<forall>r. rd_wf r \<longrightarrow> \<not> rd_failed r \<longrightarrow> advances r (p r))"

lemma bounded_imp_live: "bounded p \<Longrightarrow> bounded_live p"
  unfolding bounded_def bounded_live_def by blast

lemma advances_rbind:
  assumes "advances r (p r)" and "\<And>v. bounded_live (f v)"
  shows "advances r (rbind p f r)"
proof (cases "p r")
  case (Pair v r')
  show ?thesis
  proof (cases v)
    case (Some x)
    with assms(1) Pair have "rd_wf r'" "\<not> rd_failed r'" by (auto simp: advances_def)
    with assms(2) have "advances r' (f x r')" by (simp add: bounded_live_def)
    with assms(1) Pair Some show ?thesis by (auto simp: advances_def rbind_def)
  qed (use assms Pair in \<open>auto simp: advances_def rbind_def\<close>)
qed

lemma bounded_rbind: "bounded p \<Longrightarrow> (\<And>v. bounded_live (f v)) \<Longrightarrow> bounded (rbind p f)"
  unfolding bounded_def by (auto intro: advances_rbind) (simp add: rbind_def)

lemma bounded_live_rbind: "bounded_live p \<Longrightarrow> (\<And>v. bounded_live (f v)) \<Longrightarrow> bounded_live (rbind p f)"
  unfolding bounded_live_def [of p] bounded_live_def [of "rbind p f"] by (auto intro: advances_rbind)

lemma bounded_live_rret [simp]: "bounded_live (rret v)"
  by (simp add: bounded_live_def advances_def rret_def)

lemma bounded_live_rfail [simp]: "bounded_live (rfail c)"
  by (simp add: bounded_live_def advances_def rfail_def rd_fail_def rd_wf_def)

lemma bounded_live_rguard: "bounded_live p \<Longrightarrow> bounded_live (rguard b c p)"
  by (simp add: rguard_def)

lemma bounded_raw: "bounded (r_raw n)"
  by (auto simp: bounded_def advances_def r_raw_def rd_require_def rd_fail_def rd_wf_def)

lemma bounded_u8: "bounded r_u8"
  by (auto simp: bounded_def advances_def r_u8_def rd_require_def rd_fail_def rd_wf_def)

lemma bounded_word: "bounded (r_word n)"
  by (auto simp: bounded_def advances_def r_word_def rd_require_def rd_fail_def rd_wf_def)

lemma bounded_skip: "bounded (r_skip n)"
  by (auto simp: bounded_def advances_def r_skip_def rd_require_def rd_fail_def rd_wf_def)

lemmas bounded_intros =
  bounded_rbind bounded_live_rbind bounded_live_rguard bounded_live_rret bounded_live_rfail
  bounded_raw bounded_u8 bounded_word bounded_skip
  bounded_raw [THEN bounded_imp_live] bounded_u8 [THEN bounded_imp_live]
  bounded_word [THEN bounded_imp_live] bounded_skip [THEN bounded_imp_live]

lemma bounded_boolean: "bounded r_boolean"
  unfolding r_boolean_def by (intro bounded_intros)

lemma bounded_i64: "bounded r_i64"
  unfolding r_i64_def r_u64_def by (intro bounded_intros)

lemma bounded_bytes: "bounded (r_bytes m)"
  unfolding r_bytes_def r_u32_def by (intro bounded_intros)

lemma bounded_string: "bounded (r_string m)"
  unfolding r_string_def r_u32_def by (intro bounded_intros)

lemma bounded_id128: "bounded r_id128"
  unfolding r_id128_def by (intro bounded_intros)

lemma bounded_count: "bounded (r_count m k)"
proof -
  have "bounded_live (\<lambda>r. if k \<noteq> 0 \<and> n * k > rd_remaining r then rfail EC_TruncatedFrame r else (Some n, r))" for n
    by (auto simp: bounded_live_def advances_def rfail_def rd_fail_def rd_wf_def)
  then show ?thesis unfolding r_count_def r_u32_def by (intro bounded_intros)
qed

lemma bounded_live_times: "bounded_live p \<Longrightarrow> bounded_live (r_times n p)"
  by (induction n) (auto intro!: bounded_intros)

interpretation raw_reader: bounded_reader "r_raw n" for n
  by unfold_locales (rule bounded_raw)

interpretation string_reader: bounded_reader "r_string m" for m
  by unfold_locales (rule bounded_string)

interpretation bytes_reader: bounded_reader "r_bytes m" for m
  by unfold_locales (rule bounded_bytes)

interpretation count_reader: bounded_reader "r_count m k" for m k
  by unfold_locales (rule bounded_count)

subsection \<open>Round trips\<close>

text \<open>\<open>reads p bs v\<close>: wherever the bytes \<open>bs\<close> stand in a buffer, \<open>p\<close> consumes exactly them and
  returns \<open>v\<close>.\<close>

definition rd_at :: "bytes \<Rightarrow> bytes \<Rightarrow> reader" where
  "rd_at pre post = \<lparr>rd_data = pre @ post, rd_offset = length pre, rd_failed = False, rd_error = EC_Ok\<rparr>"

definition reads :: "'a rd \<Rightarrow> bytes \<Rightarrow> 'a \<Rightarrow> bool" where
  "reads p bs v \<longleftrightarrow> (\<forall>pre post. p (rd_at pre (bs @ post)) = (Some v, rd_at (pre @ bs) post))"

lemma reads_rret [codec]: "reads (rret v) [] v"
  by (simp add: reads_def rret_def)

lemma reads_rbind: "reads p bs v \<Longrightarrow> reads (f v) cs w \<Longrightarrow> reads (rbind p f) (bs @ cs) w"
  by (simp add: reads_def rbind_def)

lemma reads_rbind_last: "reads p bs v \<Longrightarrow> reads (f v) [] w \<Longrightarrow> reads (rbind p f) bs w"
  using reads_rbind [of p bs v f "[]" w] by simp

lemma reads_rbind_ret: "reads p bs v \<Longrightarrow> w = g v \<Longrightarrow> reads (rbind p (\<lambda>v. rret (g v))) bs w"
  by (simp add: reads_def rbind_def rret_def)

lemma reads_rguard: "b \<Longrightarrow> reads p bs v \<Longrightarrow> reads (rguard b c p) bs v"
  by (simp add: rguard_def)

lemma reads_Cons: "reads p x v \<Longrightarrow> reads (f v) (concat xs) w \<Longrightarrow> reads (rbind p f) (concat (x # xs)) w"
  by (simp add: reads_rbind)

lemma reads_Nil: "v = w \<Longrightarrow> reads (rret v) (concat []) w"
  by (simp add: reads_rret)

lemma rd_init_at: "rd_init bs = rd_at [] bs"
  by (simp add: rd_init_def rd_at_def)

lemma rd_remaining_at: "rd_remaining (rd_at pre post) = length post"
  by (simp add: rd_remaining_def rd_at_def)

lemma reads_prefix: "reads p bs v \<Longrightarrow> p (rd_init (bs @ post)) = (Some v, rd_at bs post)"
  by (simp add: reads_def rd_init_at)

lemma reads_init: "reads p bs v \<Longrightarrow> p (rd_init bs) = (Some v, rd_at bs [])"
  using reads_prefix [of p bs v "[]"] by simp

lemma map_nth_offset: "map (\<lambda>i. (pre @ bs @ post) ! (length pre + i)) [0..<length bs] = bs"
  by (rule nth_equalityI) (auto simp: nth_append)

lemma reads_raw: "length bs = n \<Longrightarrow> reads (r_raw n) bs bs"
  by (auto simp: reads_def r_raw_def rd_require_def rd_at_def)

lemma reads_u8: "reads r_u8 (w_u8 v) v"
  by (simp add: reads_def r_u8_def w_u8_def rd_require_def rd_at_def)

lemma reads_word:
  assumes "LENGTH('a) \<le> 8 * n"
  shows "reads (r_word n) (le_bytes n w) (w :: 'a :: len word)"
proof -
  have "map (\<lambda>i. (pre @ le_bytes n w @ post) ! (length pre + i)) [0..<n] = le_bytes n w" for pre post
    using map_nth_offset [of pre "le_bytes n w" post] by simp
  then show ?thesis
    by (simp add: reads_def r_word_def rd_require_def rd_at_def le_word_le_bytes assms)
qed

lemma reads_u16: "reads r_u16 (w_u16 v) v"
  by (simp add: r_u16_def w_u16_def reads_word)

lemma reads_u32: "reads r_u32 (w_u32 v) v"
  by (simp add: r_u32_def w_u32_def reads_word)

lemma reads_u64: "reads r_u64 (w_u64 v) v"
  by (simp add: r_u64_def w_u64_def reads_word)

lemma reads_generation: "reads r_generation (w_generation g) g"
  by (simp add: r_generation_def w_generation_def reads_u64)

lemma reads_boolean: "reads r_boolean (w_boolean v) v"
  unfolding r_boolean_def w_boolean_def
  by (rule reads_rbind_last [OF reads_u8])
     (auto simp: reads_def rret_def rguard_def)

lemma reads_i64: "- (2 ^ 63) \<le> v \<Longrightarrow> v < 2 ^ 63 \<Longrightarrow> reads r_i64 (w_i64 v) v"
  unfolding r_i64_def w_i64_def
proof (rule reads_rbind_ret [OF reads_u64])
  assume "- (2 ^ 63) \<le> v" "v < 2 ^ 63"
  then have "signed_take_bit 63 v = v" by (simp add: signed_take_bit_int_eq_self)
  then show "v = sint (word_of_int v :: u64)" by (simp add: signed_of_int)
qed

lemma unat_of_nat_u32: "n < 2 ^ 32 \<Longrightarrow> unat (of_nat n :: u32) = n"
  by (simp add: unat_of_nat take_bit_nat_eq_self)

lemma char_of_byte_of_char [simp]: "char_of_byte (byte_of_char c) = c"
proof -
  have "(of_char c :: nat) < 2 ^ 8" using nat_of_char_less_256 [of c] by simp
  then show ?thesis by (simp add: char_of_byte_def byte_of_char_def unat_of_nat take_bit_nat_eq_self)
qed

lemma reads_bytes: "length bs \<le> m \<Longrightarrow> m < 2 ^ 32 \<Longrightarrow> reads (r_bytes m) (w_bytes bs) bs"
  unfolding r_bytes_def w_bytes_def w_raw_def
  by (rule reads_rbind [OF reads_u32]) (auto intro!: reads_rguard reads_raw simp: unat_of_nat_u32)

lemma reads_string: "length s \<le> m \<Longrightarrow> m < 2 ^ 32 \<Longrightarrow> reads (r_string m) (w_string s) s"
  unfolding r_string_def w_string_def w_bytes_def w_raw_def
  by (rule reads_rbind [OF reads_u32])
     (auto intro!: reads_rguard reads_rbind_ret [OF reads_raw] simp: unat_of_nat_u32 comp_def)

lemma reads_id128: "reads r_id128 (w_id128 i) i"
  unfolding r_id128_def w_id128_def w_raw_def
  by (rule reads_rbind_ret [OF reads_raw]) simp_all

lemma reads_rret_eq: "v = w \<Longrightarrow> reads (rret v) [] w"
  by (simp add: reads_rret)

text \<open>The chain rules of a deserializer whose serializer is the concatenation of its fields; side
  conditions come last.\<close>

lemmas reads_chain =
  reads_Cons [OF reads_id128] reads_Cons [OF reads_generation] reads_Cons [OF reads_u8]
  reads_Cons [OF reads_u16] reads_Cons [OF reads_u32] reads_Cons [OF reads_u64]
  reads_Cons [OF reads_boolean] reads_Cons [OF reads_string, rotated 2]
  reads_Cons [OF reads_i64, rotated 2] reads_Cons [OF reads_raw, rotated]
  reads_Cons [OF reads_bytes, rotated 2]

lemma reads_times:
  "(\<And>x. x \<in> set xs \<Longrightarrow> reads p (enc x) x) \<Longrightarrow> reads (r_times (length xs) p) (concat (map enc xs)) xs"
proof (induction xs)
  case (Cons x xs)
  then show ?case by (auto intro!: reads_rbind reads_rbind_ret)
qed (simp add: reads_rret)

text \<open>A count followed by that many items, each at least \<open>k\<close> bytes long: the count check against
  the rest of the buffer never refuses what a serializer wrote.\<close>

lemma reads_counted_loop:
  assumes items: "\<And>x. x \<in> set xs \<Longrightarrow> k \<le> length (enc x)" and m: "length xs \<le> m" "m < 2 ^ 32"
    and loop: "reads (g (length xs)) (concat (map enc xs) @ cs) w"
  shows "reads (rbind (r_count m k) g) (w_u32 (of_nat (length xs)) @ concat (map enc xs) @ cs) w"
proof -
  have len: "length xs * k \<le> length (concat (map enc xs))"
    using items by (induction xs) fastforce+
  have u: "unat (of_nat (length xs) :: u32) = length xs" using m by (simp add: unat_of_nat_u32)
  show ?thesis
    using reads_u32 [of "of_nat (length xs)"] m len loop
    by (simp add: reads_def rbind_def r_count_def rguard_def rd_remaining_at u)
qed

lemma reads_counted:
  assumes "\<And>x. x \<in> set xs \<Longrightarrow> reads p (enc x) x" "\<And>x. x \<in> set xs \<Longrightarrow> k \<le> length (enc x)"
    and "length xs \<le> m" "m < 2 ^ 32" "reads (f xs) cs w"
  shows "reads (rbind (r_count m k) (\<lambda>n. rbind (r_times n p) f))
           (w_u32 (of_nat (length xs)) @ concat (map enc xs) @ cs) w"
  using assms by (intro reads_counted_loop reads_rbind [where v = xs]) (auto intro: reads_times)

text \<open>A double travels as its bit pattern; the reader refuses infinities and NaNs.\<close>

lemma reads_f64: "dbl_finite v \<Longrightarrow> reads r_f64 (w_f64 v) v"
  unfolding r_f64_def w_f64_def by (rule reads_rbind_last [OF reads_u64]) (simp add: rguard_def reads_rret)

text \<open>A counted sequence as one element of a serializer's list.\<close>

lemma reads_list:
  assumes "length xs \<le> m" "m < 2 ^ 32" "\<And>x. x \<in> set xs \<Longrightarrow> k \<le> length (enc x)"
    "\<And>x. x \<in> set xs \<Longrightarrow> reads p (enc x) x"
  shows "reads (r_list m k p) (w_list enc xs) xs"
proof -
  have "reads (rbind (r_count m k) (\<lambda>n. rbind (r_times n p) rret)) (w_u32 (of_nat (length xs)) @ concat (map enc xs) @ []) xs"
    using assms by (intro reads_counted) (auto intro: reads_rret)
  moreover have "rbind (r_times n p) rret = r_times n p" for n
    by (rule ext) (simp add: rbind_def rret_def split: prod.split option.split)
  ultimately show ?thesis by (simp add: r_list_def w_list_def)
qed

lemma length_w_id128: "length (w_id128 i) = 16"
  by (simp add: w_id128_def w_raw_def)

lemma length_w_u8: "length (w_u8 b) = 1"
  by (simp add: w_u8_def)

lemma length_w_list: "4 \<le> length (w_list enc xs)"
  by (simp add: w_list_def w_u32_def)

lemmas reads_chain_list =
  reads_Cons [OF reads_list, rotated 4] reads_Cons [OF reads_f64, rotated]

subsection \<open>What decoded values satisfy\<close>

text \<open>\<open>yields p P\<close>: every value the reader method \<open>p\<close> returns, on any buffer, satisfies \<open>P\<close>.\<close>

definition yields :: "'a rd \<Rightarrow> ('a \<Rightarrow> bool) \<Rightarrow> bool" where
  "yields p P \<longleftrightarrow> (\<forall>r v. fst (p r) = Some v \<longrightarrow> P v)"

lemma yieldsD: "yields p P \<Longrightarrow> fst (p r) = Some v \<Longrightarrow> P v"
  by (simp add: yields_def)

lemma yields_mono: "yields p P \<Longrightarrow> (\<And>v. P v \<Longrightarrow> Q v) \<Longrightarrow> yields p Q"
  by (simp add: yields_def)

lemma yields_bind: "yields p Q \<Longrightarrow> (\<And>v. Q v \<Longrightarrow> yields (f v) P) \<Longrightarrow> yields (rbind p f) P"
proof -
  assume p: "yields p Q" and f: "\<And>v. Q v \<Longrightarrow> yields (f v) P"
  have "P w" if "fst (rbind p f r) = Some w" for r w
  proof (cases "p r")
    case (Pair a r')
    with that obtain v where a: "a = Some v" "fst (f v r') = Some w"
      by (cases a) (simp_all add: rbind_def)
    with Pair have "Q v" by (intro yieldsD [OF p, of r]) simp
    with f a show ?thesis by (blast intro: yieldsD)
  qed
  then show ?thesis by (simp add: yields_def)
qed

lemma yields_rbind: "(\<And>v. yields (f v) P) \<Longrightarrow> yields (rbind p f) P"
  by (rule yields_bind [where Q = "\<lambda>_. True"]) (simp_all add: yields_def)

lemma yields_rret: "P v \<Longrightarrow> yields (rret v) P"
  by (simp add: yields_def rret_def)

lemma yields_rfail: "yields (rfail e) P"
  by (simp add: yields_def rfail_def)

lemma yields_rguard: "(b \<Longrightarrow> yields p P) \<Longrightarrow> yields (rguard b e p) P"
  by (simp add: rguard_def yields_rfail)

lemma yields_times: "yields p P \<Longrightarrow> yields (r_times n p) (\<lambda>xs. length xs = n \<and> list_all P xs)"
proof (induction n)
  case (Suc n)
  then show ?case
    unfolding r_times.simps
    by (intro yields_bind [OF \<open>yields p P\<close>] yields_bind [OF Suc.IH] yields_rret) simp_all
qed (simp add: yields_rret)

lemma yields_count: "yields (r_count m k) (\<lambda>n. n \<le> m)"
  unfolding r_count_def
  by (intro yields_rbind yields_rguard) (simp add: yields_def rfail_def)

lemma yields_list: "yields p P \<Longrightarrow> yields (r_list m k p) (\<lambda>xs. length xs \<le> m \<and> list_all P xs)"
  unfolding r_list_def
  by (rule yields_bind [OF yields_count]) (auto intro: yields_mono [OF yields_times])

lemma yields_string: "yields (r_string m) (\<lambda>s. length s \<le> m)"
  by (auto simp: yields_def r_string_def rbind_def rguard_def rfail_def rret_def r_raw_def
      split: prod.splits option.splits bool.splits if_splits)

lemmas yields_intros = yields_rret yields_rfail yields_rguard yields_rbind

subsection \<open>Refused input\<close>

text \<open>A reader refuses a sequence of bytes when it fails on it, whatever comes before and after.\<close>

definition refuses :: "'a rd \<Rightarrow> bytes \<Rightarrow> error_code \<Rightarrow> bool" where
  "refuses p bs e \<longleftrightarrow> (\<forall>pre post. fst (p (rd_at pre (bs @ post))) = None \<and>
     rd_error (snd (p (rd_at pre (bs @ post)))) = e)"

lemma refuses_rfail: "refuses (rfail e) bs e"
  by (simp add: refuses_def rfail_def rd_fail_def rd_at_def)

lemma refuses_Cons: "reads p x v \<Longrightarrow> refuses (f v) (concat xs) e \<Longrightarrow> refuses (rbind p f) (concat (x # xs)) e"
  by (simp add: refuses_def reads_def rbind_def)

lemma refuses_init: "refuses p bs e \<Longrightarrow> fst (p (rd_init bs)) = None \<and> rd_error (snd (p (rd_init bs))) = e"
  using refuses_def [of p bs e] by (metis append_Nil2 rd_init_at)

lemma refuses_head: "refuses p x e \<Longrightarrow> refuses (rbind p f) (concat (x # xs)) e"
  unfolding refuses_def
proof (intro allI)
  fix pre post
  assume "\<forall>pre post. fst (p (rd_at pre (x @ post))) = None \<and> rd_error (snd (p (rd_at pre (x @ post)))) = e"
  then have "fst (p (rd_at pre (x @ concat xs @ post))) = None \<and> rd_error (snd (p (rd_at pre (x @ concat xs @ post)))) = e"
    by blast
  then show "fst (rbind p f (rd_at pre (concat (x # xs) @ post))) = None \<and>
      rd_error (snd (rbind p f (rd_at pre (concat (x # xs) @ post)))) = e"
    by (cases "p (rd_at pre (x @ concat xs @ post))") (simp add: rbind_def)
qed

lemma refuses_string:
  assumes "m < length s" "length s < 2 ^ 32"
  shows "refuses (r_string m) (w_string s) EC_BoundsExceeded"
proof -
  have w: "w_string s = concat [w_u32 (of_nat (length s)), map byte_of_char s]"
    by (simp add: w_string_def w_bytes_def w_raw_def)
  have "\<not> unat (of_nat (length s) :: u32) \<le> m" using assms by (simp add: unat_of_nat_u32)
  then show ?thesis
    unfolding r_string_def w by (intro refuses_Cons [OF reads_u32]) (simp add: rguard_def refuses_rfail)
qed

lemma refuses_times:
  assumes "\<And>x. x \<in> set xs \<Longrightarrow> reads p (enc x) (v x)" "refuses p (enc y) e"
  shows "refuses (r_times (length xs + Suc n) p) (concat (map enc xs @ enc y # zs)) e"
  using assms(1)
proof (induction xs)
  case Nil
  then show ?case using refuses_head [OF assms(2)] by simp
next
  case (Cons x xs)
  define m where "m = length xs + Suc n"
  have "refuses (rbind (r_times m p) g) (concat (map enc xs @ enc y # zs)) e" for g
    using Cons refuses_head [where xs = "[]"] by (simp add: m_def)
  then have "refuses (r_times (Suc m) p) (concat (enc x # map enc xs @ enc y # zs)) e"
    unfolding r_times.simps using Cons.prems by (intro refuses_Cons) auto
  then show ?case by (simp add: m_def)
qed

text \<open>A counted list whose first unreadable item is \<open>y\<close>.\<close>

lemma refuses_list:
  assumes "length (xs @ y # zs) \<le> m" "m < 2 ^ 32" "\<And>x. x \<in> set (xs @ y # zs) \<Longrightarrow> k \<le> length (enc x)"
    "\<And>x. x \<in> set xs \<Longrightarrow> reads p (enc x) (v x)" "refuses p (enc y) e"
  shows "refuses (r_list m k p) (w_list enc (xs @ y # zs)) e"
proof -
  define ys where "ys = xs @ y # zs"
  have len: "length ys * k \<le> length (concat (map enc ys))"
  proof -
    have "length us * k \<le> length (concat (map enc us))" if "\<And>x. x \<in> set us \<Longrightarrow> k \<le> length (enc x)" for us
      using that by (induction us) fastforce+
    then show ?thesis using assms(3) unfolding ys_def by blast
  qed
  have ys: "length ys \<le> m" using assms(1) by (simp add: ys_def)
  have u: "unat (of_nat (length ys) :: u32) = length ys" using ys assms(2) by (simp add: unat_of_nat_u32)
  have "refuses (r_times (length ys) p) (concat (map enc ys)) e"
    using refuses_times [where v = v and n = "length zs" and zs = "map enc zs", OF assms(4,5)] by (simp add: ys_def)
  with len u ys reads_u32 [of "of_nat (length ys)"] show ?thesis
    unfolding ys_def [symmetric]
    by (simp add: refuses_def reads_def r_list_def w_list_def rbind_def r_count_def rguard_def rd_remaining_at)
qed

lemma first_unreadable:
  assumes "y \<in> set ys" "\<And>x. x \<in> set ys \<Longrightarrow> x \<noteq> y \<Longrightarrow> P x"
  obtains xs zs where "ys = xs @ y # zs" "\<And>x. x \<in> set xs \<Longrightarrow> P x"
  using split_list_first [OF assms(1)] assms(2) by (metis Un_iff set_append)

subsection \<open>The codec contract\<close>

locale codec =
  fixes enc :: "'a \<Rightarrow> bytes" and dec :: "'a rd" and ok :: "'a \<Rightarrow> bool"
  assumes reads_enc: "ok x \<Longrightarrow> reads dec (enc x) x"
begin

lemma decode_encode: "ok x \<Longrightarrow> fst (dec (rd_init (enc x))) = Some x"
  by (simp add: reads_init [OF reads_enc])

lemma decode_prefix: "ok x \<Longrightarrow> fst (dec (rd_init (enc x @ rest))) = Some x"
  by (simp add: reads_prefix [OF reads_enc])

text \<open>No encoding is a proper prefix of another one: a sequence of encodings is unambiguous.\<close>

lemma encode_inj: "ok x \<Longrightarrow> ok y \<Longrightarrow> enc x @ a = enc y @ b \<Longrightarrow> x = y"
  by (metis decode_prefix option.inject)

end

interpretation u32_codec: codec w_u32 r_u32 "\<lambda>_. True"
  by unfold_locales (rule reads_u32)

interpretation u64_codec: codec w_u64 r_u64 "\<lambda>_. True"
  by unfold_locales (rule reads_u64)

interpretation id_codec: codec w_id128 r_id128 "\<lambda>_. True"
  by unfold_locales (rule reads_id128)

interpretation string_codec: codec w_string "r_string m" "\<lambda>s. length s \<le> m \<and> m < 2 ^ 32" for m
  by unfold_locales (simp add: reads_string)

end
