(* ===== verification/Hash.thy ===== *)
theory Hash
  imports Bytes "HOL-Library.While_Combinator"
begin

section \<open>Hashing and identity generation\<close>

text \<open>
  \<^verbatim>\<open>core/hash.cpp\<close> (FNV-1a and the streaming SHA-256) and \<^verbatim>\<open>core/idgen.cpp\<close>. The SHA-256 object keeps
  its 64-byte buffer as an array with stale contents behind the fill level, as the class does.
  The reference definition \<open>sha256_spec\<close> pads the whole message and folds the compression
  function over its blocks; the streaming object is proved equal to it for every way of splitting
  the message over \<open>sha_update\<close> calls.
\<close>

subsection \<open>FNV-1a\<close>

definition fnv_offset :: u64 where
  "fnv_offset = 14695981039346656037"

definition fnv_prime :: u64 where
  "fnv_prime = 1099511628211"

definition fnv_update :: "u64 \<Rightarrow> bytes \<Rightarrow> u64" where
  "fnv_update state data = foldl (\<lambda>s b. (s XOR ucast b) * fnv_prime) state data"

definition fnv_update_text :: "u64 \<Rightarrow> string \<Rightarrow> u64" where
  "fnv_update_text state s = fnv_update state (map byte_of_char s)"

definition fnv_update_u64 :: "u64 \<Rightarrow> u64 \<Rightarrow> u64" where
  "fnv_update_u64 state v = fnv_update state (le_bytes 8 v)"

subsection \<open>SHA-256\<close>

definition sha_K :: "u32 list" where
  "sha_K = concat [
    [0x428a2f98, 0x71374491, 0xb5c0fbcf, 0xe9b5dba5, 0x3956c25b, 0x59f111f1, 0x923f82a4, 0xab1c5ed5],
    [0xd807aa98, 0x12835b01, 0x243185be, 0x550c7dc3, 0x72be5d74, 0x80deb1fe, 0x9bdc06a7, 0xc19bf174],
    [0xe49b69c1, 0xefbe4786, 0x0fc19dc6, 0x240ca1cc, 0x2de92c6f, 0x4a7484aa, 0x5cb0a9dc, 0x76f988da],
    [0x983e5152, 0xa831c66d, 0xb00327c8, 0xbf597fc7, 0xc6e00bf3, 0xd5a79147, 0x06ca6351, 0x14292967],
    [0x27b70a85, 0x2e1b2138, 0x4d2c6dfc, 0x53380d13, 0x650a7354, 0x766a0abb, 0x81c2c92e, 0x92722c85],
    [0xa2bfe8a1, 0xa81a664b, 0xc24b8b70, 0xc76c51a3, 0xd192e819, 0xd6990624, 0xf40e3585, 0x106aa070],
    [0x19a4c116, 0x1e376c08, 0x2748774c, 0x34b0bcb5, 0x391c0cb3, 0x4ed8aa4a, 0x5b9cca4f, 0x682e6ff3],
    [0x748f82ee, 0x78a5636f, 0x84c87814, 0x8cc70208, 0x90befffa, 0xa4506ceb, 0xbef9a3f7, 0xc67178f2]]"

definition rotr :: "u32 \<Rightarrow> nat \<Rightarrow> u32" where
  "rotr v n = drop_bit n v OR push_bit (32 - n) v"

record sha256 =
  sh_state :: "u32 list"
  sh_buffer :: bytes
  sh_buffered :: nat
  sh_total_bits :: u64

definition sha_reset :: sha256 where
  "sha_reset = \<lparr>sh_state = [0x6a09e667, 0xbb67ae85, 0x3c6ef372, 0xa54ff53a,
                           0x510e527f, 0x9b05688c, 0x1f83d9ab, 0x5be0cd19],
     sh_buffer = replicate 64 0, sh_buffered = 0, sh_total_bits = 0\<rparr>"

definition sha_schedule :: "bytes \<Rightarrow> u32 list" where
  "sha_schedule block =
     foldl (\<lambda>w i.
         let s0 = rotr (w ! (i - 15)) 7 XOR rotr (w ! (i - 15)) 18 XOR drop_bit 3 (w ! (i - 15));
             s1 = rotr (w ! (i - 2)) 17 XOR rotr (w ! (i - 2)) 19 XOR drop_bit 10 (w ! (i - 2))
         in w @ [w ! (i - 16) + s0 + w ! (i - 7) + s1])
       (map (\<lambda>i. push_bit 24 (ucast (block ! (i * 4))) OR push_bit 16 (ucast (block ! (i * 4 + 1))) OR
                 push_bit 8 (ucast (block ! (i * 4 + 2))) OR ucast (block ! (i * 4 + 3))) [0..<16])
       [16..<64]"

definition sha_round :: "u32 list \<Rightarrow> u32 list \<Rightarrow> nat \<Rightarrow> u32 list" where
  "sha_round w v i =
     (let a = v ! 0; b = v ! 1; c = v ! 2; d = v ! 3; e = v ! 4; f = v ! 5; g = v ! 6; h = v ! 7;
          s1 = rotr e 6 XOR rotr e 11 XOR rotr e 25;
          ch = (e AND f) XOR ((NOT e) AND g);
          temp1 = h + s1 + ch + sha_K ! i + w ! i;
          s0 = rotr a 2 XOR rotr a 13 XOR rotr a 22;
          maj = (a AND b) XOR (a AND c) XOR (b AND c);
          temp2 = s0 + maj
      in [temp1 + temp2, a, b, c, d + temp1, e, f, g])"

definition sha_compress :: "u32 list \<Rightarrow> bytes \<Rightarrow> u32 list" where
  "sha_compress st block =
     (let w = sha_schedule block in map2 (+) st (foldl (sha_round w) st [0..<64]))"

definition sha_push :: "sha256 \<Rightarrow> byte \<Rightarrow> sha256" where
  "sha_push h b = h\<lparr>sh_buffer := (sh_buffer h)[sh_buffered h := b], sh_buffered := sh_buffered h + 1\<rparr>"

text \<open>The three loops of \<^verbatim>\<open>Sha256::update\<close>; each returns the bytes it has not consumed.\<close>

fun sha_fill :: "sha256 \<Rightarrow> bytes \<Rightarrow> sha256 \<times> bytes" where
  "sha_fill h [] = (h, [])"
| "sha_fill h (b # bs) = (if sh_buffered h < 64 then sha_fill (sha_push h b) bs else (h, b # bs))"

function sha_blocks :: "sha256 \<Rightarrow> bytes \<Rightarrow> sha256 \<times> bytes" where
  "sha_blocks h bs =
     (if length bs \<ge> 64 then sha_blocks (h\<lparr>sh_state := sha_compress (sh_state h) (take 64 bs)\<rparr>) (drop 64 bs)
      else (h, bs))"
  by pat_completeness auto
termination by (relation "measure (\<lambda>(_, bs). length bs)") auto

declare sha_blocks.simps [simp del]

definition sha_flush :: "sha256 \<Rightarrow> sha256" where
  "sha_flush h = (if sh_buffered h = 64
     then h\<lparr>sh_state := sha_compress (sh_state h) (sh_buffer h), sh_buffered := 0\<rparr> else h)"

definition sha_update :: "sha256 \<Rightarrow> bytes \<Rightarrow> sha256" where
  "sha_update h data =
     (let h0 = h\<lparr>sh_total_bits := sh_total_bits h + of_nat (length data) * 8\<rparr>;
          (h1, rest1) = (if sh_buffered h0 \<noteq> 0
                         then let (h', rest) = sha_fill h0 data in (sha_flush h', rest)
                         else (h0, data));
          (h2, rest2) = sha_blocks h1 rest1
      in foldl sha_push h2 rest2)"

definition sha_update_u64 :: "sha256 \<Rightarrow> u64 \<Rightarrow> sha256" where
  "sha_update_u64 h v = sha_update h (le_bytes 8 v)"

definition sha_pad_zeros :: "sha256 \<Rightarrow> sha256" where
  "sha_pad_zeros h = while (\<lambda>h. sh_buffered h \<noteq> 56) (\<lambda>h. sha_update h [0]) h"

definition sha_digest_bytes :: "u32 list \<Rightarrow> bytes" where
  "sha_digest_bytes st = concat (map (\<lambda>s. rev (le_bytes 4 s)) st)"

definition sha_finalize :: "sha256 \<Rightarrow> bytes" where
  "sha_finalize h =
     (let bits = sh_total_bits h;
          h1 = sha_update h [0x80];
          h2 = sha_pad_zeros h1;
          h3 = foldl sha_push h2 (rev (le_bytes 8 bits))
      in sha_digest_bytes (sha_compress (sh_state h3) (sh_buffer h3)))"

definition sha_hash :: "bytes \<Rightarrow> bytes" where
  "sha_hash data = sha_finalize (sha_update sha_reset data)"

definition digest_hex :: "bytes \<Rightarrow> string" where
  "digest_hex d = concat (map byte_hex d)"

subsection \<open>Identity generator\<close>

definition splitmix64 :: "u64 \<Rightarrow> u64 \<times> u64" where
  "splitmix64 state =
     (let s = state + 0x9E3779B97F4A7C15;
          z1 = (s XOR drop_bit 30 s) * 0xBF58476D1CE4E5B9;
          z2 = (z1 XOR drop_bit 27 z1) * 0x94D049BB133111EB
      in (z2 XOR drop_bit 31 z2, s))"

record id_generator =
  ig_seed :: u64
  ig_state :: u64
  ig_counter :: u64
  ig_started :: bool

definition idgen_make :: "u64 \<Rightarrow> id_generator" where
  "idgen_make seed = \<lparr>ig_seed = seed, ig_state = 0, ig_counter = 0, ig_started = False\<rparr>"

definition idgen_seal :: "bytes \<Rightarrow> id128" where
  "idgen_seal bs = id_from_bytes (if is_nil (id_from_bytes bs) then bs[15 := 1] else bs)"

definition idgen_next :: "id_generator \<Rightarrow> id128 \<times> id_generator" where
  "idgen_next g =
     (let s0 = (if ig_started g then ig_state g else ig_seed g XOR 0xD1B54A32D192ED03);
          (first, s1) = splitmix64 s0;
          (second, s2) = splitmix64 s1;
          counter = ig_counter g + 1;
          (draw, s3) = splitmix64 s2;
          third = draw XOR (counter * 0xA24BAED4963EE407);
          bs0 = le_bytes 8 first @ le_bytes 8 second;
          bs1 = bs0[0 := bs0 ! 0 XOR ucast (third AND 255)];
          bs2 = bs1[15 := bs1 ! 15 XOR ucast (drop_bit 8 third AND 255)]
      in (idgen_seal bs2, g\<lparr>ig_state := s3, ig_counter := counter, ig_started := True\<rparr>))"

subsection \<open>The streaming hash computes the padded message digest\<close>

function md_blocks :: "u32 list \<Rightarrow> bytes \<Rightarrow> u32 list \<times> bytes" where
  "md_blocks st bs =
     (if length bs \<ge> 64 then md_blocks (sha_compress st (take 64 bs)) (drop 64 bs) else (st, bs))"
  by pat_completeness auto
termination by (relation "measure (\<lambda>(_, bs). length bs)") auto

declare md_blocks.simps [simp del]

definition sha_padding :: "nat \<Rightarrow> bytes" where
  "sha_padding len = [0x80] @ replicate ((119 - len mod 64) mod 64) 0 @ rev (le_bytes 8 (of_nat (8 * len) :: u64))"

definition sha256_spec :: "bytes \<Rightarrow> bytes" where
  "sha256_spec msg = sha_digest_bytes (fst (md_blocks (sh_state sha_reset) (msg @ sha_padding (length msg))))"

lemma md_blocks_short: "length bs < 64 \<Longrightarrow> md_blocks st bs = (st, bs)"
  by (subst md_blocks.simps) simp

lemma md_blocks_long:
  "length bs \<ge> 64 \<Longrightarrow> md_blocks st bs = md_blocks (sha_compress st (take 64 bs)) (drop 64 bs)"
  by (subst md_blocks.simps) simp

lemma md_blocks_append:
  "md_blocks st (xs @ ys) = (case md_blocks st xs of (st', rest) \<Rightarrow> md_blocks st' (rest @ ys))"
proof (induction st xs rule: md_blocks.induct)
  case (1 st xs)
  show ?case
  proof (cases "length xs \<ge> 64")
    case True
    with 1 show ?thesis by (simp add: md_blocks_long [of xs] md_blocks_long [of "xs @ ys"])
  qed (simp add: md_blocks_short)
qed

lemma md_blocks_rest: "length (snd (md_blocks st xs)) = length xs mod 64"
proof (induction st xs rule: md_blocks.induct)
  case (1 st xs)
  show ?case
  proof (cases "length xs \<ge> 64")
    case True
    with 1 show ?thesis by (simp add: md_blocks_long le_mod_geq)
  qed (simp add: md_blocks_short)
qed

text \<open>The abstraction: the chaining value and the bytes that wait in the buffer.\<close>

definition sha_rel :: "sha256 \<Rightarrow> u32 list \<Rightarrow> bytes \<Rightarrow> bool" where
  "sha_rel h st pre \<longleftrightarrow> sh_state h = st \<and> sh_buffered h = length pre \<and> length pre \<le> 64 \<and>
     length (sh_buffer h) = 64 \<and> take (length pre) (sh_buffer h) = pre"

lemma sha_rel_reset: "sha_rel sha_reset (sh_state sha_reset) []"
  by (simp add: sha_rel_def sha_reset_def)

lemma sha_rel_full: "sha_rel h st pre \<Longrightarrow> length pre = 64 \<Longrightarrow> sh_buffer h = pre"
  by (auto simp: sha_rel_def)

lemma sha_rel_state: "sha_rel h st pre \<Longrightarrow> sh_state h = st"
  by (simp add: sha_rel_def)

lemma sha_rel_push: "sha_rel h st pre \<Longrightarrow> length pre < 64 \<Longrightarrow> sha_rel (sha_push h b) st (pre @ [b])"
  by (auto simp: sha_rel_def sha_push_def take_Suc_conv_app_nth)

lemma sha_rel_foldl_push:
  "sha_rel h st pre \<Longrightarrow> length pre + length bs \<le> 64 \<Longrightarrow> sha_rel (foldl sha_push h bs) st (pre @ bs)"
proof (induction bs arbitrary: h pre)
  case (Cons b bs)
  then have "sha_rel (sha_push h b) st (pre @ [b])" by (intro sha_rel_push) auto
  from Cons.IH [OF this] Cons.prems show ?case by simp
qed simp

lemma sha_rel_fill:
  assumes "sha_rel h st pre"
  shows "sha_rel (fst (sha_fill h bs)) st (pre @ take (64 - length pre) bs) \<and>
    snd (sha_fill h bs) = drop (64 - length pre) bs"
  using assms
proof (induction bs arbitrary: h pre)
  case (Cons b bs)
  show ?case
  proof (cases "length pre < 64")
    case True
    then have "64 - length pre = Suc (64 - length (pre @ [b]))" by simp
    with Cons.IH [OF sha_rel_push [OF Cons.prems True]] True Cons.prems show ?thesis
      by (simp add: sha_rel_def)
  next
    case False
    with Cons.prems have "sh_buffered h \<ge> 64" by (simp add: sha_rel_def)
    with Cons.prems False show ?thesis by simp
  qed
qed simp

lemma sha_rel_blocks:
  "sha_rel h st [] \<Longrightarrow> sha_rel (fst (sha_blocks h bs)) (fst (md_blocks st bs)) [] \<and>
     snd (sha_blocks h bs) = snd (md_blocks st bs)"
proof (induction h bs arbitrary: st rule: sha_blocks.induct)
  case (1 h bs)
  show ?case
  proof (cases "length bs \<ge> 64")
    case True
    have "sha_rel (h\<lparr>sh_state := sha_compress (sh_state h) (take 64 bs)\<rparr>) (sha_compress st (take 64 bs)) []"
      using 1(2) by (simp add: sha_rel_def)
    with 1(1) [OF True] True show ?thesis
      by (simp add: md_blocks_long sha_blocks.simps [of h bs])
  next
    case False
    with 1(2) show ?thesis by (simp add: md_blocks_short sha_blocks.simps [of h bs])
  qed
qed

text \<open>The first loop of an update: with a partly filled buffer the block that completes it is
  compressed first.\<close>

definition sha_head :: "sha256 \<Rightarrow> bytes \<Rightarrow> sha256 \<times> bytes" where
  "sha_head h data = (if sh_buffered h \<noteq> 0
     then let (h', rest) = sha_fill h data in (sha_flush h', rest) else (h, data))"

lemma sha_rel_head:
  assumes "sha_rel h st pre" "length pre < 64"
  obtains st' pre' where "sha_rel (fst (sha_head h data)) st' pre'"
    "md_blocks st (pre @ data) = md_blocks st' (pre' @ snd (sha_head h data))"
    "pre' = [] \<or> snd (sha_head h data) = [] \<and> length pre' < 64"
proof (cases "pre = []")
  case True
  with assms have "sha_head h data = (h, data)" by (simp add: sha_head_def sha_rel_def)
  with that [of st "[]"] assms True show ?thesis by simp
next
  case pre: False
  define h1 where "h1 = fst (sha_fill h data)"
  let ?k = "64 - length pre"
  have h1: "sha_rel h1 st (pre @ take ?k data)" "snd (sha_fill h data) = drop ?k data"
    using sha_rel_fill [OF assms(1), of data] by (auto simp: h1_def)
  have head: "sha_head h data = (sha_flush h1, drop ?k data)"
    using pre assms h1(2) by (simp add: sha_head_def sha_rel_def h1_def case_prod_beta)
  show ?thesis
  proof (cases "?k \<le> length data")
    case True
    then have full: "length (pre @ take ?k data) = 64" using assms(2) by simp
    then have "sh_buffered h1 = 64" "sh_buffer h1 = pre @ take ?k data" "sh_state h1 = st"
      using h1(1) by (auto simp: sha_rel_def)
    then have "sha_rel (sha_flush h1) (sha_compress st (pre @ take ?k data)) []"
      using full by (simp add: sha_rel_def sha_flush_def)
    moreover have "md_blocks st (pre @ data) = md_blocks (sha_compress st (pre @ take ?k data)) (drop ?k data)"
      using True assms(2) by (subst md_blocks_long) auto
    ultimately show ?thesis using that head by simp
  next
    case False
    then have "sha_flush h1 = h1" using h1(1) by (auto simp: sha_rel_def sha_flush_def)
    moreover have "length pre + length data < 64" using False by simp
    ultimately show ?thesis using False h1 that [of st "pre @ take ?k data"] head by simp
  qed
qed

lemma sha_rel_update:
  assumes "sha_rel h st pre" "length pre < 64"
  shows "sha_rel (sha_update h data) (fst (md_blocks st (pre @ data))) (snd (md_blocks st (pre @ data)))"
proof -
  let ?h = "h\<lparr>sh_total_bits := sh_total_bits h + of_nat (length data) * 8\<rparr>"
  have "sha_rel ?h st pre" using assms(1) by (simp add: sha_rel_def)
  from sha_rel_head [OF this assms(2), of data] obtain st' pre' where
    1: "sha_rel (fst (sha_head ?h data)) st' pre'"
    and 2: "md_blocks st (pre @ data) = md_blocks st' (pre' @ snd (sha_head ?h data))"
    and 3: "pre' = [] \<or> snd (sha_head ?h data) = [] \<and> length pre' < 64" by blast
  have upd: "sha_update h data =
      (case sha_head ?h data of (h1, r1) \<Rightarrow> case sha_blocks h1 r1 of (h2, r2) \<Rightarrow> foldl sha_push h2 r2)"
    by (simp add: sha_update_def sha_head_def Let_def)
  show ?thesis
  proof (cases "pre' = []")
    case True
    have "length (snd (md_blocks st' (snd (sha_head ?h data)))) \<le> 64"
      by (simp add: md_blocks_rest order.strict_implies_order)
    with True sha_rel_blocks [of "fst (sha_head ?h data)" st' "snd (sha_head ?h data)"] 1 2 show ?thesis
      using sha_rel_foldl_push [where pre = "[]"] by (simp add: upd case_prod_beta)
  next
    case False
    with 3 have "snd (sha_head ?h data) = []" "length pre' < 64" by auto
    with 1 2 show ?thesis by (simp add: upd case_prod_beta sha_blocks.simps md_blocks_short)
  qed
qed

lemma sha_push_total [simp]: "sh_total_bits (sha_push h b) = sh_total_bits h"
  by (simp add: sha_push_def)

lemma foldl_sha_push_total [simp]: "sh_total_bits (foldl sha_push h bs) = sh_total_bits h"
  by (induction bs arbitrary: h) auto

lemma sha_fill_total [simp]: "sh_total_bits (fst (sha_fill h bs)) = sh_total_bits h"
  by (induction h bs rule: sha_fill.induct) auto

lemma sha_blocks_total [simp]: "sh_total_bits (fst (sha_blocks h bs)) = sh_total_bits h"
proof (induction h bs rule: sha_blocks.induct)
  case (1 h bs)
  then show ?case by (cases "length bs \<ge> 64") (simp_all add: sha_blocks.simps [of h bs])
qed

lemma sha_update_total: "sh_total_bits (sha_update h d) = sh_total_bits h + of_nat (length d) * 8"
  by (simp add: sha_update_def sha_flush_def Let_def case_prod_beta)

lemma sha_rel_pad_zeros:
  assumes "sha_rel h st pre" "length pre < 64" "n = (120 - length pre) mod 64"
  shows "sha_rel (sha_pad_zeros h) (fst (md_blocks st (pre @ replicate n 0))) (snd (md_blocks st (pre @ replicate n 0)))"
  using assms
proof (induction n arbitrary: h st pre)
  case 0
  then have "length pre = 56" by (auto simp: mod_eq_0_iff_dvd dvd_def) presburger
  with 0 show ?case
    by (simp add: sha_pad_zeros_def while_unfold [of _ _ h] sha_rel_def md_blocks_short)
next
  case (Suc n)
  let ?st = "fst (md_blocks st (pre @ [0]))" and ?pre = "snd (md_blocks st (pre @ [0]))"
  have ne: "length pre \<noteq> 56" using Suc.prems(3) by auto
  have len: "length ?pre = (length pre + 1) mod 64" by (simp add: md_blocks_rest)
  then have "n = (120 - length ?pre) mod 64"
    using Suc.prems(2,3) ne by (cases "length pre = 63") (auto simp: mod_if split: if_splits)
  then have "sha_rel (sha_pad_zeros (sha_update h [0]))
      (fst (md_blocks ?st (?pre @ replicate n 0))) (snd (md_blocks ?st (?pre @ replicate n 0)))"
    by (intro Suc.IH sha_rel_update Suc.prems) (simp_all add: len)
  moreover have "sha_pad_zeros h = sha_pad_zeros (sha_update h [0])"
    using Suc.prems(1) ne by (simp add: sha_pad_zeros_def while_unfold [of _ _ h] sha_rel_def)
  moreover have "md_blocks st (pre @ replicate (Suc n) 0) = md_blocks ?st (?pre @ replicate n 0)"
    using md_blocks_append [of st "pre @ [0]" "replicate n 0"] by (simp add: case_prod_beta)
  ultimately show ?case by simp
qed

lemma sha_finalize_rel:
  assumes "sha_rel h st pre" "length pre < 64"
  shows "sha_finalize h = sha_digest_bytes (fst (md_blocks st
    (pre @ [0x80] @ replicate ((119 - length pre) mod 64) 0 @ rev (le_bytes 8 (sh_total_bits h)))))"
proof -
  let ?k = "(119 - length pre) mod 64" and ?len = "rev (le_bytes 8 (sh_total_bits h))"
  define st1 pre1 where "st1 = fst (md_blocks st (pre @ [0x80]))" and "pre1 = snd (md_blocks st (pre @ [0x80]))"
  define st2 pre2 where "st2 = fst (md_blocks st1 (pre1 @ replicate ?k 0))"
    and "pre2 = snd (md_blocks st1 (pre1 @ replicate ?k 0))"
  have len1: "length pre1 = (length pre + 1) mod 64" by (simp add: pre1_def md_blocks_rest)
  have k: "?k = (120 - length pre1) mod 64"
    using assms(2) by (cases "length pre = 63") (simp_all add: len1)
  have "sha_rel (sha_pad_zeros (sha_update h [0x80])) st2 pre2"
    unfolding st2_def pre2_def
    by (rule sha_rel_pad_zeros [OF _ _ k]) (use sha_rel_update [OF assms] in \<open>simp_all add: st1_def pre1_def md_blocks_rest\<close>)
  moreover have len2: "length pre2 = 56"
    using assms(2) by (cases "length pre = 63") (simp_all add: pre2_def md_blocks_rest len1 mod_if)
  ultimately have rel3: "sha_rel (foldl sha_push (sha_pad_zeros (sha_update h [0x80])) ?len) st2 (pre2 @ ?len)"
    by (intro sha_rel_foldl_push) simp_all
  have "md_blocks st (pre @ [0x80] @ replicate ?k 0 @ ?len) = md_blocks st2 (pre2 @ ?len)"
    using md_blocks_append [of st "pre @ [0x80]" "replicate ?k 0 @ ?len"]
      md_blocks_append [of st1 "pre1 @ replicate ?k 0" ?len]
    by (simp add: case_prod_beta st1_def pre1_def st2_def pre2_def)
  also have "fst \<dots> = sha_compress st2 (pre2 @ ?len)"
    using len2 by (simp add: md_blocks_long md_blocks_short)
  finally show ?thesis
    using sha_rel_full [OF rel3] sha_rel_state [OF rel3] len2 by (simp add: sha_finalize_def Let_def)
qed

text \<open>The state after feeding a sequence of chunks is the state after feeding their concatenation.\<close>

lemma sha_rel_chunks:
  "sha_rel (foldl sha_update sha_reset chunks)
     (fst (md_blocks (sh_state sha_reset) (concat chunks))) (snd (md_blocks (sh_state sha_reset) (concat chunks)))
   \<and> sh_total_bits (foldl sha_update sha_reset chunks) = of_nat (length (concat chunks)) * 8"
proof (induction chunks rule: rev_induct)
  case Nil
  then show ?case by (simp add: md_blocks_short sha_rel_reset) (simp add: sha_reset_def)
next
  case (snoc c cs)
  then show ?case
    using sha_rel_update [of _ _ _ c] md_blocks_append [of "sh_state sha_reset" "concat cs" c]
    by (simp add: sha_update_total case_prod_beta md_blocks_rest algebra_simps)
qed

lemma sha_chunks_spec: "sha_finalize (foldl sha_update sha_reset chunks) = sha256_spec (concat chunks)"
proof -
  let ?m = "md_blocks (sh_state sha_reset) (concat chunks)"
  have len: "length (snd ?m) = length (concat chunks) mod 64" by (simp add: md_blocks_rest)
  have "sha_finalize (foldl sha_update sha_reset chunks) =
      sha_digest_bytes (fst (md_blocks (fst ?m) (snd ?m @ sha_padding (length (concat chunks)))))"
    using sha_rel_chunks [of chunks]
    by (subst sha_finalize_rel) (auto simp: len sha_padding_def mult.commute)
  then show ?thesis
    using md_blocks_append [of "sh_state sha_reset" "concat chunks" "sha_padding (length (concat chunks))"]
    by (simp add: sha256_spec_def case_prod_beta)
qed

lemma length_sha_round [simp]: "length (sha_round w v i) = 8"
  unfolding sha_round_def Let_def by simp

lemma length_foldl_sha_round: "length st = 8 \<Longrightarrow> length (foldl (sha_round w) st is) = 8"
  by (induction "is" arbitrary: st) simp_all

lemma sha_compress_length: "length st = 8 \<Longrightarrow> length (sha_compress st block) = 8"
  unfolding sha_compress_def Let_def length_map length_zip by (simp only: length_foldl_sha_round)

lemma md_blocks_length: "length st = 8 \<Longrightarrow> length (fst (md_blocks st bs)) = 8"
proof (induction st bs rule: md_blocks.induct)
  case (1 st bs)
  show ?case
  proof (cases "length bs \<ge> 64")
    case True
    from 1(1) [OF True sha_compress_length [OF 1(2)]] show ?thesis
      by (simp only: md_blocks_long [OF True])
  qed (use 1 in \<open>simp add: md_blocks_short\<close>)
qed

lemma length_sha_digest_bytes: "length (sha_digest_bytes st) = 4 * length st"
  by (induction st) (auto simp: sha_digest_bytes_def)

lemma length_sha_hash [simp]: "length (sha_hash bs) = 32"
proof -
  have "length (sh_state sha_reset) = 8" by (simp add: sha_reset_def)
  then show ?thesis
    using sha_chunks_spec [of "[bs]"]
    by (simp add: sha_hash_def sha256_spec_def length_sha_digest_bytes md_blocks_length)
qed

lemma length_digest_hex: "length (digest_hex d) = 2 * length d"
  by (simp add: digest_hex_def)

lemma digest_hex_inj: "digest_hex a = digest_hex b \<Longrightarrow> a = b"
  by (metis digest_hex_def hex_pairs_concat option.inject)

lemma idgen_seal_not_nil:
  assumes "length bs = 16"
  shows "\<not> is_nil (idgen_seal bs)"
proof (cases "is_nil (id_from_bytes bs)")
  case True
  have "(bs[15 := 1]) ! 15 = (1 :: byte)" using assms by simp
  then have "\<not> is_nil (id_from_bytes (bs[15 := 1]))"
    using assms by (auto simp: is_nil_def id_bytes_id_from_bytes list_all_length intro!: exI [of _ 15])
  with True show ?thesis by (simp add: idgen_seal_def)
qed (simp add: idgen_seal_def)

lemma idgen_next_not_nil: "\<not> is_nil (fst (idgen_next g))"
  unfolding idgen_next_def Let_def case_prod_beta
  by (subst fst_conv, rule idgen_seal_not_nil, subst length_list_update, subst length_list_update) simp

end
