(* ===== verification/Versions.thy ===== *)
theory Versions
  imports Bytes
begin

section \<open>Semantic versions and version ranges\<close>

text \<open>
  \<^verbatim>\<open>core/version.hpp\<close> and \<^verbatim>\<open>core/version.cpp\<close>. The index loops over the text are recursions on the
  rest of the text: \<^verbatim>\<open>text.find('.', start)\<close> followed by \<^verbatim>\<open>substr\<close> is \<^const>\<open>before\<close> and
  \<^const>\<open>after\<close> of that rest.
\<close>

datatype ordering = O_less | O_equal | O_greater

record semantic_version =
  sv_major :: u32
  sv_minor :: u32
  sv_patch :: u32
  sv_prerelease :: string
  sv_build :: string

definition sv_make :: "u32 \<Rightarrow> u32 \<Rightarrow> u32 \<Rightarrow> semantic_version" where
  "sv_make ma mi pa = \<lparr>sv_major = ma, sv_minor = mi, sv_patch = pa, sv_prerelease = [], sv_build = []\<rparr>"

datatype version_operator =
  VO_Any | VO_Equal | VO_NotEqual | VO_Less | VO_LessEqual | VO_Greater | VO_GreaterEqual
| VO_Compatible | VO_Tilde

record version_clause =
  vc_op :: version_operator
  vc_version :: semantic_version

type_synonym version_range = "version_clause list"

subsection \<open>Text\<close>

definition is_alpha :: "char \<Rightarrow> bool" where
  "is_alpha c \<longleftrightarrow> (let v = of_char c :: nat in (65 \<le> v \<and> v \<le> 90) \<or> (97 \<le> v \<and> v \<le> 122))"

definition is_space :: "char \<Rightarrow> bool" where
  "is_space c \<longleftrightarrow> (let v = of_char c :: nat in v = 32 \<or> (9 \<le> v \<and> v \<le> 13))"

definition is_identifier_char :: "char \<Rightarrow> bool" where
  "is_identifier_char c \<longleftrightarrow> is_alpha c \<or> is_digit c \<or> c = CHR ''-''"

definition is_numeric_identifier :: "string \<Rightarrow> bool" where
  "is_numeric_identifier s \<longleftrightarrow> s \<noteq> [] \<and> list_all is_digit s"

function valid_identifiers :: "string \<Rightarrow> bool" where
  "valid_identifiers s \<longleftrightarrow>
     (if s = [] then False
      else let part = before CHR ''.'' s in
        if part = [] then False
        else if \<not> list_all is_identifier_char part then False
        else if CHR ''.'' \<notin> set s then True
        else valid_identifiers (after CHR ''.'' s))"
  by pat_completeness auto
termination by (relation "measure length") (auto simp: length_after)

declare valid_identifiers.simps [simp del]

definition parse_u32 :: "string \<Rightarrow> u32 option" where
  "parse_u32 s =
     (if s = [] \<or> length s > 10 then None
      else if list_all is_digit s \<and> nat_of_digits s < 2 ^ 32 then Some (of_nat (nat_of_digits s))
      else None)"

definition identifier_value :: "string \<Rightarrow> u32" where
  "identifier_value s = (case parse_u32 s of None \<Rightarrow> 0 | Some v \<Rightarrow> v)"

function compare_identifiers :: "string \<Rightarrow> string \<Rightarrow> ordering" where
  "compare_identifiers a b =
     (if a = [] \<and> b = [] then O_equal
      else let ap = before CHR ''.'' a; bp = before CHR ''.'' b;
               an = is_numeric_identifier ap; bn = is_numeric_identifier bp;
               av = identifier_value ap; bv = identifier_value bp
        in if an \<and> bn \<and> av \<noteq> bv then (if av < bv then O_less else O_greater)
           else if an \<noteq> bn then (if an then O_less else O_greater)
           else if \<not> an \<and> \<not> bn \<and> ap \<noteq> bp then (if ap < bp then O_less else O_greater)
           else compare_identifiers (after CHR ''.'' a) (after CHR ''.'' b))"
  by pat_completeness auto
termination
  by (relation "measure (\<lambda>(a, b). length a + length b)") (auto simp: length_after_pair)

declare compare_identifiers.simps [simp del]

definition compare_prerelease :: "string \<Rightarrow> string \<Rightarrow> ordering" where
  "compare_prerelease a b =
     (if a = [] \<and> b = [] then O_equal
      else if a = [] then O_greater
      else if b = [] then O_less
      else compare_identifiers a b)"

definition trim :: "string \<Rightarrow> string" where
  "trim s = rev (dropWhile is_space (rev (dropWhile is_space s)))"

definition sv_parse :: "string \<Rightarrow> semantic_version option" where
  "sv_parse text =
     (if text = [] then None
      else
        let has_build = CHR ''+'' \<in> set text;
            build = (if has_build then after CHR ''+'' text else []);
            body = (if has_build then before CHR ''+'' text else text);
            has_pre = CHR ''-'' \<in> set body;
            pre = (if has_pre then after CHR ''-'' body else []);
            core = (if has_pre then before CHR ''-'' body else body);
            rest = after CHR ''.'' core;
            last = after CHR ''.'' rest
        in if has_build \<and> \<not> valid_identifiers build then None
           else if has_pre \<and> \<not> valid_identifiers pre then None
           else if CHR ''.'' \<notin> set core then None
           else if CHR ''.'' \<notin> set rest then None
           else if CHR ''.'' \<in> set last then None
           else (case (parse_u32 (before CHR ''.'' core), parse_u32 (before CHR ''.'' rest), parse_u32 last) of
                   (Some ma, Some mi, Some pa) \<Rightarrow>
                     Some \<lparr>sv_major = ma, sv_minor = mi, sv_patch = pa, sv_prerelease = pre, sv_build = build\<rparr>
                 | _ \<Rightarrow> None))"

definition sv_to_string :: "semantic_version \<Rightarrow> string" where
  "sv_to_string v = string_of_nat (unat (sv_major v)) @ ''.'' @ string_of_nat (unat (sv_minor v)) @ ''.'' @
     string_of_nat (unat (sv_patch v)) @ (if sv_prerelease v = [] then [] else ''-'' @ sv_prerelease v)"

definition sv_to_string_full :: "semantic_version \<Rightarrow> string" where
  "sv_to_string_full v = sv_to_string v @ (if sv_build v = [] then [] else ''+'' @ sv_build v)"

definition sv_compare :: "semantic_version \<Rightarrow> semantic_version \<Rightarrow> ordering" where
  "sv_compare a b =
     (if sv_major a \<noteq> sv_major b then (if sv_major a < sv_major b then O_less else O_greater)
      else if sv_minor a \<noteq> sv_minor b then (if sv_minor a < sv_minor b then O_less else O_greater)
      else if sv_patch a \<noteq> sv_patch b then (if sv_patch a < sv_patch b then O_less else O_greater)
      else compare_prerelease (sv_prerelease a) (sv_prerelease b))"

definition sv_eq :: "semantic_version \<Rightarrow> semantic_version \<Rightarrow> bool" where
  "sv_eq a b \<longleftrightarrow> sv_compare a b = O_equal"

subsection \<open>Ranges\<close>

definition range_operator :: "string \<Rightarrow> version_operator \<times> nat" where
  "range_operator token =
     (if take 2 token = ''>='' then (VO_GreaterEqual, 2)
      else if take 2 token = ''<='' then (VO_LessEqual, 2)
      else if take 2 token = ''!='' then (VO_NotEqual, 2)
      else if take 2 token = ''=='' then (VO_Equal, 2)
      else if take 1 token = ''>'' then (VO_Greater, 1)
      else if take 1 token = ''<'' then (VO_Less, 1)
      else if take 1 token = ''='' then (VO_Equal, 1)
      else if take 1 token = ''^'' then (VO_Compatible, 1)
      else if take 1 token = ''~'' then (VO_Tilde, 1)
      else (VO_Equal, 0))"

definition range_clause :: "string \<Rightarrow> version_clause option" where
  "range_clause token =
     (if token = ''*'' \<or> token = ''any'' then Some \<lparr>vc_op = VO_Any, vc_version = sv_make 0 0 0\<rparr>
      else let (op, consumed) = range_operator token in
        map_option (\<lambda>v. \<lparr>vc_op = op, vc_version = v\<rparr>) (sv_parse (drop consumed token)))"

function range_loop :: "string \<Rightarrow> version_range \<Rightarrow> version_range result" where
  "range_loop s clauses =
     (let s' = dropWhile is_space s in
      if s' = [] then Inr clauses
      else let token = takeWhile (\<lambda>c. \<not> is_space c) s' in
        case range_clause token of
          None \<Rightarrow> Inl EC_MalformedVersionRange
        | Some clause \<Rightarrow> range_loop (dropWhile (\<lambda>c. \<not> is_space c) s') (clauses @ [clause]))"
  by pat_completeness auto
termination
proof (relation "measure (\<lambda>(s, _). length s)", goal_cases)
  case (2 s clauses s' token clause)
  have "s' \<noteq> []" by (rule 2(2))
  then obtain c cs where s': "s' = c # cs" by (meson neq_Nil_conv)
  with 2 have "\<not> is_space c" by (metis hd_dropWhile list.distinct(1) list.sel(1))
  with s' have "length (dropWhile (\<lambda>c. \<not> is_space c) s') < length s'"
    by (simp add: le_imp_less_Suc length_dropWhile_le)
  with 2 show ?case by (simp add: length_dropWhile_le order.strict_trans2)
qed simp

declare range_loop.simps [simp del]

definition range_parse :: "string \<Rightarrow> version_range result" where
  "range_parse text = range_loop (map (\<lambda>c. if c = CHR '','' then CHR '' '' else c) text) []"

fun clause_matches :: "version_operator \<Rightarrow> semantic_version \<Rightarrow> semantic_version \<Rightarrow> bool" where
  "clause_matches VO_Any v c = True"
| "clause_matches VO_Equal v c = (sv_compare v c = O_equal)"
| "clause_matches VO_NotEqual v c = (sv_compare v c \<noteq> O_equal)"
| "clause_matches VO_Less v c = (sv_compare v c = O_less)"
| "clause_matches VO_LessEqual v c = (sv_compare v c \<noteq> O_greater)"
| "clause_matches VO_Greater v c = (sv_compare v c = O_greater)"
| "clause_matches VO_GreaterEqual v c = (sv_compare v c \<noteq> O_less)"
| "clause_matches VO_Compatible v c = (sv_compare v c \<noteq> O_less \<and> sv_major v = sv_major c)"
| "clause_matches VO_Tilde v c =
     (sv_compare v c \<noteq> O_less \<and> sv_major v = sv_major c \<and> sv_minor v = sv_minor c)"

definition range_matches :: "version_range \<Rightarrow> semantic_version \<Rightarrow> bool" where
  "range_matches r v = list_all (\<lambda>c. clause_matches (vc_op c) v (vc_version c)) r"

fun operator_text :: "version_operator \<Rightarrow> string" where
  "operator_text VO_Any = ''*''"
| "operator_text VO_Equal = ''=''"
| "operator_text VO_NotEqual = ''!=''"
| "operator_text VO_Less = ''<''"
| "operator_text VO_LessEqual = ''<=''"
| "operator_text VO_Greater = ''>''"
| "operator_text VO_GreaterEqual = ''>=''"
| "operator_text VO_Compatible = ''^''"
| "operator_text VO_Tilde = ''~''"

definition clause_to_string :: "version_clause \<Rightarrow> string" where
  "clause_to_string c =
     (if vc_op c = VO_Any then ''*'' else operator_text (vc_op c) @ sv_to_string (vc_version c))"

fun join_clauses :: "version_range \<Rightarrow> string" where
  "join_clauses [] = []"
| "join_clauses [c] = clause_to_string c"
| "join_clauses (c # cs) = clause_to_string c @ '' '' @ join_clauses cs"

definition range_to_string :: "version_range \<Rightarrow> string" where
  "range_to_string r = (if r = [] then ''*'' else join_clauses r)"

subsection \<open>Parsing inverts printing\<close>

definition sv_wf :: "semantic_version \<Rightarrow> bool" where
  "sv_wf v \<longleftrightarrow> (sv_prerelease v = [] \<or> valid_identifiers (sv_prerelease v)) \<and>
             (sv_build v = [] \<or> valid_identifiers (sv_build v))"

lemma not_digit [simp]:
  "\<not> is_digit CHR ''.''" "\<not> is_digit CHR ''-''" "\<not> is_digit CHR ''+''" "\<not> is_digit CHR '' ''"
  "\<not> is_digit CHR '',''" "\<not> is_digit CHR ''*''" "\<not> is_digit CHR ''a''"
  "\<not> is_digit CHR ''>''" "\<not> is_digit CHR ''<''" "\<not> is_digit CHR ''=''" "\<not> is_digit CHR ''^''"
  "\<not> is_digit CHR ''~''" "\<not> is_digit CHR ''!''"
  by code_simp+

lemma not_identifier_char [simp]:
  "\<not> is_identifier_char CHR ''.''" "\<not> is_identifier_char CHR ''+''" "\<not> is_identifier_char CHR '',''"
  by code_simp+

lemma string_of_nat_not_in: "\<not> is_digit c \<Longrightarrow> c \<notin> set (string_of_nat n)"
  using string_of_nat_digits by blast

lemma parse_u32_string_of_nat [simp]: "parse_u32 (string_of_nat (unat w)) = Some w"
proof -
  have lt: "unat w < 2 ^ 32" using unsigned_less [of w, where ?'a = nat] by simp
  then have "unat w < 10 ^ 10" by simp
  then have "length (string_of_nat (unat w)) \<le> 10" by (intro length_string_of_nat) auto
  with lt show ?thesis by (auto simp: parse_u32_def list_all_iff string_of_nat_digits)
qed

lemma valid_identifiers_chars:
  "valid_identifiers s \<Longrightarrow> c \<in> set s \<Longrightarrow> is_identifier_char c \<or> c = CHR ''.''"
proof (induction s rule: valid_identifiers.induct)
  case (1 s)
  from 1(2) have s: "s \<noteq> []" and part: "before CHR ''.'' s \<noteq> []"
    and ident: "list_all is_identifier_char (before CHR ''.'' s)"
    and rest: "CHR ''.'' \<in> set s \<Longrightarrow> valid_identifiers (after CHR ''.'' s)"
    by (auto simp: valid_identifiers.simps [of s] Let_def split: if_splits)
  show ?case
  proof (cases "CHR ''.'' \<in> set s")
    case True
    have "set s = set (before CHR ''.'' s @ CHR ''.'' # after CHR ''.'' s)"
      by (simp only: before_after [OF True])
    with 1 s part ident True rest show ?thesis by (auto simp: list_all_iff)
  next
    case False
    with ident 1(3) show ?thesis by (simp add: list_all_iff)
  qed
qed

lemma valid_identifiers_not_in:
  "valid_identifiers s \<Longrightarrow> CHR ''+'' \<notin> set s" "valid_identifiers s \<Longrightarrow> CHR '','' \<notin> set s"
  using valid_identifiers_chars by fastforce+

lemma valid_identifiers_not_Nil [simp]: "\<not> valid_identifiers []"
  by (simp add: valid_identifiers.simps)

lemma sv_parse_core:
  fixes ma mi pa :: u32
  assumes "pre = [] \<or> valid_identifiers pre" and "build = [] \<or> valid_identifiers build"
  shows "sv_parse (string_of_nat (unat ma) @ ''.'' @ string_of_nat (unat mi) @ ''.'' @ string_of_nat (unat pa) @
      (if pre = [] then [] else ''-'' @ pre) @ (if build = [] then [] else ''+'' @ build)) =
    Some \<lparr>sv_major = ma, sv_minor = mi, sv_patch = pa, sv_prerelease = pre, sv_build = build\<rparr>"
proof -
  define core where "core = string_of_nat (unat ma) @ ''.'' @ string_of_nat (unat mi) @ ''.'' @ string_of_nat (unat pa)"
  define body where "body = core @ (if pre = [] then [] else ''-'' @ pre)"
  define whole where "whole = body @ (if build = [] then [] else ''+'' @ build)"
  have core: "CHR ''+'' \<notin> set core" "CHR ''-'' \<notin> set core"
    by (auto simp: core_def string_of_nat_not_in)
  have body: "CHR ''+'' \<notin> set body"
    using core assms(1) by (auto simp: body_def dest: valid_identifiers_not_in)
  have 1: "(if CHR ''+'' \<in> set whole then after CHR ''+'' whole else []) = build"
    "(if CHR ''+'' \<in> set whole then before CHR ''+'' whole else whole) = body"
    "(CHR ''+'' \<in> set whole \<and> \<not> valid_identifiers build) = False"
    using body assms(2) by (auto simp: whole_def)
  have 2: "(if CHR ''-'' \<in> set body then after CHR ''-'' body else []) = pre"
    "(if CHR ''-'' \<in> set body then before CHR ''-'' body else body) = core"
    "(CHR ''-'' \<in> set body \<and> \<not> valid_identifiers pre) = False"
    using core assms(1) by (auto simp: body_def)
  have 3: "(whole = []) = False" by (simp add: whole_def body_def core_def)
  have 4: "CHR ''.'' \<in> set core" "before CHR ''.'' core = string_of_nat (unat ma)"
    "after CHR ''.'' core = string_of_nat (unat mi) @ ''.'' @ string_of_nat (unat pa)"
    by (simp_all add: core_def string_of_nat_not_in)
  have "sv_parse whole = Some \<lparr>sv_major = ma, sv_minor = mi, sv_patch = pa, sv_prerelease = pre, sv_build = build\<rparr>"
    unfolding sv_parse_def Let_def 3 if_False 1 2
    by (simp add: 4 string_of_nat_not_in)
  then show ?thesis by (simp add: whole_def body_def core_def)
qed

lemma sv_parse_to_string_full: "sv_wf v \<Longrightarrow> sv_parse (sv_to_string_full v) = Some v"
  using sv_parse_core [of "sv_prerelease v" "sv_build v" "sv_major v" "sv_minor v" "sv_patch v"]
  by (auto simp: sv_wf_def sv_to_string_full_def sv_to_string_def)

lemma sv_parse_to_string: "sv_wf v \<Longrightarrow> sv_parse (sv_to_string v) = Some (v\<lparr>sv_build := []\<rparr>)"
  using sv_parse_core [of "sv_prerelease v" "[]" "sv_major v" "sv_minor v" "sv_patch v"]
  by (auto simp: sv_wf_def sv_to_string_def)

lemma sv_parse_wf: "sv_parse text = Some v \<Longrightarrow> sv_wf v"
  by (auto simp: sv_parse_def sv_wf_def Let_def split: if_splits option.splits)

subsection \<open>Precedence is the order of a key\<close>

text \<open>
  A prerelease is the list of the keys of its identifiers, closed by the key of the empty
  identifier (which is what the comparison sees on the side that has run out of identifiers).
\<close>

type_synonym identifier_key = "nat \<times> u32 \<times> string"

definition identifier_key :: "string \<Rightarrow> identifier_key" where
  "identifier_key s =
     (if is_numeric_identifier s then (0, identifier_value s, []) else (1, 0, s))"

function prerelease_keys :: "string \<Rightarrow> identifier_key list" where
  "prerelease_keys s =
     (if s = [] then [identifier_key []]
      else identifier_key (before CHR ''.'' s) # prerelease_keys (after CHR ''.'' s))"
  by pat_completeness auto
termination by (relation "measure length") (auto simp: length_after)

declare prerelease_keys.simps [simp del]

definition sv_key :: "semantic_version \<Rightarrow> u32 \<times> u32 \<times> u32 \<times> nat \<times> identifier_key list" where
  "sv_key v = (sv_major v, sv_minor v, sv_patch v, if sv_prerelease v = [] then 1 else 0,
     prerelease_keys (sv_prerelease v))"

definition key_ordering :: "'a :: linorder \<Rightarrow> 'a \<Rightarrow> ordering" where
  "key_ordering x y = (if x < y then O_less else if x = y then O_equal else O_greater)"

lemma key_ordering_Cons:
  "key_ordering (x # xs) (y # ys) = (if x = y then key_ordering xs ys else key_ordering x y)"
  by (auto simp: key_ordering_def)

lemma valid_identifiers_step:
  assumes "s = [] \<or> valid_identifiers s"
  shows "after CHR ''.'' s = [] \<or> valid_identifiers (after CHR ''.'' s)" "s \<noteq> [] \<Longrightarrow> before CHR ''.'' s \<noteq> []"
proof -
  have "after CHR ''.'' s = []" if "CHR ''.'' \<notin> set s"
    using that unfolding after_def by (induction s) auto
  with assms show "after CHR ''.'' s = [] \<or> valid_identifiers (after CHR ''.'' s)"
    by (auto simp: valid_identifiers.simps [of s] Let_def after_def split: if_splits)
  from assms show "s \<noteq> [] \<Longrightarrow> before CHR ''.'' s \<noteq> []"
    by (auto simp: valid_identifiers.simps [of s] Let_def split: if_splits)
qed

lemma identifier_key_compare:
  "(if is_numeric_identifier a \<and> is_numeric_identifier b \<and> identifier_value a \<noteq> identifier_value b
    then (if identifier_value a < identifier_value b then O_less else O_greater)
    else if is_numeric_identifier a \<noteq> is_numeric_identifier b
    then (if is_numeric_identifier a then O_less else O_greater)
    else if \<not> is_numeric_identifier a \<and> \<not> is_numeric_identifier b \<and> a \<noteq> b
    then (if a < b then O_less else O_greater) else r) =
   (if identifier_key a = identifier_key b then r else key_ordering (identifier_key a) (identifier_key b))"
  by (auto simp: identifier_key_def key_ordering_def)

lemma compare_identifiers_key:
  assumes "a = [] \<or> valid_identifiers a" "b = [] \<or> valid_identifiers b"
  shows "compare_identifiers a b = key_ordering (prerelease_keys a) (prerelease_keys b)"
  using assms
proof (induction "length a + length b" arbitrary: a b rule: less_induct)
  case less
  show ?case
  proof (cases "a = [] \<and> b = []")
    case True
    then show ?thesis by (simp add: compare_identifiers.simps key_ordering_def)
  next
    case False
    let ?ka = "identifier_key (before CHR ''.'' a)" and ?kb = "identifier_key (before CHR ''.'' b)"
    have step: "compare_identifiers a b = (if ?ka = ?kb
        then compare_identifiers (after CHR ''.'' a) (after CHR ''.'' b) else key_ordering ?ka ?kb)"
      unfolding identifier_key_compare [symmetric]
      using False by (subst compare_identifiers.simps) (simp only: Let_def if_False)
    have empty: "identifier_key [] = (1, 0, [])" by (simp add: identifier_key_def is_numeric_identifier_def)
    show ?thesis
    proof (cases "a = [] \<or> b = []")
      case True
      then have "?ka \<noteq> ?kb"
        using False less.prems valid_identifiers_step(2) [of a] valid_identifiers_step(2) [of b]
        by (auto simp: identifier_key_def before_def is_numeric_identifier_def [of "[]"] split: if_splits)
      with True show ?thesis
        unfolding step
        by (auto simp: prerelease_keys.simps [of a] prerelease_keys.simps [of b] before_def
            key_ordering_Cons key_ordering_def)
    next
      case ne: False
      have "compare_identifiers (after CHR ''.'' a) (after CHR ''.'' b) =
          key_ordering (prerelease_keys (after CHR ''.'' a)) (prerelease_keys (after CHR ''.'' b))"
        using ne by (intro less.hyps length_after_pair valid_identifiers_step less.prems) simp
      with ne show ?thesis
        by (simp add: step prerelease_keys.simps [of a] prerelease_keys.simps [of b] key_ordering_Cons)
    qed
  qed
qed

lemma sv_compare_key:
  assumes "sv_wf a" "sv_wf b"
  shows "sv_compare a b = key_ordering (sv_key a) (sv_key b)"
proof -
  have "compare_identifiers (sv_prerelease a) (sv_prerelease b) =
      key_ordering (prerelease_keys (sv_prerelease a)) (prerelease_keys (sv_prerelease b))"
    using assms by (intro compare_identifiers_key) (auto simp: sv_wf_def)
  then show ?thesis
    by (auto simp: sv_compare_def compare_prerelease_def sv_key_def key_ordering_def)
qed

lemma key_ordering_laws:
  "key_ordering x y = O_less \<longleftrightarrow> x < y" "key_ordering x y = O_greater \<longleftrightarrow> y < x"
  "key_ordering x y = O_equal \<longleftrightarrow> x = y"
  by (auto simp: key_ordering_def)

subsection \<open>Ranges\<close>

definition range_wf :: "version_range \<Rightarrow> bool" where
  "range_wf r \<longleftrightarrow> list_all (\<lambda>c. sv_wf (vc_version c)) r"

text \<open>What printing keeps of a clause: the version without its build metadata, and no version at
  all of an \<^const>\<open>VO_Any\<close> clause.\<close>

definition clause_canon :: "version_clause \<Rightarrow> version_clause" where
  "clause_canon c =
     (if vc_op c = VO_Any then \<lparr>vc_op = VO_Any, vc_version = sv_make 0 0 0\<rparr>
      else c\<lparr>vc_version := (vc_version c)\<lparr>sv_build := []\<rparr>\<rparr>)"

lemma not_space [simp]: "is_digit c \<Longrightarrow> \<not> is_space c" "is_identifier_char c \<Longrightarrow> \<not> is_space c"
  "\<not> is_space CHR ''.''" "\<not> is_space CHR ''-''" "is_space CHR '' ''"
  by (auto simp: is_digit_def is_space_def is_identifier_char_def is_alpha_def Let_def)

lemma sv_to_string_chars:
  "sv_wf v \<Longrightarrow> c \<in> set (sv_to_string v) \<Longrightarrow> is_identifier_char c \<or> c = CHR ''.''"
  by (auto simp: sv_to_string_def sv_wf_def is_identifier_char_def
      dest: string_of_nat_digits valid_identifiers_chars split: if_splits)

lemma sv_to_string_hd: "\<exists>d rest. sv_to_string v = d # rest \<and> is_digit d"
proof -
  obtain d rest where d: "string_of_nat (unat (sv_major v)) = d # rest"
    by (meson neq_Nil_conv string_of_nat_not_Nil)
  then have "is_digit d" using string_of_nat_digits [of d "unat (sv_major v)"] by simp
  with d show ?thesis by (simp add: sv_to_string_def)
qed

lemma range_clause_to_string:
  assumes "sv_wf (vc_version c)"
  shows "range_clause (clause_to_string c) = Some (clause_canon c)"
proof -
  obtain d rest where d: "sv_to_string (vc_version c) = d # rest" "is_digit d"
    using sv_to_string_hd by blast
  then have ne: "d \<noteq> CHR ''=''" by auto
  show ?thesis
    using sv_parse_to_string [OF assms] d ne
    by (cases "vc_op c")
       (auto simp: clause_to_string_def range_clause_def range_operator_def clause_canon_def numeral_2_eq_2)
qed

lemma operator_text_chars: "x \<in> set (operator_text op) \<Longrightarrow> \<not> is_space x \<and> x \<noteq> CHR '',''"
  by (cases op) (auto simp: is_space_def Let_def)

lemma clause_to_string_chars:
  "sv_wf (vc_version c) \<Longrightarrow> x \<in> set (clause_to_string c) \<Longrightarrow> \<not> is_space x \<and> x \<noteq> CHR '',''"
  using sv_to_string_chars [of "vc_version c" x] operator_text_chars [of x "vc_op c"]
    operator_text_chars [of x VO_Any]
  by (auto simp: clause_to_string_def split: if_splits)

lemma clause_to_string_not_Nil: "clause_to_string c \<noteq> []"
  by (cases "vc_op c") (auto simp: clause_to_string_def)

lemma range_loop_token:
  assumes "sv_wf (vc_version c)" "rest = [] \<or> is_space (hd rest)"
  shows "range_loop (clause_to_string c @ rest) acc = range_loop rest (acc @ [clause_canon c])"
proof -
  let ?t = "clause_to_string c"
  have ns: "\<forall>x \<in> set ?t. \<not> is_space x" using clause_to_string_chars [OF assms(1)] by blast
  then have 1: "dropWhile is_space (?t @ rest) = ?t @ rest"
    using clause_to_string_not_Nil [of c] by (cases ?t) auto
  have 2: "takeWhile (\<lambda>c. \<not> is_space c) (?t @ rest) = ?t"
    "dropWhile (\<lambda>c. \<not> is_space c) (?t @ rest) = rest"
    using ns assms(2) by (cases rest; simp add: takeWhile_append2 dropWhile_append2)+
  show ?thesis
    by (subst range_loop.simps)
       (simp add: Let_def 1 2 clause_to_string_not_Nil range_clause_to_string [OF assms(1)])
qed

lemma range_loop_space: "range_loop (CHR '' '' # s) acc = range_loop s acc"
  by (subst range_loop.simps, subst (2) range_loop.simps) simp

lemma range_loop_join:
  "range_wf r \<Longrightarrow> range_loop (join_clauses r) acc = Inr (acc @ map clause_canon r)"
proof (induction r arbitrary: acc rule: join_clauses.induct)
  case 1
  then show ?case by (subst range_loop.simps) simp
next
  case (2 c)
  then have "range_loop (clause_to_string c @ []) acc = range_loop [] (acc @ [clause_canon c])"
    by (intro range_loop_token) (auto simp: range_wf_def)
  then show ?case by (simp add: range_loop.simps [of "[]"])
next
  case (3 c d cs)
  have "range_loop (join_clauses (c # d # cs)) acc =
      range_loop (CHR '' '' # join_clauses (d # cs)) (acc @ [clause_canon c])"
    using 3 by (simp add: range_wf_def range_loop_token)
  with 3 show ?case by (simp add: range_loop_space range_wf_def)
qed

lemma join_clauses_no_comma: "range_wf r \<Longrightarrow> CHR '','' \<notin> set (join_clauses r)"
  by (induction r rule: join_clauses.induct) (auto simp: range_wf_def dest: clause_to_string_chars)

lemma range_parse_to_string:
  assumes "range_wf r" "r \<noteq> []"
  shows "range_parse (range_to_string r) = Inr (map clause_canon r)"
proof -
  have "map (\<lambda>c. if c = CHR '','' then CHR '' '' else c) (join_clauses r) = join_clauses r"
    using join_clauses_no_comma [OF assms(1)] by (intro map_idI) auto
  with assms range_loop_join [of r "[]"] show ?thesis
    by (simp add: range_parse_def range_to_string_def)
qed

lemma clause_canon_matches: "clause_matches (vc_op (clause_canon c)) v (vc_version (clause_canon c)) =
    clause_matches (vc_op c) v (vc_version c)"
  by (cases "vc_op c") (auto simp: clause_canon_def sv_compare_def)

text \<open>What \<^verbatim>\<open>"*"\<close> parses to.\<close>

definition any_clause :: version_clause where
  "any_clause = \<lparr>vc_op = VO_Any, vc_version = sv_make 0 0 0\<rparr>"

lemma range_parse_star: "range_parse ''*'' = Inr [any_clause]"
  by code_simp

end
