(* ===== verification/Taxonomy.thy ===== *)
theory Taxonomy
  imports Versions Hash
begin

section \<open>Taxonomy tokens and the capability vocabulary\<close>

text \<open>
  \<^verbatim>\<open>model/taxonomy.cpp\<close> (canonical tokens, slugs, derived identities) and
  \<^verbatim>\<open>model/capability_key.cpp\<close> (the process-wide registry of capability names).
\<close>

subsection \<open>Tokens\<close>

definition is_token_char :: "char \<Rightarrow> bool" where
  "is_token_char c \<longleftrightarrow>
     (let v = of_char c :: nat in (97 \<le> v \<and> v \<le> 122) \<or> (48 \<le> v \<and> v \<le> 57) \<or>
        c = CHR ''.'' \<or> c = CHR ''_'' \<or> c = CHR ''+'' \<or> c = CHR ''-'')"

definition to_lower :: "char \<Rightarrow> char" where
  "to_lower c = (let v = of_char c :: nat in if 65 \<le> v \<and> v \<le> 90 then char_of (v + 32) else c)"

definition canonical_token :: "string \<Rightarrow> nat \<Rightarrow> string result" where
  "canonical_token token max_bytes =
     (let body = trim token in
      if body = [] then Inl EC_InvalidArgument
      else let out = map to_lower body in
        if \<not> list_all is_token_char out then Inl EC_InvalidArgument
        else if length out > max_bytes then Inl EC_BoundsExceeded
        else Inr out)"

definition slug_step :: "bool \<times> string \<Rightarrow> char \<Rightarrow> bool \<times> string" where
  "slug_step = (\<lambda>(pending, out) raw.
     let lowered = to_lower raw in
     if is_token_char lowered
     then (False, out @ (if pending \<and> out \<noteq> [] then ''-'' else []) @ [lowered])
     else (True, out))"

definition slug_token :: "string \<Rightarrow> nat \<Rightarrow> string result" where
  "slug_token s max_bytes =
     (let out = snd (foldl slug_step (False, []) s) in
      if out = [] then Inl EC_InvalidArgument
      else if length out > max_bytes
      then let cut = rev (dropWhile (\<lambda>c. c = CHR ''-'') (rev (take max_bytes out))) in
        if cut = [] then Inl EC_BoundsExceeded else Inr cut
      else Inr out)"

definition derive_identity :: "string \<Rightarrow> string \<Rightarrow> id128" where
  "derive_identity domain token =
     (let low = fnv_update_text (fnv_update_text (fnv_update_text fnv_offset domain) [char_of (0x1f :: nat)]) token;
          high = fnv_update_text (fnv_update_text (fnv_update_text (fnv_update_text fnv_offset
                   ''haf.identity.v1'') token) domain) [char_of (0x1e :: nat)];
          bs = le_bytes 8 low @ le_bytes 8 high
      in id_from_bytes (if low = 0 \<and> high = 0 then bs[0 := 1] else bs))"

definition vendor_id_from_token :: "string \<Rightarrow> vendor_id" where
  "vendor_id_from_token t = derive_identity ''haf.vendor'' t"

definition architecture_id_from_token :: "string \<Rightarrow> architecture_id" where
  "architecture_id_from_token t = derive_identity ''haf.architecture'' t"

definition node_id_from_token :: "string \<Rightarrow> node_id" where
  "node_id_from_token t = derive_identity ''haf.node'' t"

definition workload_class_id_from_token :: "string \<Rightarrow> workload_class_id" where
  "workload_class_id_from_token t = derive_identity ''haf.workload-class'' t"

subsection \<open>Facts about tokens\<close>

lemma trim_id: "s = [] \<or> \<not> is_space (hd s) \<and> \<not> is_space (last s) \<Longrightarrow> trim s = s"
proof (cases "s = []")
  case False
  assume s: "s = [] \<or> \<not> is_space (hd s) \<and> \<not> is_space (last s)"
  with False have "dropWhile is_space s = s" by (cases s) auto
  moreover have "dropWhile is_space (rev s) = rev s"
    using s False by (cases s rule: rev_cases) auto
  ultimately show ?thesis by (simp add: trim_def)
qed (simp add: trim_def)

lemma token_char_facts:
  "is_token_char c \<Longrightarrow> \<not> is_space c" "is_token_char c \<Longrightarrow> to_lower c = c"
  by (auto simp: is_token_char_def is_space_def to_lower_def Let_def)

definition is_canonical :: "nat \<Rightarrow> string \<Rightarrow> bool" where
  "is_canonical n s \<longleftrightarrow> s \<noteq> [] \<and> list_all is_token_char s \<and> length s \<le> n"

lemma canonical_token_id: "is_canonical n s \<Longrightarrow> canonical_token s n = Inr s"
proof -
  assume c: "is_canonical n s"
  then have "trim s = s"
    by (intro trim_id) (auto simp: is_canonical_def list_all_iff token_char_facts(1))
  moreover have "map to_lower s = s"
    using c by (intro map_idI) (auto simp: is_canonical_def list_all_iff token_char_facts(2))
  ultimately show ?thesis using c by (simp add: canonical_token_def is_canonical_def)
qed

lemma canonical_token_result: "canonical_token s n = Inr t \<Longrightarrow> is_canonical n t"
  by (auto simp: canonical_token_def is_canonical_def Let_def split: if_splits)

lemma canonical_token_idem: "canonical_token s n = Inr t \<Longrightarrow> canonical_token t n = Inr t"
  by (rule canonical_token_id) (rule canonical_token_result)

lemma derive_identity_not_nil: "\<not> is_nil (derive_identity d t)"
proof -
  have "\<not> is_nil (id_from_bytes (if l = 0 \<and> h = 0 then (le_bytes 8 l @ le_bytes 8 h)[0 := 1] else le_bytes 8 l @ le_bytes 8 h))"
    for l h :: u64
  proof (cases "l = 0 \<and> h = 0")
    case True
    have "((le_bytes 8 l @ le_bytes 8 h)[0 := 1]) ! 0 = 1" by simp
    then have "\<exists>i < length ((le_bytes 8 l @ le_bytes 8 h)[0 := 1]). ((le_bytes 8 l @ le_bytes 8 h)[0 := 1]) ! i \<noteq> 0"
      by (intro exI [of _ 0]) simp
    with True show ?thesis
      by (simp add: is_nil_def id_bytes_id_from_bytes list_all_length del: nth_list_update)
  next
    case False
    have "l = 0 \<and> h = 0" if "list_all (\<lambda>b. b = 0) (le_bytes 8 l @ le_bytes 8 h)"
    proof -
      from that have "le_bytes 8 l = replicate 8 0" "le_bytes 8 h = replicate 8 0"
        by (auto intro!: replicate_eqI simp: list_all_iff)
      moreover have "le_bytes 8 (0 :: u64) = replicate 8 0"
        by (simp add: le_bytes_def map_replicate_const)
      ultimately have "le_word (le_bytes 8 l) = (le_word (le_bytes 8 (0 :: u64)) :: u64)"
        "le_word (le_bytes 8 h) = (le_word (le_bytes 8 (0 :: u64)) :: u64)" by simp_all
      then show ?thesis by (simp add: le_word_le_bytes)
    qed
    with False show ?thesis by (auto simp: is_nil_def id_bytes_id_from_bytes)
  qed
  then show ?thesis unfolding derive_identity_def Let_def by blast
qed

subsection \<open>The capability vocabulary\<close>

datatype capability_kind = CK_Presence | CK_Version | CK_Integer | CK_Scalar | CK_Enumeration | CK_TokenSet

fun kind_value :: "capability_kind \<Rightarrow> byte" where
  "kind_value CK_Presence = 0"
| "kind_value CK_Version = 1"
| "kind_value CK_Integer = 2"
| "kind_value CK_Scalar = 3"
| "kind_value CK_Enumeration = 4"
| "kind_value CK_TokenSet = 5"

definition capability_kind_from_wire :: "byte \<Rightarrow> capability_kind option" where
  "capability_kind_from_wire raw =
     (if raw = 0 then Some CK_Presence else if raw = 1 then Some CK_Version
      else if raw = 2 then Some CK_Integer else if raw = 3 then Some CK_Scalar
      else if raw = 4 then Some CK_Enumeration else if raw = 5 then Some CK_TokenSet else None)"

fun kind_to_string :: "capability_kind \<Rightarrow> string" where
  "kind_to_string CK_Presence = ''presence''"
| "kind_to_string CK_Version = ''version''"
| "kind_to_string CK_Integer = ''integer''"
| "kind_to_string CK_Scalar = ''scalar''"
| "kind_to_string CK_Enumeration = ''enumeration''"
| "kind_to_string CK_TokenSet = ''token_set''"

definition core_keys :: "(string \<times> capability_kind) list" where
  "core_keys = [
    (''api.family'', CK_TokenSet),
    (''architecture.device_generation'', CK_Integer),
    (''architecture.family'', CK_Enumeration),
    (''comm.collectives'', CK_TokenSet),
    (''comm.direct_peer_memory'', CK_Presence),
    (''comm.host_staging_required'', CK_Presence),
    (''comm.rdma'', CK_Presence),
    (''compute.capability'', CK_Version),
    (''driver.version'', CK_Version),
    (''evidence.provenance'', CK_Enumeration),
    (''execution.features'', CK_TokenSet),
    (''health.error_state'', CK_Enumeration),
    (''health.readiness'', CK_Enumeration),
    (''health.thermal_state'', CK_Enumeration),
    (''interconnect.links'', CK_TokenSet),
    (''isa.code_object_targets'', CK_TokenSet),
    (''kernel.cooperative_launch'', CK_Presence),
    (''kernel.dynamic_parallelism'', CK_Presence),
    (''kernel.max_shared_memory_per_block_bytes'', CK_Integer),
    (''kernel.max_threads_per_block'', CK_Integer),
    (''memory.address_bits'', CK_Integer),
    (''memory.allocation_alignment_bytes'', CK_Integer),
    (''memory.classes'', CK_TokenSet),
    (''memory.ecc_enabled'', CK_Presence),
    (''memory.free_bytes'', CK_Integer),
    (''memory.host_pinned_transfer'', CK_Presence),
    (''memory.managed_allocation'', CK_Presence),
    (''memory.page_granularity_bytes'', CK_Integer),
    (''memory.total_bytes'', CK_Integer),
    (''memory.unified_addressing'', CK_Presence),
    (''memory.virtual_management'', CK_Presence),
    (''migration.checkpoint_restore'', CK_Presence),
    (''migration.cross_vendor_state'', CK_Presence),
    (''migration.live_state_transfer'', CK_Presence),
    (''migration.state_export'', CK_Presence),
    (''migration.state_reconstruction'', CK_Presence),
    (''numeric.bf16'', CK_Presence),
    (''numeric.denormals_preserved'', CK_Presence),
    (''numeric.formats'', CK_TokenSet),
    (''numeric.fma_contraction'', CK_Presence),
    (''numeric.fp16'', CK_Presence),
    (''numeric.fp32'', CK_Presence),
    (''numeric.fp4_e2m1'', CK_Presence),
    (''numeric.fp64'', CK_Presence),
    (''numeric.fp6_e2m3'', CK_Presence),
    (''numeric.fp8_e4m3'', CK_Presence),
    (''numeric.fp8_e5m2'', CK_Presence),
    (''numeric.int8'', CK_Presence),
    (''numeric.tf32'', CK_Presence),
    (''partition.mode'', CK_Enumeration),
    (''partition.observed_profiles'', CK_TokenSet),
    (''peer.access'', CK_TokenSet),
    (''peer.unified_access'', CK_Presence),
    (''portability.recompile_available'', CK_Presence),
    (''portability.repackage_available'', CK_Presence),
    (''queue.concurrent_streams'', CK_Integer),
    (''runtime.family'', CK_Enumeration),
    (''runtime.version'', CK_Version),
    (''support.level'', CK_Enumeration),
    (''sync.events'', CK_Presence),
    (''sync.graph_capture'', CK_Presence),
    (''sync.stream_semantics'', CK_Enumeration),
    (''tensor.block_scaled_mma'', CK_Presence),
    (''tensor.matrix_engine'', CK_Presence),
    (''tensor.structured_sparsity'', CK_Presence),
    (''tensor.warp_group_mma'', CK_Presence),
    (''vendor.id'', CK_Enumeration),
    (''vendor.product'', CK_Enumeration)]"

definition is_extension_name :: "string \<Rightarrow> bool" where
  "is_extension_name name \<longleftrightarrow>
     length name \<ge> 5 \<and> name ! 0 = CHR ''x'' \<and> name ! 1 = CHR ''.'' \<and>
     CHR ''.'' \<in> set (drop 2 name) \<and> after CHR ''.'' (drop 2 name) \<noteq> []"

text \<open>The registry: names and kinds by index, and the hash index from names. Handles are indices.\<close>

record registry =
  rg_names :: "string list"
  rg_kinds :: "capability_kind list"
  rg_index :: "string \<rightharpoonup> nat"

definition registry_init :: registry where
  "registry_init =
     (let sorted = sort_by (\<lambda>a b. fst a < fst b) core_keys in
      \<lparr>rg_names = map fst sorted, rg_kinds = map snd sorted,
       rg_index = map_of (zip (map fst sorted) [0..<length sorted])\<rparr>)"

definition handle_name :: "registry \<Rightarrow> nat \<Rightarrow> string" where
  "handle_name reg i = (if i \<ge> length (rg_names reg) then [] else rg_names reg ! i)"

definition handle_kind :: "registry \<Rightarrow> nat \<Rightarrow> capability_kind" where
  "handle_kind reg i = (if i \<ge> length (rg_kinds reg) then CK_Presence else rg_kinds reg ! i)"

definition find_core_capability_key :: "registry \<Rightarrow> string \<Rightarrow> nat option" where
  "find_core_capability_key reg name =
     (case rg_index reg name of None \<Rightarrow> None
      | Some i \<Rightarrow> if i \<ge> length core_keys then None else Some i)"

definition capability_key_from_name :: "registry \<Rightarrow> string \<Rightarrow> nat result \<times> registry" where
  "capability_key_from_name reg name =
     (case rg_index reg name of
        Some i \<Rightarrow> (Inr i, reg)
      | None \<Rightarrow>
          if \<not> is_extension_name name then (Inl EC_UnknownCapability, reg)
          else case canonical_token name 256 of
            Inl e \<Rightarrow> (Inl e, reg)
          | Inr canonical \<Rightarrow>
              if \<not> is_extension_name canonical then (Inl EC_UnknownCapability, reg)
              else case rg_index reg canonical of
                Some i \<Rightarrow> (Inr i, reg)
              | None \<Rightarrow>
                  if length (rg_names reg) \<ge> 4096 then (Inl EC_ResourceExhausted, reg)
                  else let index = length (rg_names reg) in
                    (Inr index,
                     \<lparr>rg_names = rg_names reg @ [canonical], rg_kinds = rg_kinds reg @ [CK_TokenSet],
                      rg_index = (rg_index reg)(canonical \<mapsto> index)\<rparr>))"

text \<open>
  The portable view of the vocabulary, which every other component uses: a key is its canonical
  name, and its kind is a function of the name.
\<close>

definition key_kind :: "string \<Rightarrow> capability_kind" where
  "key_kind name = (case map_of core_keys name of Some k \<Rightarrow> k | None \<Rightarrow> CK_TokenSet)"

definition key_resolve :: "string \<Rightarrow> string result" where
  "key_resolve name =
     (if name \<in> fst ` set core_keys then Inr name
      else if \<not> is_extension_name name then Inl EC_UnknownCapability
      else case canonical_token name 256 of
        Inl e \<Rightarrow> Inl e
      | Inr canonical \<Rightarrow> if is_extension_name canonical then Inr canonical else Inl EC_UnknownCapability)"

definition name_space :: "string \<Rightarrow> string" where
  "name_space name = before CHR ''.'' name"

text \<open>The registry invariant: the index is exactly the inverse of the name table, the core names
  come first, and everything interned later is a canonical extension name of kind token set.\<close>

definition registry_inv :: "registry \<Rightarrow> bool" where
  "registry_inv reg \<longleftrightarrow>
     distinct (rg_names reg) \<and> length (rg_kinds reg) = length (rg_names reg) \<and>
     rg_index reg = map_of (zip (rg_names reg) [0..<length (rg_names reg)]) \<and>
     fst ` set core_keys \<subseteq> set (rg_names reg) \<and>
     (\<forall>i < length (rg_names reg). rg_kinds reg ! i = key_kind (rg_names reg ! i) \<and>
        key_resolve (rg_names reg ! i) = Inr (rg_names reg ! i))"

lemma distinct_core_keys: "distinct (map fst core_keys)"
  by code_simp

lemma key_kind_not_scalar: "key_kind name \<noteq> CK_Scalar"
proof -
  have "list_all (\<lambda>p. snd p \<noteq> CK_Scalar) core_keys" by code_simp
  then show ?thesis
    by (auto simp: key_kind_def list_all_iff dest!: map_of_SomeD split: option.splits)
qed

lemma map_of_zip_upt:
  assumes "distinct xs"
  shows "map_of (zip xs [0..<length xs]) x = Some i \<longleftrightarrow> i < length xs \<and> xs ! i = x"
proof -
  have "distinct (map fst (zip xs [0..<length xs]))" using assms by simp
  then have "map_of (zip xs [0..<length xs]) x = Some i \<longleftrightarrow> (x, i) \<in> set (zip xs [0..<length xs])"
    by (rule map_of_eq_Some_iff)
  also have "\<dots> \<longleftrightarrow> i < length xs \<and> xs ! i = x" by (auto simp: in_set_zip)
  finally show ?thesis .
qed

lemma registry_index:
  "registry_inv reg \<Longrightarrow> rg_index reg name = Some i \<longleftrightarrow> i < length (rg_names reg) \<and> rg_names reg ! i = name"
  using map_of_zip_upt [of "rg_names reg" name i] by (simp only: registry_inv_def)

lemma registry_index_None:
  assumes "registry_inv reg"
  shows "rg_index reg name = None \<longleftrightarrow> name \<notin> set (rg_names reg)"
proof (cases "rg_index reg name")
  case None
  then have "\<not> (i < length (rg_names reg) \<and> rg_names reg ! i = name)" for i
    using registry_index [OF assms, of name i] by simp
  with None show ?thesis by (auto simp: in_set_conv_nth)
next
  case (Some i)
  then have "i < length (rg_names reg) \<and> rg_names reg ! i = name"
    by (simp only: registry_index [OF assms])
  with Some show ?thesis by auto
qed

lemma registry_init_inv: "registry_inv registry_init"
proof -
  define sorted where "sorted = sort_by (\<lambda>a b. fst a < fst b) core_keys"
  have "mset (map fst sorted) = mset (map fst core_keys)" by (simp add: sorted_def)
  then have d: "distinct (map fst sorted)"
    using distinct_core_keys mset_eq_imp_distinct_iff by blast
  have kind: "key_kind (fst p) = snd p" if "p \<in> set sorted" for p
    using that map_of_is_SomeI [OF distinct_core_keys, of "fst p" "snd p"]
    by (simp add: sorted_def key_kind_def)
  have "key_resolve (fst p) = Inr (fst p)" if "p \<in> set sorted" for p
    using that by (auto simp: sorted_def key_resolve_def)
  with d kind show ?thesis
    by (auto simp: registry_inv_def registry_init_def Let_def sorted_def [symmetric])
       (force simp: sorted_def)
qed

lemma extension_not_core: "is_extension_name name \<Longrightarrow> name \<notin> fst ` set core_keys"
proof -
  have "list_all (\<lambda>p. \<not> is_extension_name (fst p)) core_keys" by code_simp
  then show "is_extension_name name \<Longrightarrow> name \<notin> fst ` set core_keys" by (auto simp: list_all_iff)
qed

lemma key_resolve_error: "key_resolve n \<noteq> Inl EC_Ok"
  by (auto simp: key_resolve_def canonical_token_def Let_def split: sum.splits if_splits)

lemma core_keys_length: "list_all (\<lambda>k. length (fst k) \<le> 256) core_keys"
  by code_simp

lemma key_resolve_length: "key_resolve n = Inr c \<Longrightarrow> length c \<le> 256"
  using core_keys_length
  by (auto simp: key_resolve_def list_all_iff is_canonical_def dest: canonical_token_result
      split: if_splits sum.splits)

lemma key_resolve_idem: "key_resolve name = Inr c \<Longrightarrow> key_resolve c = Inr c"
proof (cases "name \<in> fst ` set core_keys")
  case False
  assume "key_resolve name = Inr c"
  with False have "canonical_token name 256 = Inr c" "is_extension_name c"
    by (auto simp: key_resolve_def split: if_splits sum.splits)
  then show ?thesis using extension_not_core [of c] by (simp add: key_resolve_def canonical_token_idem)
qed (simp add: key_resolve_def)

lemma key_kind_extension: "is_extension_name c \<Longrightarrow> key_kind c = CK_TokenSet"
  using extension_not_core [of c] map_of_eq_None_iff [of core_keys c] by (simp add: key_kind_def)

lemma registry_found:
  assumes "registry_inv reg" "rg_index reg c = Some i"
  shows "i < length (rg_names reg)" "handle_name reg i = c" "handle_kind reg i = key_kind c"
  using assms registry_index [OF assms(1), of c i]
  by (auto simp: handle_name_def handle_kind_def registry_inv_def)

definition registry_intern :: "registry \<Rightarrow> string \<Rightarrow> registry" where
  "registry_intern reg c = \<lparr>rg_names = rg_names reg @ [c], rg_kinds = rg_kinds reg @ [CK_TokenSet],
     rg_index = (rg_index reg)(c \<mapsto> length (rg_names reg))\<rparr>"

lemma registry_intern_inv:
  assumes inv: "registry_inv reg" and c: "rg_index reg c = None" "is_extension_name c" "key_resolve c = Inr c"
  shows "registry_inv (registry_intern reg c)"
proof -
  have new: "c \<notin> set (rg_names reg)" using inv c(1) by (simp only: registry_index_None not_False_eq_True)
  then have "(rg_index reg)(c \<mapsto> length (rg_names reg)) =
      map_of (zip (rg_names reg @ [c]) [0..<length (rg_names reg @ [c])])"
    using inv
    by (auto simp: registry_inv_def map_add_def fun_eq_iff dest: set_zip_leftD split: option.splits)
  with new inv c show ?thesis
    by (auto simp: registry_inv_def registry_intern_def nth_append key_kind_extension less_Suc_eq)
qed

text \<open>Interning keeps the invariant, never changes an existing handle, and agrees with the portable
  resolution of names except when the table is full.\<close>

lemma capability_key_from_name_cases:
  assumes inv: "registry_inv reg"
  obtains (err) e where "key_resolve name = Inl e" "capability_key_from_name reg name = (Inl e, reg)"
    | (found) c i where "key_resolve name = Inr c" "rg_index reg c = Some i"
        "capability_key_from_name reg name = (Inr i, reg)"
    | (full) "capability_key_from_name reg name = (Inl EC_ResourceExhausted, reg)" "length (rg_names reg) \<ge> 4096"
    | (new) c where "key_resolve name = Inr c" "is_extension_name c" "rg_index reg c = None"
        "capability_key_from_name reg name = (Inr (length (rg_names reg)), registry_intern reg c)"
proof (cases "rg_index reg name")
  case (Some i)
  with inv have "key_resolve name = Inr name"
    using registry_index [OF inv, of name i] by (auto simp: registry_inv_def)
  with Some found show thesis by (simp add: capability_key_from_name_def)
next
  case None
  then have "name \<notin> set (rg_names reg)" using registry_index_None [OF inv] by blast
  then have nocore: "name \<notin> fst ` set core_keys" using inv unfolding registry_inv_def by blast
  show thesis
  proof (cases "is_extension_name name")
    case ext: True
    show thesis
    proof (cases "canonical_token name 256")
      case (Inl e)
      with None ext nocore err show thesis by (simp add: capability_key_from_name_def key_resolve_def)
    next
      case (Inr c)
      show thesis
      proof (cases "is_extension_name c")
        case True
        with Inr ext nocore have "key_resolve name = Inr c" by (simp add: key_resolve_def)
        with True Inr None ext found full new show thesis
          by (cases "rg_index reg c"; cases "length (rg_names reg) \<ge> 4096")
             (simp_all add: capability_key_from_name_def registry_intern_def Let_def)
      qed (use Inr None ext nocore err in \<open>simp add: capability_key_from_name_def key_resolve_def\<close>)
    qed
  qed (use None nocore err in \<open>simp add: capability_key_from_name_def key_resolve_def\<close>)
qed

lemma capability_key_from_name_inv:
  assumes inv: "registry_inv reg" and step: "capability_key_from_name reg name = (r, reg')"
  shows "registry_inv reg'" "\<exists>ext. rg_names reg' = rg_names reg @ ext"
    "case r of Inr i \<Rightarrow> i < length (rg_names reg') \<and> key_resolve name = Inr (handle_name reg' i) \<and>
                      handle_kind reg' i = key_kind (handle_name reg' i)
     | Inl e \<Rightarrow> key_resolve name = Inl e \<or> e = EC_ResourceExhausted \<and> length (rg_names reg) \<ge> 4096"
proof -
  have "registry_inv reg' \<and> (\<exists>ext. rg_names reg' = rg_names reg @ ext) \<and>
    (case r of Inr i \<Rightarrow> i < length (rg_names reg') \<and> key_resolve name = Inr (handle_name reg' i) \<and>
                      handle_kind reg' i = key_kind (handle_name reg' i)
     | Inl e \<Rightarrow> key_resolve name = Inl e \<or> e = EC_ResourceExhausted \<and> length (rg_names reg) \<ge> 4096)"
    using inv
  proof (cases rule: capability_key_from_name_cases [where name = name])
    case (new c)
    have "registry_inv (registry_intern reg c)"
      by (rule registry_intern_inv [OF inv new(3,2) key_resolve_idem [OF new(1)]])
    moreover have "length (rg_kinds reg) = length (rg_names reg)" using inv by (simp add: registry_inv_def)
    ultimately show ?thesis
      using new step
      by (auto simp: registry_intern_def handle_name_def handle_kind_def nth_append key_kind_extension)
  next
    case (found c i)
    then show ?thesis using step inv registry_found [OF inv found(2)] by auto
  qed (use step inv in auto)
  then show "registry_inv reg'" "\<exists>ext. rg_names reg' = rg_names reg @ ext"
    "case r of Inr i \<Rightarrow> i < length (rg_names reg') \<and> key_resolve name = Inr (handle_name reg' i) \<and>
                      handle_kind reg' i = key_kind (handle_name reg' i)
     | Inl e \<Rightarrow> key_resolve name = Inl e \<or> e = EC_ResourceExhausted \<and> length (rg_names reg) \<ge> 4096"
    by blast+
qed

end
