(* ===== verification/Capability.thy ===== *)
theory Capability
  imports Taxonomy Floats
begin

section \<open>Capability evidence\<close>

text \<open>
  \<^verbatim>\<open>model/capability.hpp\<close> and \<^verbatim>\<open>model/capability.cpp\<close>: typed capability values, records, and the
  content-addressed capability set with its binary-search lookup. A capability key is its
  canonical name (see the vocabulary in the theory of tokens); the default-constructed, unresolved
  key is the empty name, which is what its \<^verbatim>\<open>name()\<close> returns.
\<close>

datatype capability_state = CS_Unknown | CS_Supported | CS_Unsupported | CS_Degraded

fun state_value :: "capability_state \<Rightarrow> byte" where
  "state_value CS_Unknown = 0"
| "state_value CS_Supported = 1"
| "state_value CS_Unsupported = 2"
| "state_value CS_Degraded = 3"

definition capability_state_from_wire :: "byte \<Rightarrow> capability_state option" where
  "capability_state_from_wire raw =
     (if raw = 0 then Some CS_Unknown else if raw = 1 then Some CS_Supported
      else if raw = 2 then Some CS_Unsupported else if raw = 3 then Some CS_Degraded else None)"

fun state_to_string :: "capability_state \<Rightarrow> string" where
  "state_to_string CS_Unknown = ''UNKNOWN''"
| "state_to_string CS_Supported = ''SUPPORTED''"
| "state_to_string CS_Unsupported = ''UNSUPPORTED''"
| "state_to_string CS_Degraded = ''DEGRADED''"

datatype capability_value =
    CV_Presence bool
  | CV_Version semantic_version
  | CV_Integer int
  | CV_Scalar double
  | CV_Enumeration string
  | CV_TokenSet "string list"

fun cv_kind :: "capability_value \<Rightarrow> capability_kind" where
  "cv_kind (CV_Presence _) = CK_Presence"
| "cv_kind (CV_Version _) = CK_Version"
| "cv_kind (CV_Integer _) = CK_Integer"
| "cv_kind (CV_Scalar _) = CK_Scalar"
| "cv_kind (CV_Enumeration _) = CK_Enumeration"
| "cv_kind (CV_TokenSet _) = CK_TokenSet"

fun cv_default :: "capability_kind \<Rightarrow> capability_value" where
  "cv_default CK_Presence = CV_Presence False"
| "cv_default CK_Version = CV_Version (sv_make 0 0 0)"
| "cv_default CK_Integer = CV_Integer 0"
| "cv_default CK_Scalar = CV_Scalar 0"
| "cv_default CK_Enumeration = CV_Enumeration []"
| "cv_default CK_TokenSet = CV_TokenSet []"

text \<open>The accessors return the default of the member when it is not the active one.\<close>

definition version_value :: "capability_value \<Rightarrow> semantic_version" where
  "version_value v = (case v of CV_Version s \<Rightarrow> s | _ \<Rightarrow> sv_make 0 0 0)"

definition integer_value :: "capability_value \<Rightarrow> int" where
  "integer_value v = (case v of CV_Integer i \<Rightarrow> i | _ \<Rightarrow> 0)"

definition value_token :: "capability_value \<Rightarrow> string" where
  "value_token v = (case v of CV_Enumeration t \<Rightarrow> t | _ \<Rightarrow> [])"

definition value_tokens :: "capability_value \<Rightarrow> string list" where
  "value_tokens v = (case v of CV_TokenSet ts \<Rightarrow> ts | _ \<Rightarrow> [])"

definition canonical_tokens :: "string list \<Rightarrow> nat \<Rightarrow> string list option" where
  "canonical_tokens tokens max_tokens =
     (if length tokens > max_tokens then None
      else case collect (\<lambda>t. canonical_token t 128) tokens of
        Inl _ \<Rightarrow> None
      | Inr normalized \<Rightarrow> Some (sort_unique normalized))"

fun join_tokens :: "string list \<Rightarrow> string" where
  "join_tokens [] = []"
| "join_tokens [t] = t"
| "join_tokens (t # ts) = t @ '','' @ join_tokens ts"

function split_tokens :: "string \<Rightarrow> string list" where
  "split_tokens s =
     (if CHR '','' \<in> set s then before CHR '','' s # split_tokens (after CHR '','' s) else [s])"
  by pat_completeness auto
termination by (relation "measure length") (auto intro!: length_after)

declare split_tokens.simps [simp del]

fun cv_canonicalize :: "capability_value \<Rightarrow> capability_value result" where
  "cv_canonicalize (CV_Presence f) = Inr (CV_Presence f)"
| "cv_canonicalize (CV_Version v) =
     (if sv_major v > 100000 \<or> sv_minor v > 100000 \<or> sv_patch v > 100000 then Inl EC_ImpossibleQuantity
      else Inr (CV_Version v))"
| "cv_canonicalize (CV_Integer i) = Inr (CV_Integer i)"
| "cv_canonicalize (CV_Scalar d) =
     (if \<not> dbl_finite d then Inl EC_NonFiniteQuantity
      else Inr (CV_Scalar (if dbl_eq d 0 then 0 else d)))"
| "cv_canonicalize (CV_Enumeration t) =
     (case canonical_token t 128 of Inl e \<Rightarrow> Inl e | Inr c \<Rightarrow> Inr (CV_Enumeration c))"
| "cv_canonicalize (CV_TokenSet ts) =
     (case canonical_tokens ts 512 of None \<Rightarrow> Inl EC_MalformedData | Some cs \<Rightarrow> Inr (CV_TokenSet cs))"

fun cv_render :: "capability_value \<Rightarrow> string" where
  "cv_render (CV_Presence f) = (if f then ''present'' else ''absent'')"
| "cv_render (CV_Version v) = sv_to_string v"
| "cv_render (CV_Integer i) = string_of_int i"
| "cv_render (CV_Scalar d) = format_g9 d"
| "cv_render (CV_Enumeration t) = t"
| "cv_render (CV_TokenSet ts) = join_tokens ts"

fun cv_equals :: "capability_value \<Rightarrow> capability_value \<Rightarrow> bool" where
  "cv_equals (CV_Presence a) (CV_Presence b) = (a = b)"
| "cv_equals (CV_Version a) (CV_Version b) = sv_eq a b"
| "cv_equals (CV_Integer a) (CV_Integer b) = (a = b)"
| "cv_equals (CV_Scalar a) (CV_Scalar b) = dbl_eq a b"
| "cv_equals (CV_Enumeration a) (CV_Enumeration b) = (a = b)"
| "cv_equals (CV_TokenSet a) (CV_TokenSet b) = (a = b)"
| "cv_equals _ _ = False"

definition cv_payload :: "capability_value \<Rightarrow> bytes" where
  "cv_payload v =
     (case v of
        CV_Presence f \<Rightarrow> w_boolean f
      | CV_Version s \<Rightarrow> w_u32 (sv_major s) @ w_u32 (sv_minor s) @ w_u32 (sv_patch s) @ w_string (sv_prerelease s)
      | CV_Integer i \<Rightarrow> w_i64 i
      | CV_Scalar d \<Rightarrow> w_u64 d
      | CV_Enumeration t \<Rightarrow> w_string t
      | CV_TokenSet ts \<Rightarrow> w_u32 (of_nat (length ts)) @ concat (map w_string ts))"

definition cv_serialize :: "capability_value \<Rightarrow> bytes" where
  "cv_serialize v = w_u8 (kind_value (cv_kind v)) @ cv_payload v"

fun cv_deserialize_of_kind :: "capability_kind \<Rightarrow> capability_value rd" where
  "cv_deserialize_of_kind CK_Presence = rbind r_boolean (\<lambda>f. rret (CV_Presence f))"
| "cv_deserialize_of_kind CK_Version =
     rbind r_u32 (\<lambda>ma. rbind r_u32 (\<lambda>mi. rbind r_u32 (\<lambda>pa. rbind (r_string 128) (\<lambda>pre.
       rret (CV_Version ((sv_make ma mi pa)\<lparr>sv_prerelease := pre\<rparr>))))))"
| "cv_deserialize_of_kind CK_Integer = rbind r_i64 (\<lambda>i. rret (CV_Integer i))"
| "cv_deserialize_of_kind CK_Scalar =
     rbind r_u64 (\<lambda>d. rguard (dbl_finite d) EC_NonFiniteQuantity (rret (CV_Scalar d)))"
| "cv_deserialize_of_kind CK_Enumeration = rbind (r_string 128) (\<lambda>t. rret (CV_Enumeration t))"
| "cv_deserialize_of_kind CK_TokenSet =
     rbind (r_count 512 4) (\<lambda>n. rbind (r_times n (r_string 128)) (\<lambda>ts. rret (CV_TokenSet ts)))"

definition cv_deserialize :: "capability_value rd" where
  "cv_deserialize = rbind r_u8 (\<lambda>raw.
     case capability_kind_from_wire raw of
       None \<Rightarrow> rfail EC_MalformedData
     | Some k \<Rightarrow> cv_deserialize_of_kind k)"

subsection \<open>Records\<close>

record capability_record =
  cr_key :: string
  cr_state :: capability_state
  cr_value :: capability_value
  cr_unit :: string

definition cr_validate :: "capability_record \<Rightarrow> error_code" where
  "cr_validate r =
     (if cr_key r = [] then EC_UnknownCapability
      else if cv_kind (cr_value r) \<noteq> key_kind (cr_key r) then EC_CapabilityMismatch
      else if (cr_state r = CS_Supported \<or> cr_state r = CS_Degraded) \<and>
              cv_kind (cr_value r) \<noteq> CK_Presence \<and> cv_render (cr_value r) = [] then EC_MalformedData
      else if length (cr_unit r) > 128 then EC_BoundsExceeded
      else EC_Ok)"

definition cr_serialize :: "capability_record \<Rightarrow> bytes" where
  "cr_serialize r = w_string (cr_key r) @ w_u8 (state_value (cr_state r)) @ w_string (cr_unit r) @
     cv_serialize (cr_value r)"

definition cr_deserialize :: "capability_record rd" where
  "cr_deserialize = rbind (r_string 256) (\<lambda>name. rbind r_u8 (\<lambda>raw_state.
     case capability_state_from_wire raw_state of
       None \<Rightarrow> rfail EC_MalformedData
     | Some state \<Rightarrow> rbind (r_string 128) (\<lambda>unit.
         case key_resolve name of
           Inl e \<Rightarrow> rfail e
         | Inr key \<Rightarrow> rbind cv_deserialize (\<lambda>value.
             rguard (cv_kind value = key_kind key) EC_CapabilityMismatch
               (case cv_canonicalize value of
                  Inl e \<Rightarrow> rfail e
                | Inr v \<Rightarrow> rret \<lparr>cr_key = key, cr_state = state, cr_value = v, cr_unit = unit\<rparr>)))))"

subsection \<open>Sets\<close>

record capability_set =
  cs_id :: capability_set_id
  cs_generation :: generation
  cs_records :: "capability_record list"
  cs_closed :: "string list"

definition cs_empty :: capability_set where
  "cs_empty = \<lparr>cs_id = nil_id, cs_generation = 0, cs_records = [], cs_closed = []\<rparr>"

record capability_lookup =
  cl_state :: capability_state
  cl_value :: "capability_value option"
  cl_present :: bool
  cl_closed :: bool

definition cs_content :: "capability_set \<Rightarrow> bytes" where
  "cs_content s = w_u32 (of_nat (length (cs_records s))) @ concat (map cr_serialize (cs_records s)) @
     w_u32 (of_nat (length (cs_closed s))) @ concat (map w_string (cs_closed s))"

definition cs_digest :: "capability_set \<Rightarrow> bytes" where
  "cs_digest s = sha_hash (cs_content s)"

definition cs_refresh_identity :: "capability_set \<Rightarrow> capability_set" where
  "cs_refresh_identity s = s\<lparr>cs_id := derive_identity ''haf.capability-set'' (digest_hex (cs_digest s))\<rparr>"

definition cr_less :: "capability_record \<Rightarrow> capability_record \<Rightarrow> bool" where
  "cr_less a b \<longleftrightarrow> cr_key a < cr_key b"

definition cr_admit :: "capability_record \<Rightarrow> capability_record result" where
  "cr_admit r =
     (case cv_canonicalize (cr_value r) of
        Inl e \<Rightarrow> Inl e
      | Inr v \<Rightarrow> let r' = r\<lparr>cr_value := v\<rparr> in
          if cr_validate r' \<noteq> EC_Ok then Inl (cr_validate r') else Inr r')"

definition cs_set_records :: "capability_record list \<Rightarrow> capability_set \<Rightarrow> capability_set result" where
  "cs_set_records records s =
     (if length records > 4096 then Inl EC_BoundsExceeded
      else case collect cr_admit records of
        Inl e \<Rightarrow> Inl e
      | Inr working \<Rightarrow>
          let sorted = sort_by cr_less working in
          if adjacent_dup (map cr_key sorted) then Inl EC_DuplicateIdentity
          else Inr (cs_refresh_identity (s\<lparr>cs_records := sorted\<rparr>)))"

definition ns_admit :: "string \<Rightarrow> string result" where
  "ns_admit n =
     (case canonical_token n 256 of
        Inl e \<Rightarrow> Inl e
      | Inr c \<Rightarrow> if CHR ''.'' \<in> set c then Inl EC_InvalidArgument else Inr c)"

definition cs_set_closed_namespaces :: "string list \<Rightarrow> capability_set \<Rightarrow> capability_set result" where
  "cs_set_closed_namespaces namespaces s =
     (if length namespaces > 4096 then Inl EC_BoundsExceeded
      else case collect ns_admit namespaces of
        Inl e \<Rightarrow> Inl e
      | Inr working \<Rightarrow> Inr (cs_refresh_identity (s\<lparr>cs_closed := sort_unique working\<rparr>)))"

definition cs_lookup :: "capability_set \<Rightarrow> string \<Rightarrow> capability_lookup" where
  "cs_lookup s name =
     (let i = lower_bound (\<lambda>r. cr_key r < name) (cs_records s) in
      if i < length (cs_records s) \<and> cr_key (cs_records s ! i) = name
      then \<lparr>cl_state = cr_state (cs_records s ! i), cl_value = Some (cr_value (cs_records s ! i)),
            cl_present = True, cl_closed = False\<rparr>
      else let ns = before CHR ''.'' name; j = lower_bound (\<lambda>n. n < ns) (cs_closed s) in
        if j < length (cs_closed s) \<and> cs_closed s ! j = ns
        then \<lparr>cl_state = CS_Unsupported, cl_value = None, cl_present = False, cl_closed = True\<rparr>
        else \<lparr>cl_state = CS_Unknown, cl_value = None, cl_present = False, cl_closed = False\<rparr>)"

fun cs_validate_records :: "string option \<Rightarrow> capability_record list \<Rightarrow> error_code" where
  "cs_validate_records previous [] = EC_Ok"
| "cs_validate_records previous (r # rs) =
     (if cr_validate r \<noteq> EC_Ok then cr_validate r
      else if (case previous of None \<Rightarrow> False | Some p \<Rightarrow> \<not> p < cr_key r) then EC_MalformedData
      else cs_validate_records (Some (cr_key r)) rs)"

fun strictly_ordered :: "'a :: linorder list \<Rightarrow> bool" where
  "strictly_ordered (x # y # xs) \<longleftrightarrow> x < y \<and> strictly_ordered (y # xs)"
| "strictly_ordered _ \<longleftrightarrow> True"

definition cs_validate :: "capability_set \<Rightarrow> error_code" where
  "cs_validate s =
     (if length (cs_records s) > 4096 then EC_BoundsExceeded
      else let c = cs_validate_records None (cs_records s) in
        if c \<noteq> EC_Ok then c
        else if \<not> strictly_ordered (cs_closed s) then EC_MalformedData
        else EC_Ok)"

definition cs_serialize :: "capability_set \<Rightarrow> bytes" where
  "cs_serialize s = w_id128 (cs_id s) @ w_generation (cs_generation s) @ cs_content s"

definition cs_deserialize :: "capability_set rd" where
  "cs_deserialize = rbind r_id128 (\<lambda>raw_id. rbind r_generation (\<lambda>generation.
     rbind (r_count 4096 8) (\<lambda>n. rbind (r_times n cr_deserialize) (\<lambda>records.
     rbind (r_count 4096 4) (\<lambda>m. rbind (r_times m (r_string 256)) (\<lambda>namespaces.
       case cs_set_records records cs_empty of
         Inl e \<Rightarrow> rfail e
       | Inr s1 \<Rightarrow> (case cs_set_closed_namespaces namespaces s1 of
           Inl e \<Rightarrow> rfail e
         | Inr s2 \<Rightarrow> rguard (cs_id s2 = raw_id) EC_IntegrityFailure
             (rret (s2\<lparr>cs_generation := generation\<rparr>)))))))))"

subsection \<open>Builders\<close>

definition make_presence :: "string \<Rightarrow> capability_state \<Rightarrow> capability_record" where
  "make_presence key state =
     \<lparr>cr_key = (case key_resolve key of Inl _ \<Rightarrow> [] | Inr k \<Rightarrow> k), cr_state = state,
      cr_value = CV_Presence True, cr_unit = []\<rparr>"

definition make_record ::
    "capability_kind \<Rightarrow> string \<Rightarrow> capability_state \<Rightarrow> capability_value result \<Rightarrow> capability_record result" where
  "make_record kind key state payload =
     (case key_resolve key of
        Inl e \<Rightarrow> Inl e
      | Inr k \<Rightarrow> if key_kind k \<noteq> kind then Inl EC_CapabilityMismatch
          else case payload of
            Inl e \<Rightarrow> Inl e
          | Inr v \<Rightarrow> Inr \<lparr>cr_key = k, cr_state = state, cr_value = v, cr_unit = []\<rparr>)"

definition make_integer :: "string \<Rightarrow> int \<Rightarrow> capability_state \<Rightarrow> capability_record result" where
  "make_integer key i state = make_record CK_Integer key state (Inr (CV_Integer i))"

definition make_version :: "string \<Rightarrow> string \<Rightarrow> capability_state \<Rightarrow> capability_record result" where
  "make_version key version state = make_record CK_Version key state
     (case sv_parse version of None \<Rightarrow> Inl EC_MalformedData | Some v \<Rightarrow> Inr (CV_Version v))"

definition make_enumeration :: "string \<Rightarrow> string \<Rightarrow> capability_state \<Rightarrow> capability_record result" where
  "make_enumeration key token state = make_record CK_Enumeration key state
     (case canonical_token token 128 of Inl e \<Rightarrow> Inl e | Inr t \<Rightarrow> Inr (CV_Enumeration t))"

definition make_token_set :: "string \<Rightarrow> string list \<Rightarrow> capability_state \<Rightarrow> capability_record result" where
  "make_token_set key tokens state = make_record CK_TokenSet key state (cv_canonicalize (CV_TokenSet tokens))"

subsection \<open>Canonical values and records\<close>

lemma strictly_ordered_iff: "strictly_ordered xs \<longleftrightarrow> sorted_wrt (<) xs"
  by (induction xs rule: strictly_ordered.induct) (auto intro: less_trans)

lemma length_sort_unique: "length (sort_unique xs) \<le> length xs"
  by (simp add: sort_unique_def std_sort_sort) (metis length_sort remdups_adj_length)

lemma canonical_tokens_result:
  assumes "canonical_tokens ts n = Some cs"
  shows "sorted_wrt (<) cs" "length cs \<le> n" "t \<in> set cs \<Longrightarrow> is_canonical 128 t"
proof -
  from assms obtain ns where len: "length ts \<le> n" and ns: "collect (\<lambda>t. canonical_token t 128) ts = Inr ns"
    and cs: "cs = sort_unique ns"
    by (auto simp: canonical_tokens_def split: if_splits sum.splits)
  show "sorted_wrt (<) cs" by (simp add: cs sort_unique_strict)
  show "length cs \<le> n" using length_sort_unique [of ns] collect_length [OF ns] len by (simp add: cs)
  show "is_canonical 128 t" if "t \<in> set cs"
    using that collect_Inr_set [OF ns, of t] canonical_token_result by (auto simp: cs)
qed

lemma canonical_tokens_id:
  assumes "sorted_wrt (<) cs" "length cs \<le> n" "\<And>t. t \<in> set cs \<Longrightarrow> is_canonical 128 t"
  shows "canonical_tokens cs n = Some cs"
proof -
  have "collect (\<lambda>t. canonical_token t 128) cs = Inr cs"
    by (rule collect_id) (simp add: canonical_token_id assms(3))
  then show ?thesis using assms(1,2) by (simp add: canonical_tokens_def sort_unique_id)
qed

lemma canonical_tokens_idem: "canonical_tokens ts n = Some cs \<Longrightarrow> canonical_tokens cs n = Some cs"
  by (rule canonical_tokens_id) (auto dest: canonical_tokens_result)

lemma canonical_tokens_set_eq:
  assumes "canonical_tokens ts n = Some cs" "set ts = set ts'" "length ts' \<le> n"
  shows "canonical_tokens ts' n = Some cs"
proof -
  from assms(1) obtain ns where ns: "collect (\<lambda>t. canonical_token t 128) ts = Inr ns" and cs: "cs = sort_unique ns"
    by (auto simp: canonical_tokens_def split: if_splits sum.splits)
  define g where "g t = projr (canonical_token t 128)" for t
  have g: "canonical_token t 128 = Inr (g t)" if "t \<in> set ts" for t
  proof -
    have "set (map (\<lambda>t. canonical_token t 128) ts) = set (map Inr ns)" using ns by (simp only: collect_Inr_iff)
    with that have "canonical_token t 128 \<in> Inr ` set ns" by auto
    then show ?thesis by (auto simp: g_def)
  qed
  have "collect (\<lambda>t. canonical_token t 128) ts' = Inr (map g ts')"
    using g assms(2) by (simp add: collect_Inr_iff)
  moreover have "collect (\<lambda>t. canonical_token t 128) ts = Inr (map g ts)"
    using g by (simp add: collect_Inr_iff)
  ultimately show ?thesis
    using ns cs assms(2,3) by (auto simp: canonical_tokens_def intro!: sort_unique_eqI)
qed

lemma dbl_eq_zero [simp]: "dbl_eq 0 0"
  by (simp add: dbl_eq_def dbl_nan_def dbl_mantissa_def)

lemma dbl_finite_zero [simp]: "dbl_finite 0"
  by (simp add: dbl_finite_def dbl_exponent_def)

lemma cv_canonicalize_idem: "cv_canonicalize v = Inr w \<Longrightarrow> cv_canonicalize w = Inr w"
  by (cases v) (auto split: if_splits sum.splits option.splits simp: canonical_token_idem canonical_tokens_idem)

lemma cv_canonicalize_kind: "cv_canonicalize v = Inr w \<Longrightarrow> cv_kind w = cv_kind v"
  by (cases v) (auto split: if_splits sum.splits option.splits)

lemma cr_admit_idem: "cr_admit r = Inr r' \<Longrightarrow> cr_admit r' = Inr r'"
  by (auto simp: cr_admit_def Let_def cv_canonicalize_idem split: sum.splits if_splits)

lemma cr_admit_valid: "cr_admit r = Inr r' \<Longrightarrow> cr_validate r' = EC_Ok"
  by (auto simp: cr_admit_def Let_def split: sum.splits if_splits)

lemma cr_admit_key: "cr_admit r = Inr r' \<Longrightarrow> cr_key r' = cr_key r"
  by (auto simp: cr_admit_def Let_def split: sum.splits if_splits)

lemma ns_admit_idem: "ns_admit n = Inr c \<Longrightarrow> ns_admit c = Inr c"
  by (auto simp: ns_admit_def canonical_token_idem split: sum.splits if_splits)

subsection \<open>The set invariant\<close>

interpretation record_order: comparator cr_less cr_key
  by unfold_locales (simp add: cr_less_def)

definition cs_wf :: "capability_set \<Rightarrow> bool" where
  "cs_wf s \<longleftrightarrow> length (cs_records s) \<le> 4096 \<and> length (cs_closed s) \<le> 4096 \<and>
     sorted_wrt (<) (map cr_key (cs_records s)) \<and> sorted_wrt (<) (cs_closed s) \<and>
     (\<forall>r \<in> set (cs_records s). cr_admit r = Inr r) \<and> (\<forall>n \<in> set (cs_closed s). ns_admit n = Inr n)"

lemma cs_refresh_simps [simp]:
  "cs_records (cs_refresh_identity s) = cs_records s" "cs_closed (cs_refresh_identity s) = cs_closed s"
  "cs_generation (cs_refresh_identity s) = cs_generation s"
  by (simp_all add: cs_refresh_identity_def)

lemma cs_wf_refresh [simp]: "cs_wf (cs_refresh_identity s) \<longleftrightarrow> cs_wf s"
  by (simp add: cs_wf_def)

lemma cs_wf_empty: "cs_wf cs_empty"
  by (simp add: cs_wf_def cs_empty_def)

lemma cs_set_records_cases:
  assumes "cs_set_records rs s = Inr s'"
  obtains ws where "collect cr_admit rs = Inr ws" "distinct (map cr_key ws)" "length rs \<le> 4096"
    "s' = cs_refresh_identity (s\<lparr>cs_records := sort_by cr_less ws\<rparr>)"
proof -
  from assms obtain ws where ws: "collect cr_admit rs = Inr ws" "length rs \<le> 4096"
    "\<not> adjacent_dup (map cr_key (sort_by cr_less ws))"
    "s' = cs_refresh_identity (s\<lparr>cs_records := sort_by cr_less ws\<rparr>)"
    by (auto simp: cs_set_records_def Let_def split: if_splits sum.splits)
  have "distinct (map cr_key (sort_by cr_less ws))"
    using ws(3) adjacent_dup_sorted [OF record_order.sorted_sort_by] by blast
  then have "distinct (map cr_key ws)"
    by (metis mset_eq_imp_distinct_iff mset_map mset_sort_by)
  with ws that show thesis by blast
qed

lemma cs_set_records_wf:
  assumes "cs_wf s" "cs_set_records rs s = Inr s'"
  shows "cs_wf s'"
  using assms(2)
proof (cases rule: cs_set_records_cases)
  case (1 ws)
  have "cr_admit r = Inr r" if "r \<in> set ws" for r
    using collect_Inr_set [OF 1(1) that] cr_admit_idem by blast
  with 1 assms(1) collect_length [OF 1(1)] show ?thesis
    by (auto simp: cs_wf_def record_order.sort_by_strict)
qed

lemma cs_set_closed_wf:
  assumes "cs_wf s" "cs_set_closed_namespaces ns s = Inr s'"
  shows "cs_wf s'"
proof -
  from assms(2) obtain ws where ws: "collect ns_admit ns = Inr ws" "length ns \<le> 4096"
    "s' = cs_refresh_identity (s\<lparr>cs_closed := sort_unique ws\<rparr>)"
    by (auto simp: cs_set_closed_namespaces_def split: if_splits sum.splits)
  have "ns_admit n = Inr n" if "n \<in> set ws" for n
    using collect_Inr_set [OF ws(1) that] ns_admit_idem by blast
  moreover have "length (sort_unique ws) \<le> 4096"
    using length_sort_unique [of ws] collect_length [OF ws(1)] ws(2) by simp
  ultimately show ?thesis using ws assms(1) by (auto simp: cs_wf_def sort_unique_strict)
qed

lemma cs_set_records_perm:
  assumes "cs_set_records rs s = Inr s'" "mset rs = mset rs'"
  shows "cs_set_records rs' s = Inr s'"
  using assms(1)
proof (cases rule: cs_set_records_cases)
  case (1 ws)
  from collect_perm [OF 1(1) assms(2)] obtain ws' where
    ws': "collect cr_admit rs' = Inr ws'" "mset ws' = mset ws" .
  have "sort_by cr_less ws' = sort_by cr_less ws"
    using record_order.sort_by_unique [OF ws'(2) [symmetric] 1(2)] by simp
  moreover have "distinct (map cr_key (sort_by cr_less ws))"
    using 1(2) by (metis mset_eq_imp_distinct_iff mset_map mset_sort_by)
  then have "\<not> adjacent_dup (map cr_key (sort_by cr_less ws))"
    using adjacent_dup_sorted [OF record_order.sorted_sort_by] by blast
  moreover have "length rs' \<le> 4096" using 1(3) assms(2) by (metis size_mset)
  ultimately show ?thesis using ws'(1) 1(4) by (simp add: cs_set_records_def Let_def)
qed

subsection \<open>Lookup\<close>

text \<open>The specification of a lookup: a finite map, and the closed-world reading of a namespace.\<close>

definition cs_map :: "capability_set \<Rightarrow> string \<rightharpoonup> capability_record" where
  "cs_map s = map_of (map (\<lambda>r. (cr_key r, r)) (cs_records s))"

definition lookup_spec :: "(string \<rightharpoonup> capability_record) \<Rightarrow> string set \<Rightarrow> string \<Rightarrow> capability_lookup" where
  "lookup_spec m closed name =
     (case m name of
        Some r \<Rightarrow> \<lparr>cl_state = cr_state r, cl_value = Some (cr_value r), cl_present = True, cl_closed = False\<rparr>
      | None \<Rightarrow>
          if name_space name \<in> closed
          then \<lparr>cl_state = CS_Unsupported, cl_value = None, cl_present = False, cl_closed = True\<rparr>
          else \<lparr>cl_state = CS_Unknown, cl_value = None, cl_present = False, cl_closed = False\<rparr>)"

lemma lower_bound_found:
  fixes xs :: "'a :: linorder list"
  assumes "sorted xs"
  shows "(lower_bound (\<lambda>x. x < v) xs < length xs \<and> xs ! lower_bound (\<lambda>x. x < v) xs = v) \<longleftrightarrow> v \<in> set xs"
proof -
  have "lower_bound (\<lambda>x. x < v) xs = length (takeWhile (\<lambda>x. x < v) xs)"
    by (rule lower_bound_takeWhile) (use assms in \<open>auto simp: sorted_wrt_iff_nth_less intro: le_less_trans\<close>)
  then show ?thesis using takeWhile_less_nth [OF assms, of v] nth_mem by fastforce
qed

lemma lower_bound_map: "lower_bound (\<lambda>x. below (f x)) xs = lower_bound below (map f xs)"
proof -
  have "lower_bound_loop (\<lambda>x. below (f x)) xs first len = lower_bound_loop below (map f xs) first len"
    if "first + len \<le> length xs" for first len
    using that
  proof (induction len arbitrary: first rule: less_induct)
    case (less len)
    show ?case
    proof (cases "len = 0")
      case False
      then have "first + len div 2 < length xs" using less.prems by linarith
      then have mid: "map f xs ! (first + len div 2) = f (xs ! (first + len div 2))" by simp
      from False less.prems show ?thesis
        using less.IH [of "len div 2" first] less.IH [of "len - len div 2 - 1" "first + len div 2 + 1"]
        by (subst (1 2) lower_bound_loop.simps) (simp add: Let_def mid)
    qed (simp add: lower_bound_loop.simps)
  qed
  then show ?thesis by (simp add: lower_bound_def)
qed

lemma map_of_key_nth:
  assumes "distinct (map k xs)" "i < length xs" "k (xs ! i) = name"
  shows "map_of (map (\<lambda>r. (k r, r)) xs) name = Some (xs ! i)"
proof -
  have "distinct (map fst (map (\<lambda>r. (k r, r)) xs))" using assms(1) by (simp add: comp_def)
  moreover have "(name, xs ! i) \<in> set (map (\<lambda>r. (k r, r)) xs)" using assms(2,3) by force
  ultimately show ?thesis by (simp add: map_of_is_SomeI)
qed

lemma cs_lookup_spec:
  assumes "cs_wf s"
  shows "cs_lookup s name = lookup_spec (cs_map s) (set (cs_closed s)) name"
proof -
  let ?ks = "map cr_key (cs_records s)"
  define i where "i = lower_bound (\<lambda>r. cr_key r < name) (cs_records s)"
  have strict: "sorted_wrt (<) ?ks" and closed: "sorted (cs_closed s)"
    using assms by (auto simp: cs_wf_def strict_sorted_imp_sorted)
  have i: "i = lower_bound (\<lambda>x. x < name) ?ks"
    unfolding i_def by (rule lower_bound_map)
  have mem: "(i < length (cs_records s) \<and> cr_key (cs_records s ! i) = name) \<longleftrightarrow> name \<in> set ?ks"
    using lower_bound_found [OF strict_sorted_imp_sorted [OF strict], of name] by (auto simp: i)
  have ns: "(lower_bound (\<lambda>n. n < before CHR ''.'' name) (cs_closed s) < length (cs_closed s) \<and>
      cs_closed s ! lower_bound (\<lambda>n. n < before CHR ''.'' name) (cs_closed s) = before CHR ''.'' name) \<longleftrightarrow>
      before CHR ''.'' name \<in> set (cs_closed s)"
    by (rule lower_bound_found [OF closed])
  show ?thesis
  proof (cases "name \<in> set ?ks")
    case True
    with mem have "i < length (cs_records s)" "cr_key (cs_records s ! i) = name" by auto
    moreover have "distinct ?ks" using strict by (simp add: strict_sorted_iff)
    ultimately have "cs_map s name = Some (cs_records s ! i)"
      unfolding cs_map_def by (intro map_of_key_nth)
    with True mem show ?thesis
      by (simp add: cs_lookup_def lookup_spec_def Let_def i_def [symmetric])
  next
    case False
    then have "cs_map s name = None" by (auto simp: cs_map_def map_of_eq_None_iff)
    with False mem ns show ?thesis
      by (simp add: cs_lookup_def lookup_spec_def Let_def i_def [symmetric] name_space_def)
  qed
qed

text \<open>
  The contract of capability evidence that the engines rely on: a value is there exactly when a
  record is, and without a record the state is unknown or (closed namespace) unsupported.
\<close>

locale evidence =
  fixes look :: "string \<Rightarrow> capability_lookup"
  assumes present_value: "cl_present (look k) \<longleftrightarrow> cl_value (look k) \<noteq> None"
    and absent_state: "\<not> cl_present (look k) \<Longrightarrow> cl_state (look k) \<in> {CS_Unknown, CS_Unsupported}"
begin

lemma supported_present:
  "cl_state (look k) = CS_Supported \<or> cl_state (look k) = CS_Degraded \<Longrightarrow> cl_present (look k)"
  using absent_state [of k] by (cases "cl_present (look k)") auto

lemma supported_value:
  assumes "cl_state (look k) = CS_Supported \<or> cl_state (look k) = CS_Degraded"
  obtains v where "cl_value (look k) = Some v"
  using supported_present [OF assms] present_value by blast

end

interpretation set_evidence: evidence "cs_lookup s" for s
  by unfold_locales (auto simp: cs_lookup_def Let_def)

subsection \<open>Round trips\<close>

lemma kind_wire [simp]: "capability_kind_from_wire (kind_value k) = Some k"
  by (cases k) (simp_all add: capability_kind_from_wire_def)

lemma state_wire [simp]: "capability_state_from_wire (state_value k) = Some k"
  by (cases k) (simp_all add: capability_state_from_wire_def)

definition cv_ok :: "capability_value \<Rightarrow> bool" where
  "cv_ok v \<longleftrightarrow> (case v of
      CV_Version s \<Rightarrow> sv_build s = [] \<and> length (sv_prerelease s) \<le> 128
    | CV_Integer i \<Rightarrow> - (2 ^ 63) \<le> i \<and> i < 2 ^ 63
    | CV_Scalar d \<Rightarrow> dbl_finite d
    | CV_Enumeration t \<Rightarrow> length t \<le> 128
    | CV_TokenSet ts \<Rightarrow> length ts \<le> 512 \<and> (\<forall>t \<in> set ts. length t \<le> 128)
    | _ \<Rightarrow> True)"

lemma length_w_string: "length (w_string s) = 4 + length s"
  by (simp add: w_string_def w_bytes_def w_raw_def w_u32_def)

lemma reads_counted_ret:
  assumes "\<And>x. x \<in> set xs \<Longrightarrow> reads p (enc x) x" "\<And>x. x \<in> set xs \<Longrightarrow> k \<le> length (enc x)"
    "length xs \<le> m" "m < 2 ^ 32"
  shows "reads (rbind (r_count m k) (\<lambda>n. rbind (r_times n p) (\<lambda>xs. rret (f xs))))
           (w_u32 (of_nat (length xs)) @ concat (map enc xs)) (f xs)"
  using reads_counted [OF assms reads_rret, of "\<lambda>xs. f xs"] by simp

lemma reads_cv_payload: "cv_ok v \<Longrightarrow> reads (cv_deserialize_of_kind (cv_kind v)) (cv_payload v) v"
proof (cases v)
  case (CV_Version s)
  assume "cv_ok v"
  then have "reads (r_string 128) (w_string (sv_prerelease s)) (sv_prerelease s)"
    by (intro reads_string) (auto simp: cv_ok_def CV_Version)
  moreover have "(sv_make (sv_major s) (sv_minor s) (sv_patch s))\<lparr>sv_prerelease := sv_prerelease s\<rparr> = s"
    using \<open>cv_ok v\<close> by (simp add: cv_ok_def CV_Version sv_make_def)
  ultimately show ?thesis
    by (auto simp: CV_Version cv_payload_def intro!: reads_rbind reads_u32 reads_rbind_ret)
next
  case (CV_Scalar d)
  assume "cv_ok v"
  then show ?thesis
    using reads_rbind [OF reads_u64 reads_rret]
    by (simp add: CV_Scalar cv_payload_def cv_ok_def reads_def rbind_def rguard_def rret_def
        reads_u64 [unfolded reads_def])
next
  case (CV_TokenSet ts)
  assume "cv_ok v"
  then show ?thesis
    unfolding CV_TokenSet cv_payload_def
    by (simp add: cv_ok_def, intro reads_counted_ret reads_string) (auto simp: length_w_string)
qed (auto simp: cv_payload_def cv_ok_def intro!: reads_rbind_ret reads_boolean reads_i64 reads_string)

lemma reads_cv: "cv_ok v \<Longrightarrow> reads cv_deserialize (cv_serialize v) v"
  unfolding cv_deserialize_def cv_serialize_def
  by (rule reads_rbind [OF reads_u8]) (simp add: reads_cv_payload)

definition cr_ok :: "capability_record \<Rightarrow> bool" where
  "cr_ok r \<longleftrightarrow> cr_admit r = Inr r \<and> key_resolve (cr_key r) = Inr (cr_key r) \<and> length (cr_key r) \<le> 256 \<and>
     cv_ok (cr_value r)"

lemma cr_admit_facts:
  "cr_admit r = Inr r \<Longrightarrow> cv_canonicalize (cr_value r) = Inr (cr_value r) \<and>
     cv_kind (cr_value r) = key_kind (cr_key r) \<and> length (cr_unit r) \<le> 128 \<and> cr_key r \<noteq> []"
  using cr_admit_valid [of r r]
  by (cases r) (auto simp: cr_admit_def cr_validate_def Let_def split: sum.splits if_splits)

lemma reads_cr: "cr_ok r \<Longrightarrow> reads cr_deserialize (cr_serialize r) r"
proof -
  assume ok: "cr_ok r"
  note facts = cr_admit_facts [of r]
  have surj: "\<lparr>cr_key = cr_key r, cr_state = cr_state r, cr_value = cr_value r, cr_unit = cr_unit r\<rparr> = r" by simp
  have key: "key_resolve (cr_key r) = Inr (cr_key r)" using ok by (simp add: cr_ok_def)
  show ?thesis
    unfolding cr_deserialize_def cr_serialize_def
    apply (rule reads_rbind [OF reads_string])
      apply (use ok in \<open>simp_all add: cr_ok_def\<close>)[2]
    apply (rule reads_rbind [OF reads_u8], simp)
    apply (rule reads_rbind [OF reads_string])
      apply (use ok facts in \<open>simp_all add: cr_ok_def\<close>)[2]
    apply (simp only: key sum.case)
    apply (rule reads_rbind_last [OF reads_cv])
    using ok facts by (auto simp: cr_ok_def rguard_def reads_rret surj)
qed

lemma length_cr_serialize: "8 \<le> length (cr_serialize r)"
  by (simp add: cr_serialize_def length_w_string)

definition cs_ok :: "capability_set \<Rightarrow> bool" where
  "cs_ok s \<longleftrightarrow> cs_wf s \<and> (\<forall>r \<in> set (cs_records s). cr_ok r) \<and>
     cs_id s = cs_id (cs_refresh_identity s)"

lemma ns_admit_length: "ns_admit n = Inr c \<Longrightarrow> length c \<le> 256"
  by (auto simp: ns_admit_def is_canonical_def dest!: canonical_token_result split: sum.splits if_splits)

lemma cs_set_records_id:
  assumes "cs_wf s"
  shows "cs_set_records (cs_records s) t = Inr (cs_refresh_identity (t\<lparr>cs_records := cs_records s\<rparr>))"
proof -
  have strict: "sorted_wrt (<) (map cr_key (cs_records s))" using assms by (simp add: cs_wf_def)
  have "collect cr_admit (cs_records s) = Inr (cs_records s)"
    using assms by (intro collect_id) (simp add: cs_wf_def)
  moreover have "sort_by cr_less (cs_records s) = cs_records s"
    by (rule record_order.sort_by_sorted) (rule strict_sorted_imp_sorted [OF strict])
  moreover have "\<not> adjacent_dup (map cr_key (cs_records s))"
    using adjacent_dup_sorted [OF strict_sorted_imp_sorted [OF strict]] strict
    by (simp add: strict_sorted_iff)
  ultimately show ?thesis using assms by (simp add: cs_set_records_def cs_wf_def Let_def)
qed

lemma cs_set_closed_id:
  assumes "cs_wf s"
  shows "cs_set_closed_namespaces (cs_closed s) t = Inr (cs_refresh_identity (t\<lparr>cs_closed := cs_closed s\<rparr>))"
proof -
  have "collect ns_admit (cs_closed s) = Inr (cs_closed s)"
    using assms by (intro collect_id) (simp add: cs_wf_def)
  then show ?thesis
    using assms by (simp add: cs_set_closed_namespaces_def cs_wf_def sort_unique_id)
qed

lemma cs_rebuild:
  assumes "cs_ok s"
  shows "(cs_refresh_identity ((cs_refresh_identity (cs_empty\<lparr>cs_records := cs_records s\<rparr>))
      \<lparr>cs_closed := cs_closed s\<rparr>))\<lparr>cs_generation := cs_generation s\<rparr> = s"
    "cs_id (cs_refresh_identity ((cs_refresh_identity (cs_empty\<lparr>cs_records := cs_records s\<rparr>))
      \<lparr>cs_closed := cs_closed s\<rparr>)) = cs_id s"
  using assms by (cases s; simp add: cs_ok_def cs_refresh_identity_def cs_digest_def cs_content_def cs_empty_def)+

lemma reads_cs: "cs_ok s \<Longrightarrow> reads cs_deserialize (cs_serialize s) s"
proof -
  assume ok: "cs_ok s"
  then have wf: "cs_wf s" by (simp add: cs_ok_def)
  have names: "length n \<le> 256" if "n \<in> set (cs_closed s)" for n
    using that wf ns_admit_length by (auto simp: cs_wf_def)
  show ?thesis
    unfolding cs_deserialize_def cs_serialize_def cs_content_def
    apply (rule reads_rbind [OF reads_id128])
    apply (rule reads_rbind [OF reads_generation])
    apply (rule reads_counted)
        apply (use ok in \<open>auto simp: cs_ok_def length_cr_serialize cs_wf_def intro: reads_cr\<close>)[4]
    apply (rule reads_counted [where cs = "[]", simplified])
        apply (use wf names in \<open>auto simp: length_w_string cs_wf_def intro: reads_string\<close>)[4]
    by (simp add: cs_set_records_id [OF wf] cs_set_closed_id [OF wf] cs_rebuild [OF ok] rguard_def reads_rret)
qed

interpretation value_codec: codec cv_serialize cv_deserialize cv_ok
  by unfold_locales (rule reads_cv)

interpretation record_codec: codec cr_serialize cr_deserialize cr_ok
  by unfold_locales (rule reads_cr)

interpretation set_codec: codec cs_serialize cs_deserialize cs_ok
  by unfold_locales (rule reads_cs)

end
