(* ===== verification/Evidence.thy ===== *)
theory Evidence
  imports Capability
begin

section \<open>Evidence records\<close>

text \<open>
  \<^verbatim>\<open>model/evidence.hpp\<close> and \<^verbatim>\<open>model/evidence.cpp\<close>. Instants are nanosecond counts; the payload
  digest is a sequence of 32 bytes. The monotonic marker is process-local and is not serialized.
\<close>

datatype evidence_provenance = EP_Real | EP_Synthetic | EP_Unsupported

fun provenance_value :: "evidence_provenance \<Rightarrow> byte" where
  "provenance_value EP_Real = 0"
| "provenance_value EP_Synthetic = 1"
| "provenance_value EP_Unsupported = 2"

fun provenance_to_string :: "evidence_provenance \<Rightarrow> string" where
  "provenance_to_string EP_Real = ''REAL''"
| "provenance_to_string EP_Synthetic = ''SYNTHETIC''"
| "provenance_to_string EP_Unsupported = ''UNSUPPORTED''"

definition evidence_provenance_from_wire :: "byte \<Rightarrow> evidence_provenance option" where
  "evidence_provenance_from_wire raw =
     (if raw = 0 then Some EP_Real else if raw = 1 then Some EP_Synthetic
      else if raw = 2 then Some EP_Unsupported else None)"

datatype evidence_kind =
  EK_StaticDescriptor | EK_DynamicObservation | EK_AdapterProbe | EK_Declaration | EK_RecoveryRestore

fun evidence_kind_value :: "evidence_kind \<Rightarrow> byte" where
  "evidence_kind_value EK_StaticDescriptor = 0"
| "evidence_kind_value EK_DynamicObservation = 1"
| "evidence_kind_value EK_AdapterProbe = 2"
| "evidence_kind_value EK_Declaration = 3"
| "evidence_kind_value EK_RecoveryRestore = 4"

definition evidence_kind_from_wire :: "byte \<Rightarrow> evidence_kind option" where
  "evidence_kind_from_wire raw =
     (if raw = 0 then Some EK_StaticDescriptor else if raw = 1 then Some EK_DynamicObservation
      else if raw = 2 then Some EK_AdapterProbe else if raw = 3 then Some EK_Declaration
      else if raw = 4 then Some EK_RecoveryRestore else None)"

record runtime_version =
  rv_major :: u32
  rv_minor :: u32
  rv_patch :: u32

record evidence_record =
  ev_id :: evidence_id
  ev_generation :: generation
  ev_provenance :: evidence_provenance
  ev_kind :: evidence_kind
  ev_adapter :: string
  ev_source :: string
  ev_adapter_version :: string
  ev_subject :: accelerator_id
  ev_physical_device :: physical_device_id
  ev_capability_generation :: generation
  ev_payload_digest :: bytes
  ev_runtime_version :: runtime_version
  ev_driver_version :: runtime_version
  ev_observed_at :: int
  ev_sequence :: u64
  ev_freshness_budget_nanos :: u64
  ev_dynamic :: bool
  ev_requires_revalidation :: bool
  ev_marker :: int

definition w_runtime_version :: "runtime_version \<Rightarrow> bytes" where
  "w_runtime_version v = w_u32 (rv_major v) @ w_u32 (rv_minor v) @ w_u32 (rv_patch v)"

definition r_runtime_version :: "runtime_version rd" where
  "r_runtime_version = rbind r_u32 (\<lambda>ma. rbind r_u32 (\<lambda>mi. rbind r_u32 (\<lambda>pa.
     rret \<lparr>rv_major = ma, rv_minor = mi, rv_patch = pa\<rparr>)))"

definition ev_serialize :: "evidence_record \<Rightarrow> bytes" where
  "ev_serialize e = concat [
     w_id128 (ev_id e), w_generation (ev_generation e), w_u8 (provenance_value (ev_provenance e)),
     w_u8 (evidence_kind_value (ev_kind e)), w_string (ev_adapter e), w_string (ev_source e),
     w_string (ev_adapter_version e), w_id128 (ev_subject e), w_id128 (ev_physical_device e),
     w_generation (ev_capability_generation e), w_raw (ev_payload_digest e),
     w_runtime_version (ev_runtime_version e), w_runtime_version (ev_driver_version e),
     w_i64 (ev_observed_at e), w_u64 (ev_sequence e), w_u64 (ev_freshness_budget_nanos e),
     w_boolean (ev_dynamic e), w_boolean (ev_requires_revalidation e)]"

definition ev_validate :: "evidence_record \<Rightarrow> error_code" where
  "ev_validate e =
     (if ev_adapter e = [] then EC_MalformedData
      else if length (ev_adapter e) > 256 \<or> length (ev_source e) > 8192 \<or> length (ev_adapter_version e) > 128
      then EC_BoundsExceeded
      else if ev_provenance e = EP_Unsupported \<and> ev_kind e \<noteq> EK_RecoveryRestore \<and>
              \<not> list_all (\<lambda>b. b = 0) (ev_payload_digest e)
      then EC_MalformedData
      else EC_Ok)"

definition ev_deserialize :: "evidence_record rd" where
  "ev_deserialize =
     rbind r_id128 (\<lambda>id. rbind r_generation (\<lambda>gen. rbind r_u8 (\<lambda>raw_provenance. rbind r_u8 (\<lambda>raw_kind.
     rbind (r_string 256) (\<lambda>adapter. rbind (r_string 8192) (\<lambda>source. rbind (r_string 128) (\<lambda>adapter_version.
     rbind r_id128 (\<lambda>subject. rbind r_id128 (\<lambda>physical. rbind r_generation (\<lambda>capability_generation.
     rbind (r_raw 32) (\<lambda>digest. rbind r_runtime_version (\<lambda>runtime. rbind r_runtime_version (\<lambda>driver.
     rbind r_i64 (\<lambda>observed_at. rbind r_u64 (\<lambda>sequence. rbind r_u64 (\<lambda>budget.
     rbind r_boolean (\<lambda>dynamic. rbind r_boolean (\<lambda>revalidation.
       case evidence_provenance_from_wire raw_provenance of
         None \<Rightarrow> rfail EC_MalformedData
       | Some provenance \<Rightarrow> (case evidence_kind_from_wire raw_kind of
           None \<Rightarrow> rfail EC_MalformedData
         | Some kind \<Rightarrow>
             let e = \<lparr>ev_id = id, ev_generation = gen, ev_provenance = provenance, ev_kind = kind,
                      ev_adapter = adapter, ev_source = source, ev_adapter_version = adapter_version,
                      ev_subject = subject, ev_physical_device = physical,
                      ev_capability_generation = capability_generation, ev_payload_digest = digest,
                      ev_runtime_version = runtime, ev_driver_version = driver, ev_observed_at = observed_at,
                      ev_sequence = sequence, ev_freshness_budget_nanos = budget, ev_dynamic = dynamic,
                      ev_requires_revalidation = revalidation, ev_marker = 0\<rparr>
             in rguard (ev_validate e = EC_Ok) (ev_validate e) (rret e))))))))))))))))))))"

definition ev_digest :: "evidence_record \<Rightarrow> bytes" where
  "ev_digest e = sha_hash (concat [
     w_u8 (provenance_value (ev_provenance e)), w_u8 (evidence_kind_value (ev_kind e)),
     w_string (ev_adapter e), w_string (ev_source e), w_string (ev_adapter_version e),
     w_id128 (ev_subject e), w_id128 (ev_physical_device e), w_generation (ev_capability_generation e),
     w_raw (ev_payload_digest e), w_runtime_version (ev_runtime_version e),
     w_runtime_version (ev_driver_version e), w_u64 (ev_sequence e), w_boolean (ev_dynamic e)])"

definition ev_is_fresh :: "evidence_record \<Rightarrow> int \<Rightarrow> u64 \<Rightarrow> bool" where
  "ev_is_fresh e now budget =
     (if ev_requires_revalidation e then False
      else if budget = 0 then True
      else age_nanos (ev_marker e) now \<le> budget)"

text \<open>\<open>wall\<close> and \<open>steady\<close> are the readings of the two clocks.\<close>

definition make_evidence ::
    "int \<Rightarrow> int \<Rightarrow> string \<Rightarrow> string \<Rightarrow> string \<Rightarrow> accelerator_id \<Rightarrow> physical_device_id \<Rightarrow>
     evidence_provenance \<Rightarrow> evidence_kind \<Rightarrow> bytes \<Rightarrow> runtime_version \<Rightarrow> runtime_version \<Rightarrow> u64 \<Rightarrow> bool \<Rightarrow>
     evidence_record" where
  "make_evidence wall steady adapter source adapter_version subject physical provenance kind digest
     runtime driver budget dynamic =
     (let e = \<lparr>ev_id = nil_id, ev_generation = 0, ev_provenance = provenance, ev_kind = kind,
               ev_adapter = adapter, ev_source = source, ev_adapter_version = adapter_version,
               ev_subject = subject, ev_physical_device = physical, ev_capability_generation = 0,
               ev_payload_digest = digest, ev_runtime_version = runtime, ev_driver_version = driver,
               ev_observed_at = wall, ev_sequence = 0, ev_freshness_budget_nanos = budget,
               ev_dynamic = dynamic, ev_requires_revalidation = False, ev_marker = steady\<rparr>
      in e\<lparr>ev_id := derive_identity ''haf.evidence'' (digest_hex (ev_digest e))\<rparr>)"

lemma provenance_wire [simp]: "evidence_provenance_from_wire (provenance_value p) = Some p"
  by (cases p) (simp_all add: evidence_provenance_from_wire_def)

lemma evidence_kind_wire [simp]: "evidence_kind_from_wire (evidence_kind_value k) = Some k"
  by (cases k) (simp_all add: evidence_kind_from_wire_def)

lemma reads_runtime_version: "reads r_runtime_version (w_runtime_version v) v"
  unfolding r_runtime_version_def w_runtime_version_def
  by (rule reads_rbind [OF reads_u32], rule reads_rbind [OF reads_u32], rule reads_rbind_ret [OF reads_u32]) simp

text \<open>The monotonic marker is local to the process and is not written, so a record is read back with the
  marker 0: \<open>ev_wire\<close>. \<open>ev_ok\<close> holds of every record that passed validation.\<close>

definition ev_wire :: "evidence_record \<Rightarrow> evidence_record" where
  "ev_wire e = e\<lparr>ev_marker := 0\<rparr>"

definition ev_ok :: "evidence_record \<Rightarrow> bool" where
  "ev_ok e \<longleftrightarrow> ev_validate e = EC_Ok \<and> length (ev_payload_digest e) = 32 \<and>
     - (2 ^ 63) \<le> ev_observed_at e \<and> ev_observed_at e < 2 ^ 63"

lemma ev_wire_simps [simp]:
  "ev_wire (ev_wire e) = ev_wire e" "ev_ok (ev_wire e) = ev_ok e" "ev_validate (ev_wire e) = ev_validate e"
  "ev_serialize (ev_wire e) = ev_serialize e" "ev_digest (ev_wire e) = ev_digest e"
  "ev_marker (ev_wire e) = 0"
  "ev_subject (ev_wire e) = ev_subject e" "ev_provenance (ev_wire e) = ev_provenance e"
  by (simp_all add: ev_wire_def ev_ok_def ev_validate_def ev_serialize_def ev_digest_def)

lemma ev_validate_bounds:
  "ev_validate e = EC_Ok \<Longrightarrow> length (ev_adapter e) \<le> 256 \<and> length (ev_source e) \<le> 8192 \<and>
     length (ev_adapter_version e) \<le> 128"
  by (auto simp: ev_validate_def split: if_splits)

lemma reads_ev_exact: "ev_ok e \<Longrightarrow> ev_marker e = 0 \<Longrightarrow> reads ev_deserialize (ev_serialize e) e"
proof -
  assume ok: "ev_ok e" and exact: "ev_marker e = 0"
  then have "ev_validate e = EC_Ok" by (simp add: ev_ok_def)
  note bounds = ev_validate_bounds [OF this]
  show ?thesis
    unfolding ev_deserialize_def ev_serialize_def w_raw_def
    apply (rule reads_chain reads_Cons [OF reads_runtime_version])+
    subgoal by (insert ok exact, cases e, simp add: ev_ok_def rguard_def reads_rret Let_def)
    using ok bounds by (simp_all add: ev_ok_def)
qed

lemma reads_ev: "ev_ok e \<Longrightarrow> reads ev_deserialize (ev_serialize e) (ev_wire e)"
  using reads_ev_exact [of "ev_wire e"] by simp

interpretation evidence_codec: codec ev_serialize ev_deserialize "\<lambda>e. ev_ok e \<and> ev_marker e = 0"
  by unfold_locales (simp add: reads_ev_exact)

text \<open>A record made by \<^verbatim>\<open>make_evidence\<close> that passes validation is one of these.\<close>

lemma make_evidence_ok:
  assumes "ev_validate (make_evidence wall steady adapter src version subject physical provenance kind digest
      runtime driver budget dynamic) = EC_Ok" "length digest = 32" "- (2 ^ 63) \<le> wall" "wall < 2 ^ 63"
  shows "ev_ok (make_evidence wall steady adapter src version subject physical provenance kind digest
      runtime driver budget dynamic)"
  using assms by (simp add: ev_ok_def) (simp add: make_evidence_def Let_def)

end
