(* ===== verification/Accelerator.thy ===== *)
theory Accelerator
  imports Evidence
begin

section \<open>Accelerators and membership records\<close>

text \<open>
  \<^verbatim>\<open>model/accelerator.hpp\<close>, \<^verbatim>\<open>model/accelerator.cpp\<close>, \<^verbatim>\<open>model/membership.hpp\<close> and
  \<^verbatim>\<open>model/membership.cpp\<close>: the lifecycle table, the descriptor of an accelerator with its validation
  and codec, and the membership record. The lifecycle is also given as a step relation, so that
  reachability can be stated.
\<close>

datatype support_level = SL_Native | SL_Translated | SL_Synthetic | SL_Unsupported | SL_Unknown

fun support_value :: "support_level \<Rightarrow> byte" where
  "support_value SL_Native = 0"
| "support_value SL_Translated = 1"
| "support_value SL_Synthetic = 2"
| "support_value SL_Unsupported = 3"
| "support_value SL_Unknown = 4"

fun support_to_string :: "support_level \<Rightarrow> string" where
  "support_to_string SL_Native = ''NATIVE''"
| "support_to_string SL_Translated = ''TRANSLATED''"
| "support_to_string SL_Synthetic = ''SYNTHETIC''"
| "support_to_string SL_Unsupported = ''UNSUPPORTED''"
| "support_to_string SL_Unknown = ''UNKNOWN''"

definition support_level_from_token :: "string \<Rightarrow> support_level option" where
  "support_level_from_token token =
     (if token = ''native'' then Some SL_Native else if token = ''translated'' then Some SL_Translated
      else if token = ''synthetic'' then Some SL_Synthetic else if token = ''unsupported'' then Some SL_Unsupported
      else if token = ''unknown'' then Some SL_Unknown else None)"

definition support_level_from_wire :: "byte \<Rightarrow> support_level option" where
  "support_level_from_wire raw =
     (if raw = 0 then Some SL_Native else if raw = 1 then Some SL_Translated
      else if raw = 2 then Some SL_Synthetic else if raw = 3 then Some SL_Unsupported
      else if raw = 4 then Some SL_Unknown else None)"

subsection \<open>Lifecycle\<close>

datatype member_state =
  MS_Discovered | MS_Observed | MS_Admitted | MS_Active | MS_Degraded | MS_Draining | MS_Fenced | MS_Retired

fun member_state_value :: "member_state \<Rightarrow> byte" where
  "member_state_value MS_Discovered = 0"
| "member_state_value MS_Observed = 1"
| "member_state_value MS_Admitted = 2"
| "member_state_value MS_Active = 3"
| "member_state_value MS_Degraded = 4"
| "member_state_value MS_Draining = 5"
| "member_state_value MS_Fenced = 6"
| "member_state_value MS_Retired = 7"

fun member_state_to_string :: "member_state \<Rightarrow> string" where
  "member_state_to_string MS_Discovered = ''DISCOVERED''"
| "member_state_to_string MS_Observed = ''OBSERVED''"
| "member_state_to_string MS_Admitted = ''ADMITTED''"
| "member_state_to_string MS_Active = ''ACTIVE''"
| "member_state_to_string MS_Degraded = ''DEGRADED''"
| "member_state_to_string MS_Draining = ''DRAINING''"
| "member_state_to_string MS_Fenced = ''FENCED''"
| "member_state_to_string MS_Retired = ''RETIRED''"

definition member_state_from_wire :: "byte \<Rightarrow> member_state option" where
  "member_state_from_wire raw =
     (if raw = 0 then Some MS_Discovered else if raw = 1 then Some MS_Observed
      else if raw = 2 then Some MS_Admitted else if raw = 3 then Some MS_Active
      else if raw = 4 then Some MS_Degraded else if raw = 5 then Some MS_Draining
      else if raw = 6 then Some MS_Fenced else if raw = 7 then Some MS_Retired else None)"

definition legal_transitions :: "(member_state \<times> member_state) list" where
  "legal_transitions = [
     (MS_Discovered, MS_Observed), (MS_Discovered, MS_Fenced), (MS_Discovered, MS_Retired),
     (MS_Observed, MS_Admitted), (MS_Observed, MS_Fenced), (MS_Observed, MS_Retired),
     (MS_Admitted, MS_Active), (MS_Admitted, MS_Degraded), (MS_Admitted, MS_Draining),
     (MS_Admitted, MS_Fenced), (MS_Admitted, MS_Retired),
     (MS_Active, MS_Degraded), (MS_Active, MS_Draining), (MS_Active, MS_Fenced), (MS_Active, MS_Retired),
     (MS_Degraded, MS_Active), (MS_Degraded, MS_Draining), (MS_Degraded, MS_Fenced), (MS_Degraded, MS_Retired),
     (MS_Draining, MS_Active), (MS_Draining, MS_Fenced), (MS_Draining, MS_Retired),
     (MS_Fenced, MS_Observed), (MS_Fenced, MS_Retired)]"

definition is_legal_transition :: "member_state \<Rightarrow> member_state \<Rightarrow> bool" where
  "is_legal_transition from to \<longleftrightarrow> from \<noteq> to \<and> list_ex (\<lambda>t. fst t = from \<and> snd t = to) legal_transitions"

definition is_terminal_state :: "member_state \<Rightarrow> bool" where
  "is_terminal_state state \<longleftrightarrow> state = MS_Retired"

subsection \<open>Descriptors\<close>

record accelerator_descriptor =
  ad_id :: accelerator_id
  ad_physical_device :: physical_device_id
  ad_generation :: generation
  ad_agent :: agent_id
  ad_agent_boot :: agent_boot_id
  ad_node :: node_id
  ad_vendor_token :: string
  ad_vendor :: vendor_id
  ad_product_token :: string
  ad_architecture_token :: string
  ad_architecture :: architecture_id
  ad_device_generation_token :: string
  ad_runtime_family :: string
  ad_runtime_version :: semantic_version
  ad_driver_version :: semantic_version
  ad_capabilities :: capability_set
  ad_support_level :: support_level
  ad_provenance :: evidence_provenance
  ad_evidence :: "evidence_record list"
  ad_topology_references :: "string list"
  ad_observed_at :: int

text \<open>The loop over the evidence records: the first one that is invalid or bound elsewhere decides.\<close>

fun ad_validate_evidence :: "accelerator_id \<Rightarrow> evidence_provenance \<Rightarrow> evidence_record list \<Rightarrow> error_code" where
  "ad_validate_evidence subject provenance [] = EC_Ok"
| "ad_validate_evidence subject provenance (e # es) =
     (if ev_validate e \<noteq> EC_Ok then ev_validate e
      else if ev_subject e \<noteq> subject then EC_IntegrityFailure
      else if ev_provenance e \<noteq> provenance then EC_IntegrityFailure
      else ad_validate_evidence subject provenance es)"

definition ad_vendor_disagrees :: "accelerator_descriptor \<Rightarrow> bool" where
  "ad_vendor_disagrees d =
     (let l = cs_lookup (ad_capabilities d) ''vendor.id''
      in cl_present l \<and> cl_state l = CS_Supported \<and>
         (case cl_value l of None \<Rightarrow> False | Some v \<Rightarrow> value_token v \<noteq> ad_vendor_token d))"

definition ad_tokens :: "accelerator_descriptor \<Rightarrow> string list" where
  "ad_tokens d = [ad_vendor_token d, ad_product_token d, ad_architecture_token d,
     ad_device_generation_token d, ad_runtime_family d]"

definition ad_validate :: "accelerator_descriptor \<Rightarrow> error_code" where
  "ad_validate d =
     (if is_nil (ad_id d) then EC_InvalidArgument
      else if is_nil (ad_physical_device d) then EC_InvalidArgument
      else if is_nil (ad_agent d) \<or> is_nil (ad_agent_boot d) then EC_InvalidArgument
      else if is_nil (ad_node d) then EC_InvalidArgument
      else if list_ex (\<lambda>t. t = []) (ad_tokens d) then EC_InvalidArgument
      else if list_ex (\<lambda>t. length t > 128) (ad_tokens d) then EC_BoundsExceeded
      else if ad_vendor d \<noteq> vendor_id_from_token (ad_vendor_token d) \<or>
              ad_architecture d \<noteq> architecture_id_from_token (ad_architecture_token d) then EC_IntegrityFailure
      else if length (ad_topology_references d) > 64 then EC_BoundsExceeded
      else if \<not> sorted (ad_topology_references d) then EC_MalformedData
      else if cs_validate (ad_capabilities d) \<noteq> EC_Ok then cs_validate (ad_capabilities d)
      else if cs_records (ad_capabilities d) = [] then EC_MalformedData
      else if ad_vendor_disagrees d then EC_CapabilityMismatch
      else if length (ad_evidence d) > 4000000 then EC_BoundsExceeded
      else let c = ad_validate_evidence (ad_id d) (ad_provenance d) (ad_evidence d) in
        if c \<noteq> EC_Ok then c
        else if ad_provenance d = EP_Synthetic \<and> ad_support_level d = SL_Native then EC_IntegrityFailure
        else if ad_provenance d = EP_Unsupported \<and> ad_support_level d = SL_Native then EC_IntegrityFailure
        else if ad_support_level d = SL_Native \<and> ad_evidence d = [] then EC_IntegrityFailure
        else EC_Ok)"

definition ad_identity_fields :: "accelerator_descriptor \<Rightarrow> bytes list" where
  "ad_identity_fields d = [
     w_id128 (ad_id d), w_id128 (ad_physical_device d), w_generation (ad_generation d),
     w_id128 (ad_agent d), w_id128 (ad_agent_boot d), w_id128 (ad_node d),
     w_string (ad_vendor_token d), w_string (ad_product_token d), w_string (ad_architecture_token d),
     w_string (ad_device_generation_token d), w_string (ad_runtime_family d),
     w_u32 (sv_major (ad_runtime_version d)), w_u32 (sv_minor (ad_runtime_version d)),
     w_u32 (sv_patch (ad_runtime_version d)), w_u32 (sv_major (ad_driver_version d)),
     w_u32 (sv_minor (ad_driver_version d)), w_u32 (sv_patch (ad_driver_version d))]"

definition structural_digest :: "accelerator_descriptor \<Rightarrow> bytes" where
  "structural_digest d = sha_hash (concat (ad_identity_fields d))"

definition ad_serialize :: "accelerator_descriptor \<Rightarrow> bytes" where
  "ad_serialize d = concat (ad_identity_fields d @ [
     cs_serialize (ad_capabilities d), w_u8 (support_value (ad_support_level d)),
     w_u8 (provenance_value (ad_provenance d)), w_list ev_serialize (ad_evidence d),
     w_list w_string (ad_topology_references d), w_i64 (ad_observed_at d)])"

text \<open>The loop over the topology references checks the order as it reads.\<close>

fun r_ascending :: "nat \<Rightarrow> string option \<Rightarrow> string list rd" where
  "r_ascending 0 previous = rret []"
| "r_ascending (Suc n) previous = rbind (r_string 256) (\<lambda>reference.
     rguard (case previous of None \<Rightarrow> True | Some p \<Rightarrow> p < reference) EC_MalformedData
       (rbind (r_ascending n (Some reference)) (\<lambda>rest. rret (reference # rest))))"

definition r_topology :: "string list rd" where
  "r_topology = rbind (r_count 64 4) (\<lambda>n. r_ascending n None)"

definition ad_deserialize :: "bool \<Rightarrow> accelerator_descriptor rd" where
  "ad_deserialize persisted_scale =
     rbind r_id128 (\<lambda>id. rbind r_id128 (\<lambda>physical. rbind r_generation (\<lambda>generation.
     rbind r_id128 (\<lambda>agent. rbind r_id128 (\<lambda>boot. rbind r_id128 (\<lambda>node.
     rbind (r_string 128) (\<lambda>vendor_token. rbind (r_string 128) (\<lambda>product_token.
     rbind (r_string 128) (\<lambda>architecture_token. rbind (r_string 128) (\<lambda>device_generation_token.
     rbind (r_string 128) (\<lambda>runtime_family.
     rbind r_u32 (\<lambda>rmajor. rbind r_u32 (\<lambda>rminor. rbind r_u32 (\<lambda>rpatch.
     rbind r_u32 (\<lambda>dmajor. rbind r_u32 (\<lambda>dminor. rbind r_u32 (\<lambda>dpatch.
     rbind cs_deserialize (\<lambda>capabilities. rbind r_u8 (\<lambda>raw_support. rbind r_u8 (\<lambda>raw_provenance.
       case support_level_from_wire raw_support of
         None \<Rightarrow> rfail EC_MalformedData
       | Some support \<Rightarrow> (case evidence_provenance_from_wire raw_provenance of
           None \<Rightarrow> rfail EC_MalformedData
         | Some provenance \<Rightarrow>
             rbind (r_list (if persisted_scale then 4000000 else 64) 8 ev_deserialize) (\<lambda>evidence.
             rbind r_topology (\<lambda>topology. rbind r_i64 (\<lambda>observed_at.
               let d = \<lparr>ad_id = id, ad_physical_device = physical, ad_generation = generation,
                        ad_agent = agent, ad_agent_boot = boot, ad_node = node,
                        ad_vendor_token = vendor_token, ad_vendor = vendor_id_from_token vendor_token,
                        ad_product_token = product_token, ad_architecture_token = architecture_token,
                        ad_architecture = architecture_id_from_token architecture_token,
                        ad_device_generation_token = device_generation_token,
                        ad_runtime_family = runtime_family,
                        ad_runtime_version = sv_make rmajor rminor rpatch,
                        ad_driver_version = sv_make dmajor dminor dpatch,
                        ad_capabilities = capabilities, ad_support_level = support,
                        ad_provenance = provenance, ad_evidence = evidence,
                        ad_topology_references = topology, ad_observed_at = observed_at\<rparr>
               in rguard (ad_validate d = EC_Ok) (ad_validate d) (rret d)))))))))))))))))))))))))"

text \<open>Typed accessors over the capability set.\<close>

definition supported_value :: "accelerator_descriptor \<Rightarrow> string \<Rightarrow> capability_value option" where
  "supported_value d name =
     (let l = cs_lookup (ad_capabilities d) name
      in if cl_present l \<and> cl_state l = CS_Supported then cl_value l else None)"

definition memory_total_bytes :: "accelerator_descriptor \<Rightarrow> int" where
  "memory_total_bytes d = (case supported_value d ''memory.total_bytes'' of None \<Rightarrow> 0 | Some v \<Rightarrow> integer_value v)"

definition isa_code_object_targets :: "accelerator_descriptor \<Rightarrow> string list" where
  "isa_code_object_targets d =
     (case supported_value d ''isa.code_object_targets'' of None \<Rightarrow> [] | Some v \<Rightarrow> value_tokens v)"

definition numeric_formats :: "accelerator_descriptor \<Rightarrow> string list" where
  "numeric_formats d = (case supported_value d ''numeric.formats'' of None \<Rightarrow> [] | Some v \<Rightarrow> value_tokens v)"

definition derive_accelerator_id ::
    "physical_device_id \<Rightarrow> agent_id \<Rightarrow> agent_boot_id \<Rightarrow> generation \<Rightarrow> accelerator_id" where
  "derive_accelerator_id physical agent boot generation =
     derive_identity ''haf.accelerator''
       (digest_hex (sha_hash (w_id128 physical @ w_id128 agent @ w_id128 boot @ w_u64 generation)))"

subsection \<open>Membership records\<close>

record member_record =
  mr_federation :: federation_id
  mr_federation_generation :: generation
  mr_epoch :: generation
  mr_agent :: agent_id
  mr_agent_boot :: agent_boot_id
  mr_agent_generation :: generation
  mr_accelerator :: accelerator_id
  mr_physical_device :: physical_device_id
  mr_device_generation :: generation
  mr_capability_generation :: generation
  mr_evidence_generation :: generation
  mr_policy_generation :: generation
  mr_state :: member_state
  mr_state_generation :: generation
  mr_support_level :: support_level
  mr_provenance :: evidence_provenance
  mr_admitted_at :: int
  mr_updated_at :: int
  mr_history :: "string list"

definition is_live :: "member_record \<Rightarrow> bool" where
  "is_live r \<longleftrightarrow> mr_state r \<in> {MS_Admitted, MS_Active, MS_Degraded, MS_Draining}"

definition accepts_new_work :: "member_record \<Rightarrow> bool" where
  "accepts_new_work r \<longleftrightarrow> mr_state r = MS_Active"

definition mr_serialize :: "member_record \<Rightarrow> bytes" where
  "mr_serialize r = concat [
     w_id128 (mr_federation r), w_generation (mr_federation_generation r), w_generation (mr_epoch r),
     w_id128 (mr_agent r), w_id128 (mr_agent_boot r), w_generation (mr_agent_generation r),
     w_id128 (mr_accelerator r), w_id128 (mr_physical_device r), w_generation (mr_device_generation r),
     w_generation (mr_capability_generation r), w_generation (mr_evidence_generation r),
     w_generation (mr_policy_generation r), w_u8 (member_state_value (mr_state r)),
     w_generation (mr_state_generation r), w_u8 (support_value (mr_support_level r)),
     w_u8 (provenance_value (mr_provenance r)), w_i64 (mr_admitted_at r), w_i64 (mr_updated_at r),
     w_list w_string (mr_history r)]"

definition mr_deserialize :: "member_record rd" where
  "mr_deserialize =
     rbind r_id128 (\<lambda>federation. rbind r_generation (\<lambda>federation_generation. rbind r_generation (\<lambda>epoch.
     rbind r_id128 (\<lambda>agent. rbind r_id128 (\<lambda>boot. rbind r_generation (\<lambda>agent_generation.
     rbind r_id128 (\<lambda>accelerator. rbind r_id128 (\<lambda>physical. rbind r_generation (\<lambda>device_generation.
     rbind r_generation (\<lambda>capability_generation. rbind r_generation (\<lambda>evidence_generation.
     rbind r_generation (\<lambda>policy_generation. rbind r_u8 (\<lambda>raw_state. rbind r_generation (\<lambda>state_generation.
     rbind r_u8 (\<lambda>raw_support. rbind r_u8 (\<lambda>raw_provenance. rbind r_i64 (\<lambda>admitted_at. rbind r_i64 (\<lambda>updated_at.
       case member_state_from_wire raw_state of
         None \<Rightarrow> rfail EC_MalformedData
       | Some state \<Rightarrow> (case support_level_from_wire raw_support of
           None \<Rightarrow> rfail EC_MalformedData
         | Some support \<Rightarrow> (case evidence_provenance_from_wire raw_provenance of
             None \<Rightarrow> rfail EC_MalformedData
           | Some provenance \<Rightarrow>
               rbind (r_list 64 4 (r_string 8192)) (\<lambda>history.
                 rguard (\<not> (is_nil accelerator \<or> is_nil agent)) EC_MalformedData
                   (rret \<lparr>mr_federation = federation, mr_federation_generation = federation_generation,
                      mr_epoch = epoch, mr_agent = agent, mr_agent_boot = boot,
                      mr_agent_generation = agent_generation, mr_accelerator = accelerator,
                      mr_physical_device = physical, mr_device_generation = device_generation,
                      mr_capability_generation = capability_generation,
                      mr_evidence_generation = evidence_generation,
                      mr_policy_generation = policy_generation, mr_state = state,
                      mr_state_generation = state_generation, mr_support_level = support,
                      mr_provenance = provenance, mr_admitted_at = admitted_at,
                      mr_updated_at = updated_at, mr_history = history\<rparr>))))))))))))))))))))))"

subsection \<open>The lifecycle as a step relation\<close>

text \<open>\<open>lifecycle s path t\<close>: a member in state \<open>s\<close> reaches \<open>t\<close> by legal transitions through the states of
  \<open>path\<close>, in that order.\<close>

inductive lifecycle :: "member_state \<Rightarrow> member_state list \<Rightarrow> member_state \<Rightarrow> bool" where
  stay: "lifecycle s [] s"
| move: "lifecycle s path t \<Longrightarrow> is_legal_transition t u \<Longrightarrow> lifecycle s (path @ [u]) u"

inductive_cases lifecycle_moveE: "lifecycle s (path @ [u]) v"

lemma is_legal_transition_simps [simp]:
  "\<not> is_legal_transition MS_Retired t" "\<not> is_legal_transition s MS_Discovered"
  "is_legal_transition s MS_Observed \<longleftrightarrow> s = MS_Discovered \<or> s = MS_Fenced"
  "is_legal_transition s MS_Admitted \<longleftrightarrow> s = MS_Observed"
  "is_legal_transition s MS_Active \<longleftrightarrow> s = MS_Admitted \<or> s = MS_Degraded \<or> s = MS_Draining"
  "is_legal_transition s MS_Degraded \<longleftrightarrow> s = MS_Admitted \<or> s = MS_Active"
  "is_legal_transition s MS_Draining \<longleftrightarrow> s = MS_Admitted \<or> s = MS_Active \<or> s = MS_Degraded"
  "is_legal_transition s MS_Fenced \<longleftrightarrow> s \<noteq> MS_Fenced \<and> s \<noteq> MS_Retired"
  "is_legal_transition s MS_Retired \<longleftrightarrow> s \<noteq> MS_Retired"
  by (cases t; simp add: is_legal_transition_def legal_transitions_def)
     (cases s; simp add: is_legal_transition_def legal_transitions_def)+

definition live_state :: "member_state \<Rightarrow> bool" where
  "live_state s \<longleftrightarrow> s \<in> {MS_Admitted, MS_Active, MS_Degraded, MS_Draining}"

lemma is_live_state: "is_live r \<longleftrightarrow> live_state (mr_state r)"
  by (simp add: is_live_def live_state_def)

text \<open>A member is never live without having been admitted after its last non-live state.\<close>

lemma lifecycle_live_admitted:
  "lifecycle s path t \<Longrightarrow> \<not> live_state s \<Longrightarrow> live_state t \<Longrightarrow>
     \<exists>before after. path = before @ MS_Admitted # after \<and> list_all live_state after \<and>
       last (s # before) = MS_Observed"
proof (induction rule: lifecycle.induct)
  case (stay s)
  then show ?case by simp
next
  case (move s path t u)
  show ?case
  proof (cases "live_state t")
    case True
    with move obtain before after where
      "path = before @ MS_Admitted # after" "list_all live_state after" "last (s # before) = MS_Observed" by blast
    with move show ?thesis by (intro exI [of _ before] exI [of _ "after @ [u]"]) simp
  next
    case False
    with move have "u = MS_Admitted" "t = MS_Observed" by (cases t; cases u; simp add: live_state_def)+
    moreover from move(1) have "last (s # path) = t" by cases auto
    ultimately show ?thesis by (intro exI [of _ path] exI [of _ "[]"]) simp
  qed
qed

text \<open>Every state that is not terminal can be fenced, and a fenced member can be admitted again.\<close>

lemma lifecycle_append: "lifecycle t path' u \<Longrightarrow> lifecycle s path t \<Longrightarrow> lifecycle s (path @ path') u"
  by (induction rule: lifecycle.induct) (auto simp flip: append_assoc intro: move)

lemma lifecycle_via_fence:
  "s \<noteq> MS_Retired \<Longrightarrow> s \<noteq> MS_Fenced \<Longrightarrow> lifecycle MS_Fenced path t \<Longrightarrow> \<exists>path. lifecycle s path t"
  using lifecycle_append move [OF stay [of s], of MS_Fenced] by (metis is_legal_transition_simps(8))

lemma lifecycle_retired: "lifecycle s path t \<Longrightarrow> s = MS_Retired \<Longrightarrow> path = [] \<and> t = MS_Retired"
  by (induction rule: lifecycle.induct) auto

subsection \<open>What validation establishes\<close>

lemma ad_validate_evidence_Ok:
  "ad_validate_evidence i p es = EC_Ok \<longleftrightarrow>
     (\<forall>e \<in> set es. ev_validate e = EC_Ok \<and> ev_subject e = i \<and> ev_provenance e = p)"
  by (induction es) auto

lemma ad_validate_Ok:
  assumes "ad_validate d = EC_Ok"
  shows "\<not> is_nil (ad_id d)" "\<not> is_nil (ad_physical_device d)" "\<not> is_nil (ad_agent d)" "\<not> is_nil (ad_agent_boot d)"
    "list_all (\<lambda>t. t \<noteq> [] \<and> length t \<le> 128) (ad_tokens d)"
    "ad_vendor d = vendor_id_from_token (ad_vendor_token d)"
    "ad_architecture d = architecture_id_from_token (ad_architecture_token d)"
    "length (ad_topology_references d) \<le> 64" "cs_validate (ad_capabilities d) = EC_Ok"
    "\<And>e. e \<in> set (ad_evidence d) \<Longrightarrow> ev_validate e = EC_Ok \<and> ev_subject e = ad_id d \<and> ev_provenance e = ad_provenance d"
    "ad_support_level d = SL_Native \<Longrightarrow> ad_provenance d = EP_Real \<and> ad_evidence d \<noteq> []"
  using assms
  by (cases "ad_provenance d"; auto simp: ad_validate_def Let_def ad_validate_evidence_Ok list_ex_iff list_all_iff split: if_splits)+

subsection \<open>Round trips\<close>

lemma support_wire [simp]: "support_level_from_wire (support_value s) = Some s"
  by (cases s) (simp_all add: support_level_from_wire_def)

lemma member_state_wire [simp]: "member_state_from_wire (member_state_value s) = Some s"
  by (cases s) (simp_all add: member_state_from_wire_def)

lemma reads_ascending:
  "sorted_wrt (<) xs \<Longrightarrow> \<forall>x \<in> set xs. length x \<le> 256 \<Longrightarrow> (\<And>p. previous = Some p \<Longrightarrow> \<forall>x \<in> set xs. p < x) \<Longrightarrow>
     reads (r_ascending (length xs) previous) (concat (map w_string xs)) xs"
proof (induction xs arbitrary: previous)
  case (Cons x xs)
  have "reads (r_ascending (length xs) (Some x)) (concat (map w_string xs)) xs"
    using Cons.prems by (intro Cons.IH) auto
  then show ?case
    using Cons.prems
    by (auto intro!: reads_rbind [OF reads_string] reads_rguard reads_rbind_ret split: option.split)
qed (simp add: reads_rret)

lemma reads_topology:
  "sorted_wrt (<) xs \<Longrightarrow> \<forall>x \<in> set xs. length x \<le> 256 \<Longrightarrow> length xs \<le> 64 \<Longrightarrow>
     reads r_topology (w_list w_string xs) xs"
  unfolding r_topology_def w_list_def
  by (rule reads_counted_loop [where cs = "[]", simplified])
     (auto simp: length_w_string intro: reads_ascending)

text \<open>The encoding of a descriptor keeps the numbers of its two versions and everything of its evidence but the
  markers: \<open>ad_wire\<close>.\<close>

definition ad_wire :: "accelerator_descriptor \<Rightarrow> accelerator_descriptor" where
  "ad_wire d = d\<lparr>ad_evidence := map ev_wire (ad_evidence d),
     ad_runtime_version := sv_make (sv_major (ad_runtime_version d)) (sv_minor (ad_runtime_version d)) (sv_patch (ad_runtime_version d)),
     ad_driver_version := sv_make (sv_major (ad_driver_version d)) (sv_minor (ad_driver_version d)) (sv_patch (ad_driver_version d))\<rparr>"

definition ad_ok :: "bool \<Rightarrow> accelerator_descriptor \<Rightarrow> bool" where
  "ad_ok persisted_scale d \<longleftrightarrow> ad_validate d = EC_Ok \<and> cs_ok (ad_capabilities d) \<and>
     list_all ev_ok (ad_evidence d) \<and> length (ad_evidence d) \<le> (if persisted_scale then 4000000 else 64) \<and>
     sorted_wrt (<) (ad_topology_references d) \<and> list_all (\<lambda>t. length t \<le> 256) (ad_topology_references d) \<and>
     - (2 ^ 63) \<le> ad_observed_at d \<and> ad_observed_at d < 2 ^ 63"

lemma w_list_map: "w_list f (map g xs) = w_list (\<lambda>x. f (g x)) xs"
  by (simp add: w_list_def comp_def)

lemma ad_wire_simps [simp]:
  "ad_wire (ad_wire d) = ad_wire d" "ad_serialize (ad_wire d) = ad_serialize d" "ad_validate (ad_wire d) = ad_validate d"
  "ad_ok p (ad_wire d) = ad_ok p d" "ad_id (ad_wire d) = ad_id d" "ad_evidence (ad_wire d) = map ev_wire (ad_evidence d)"
  "ad_capabilities (ad_wire d) = ad_capabilities d" "structural_digest (ad_wire d) = structural_digest d"
proof -
  have "ad_validate_evidence i p (map ev_wire es) = ad_validate_evidence i p es" for i p es
    by (induction es) simp_all
  moreover have "ad_tokens (ad_wire d) = ad_tokens d" "ad_vendor_disagrees (ad_wire d) = ad_vendor_disagrees d"
    by (simp_all add: ad_wire_def ad_tokens_def ad_vendor_disagrees_def Let_def split: option.split)
  ultimately show valid: "ad_validate (ad_wire d) = ad_validate d"
    unfolding ad_validate_def Let_def by (simp add: ad_wire_def cong: if_cong)
  then show "ad_ok p (ad_wire d) = ad_ok p d" by (simp add: ad_ok_def) (simp add: ad_wire_def list_all_iff)
qed (simp_all add: w_list_map ad_wire_def sv_make_def comp_def ad_serialize_def ad_identity_fields_def structural_digest_def)

lemma length_ev_serialize: "8 \<le> length (ev_serialize e)"
  by (simp add: ev_serialize_def w_id128_def w_generation_def w_u64_def w_raw_def)

lemma reads_ad_exact: "ad_ok p d \<Longrightarrow> ad_wire d = d \<Longrightarrow> reads (ad_deserialize p) (ad_serialize d) d"
proof -
  assume ok: "ad_ok p d" and exact: "ad_wire d = d"
  then have "ad_validate d = EC_Ok" by (simp add: ad_ok_def)
  note valid = ad_validate_Ok [OF this]
  have versions: "sv_make (sv_major (ad_runtime_version d)) (sv_minor (ad_runtime_version d)) (sv_patch (ad_runtime_version d)) = ad_runtime_version d"
    "sv_make (sv_major (ad_driver_version d)) (sv_minor (ad_driver_version d)) (sv_patch (ad_driver_version d)) = ad_driver_version d"
    using arg_cong [OF exact, of ad_runtime_version] arg_cong [OF exact, of ad_driver_version] by (simp_all add: ad_wire_def)
  have "map ev_wire (ad_evidence d) = map id (ad_evidence d)"
    using arg_cong [OF exact, of ad_evidence] by simp
  then have evidence: "ev_wire e = e" if "e \<in> set (ad_evidence d)" for e using that by (simp only: map_eq_conv id_apply)
  show ?thesis
    unfolding ad_deserialize_def ad_serialize_def ad_identity_fields_def append_Cons append_Nil
    apply (rule reads_chain reads_Cons [OF reads_cs, rotated])+
    apply (simp only: support_wire provenance_wire option.case)
    apply (rule reads_chain reads_chain_list reads_Cons [OF reads_topology, rotated 3])+
    subgoal by (insert ok valid versions, cases d, simp add: ad_ok_def rguard_def reads_rret Let_def)
    using ok valid reads_ev evidence by (simp_all add: ad_ok_def ad_tokens_def list_all_iff length_ev_serialize) metis
qed

lemma reads_ad: "ad_ok p d \<Longrightarrow> reads (ad_deserialize p) (ad_serialize d) (ad_wire d)"
  using reads_ad_exact [of p "ad_wire d"] by simp

interpretation descriptor_codec: codec ad_serialize "ad_deserialize p" "\<lambda>d. ad_ok p d \<and> ad_wire d = d" for p
  by unfold_locales (simp add: reads_ad_exact)

definition mr_ok :: "member_record \<Rightarrow> bool" where
  "mr_ok r \<longleftrightarrow> \<not> is_nil (mr_accelerator r) \<and> \<not> is_nil (mr_agent r) \<and> length (mr_history r) \<le> 64 \<and>
     list_all (\<lambda>h. length h \<le> 8192) (mr_history r) \<and> - (2 ^ 63) \<le> mr_admitted_at r \<and> mr_admitted_at r < 2 ^ 63 \<and>
     - (2 ^ 63) \<le> mr_updated_at r \<and> mr_updated_at r < 2 ^ 63"

lemma reads_mr: "mr_ok r \<Longrightarrow> reads mr_deserialize (mr_serialize r) r"
proof -
  assume ok: "mr_ok r"
  show ?thesis
    unfolding mr_deserialize_def mr_serialize_def
    apply (rule reads_chain)+
    apply (simp only: support_wire provenance_wire member_state_wire option.case)
    apply (rule reads_chain_list)+
    subgoal by (insert ok, cases r, simp add: mr_ok_def rguard_def reads_rret)
    using ok by (auto simp: mr_ok_def list_all_iff length_w_string intro: reads_string)
qed

interpretation member_codec: codec mr_serialize mr_deserialize mr_ok
  by unfold_locales (rule reads_mr)

end
