(* ===== verification/Portability.thy ===== *)
theory Portability
  imports Status_Ids
begin

section \<open>Portability classes\<close>

text \<open>\<^verbatim>\<open>model/portability.hpp\<close> and \<^verbatim>\<open>model/portability.cpp\<close>: the classes and their strength order.\<close>

datatype portability_class =
  PC_Unsupported | PC_Unknown | PC_RepackageAndRestartRequired | PC_StateReconstructionRequired
| PC_RepackageRequired | PC_RecompileRequired | PC_CheckpointRestoreSupported | PC_BinaryCompatible
| PC_Native | PC_LiveMigrationSupported

fun portability_strength :: "portability_class \<Rightarrow> byte" where
  "portability_strength PC_Unsupported = 0"
| "portability_strength PC_Unknown = 1"
| "portability_strength PC_RepackageAndRestartRequired = 2"
| "portability_strength PC_StateReconstructionRequired = 3"
| "portability_strength PC_RepackageRequired = 4"
| "portability_strength PC_RecompileRequired = 5"
| "portability_strength PC_CheckpointRestoreSupported = 6"
| "portability_strength PC_BinaryCompatible = 7"
| "portability_strength PC_Native = 8"
| "portability_strength PC_LiveMigrationSupported = 9"

fun portability_to_string :: "portability_class \<Rightarrow> string" where
  "portability_to_string PC_Unsupported = ''UNSUPPORTED''"
| "portability_to_string PC_Unknown = ''UNKNOWN''"
| "portability_to_string PC_RepackageAndRestartRequired = ''REPACKAGE_AND_RESTART_REQUIRED''"
| "portability_to_string PC_StateReconstructionRequired = ''STATE_RECONSTRUCTION_REQUIRED''"
| "portability_to_string PC_RepackageRequired = ''REPACKAGE_REQUIRED''"
| "portability_to_string PC_RecompileRequired = ''RECOMPILE_REQUIRED''"
| "portability_to_string PC_CheckpointRestoreSupported = ''CHECKPOINT_RESTORE_SUPPORTED''"
| "portability_to_string PC_BinaryCompatible = ''BINARY_COMPATIBLE''"
| "portability_to_string PC_Native = ''NATIVE''"
| "portability_to_string PC_LiveMigrationSupported = ''LIVE_MIGRATION_SUPPORTED''"

definition portability_class_from_token :: "string \<Rightarrow> portability_class option" where
  "portability_class_from_token token =
     (if token = ''unsupported'' then Some PC_Unsupported
      else if token = ''unknown'' then Some PC_Unknown
      else if token = ''repackage_and_restart_required'' then Some PC_RepackageAndRestartRequired
      else if token = ''state_reconstruction_required'' then Some PC_StateReconstructionRequired
      else if token = ''repackage_required'' then Some PC_RepackageRequired
      else if token = ''recompile_required'' then Some PC_RecompileRequired
      else if token = ''checkpoint_restore_supported'' then Some PC_CheckpointRestoreSupported
      else if token = ''binary_compatible'' then Some PC_BinaryCompatible
      else if token = ''native'' then Some PC_Native
      else if token = ''live_migration_supported'' then Some PC_LiveMigrationSupported
      else None)"

text \<open>The cast from the byte is the inverse of the enumeration's values.\<close>

definition portability_class_from_wire :: "byte \<Rightarrow> portability_class option" where
  "portability_class_from_wire raw =
     (if raw > portability_strength PC_LiveMigrationSupported then None
      else Some ([PC_Unsupported, PC_Unknown, PC_RepackageAndRestartRequired, PC_StateReconstructionRequired,
                  PC_RepackageRequired, PC_RecompileRequired, PC_CheckpointRestoreSupported, PC_BinaryCompatible,
                  PC_Native, PC_LiveMigrationSupported] ! unat raw))"

definition meets_portability_threshold :: "portability_class \<Rightarrow> portability_class \<Rightarrow> bool" where
  "meets_portability_threshold value minimum =
     (if value = PC_Unknown then False
      else if minimum = PC_Unknown then False
      else portability_strength value \<ge> portability_strength minimum)"

fun portability_transformation_steps :: "portability_class \<Rightarrow> byte" where
  "portability_transformation_steps PC_Native = 0"
| "portability_transformation_steps PC_LiveMigrationSupported = 0"
| "portability_transformation_steps PC_BinaryCompatible = 0"
| "portability_transformation_steps PC_CheckpointRestoreSupported = 1"
| "portability_transformation_steps PC_RecompileRequired = 2"
| "portability_transformation_steps PC_RepackageRequired = 2"
| "portability_transformation_steps PC_StateReconstructionRequired = 3"
| "portability_transformation_steps PC_RepackageAndRestartRequired = 3"
| "portability_transformation_steps PC_Unsupported = 255"
| "portability_transformation_steps PC_Unknown = 255"

definition implies_live_state_transfer :: "portability_class \<Rightarrow> bool" where
  "implies_live_state_transfer value \<longleftrightarrow> value = PC_LiveMigrationSupported"

definition requires_binary_transformation :: "portability_class \<Rightarrow> bool" where
  "requires_binary_transformation value \<longleftrightarrow> value \<in> {PC_RecompileRequired, PC_RepackageRequired,
     PC_RepackageAndRestartRequired, PC_StateReconstructionRequired}"

definition requires_state_reconstruction :: "portability_class \<Rightarrow> bool" where
  "requires_state_reconstruction value \<longleftrightarrow>
     value \<in> {PC_StateReconstructionRequired, PC_RepackageAndRestartRequired}"

subsection \<open>The order of the classes\<close>

lemma portability_wire [simp]: "portability_class_from_wire (portability_strength c) = Some c"
  by (cases c) (simp_all add: portability_class_from_wire_def)

lemma portability_strength_inject [simp]: "portability_strength a = portability_strength b \<longleftrightarrow> a = b"
  using portability_wire by (metis option.inject)

instantiation portability_class :: linorder
begin

definition less_eq_portability_class :: "portability_class \<Rightarrow> portability_class \<Rightarrow> bool" where
  "less_eq_portability_class a b \<longleftrightarrow> portability_strength a \<le> portability_strength b"

definition less_portability_class :: "portability_class \<Rightarrow> portability_class \<Rightarrow> bool" where
  "less_portability_class a b \<longleftrightarrow> portability_strength a < portability_strength b"

instance
  by standard (auto simp: less_eq_portability_class_def less_portability_class_def less_le)

end

text \<open>No unknown class meets a threshold, no threshold of unknown is met, and a stronger class meets
  what a weaker one does.\<close>

lemma threshold_unknown [simp]:
  "\<not> meets_portability_threshold PC_Unknown m" "\<not> meets_portability_threshold v PC_Unknown"
  by (simp_all add: meets_portability_threshold_def)

lemma threshold_mono:
  "meets_portability_threshold v m \<Longrightarrow> v \<le> w \<Longrightarrow> w \<noteq> PC_Unknown \<Longrightarrow> meets_portability_threshold w m"
  by (auto simp: meets_portability_threshold_def less_eq_portability_class_def split: if_splits)

lemma threshold_unsupported: "meets_portability_threshold PC_Unsupported m \<longleftrightarrow> m = PC_Unsupported"
  by (cases m) (simp_all add: meets_portability_threshold_def)

end
