(* ===== verification/Workload.thy ===== *)
theory Workload
  imports Capability Portability
begin

section \<open>Workload requirements and profiles\<close>

text \<open>
  \<^verbatim>\<open>model/workload.hpp\<close> and \<^verbatim>\<open>model/workload.cpp\<close>. A requirement weight is the bit pattern of a
  \<^verbatim>\<open>double\<close>. \<^verbatim>\<open>require_equals\<close> and the \<^verbatim>\<open>CapabilityValue::parse\<close> it calls are not modelled.
\<close>

datatype requirement_strength = RS_Hard | RS_Soft

fun strength_value :: "requirement_strength \<Rightarrow> byte" where
  "strength_value RS_Hard = 0"
| "strength_value RS_Soft = 1"

fun strength_to_string :: "requirement_strength \<Rightarrow> string" where
  "strength_to_string RS_Hard = ''HARD''"
| "strength_to_string RS_Soft = ''SOFT''"

definition requirement_strength_from_wire :: "byte \<Rightarrow> requirement_strength option" where
  "requirement_strength_from_wire raw =
     (if raw = 0 then Some RS_Hard else if raw = 1 then Some RS_Soft else None)"

datatype requirement_operator =
  RO_Present | RO_Absent | RO_Equals | RO_NotEquals | RO_AtLeast | RO_AtMost | RO_GreaterThan | RO_LessThan
| RO_InSet | RO_SupersetOf | RO_SubsetOf | RO_IntersectsWith | RO_VersionSatisfies

fun requirement_operator_value :: "requirement_operator \<Rightarrow> byte" where
  "requirement_operator_value RO_Present = 0"
| "requirement_operator_value RO_Absent = 1"
| "requirement_operator_value RO_Equals = 2"
| "requirement_operator_value RO_NotEquals = 3"
| "requirement_operator_value RO_AtLeast = 4"
| "requirement_operator_value RO_AtMost = 5"
| "requirement_operator_value RO_GreaterThan = 6"
| "requirement_operator_value RO_LessThan = 7"
| "requirement_operator_value RO_InSet = 8"
| "requirement_operator_value RO_SupersetOf = 9"
| "requirement_operator_value RO_SubsetOf = 10"
| "requirement_operator_value RO_IntersectsWith = 11"
| "requirement_operator_value RO_VersionSatisfies = 12"

fun requirement_operator_to_string :: "requirement_operator \<Rightarrow> string" where
  "requirement_operator_to_string RO_Present = ''PRESENT''"
| "requirement_operator_to_string RO_Absent = ''ABSENT''"
| "requirement_operator_to_string RO_Equals = ''EQUALS''"
| "requirement_operator_to_string RO_NotEquals = ''NOT_EQUALS''"
| "requirement_operator_to_string RO_AtLeast = ''AT_LEAST''"
| "requirement_operator_to_string RO_AtMost = ''AT_MOST''"
| "requirement_operator_to_string RO_GreaterThan = ''GREATER_THAN''"
| "requirement_operator_to_string RO_LessThan = ''LESS_THAN''"
| "requirement_operator_to_string RO_InSet = ''IN_SET''"
| "requirement_operator_to_string RO_SupersetOf = ''SUPERSET_OF''"
| "requirement_operator_to_string RO_SubsetOf = ''SUBSET_OF''"
| "requirement_operator_to_string RO_IntersectsWith = ''INTERSECTS_WITH''"
| "requirement_operator_to_string RO_VersionSatisfies = ''VERSION_SATISFIES''"

definition requirement_operator_from_wire :: "byte \<Rightarrow> requirement_operator option" where
  "requirement_operator_from_wire raw =
     (if raw > requirement_operator_value RO_VersionSatisfies then None
      else Some ([RO_Present, RO_Absent, RO_Equals, RO_NotEquals, RO_AtLeast, RO_AtMost, RO_GreaterThan,
                  RO_LessThan, RO_InSet, RO_SupersetOf, RO_SubsetOf, RO_IntersectsWith,
                  RO_VersionSatisfies] ! unat raw))"

datatype execution_mode = EM_ExactBinary | EM_EquivalentAllowed | EM_AnyPortability

fun execution_mode_value :: "execution_mode \<Rightarrow> byte" where
  "execution_mode_value EM_ExactBinary = 0"
| "execution_mode_value EM_EquivalentAllowed = 1"
| "execution_mode_value EM_AnyPortability = 2"

definition execution_mode_from_wire :: "byte \<Rightarrow> execution_mode option" where
  "execution_mode_from_wire raw =
     (if raw = 0 then Some EM_ExactBinary else if raw = 1 then Some EM_EquivalentAllowed
      else if raw = 2 then Some EM_AnyPortability else None)"

datatype migration_need = MN_None | MN_RestartOnly | MN_CheckpointRestore | MN_LiveStateTransfer

fun migration_need_value :: "migration_need \<Rightarrow> byte" where
  "migration_need_value MN_None = 0"
| "migration_need_value MN_RestartOnly = 1"
| "migration_need_value MN_CheckpointRestore = 2"
| "migration_need_value MN_LiveStateTransfer = 3"

fun migration_need_to_string :: "migration_need \<Rightarrow> string" where
  "migration_need_to_string MN_None = ''NONE''"
| "migration_need_to_string MN_RestartOnly = ''RESTART_ONLY''"
| "migration_need_to_string MN_CheckpointRestore = ''CHECKPOINT_RESTORE''"
| "migration_need_to_string MN_LiveStateTransfer = ''LIVE_STATE_TRANSFER''"

definition migration_need_from_wire :: "byte \<Rightarrow> migration_need option" where
  "migration_need_from_wire raw =
     (if raw = 0 then Some MN_None else if raw = 1 then Some MN_RestartOnly
      else if raw = 2 then Some MN_CheckpointRestore else if raw = 3 then Some MN_LiveStateTransfer else None)"

subsection \<open>Requirements\<close>

record capability_requirement =
  rq_id :: workload_requirement_id
  rq_capability :: string
  rq_strength :: requirement_strength
  rq_op :: requirement_operator
  rq_value :: capability_value
  rq_version_range :: version_range
  rq_weight :: double
  rq_rationale :: string

definition rq_validate_operator :: "capability_requirement \<Rightarrow> error_code" where
  "rq_validate_operator q =
     (let kind = cv_kind (rq_value q) in
      if rq_op q = RO_VersionSatisfies then
        (if kind \<noteq> CK_Version then EC_CapabilityMismatch
         else if rq_version_range q = [] then EC_MalformedVersionRange
         else EC_Ok)
      else if rq_op q \<in> {RO_InSet, RO_SupersetOf, RO_SubsetOf, RO_IntersectsWith} then
        (if kind \<noteq> CK_TokenSet \<and> kind \<noteq> CK_Enumeration then EC_CapabilityMismatch else EC_Ok)
      else if rq_op q \<in> {RO_AtLeast, RO_AtMost, RO_GreaterThan, RO_LessThan} then
        (if kind \<noteq> CK_Integer \<and> kind \<noteq> CK_Scalar \<and> kind \<noteq> CK_Version then EC_CapabilityMismatch else EC_Ok)
      else EC_Ok)"

definition rq_validate :: "capability_requirement \<Rightarrow> error_code" where
  "rq_validate q =
     (if is_nil (rq_id q) then EC_InvalidArgument
      else if rq_capability q = [] \<or> length (rq_capability q) > 256 then EC_InvalidArgument
      else case key_resolve (rq_capability q) of
        Inl e \<Rightarrow> e
      | Inr key \<Rightarrow>
          if cv_kind (rq_value q) \<noteq> key_kind key then EC_CapabilityMismatch
          else if \<not> dbl_finite (rq_weight q) then EC_NonFiniteQuantity
          else if \<not> dbl_le 0 (rq_weight q) \<or> \<not> dbl_le (rq_weight q) dbl_one_e9 then EC_ImpossibleQuantity
          else if rq_strength q = RS_Hard \<and> \<not> dbl_eq (rq_weight q) 0 then EC_InvalidArgument
          else if length (rq_rationale q) > 1024 then EC_BoundsExceeded
          else rq_validate_operator q)"

fun version_operator_value :: "version_operator \<Rightarrow> byte" where
  "version_operator_value VO_Any = 0"
| "version_operator_value VO_Equal = 1"
| "version_operator_value VO_NotEqual = 2"
| "version_operator_value VO_Less = 3"
| "version_operator_value VO_LessEqual = 4"
| "version_operator_value VO_Greater = 5"
| "version_operator_value VO_GreaterEqual = 6"
| "version_operator_value VO_Compatible = 7"
| "version_operator_value VO_Tilde = 8"

definition version_operator_cast :: "byte \<Rightarrow> version_operator" where
  "version_operator_cast raw = [VO_Any, VO_Equal, VO_NotEqual, VO_Less, VO_LessEqual, VO_Greater, VO_GreaterEqual,
     VO_Compatible, VO_Tilde] ! unat raw"

definition clause_serialize :: "version_clause \<Rightarrow> bytes" where
  "clause_serialize c = concat [
     w_u8 (version_operator_value (vc_op c)), w_u32 (sv_major (vc_version c)), w_u32 (sv_minor (vc_version c)),
     w_u32 (sv_patch (vc_version c)), w_string (sv_prerelease (vc_version c))]"

definition clause_deserialize :: "version_clause rd" where
  "clause_deserialize =
     rbind r_u8 (\<lambda>clause_op. rbind r_u32 (\<lambda>major. rbind r_u32 (\<lambda>minor. rbind r_u32 (\<lambda>patch.
     rbind (r_string 128) (\<lambda>prerelease.
       rguard (\<not> clause_op > version_operator_value VO_Tilde) EC_MalformedVersionRange
         (rret \<lparr>vc_op = version_operator_cast clause_op,
                vc_version = (sv_make major minor patch)\<lparr>sv_prerelease := prerelease\<rparr>\<rparr>))))))"

definition rq_serialize :: "capability_requirement \<Rightarrow> bytes" where
  "rq_serialize q = concat [
     w_id128 (rq_id q), w_string (rq_capability q), w_u8 (strength_value (rq_strength q)),
     w_u8 (requirement_operator_value (rq_op q)), cv_serialize (rq_value q),
     w_list clause_serialize (rq_version_range q), w_f64 (rq_weight q), w_string (rq_rationale q)]"

text \<open>The text the decoder feeds to the range parser: unlike \<^const>\<open>clause_to_string\<close> it prints the version
  of an \<^const>\<open>VO_Any\<close> clause too.\<close>

definition clause_text :: "version_clause \<Rightarrow> string" where
  "clause_text c = operator_text (vc_op c) @ sv_to_string (vc_version c)"

fun clauses_text :: "version_range \<Rightarrow> string" where
  "clauses_text [] = []"
| "clauses_text [c] = clause_text c"
| "clauses_text (c # cs) = clause_text c @ '' '' @ clauses_text cs"

definition rq_deserialize :: "capability_requirement rd" where
  "rq_deserialize =
     rbind r_id128 (\<lambda>id. rbind (r_string 256) (\<lambda>capability. rbind r_u8 (\<lambda>raw_strength. rbind r_u8 (\<lambda>raw_op.
       case requirement_strength_from_wire raw_strength of
         None \<Rightarrow> rfail EC_MalformedData
       | Some strength \<Rightarrow> (case requirement_operator_from_wire raw_op of
           None \<Rightarrow> rfail EC_MalformedData
         | Some op \<Rightarrow> (case key_resolve capability of
             Inl e \<Rightarrow> rfail e
           | Inr key \<Rightarrow>
               rbind cv_deserialize (\<lambda>value.
               rguard (cv_kind value = key_kind key) EC_CapabilityMismatch (
               rbind (r_list 32 13 clause_deserialize) (\<lambda>clauses.
                 case (if clauses = [] then Inr [] else range_parse (clauses_text clauses)) of
                   Inl e \<Rightarrow> rfail e
                 | Inr parsed \<Rightarrow>
                     rbind r_f64 (\<lambda>weight. rbind (r_string 1024) (\<lambda>rationale.
                       let q = \<lparr>rq_id = id, rq_capability = capability, rq_strength = strength, rq_op = op,
                                rq_value = value, rq_version_range = parsed, rq_weight = weight,
                                rq_rationale = rationale\<rparr>
                       in rguard (rq_validate q = EC_Ok) (rq_validate q) (rret q))))))))))))"

subsection \<open>Profiles\<close>

record workload_profile =
  wp_class_id :: workload_class_id
  wp_requirement_id :: workload_requirement_id
  wp_revision :: generation
  wp_name :: string
  wp_description :: string
  wp_requirements :: "capability_requirement list"
  wp_execution_mode :: execution_mode
  wp_minimum_portability :: portability_class
  wp_migration_need :: migration_need
  wp_reconstruction_allowed :: bool
  wp_required_policy_tags :: "string list"

text \<open>The key under which a requirement may occur only once.\<close>

definition rq_signature :: "capability_requirement \<Rightarrow> string" where
  "rq_signature q = rq_capability q @ ''#'' @ strength_to_string (rq_strength q) @ ''#'' @
     requirement_operator_to_string (rq_op q)"

fun rq_validate_all :: "capability_requirement list \<Rightarrow> error_code" where
  "rq_validate_all [] = EC_Ok"
| "rq_validate_all (q # qs) = (if rq_validate q \<noteq> EC_Ok then rq_validate q else rq_validate_all qs)"

definition wp_validate :: "workload_profile \<Rightarrow> error_code" where
  "wp_validate w =
     (if is_nil (wp_class_id w) then EC_InvalidArgument
      else if is_nil (wp_requirement_id w) then EC_InvalidArgument
      else if wp_name w = [] \<or> length (wp_name w) > 256 then EC_InvalidArgument
      else if length (wp_description w) > 8192 then EC_BoundsExceeded
      else if length (wp_requirements w) > 4096 then EC_BoundsExceeded
      else if rq_validate_all (wp_requirements w) \<noteq> EC_Ok then rq_validate_all (wp_requirements w)
      else if adjacent_dup (std_sort (map rq_signature (wp_requirements w))) then EC_DuplicateIdentity
      else if length (wp_required_policy_tags w) > 1024 then EC_BoundsExceeded
      else if adjacent_dup (std_sort (wp_required_policy_tags w)) then EC_DuplicateIdentity
      else if list_ex (\<lambda>tag. tag = [] \<or> length tag > 128) (wp_required_policy_tags w) then EC_InvalidArgument
      else if wp_minimum_portability w = PC_LiveMigrationSupported \<and> wp_migration_need w \<noteq> MN_LiveStateTransfer
      then EC_InvalidArgument
      else EC_Ok)"

definition rq_less :: "capability_requirement \<Rightarrow> capability_requirement \<Rightarrow> bool" where
  "rq_less a b =
     (if rq_capability a \<noteq> rq_capability b then rq_capability a < rq_capability b
      else if rq_strength a \<noteq> rq_strength b then strength_value (rq_strength a) < strength_value (rq_strength b)
      else requirement_operator_value (rq_op a) < requirement_operator_value (rq_op b))"

definition rq_content :: "capability_requirement \<Rightarrow> bytes" where
  "rq_content q = concat [
     w_string (rq_capability q), w_u8 (strength_value (rq_strength q)), w_u8 (requirement_operator_value (rq_op q)),
     w_string (cv_render (rq_value q)), w_string (range_to_string (rq_version_range q)), w_f64 (rq_weight q),
     w_string (rq_rationale q)]"

definition wp_digest :: "workload_profile \<Rightarrow> bytes" where
  "wp_digest w = sha_hash (concat [
     w_id128 (wp_class_id w), w_string (wp_name w), w_string (wp_description w),
     w_u8 (execution_mode_value (wp_execution_mode w)), w_u8 (portability_strength (wp_minimum_portability w)),
     w_u8 (migration_need_value (wp_migration_need w)), w_boolean (wp_reconstruction_allowed w),
     w_list rq_content (sort_by rq_less (wp_requirements w)),
     w_list w_string (std_sort (wp_required_policy_tags w))])"

definition wp_serialize :: "workload_profile \<Rightarrow> bytes" where
  "wp_serialize w = concat [
     w_id128 (wp_class_id w), w_id128 (wp_requirement_id w), w_generation (wp_revision w), w_string (wp_name w),
     w_string (wp_description w), w_u8 (execution_mode_value (wp_execution_mode w)),
     w_u8 (portability_strength (wp_minimum_portability w)), w_u8 (migration_need_value (wp_migration_need w)),
     w_boolean (wp_reconstruction_allowed w), w_list rq_serialize (wp_requirements w),
     w_list w_string (wp_required_policy_tags w)]"

definition wp_deserialize :: "workload_profile rd" where
  "wp_deserialize =
     rbind r_id128 (\<lambda>class_id. rbind r_id128 (\<lambda>requirement_id. rbind r_generation (\<lambda>revision.
     rbind (r_string 256) (\<lambda>name. rbind (r_string 8192) (\<lambda>description. rbind r_u8 (\<lambda>raw_mode.
     rbind r_u8 (\<lambda>raw_portability. rbind r_u8 (\<lambda>raw_need. rbind r_boolean (\<lambda>reconstruction_allowed.
       case execution_mode_from_wire raw_mode of
         None \<Rightarrow> rfail EC_MalformedData
       | Some mode \<Rightarrow> (case portability_class_from_wire raw_portability of
           None \<Rightarrow> rfail EC_MalformedData
         | Some minimum \<Rightarrow> (case migration_need_from_wire raw_need of
             None \<Rightarrow> rfail EC_MalformedData
           | Some need \<Rightarrow>
               rbind (r_list 4096 8 rq_deserialize) (\<lambda>requirements.
               rbind (r_list 1024 4 (r_string 128)) (\<lambda>tags.
                 let w = \<lparr>wp_class_id = class_id, wp_requirement_id = requirement_id, wp_revision = revision,
                          wp_name = name, wp_description = description, wp_requirements = requirements,
                          wp_execution_mode = mode, wp_minimum_portability = minimum,
                          wp_migration_need = need, wp_reconstruction_allowed = reconstruction_allowed,
                          wp_required_policy_tags = tags\<rparr>
                 in rguard (wp_validate w = EC_Ok) (wp_validate w) (rret w))))))))))))))"

definition hard_requirement_count :: "workload_profile \<Rightarrow> nat" where
  "hard_requirement_count w = length (filter (\<lambda>q. rq_strength q = RS_Hard) (wp_requirements w))"

definition soft_requirement_count :: "workload_profile \<Rightarrow> nat" where
  "soft_requirement_count w = length (wp_requirements w) - hard_requirement_count w"

definition derive_requirement_id :: "workload_profile \<Rightarrow> workload_requirement_id" where
  "derive_requirement_id w =
     derive_identity ''haf.workload-requirement'' (digest_hex (sha_hash (w_id128 (wp_class_id w) @ w_string (wp_name w))))"

definition fold_digest_byte :: "byte \<Rightarrow> u64 \<Rightarrow> u64" where
  "fold_digest_byte b folded = (let f = push_bit 8 folded OR ucast b in f XOR drop_bit 29 f)"

definition derive_workload_revision :: "workload_profile \<Rightarrow> generation" where
  "derive_workload_revision w =
     (let folded = fold fold_digest_byte (wp_digest w) 0 in if folded = 0 then 1 else folded)"

subsection \<open>Builders\<close>

definition base_requirement :: "string \<Rightarrow> requirement_strength \<Rightarrow> capability_requirement result" where
  "base_requirement capability strength =
     (case key_resolve capability of
        Inl e \<Rightarrow> Inl e
      | Inr key \<Rightarrow> Inr \<lparr>rq_id = nil_id, rq_capability = key, rq_strength = strength, rq_op = RO_Present,
                        rq_value = cv_default (key_kind key), rq_version_range = [], rq_weight = 0,
                        rq_rationale = []\<rparr>)"

definition requirement_identity :: "string \<Rightarrow> workload_requirement_id" where
  "requirement_identity content = derive_identity ''haf.requirement'' content"

definition require_present :: "string \<Rightarrow> requirement_strength \<Rightarrow> capability_requirement result" where
  "require_present capability strength =
     (case base_requirement capability strength of
        Inl e \<Rightarrow> Inl e
      | Inr q \<Rightarrow> Inr (q\<lparr>rq_op := RO_Present, rq_id := requirement_identity (rq_capability q @ ''|present'')\<rparr>))"

definition require_absent :: "string \<Rightarrow> requirement_strength \<Rightarrow> capability_requirement result" where
  "require_absent capability strength =
     (case base_requirement capability strength of
        Inl e \<Rightarrow> Inl e
      | Inr q \<Rightarrow> Inr (q\<lparr>rq_op := RO_Absent, rq_id := requirement_identity (rq_capability q @ ''|absent'')\<rparr>))"

definition checked_requirement :: "capability_requirement \<Rightarrow> capability_requirement result" where
  "checked_requirement q = (if rq_validate q \<noteq> EC_Ok then Inl (rq_validate q) else Inr q)"

definition require_at_least :: "string \<Rightarrow> int \<Rightarrow> requirement_strength \<Rightarrow> capability_requirement result" where
  "require_at_least capability v strength =
     (case base_requirement capability strength of
        Inl e \<Rightarrow> Inl e
      | Inr q \<Rightarrow> checked_requirement (q\<lparr>rq_op := RO_AtLeast, rq_value := CV_Integer v,
          rq_id := requirement_identity (rq_capability q @ ''|at_least|'' @ string_of_int v)\<rparr>))"

definition require_token_in :: "string \<Rightarrow> string list \<Rightarrow> requirement_strength \<Rightarrow> capability_requirement result" where
  "require_token_in capability tokens strength =
     (case base_requirement capability strength of
        Inl e \<Rightarrow> Inl e
      | Inr q \<Rightarrow> (case cv_canonicalize (CV_TokenSet tokens) of
          Inl e \<Rightarrow> Inl e
        | Inr v \<Rightarrow> checked_requirement (q\<lparr>rq_op := RO_InSet, rq_value := v,
            rq_id := requirement_identity (rq_capability q @ ''|in|'' @ cv_render v)\<rparr>)))"

definition require_tokens_superset ::
    "string \<Rightarrow> string list \<Rightarrow> requirement_strength \<Rightarrow> capability_requirement result" where
  "require_tokens_superset capability tokens strength =
     (case base_requirement capability strength of
        Inl e \<Rightarrow> Inl e
      | Inr q \<Rightarrow> (case cv_canonicalize (CV_TokenSet tokens) of
          Inl e \<Rightarrow> Inl e
        | Inr v \<Rightarrow> checked_requirement (q\<lparr>rq_op := RO_SupersetOf, rq_value := v,
            rq_id := requirement_identity (rq_capability q @ ''|superset|'' @ cv_render v)\<rparr>)))"

definition require_version_range :: "string \<Rightarrow> string \<Rightarrow> requirement_strength \<Rightarrow> capability_requirement result" where
  "require_version_range capability expression strength =
     (case base_requirement capability strength of
        Inl e \<Rightarrow> Inl e
      | Inr q \<Rightarrow> (case range_parse expression of
          Inl e \<Rightarrow> Inl e
        | Inr parsed \<Rightarrow> checked_requirement (q\<lparr>rq_op := RO_VersionSatisfies, rq_version_range := parsed,
            rq_value := CV_Version (sv_make 0 0 0),
            rq_id := requirement_identity (rq_capability q @ ''|version|'' @ range_to_string parsed)\<rparr>)))"

subsection \<open>What validation establishes\<close>

lemma strength_wire [simp]: "requirement_strength_from_wire (strength_value s) = Some s"
  by (cases s) (simp_all add: requirement_strength_from_wire_def)

lemma requirement_operator_wire [simp]: "requirement_operator_from_wire (requirement_operator_value r) = Some r"
  by (cases r) (simp_all add: requirement_operator_from_wire_def)

lemma execution_mode_wire [simp]: "execution_mode_from_wire (execution_mode_value m) = Some m"
  by (cases m) (simp_all add: execution_mode_from_wire_def)

lemma migration_need_wire [simp]: "migration_need_from_wire (migration_need_value n) = Some n"
  by (cases n) (simp_all add: migration_need_from_wire_def)

lemma version_operator_wire [simp]:
  "version_operator_cast (version_operator_value v) = v" "\<not> version_operator_value v > 8"
  by (cases v; simp add: version_operator_cast_def)+

lemma strength_value_inject [simp]: "strength_value a = strength_value b \<longleftrightarrow> a = b"
  by (metis strength_wire option.inject)

lemma requirement_operator_value_inject [simp]: "requirement_operator_value a = requirement_operator_value b \<longleftrightarrow> a = b"
  by (metis requirement_operator_wire option.inject)

interpretation requirement_order: comparator rq_less
  "\<lambda>q. (rq_capability q, strength_value (rq_strength q), requirement_operator_value (rq_op q))"
  by unfold_locales (auto simp: rq_less_def less_le)

lemma rq_validate_all_Ok: "rq_validate_all qs = EC_Ok \<longleftrightarrow> (\<forall>q \<in> set qs. rq_validate q = EC_Ok)"
  by (induction qs) auto

lemma rq_validate_Ok:
  assumes "rq_validate q = EC_Ok"
  shows "\<not> is_nil (rq_id q)" "length (rq_capability q) \<le> 256" "length (rq_rationale q) \<le> 1024"
    "dbl_finite (rq_weight q)" "dbl_le 0 (rq_weight q)" "dbl_le (rq_weight q) dbl_one_e9"
    "\<exists>key. key_resolve (rq_capability q) = Inr key \<and> cv_kind (rq_value q) = key_kind key"
    "rq_strength q = RS_Hard \<Longrightarrow> dbl_eq (rq_weight q) 0" "rq_validate_operator q = EC_Ok"
  using assms by (auto simp: rq_validate_def key_resolve_error split: if_splits sum.splits)

lemma wp_validate_Ok:
  assumes "wp_validate w = EC_Ok"
  shows "\<not> is_nil (wp_class_id w)" "wp_name w \<noteq> []" "length (wp_name w) \<le> 256" "length (wp_description w) \<le> 8192"
    "length (wp_requirements w) \<le> 4096" "\<And>q. q \<in> set (wp_requirements w) \<Longrightarrow> rq_validate q = EC_Ok"
    "distinct (map rq_signature (wp_requirements w))" "distinct (wp_required_policy_tags w)"
    "length (wp_required_policy_tags w) \<le> 1024" "list_all (\<lambda>t. length t \<le> 128) (wp_required_policy_tags w)"
  using assms
  by (auto simp: wp_validate_def rq_validate_all_Ok adjacent_dup_std_sort list_all_iff list_ex_iff split: if_splits)

lemma wp_requirement_keys_distinct:
  assumes "wp_validate w = EC_Ok"
  shows "distinct (map (\<lambda>q. (rq_capability q, strength_value (rq_strength q), requirement_operator_value (rq_op q)))
           (wp_requirements w))"
proof -
  have "distinct (map rq_signature (wp_requirements w))" using assms by (rule wp_validate_Ok)
  then show ?thesis by (auto simp: distinct_map inj_on_def rq_signature_def)
qed

text \<open>Neither the order of the requirements nor that of the policy tags enters the digest.\<close>

lemma wp_digest_order:
  assumes "wp_validate w = EC_Ok" "mset (wp_requirements w) = mset qs" "mset (wp_required_policy_tags w) = mset ts"
  shows "wp_digest (w\<lparr>wp_requirements := qs, wp_required_policy_tags := ts\<rparr>) = wp_digest w"
proof -
  have "sort_by rq_less (wp_requirements w) = sort_by rq_less qs"
    using assms(2) wp_requirement_keys_distinct [OF assms(1)] by (rule requirement_order.sort_by_unique)
  moreover have "std_sort (wp_required_policy_tags w) = std_sort ts"
    using assms(3) by (simp add: std_sort_sort) (metis mset_sort properties_for_sort sorted_sort)
  ultimately show ?thesis by (simp add: wp_digest_def)
qed

lemma derive_workload_revision_pos: "derive_workload_revision w \<noteq> 0"
  by (simp add: derive_workload_revision_def Let_def)

subsection \<open>Round trips\<close>

definition clause_ok :: "version_clause \<Rightarrow> bool" where
  "clause_ok c \<longleftrightarrow> sv_wf (vc_version c) \<and> sv_build (vc_version c) = [] \<and> length (sv_prerelease (vc_version c)) \<le> 128"

lemma reads_clause: "clause_ok c \<Longrightarrow> reads clause_deserialize (clause_serialize c) c"
proof -
  assume ok: "clause_ok c"
  show ?thesis
    unfolding clause_deserialize_def clause_serialize_def
    apply (rule reads_chain)+
    subgoal using ok by (cases c, cases "vc_version c")
      (simp add: rguard_def clause_ok_def sv_make_def reads_rret)
    using ok by (simp_all add: clause_ok_def)
qed

lemma length_clause_serialize: "13 \<le> length (clause_serialize c)"
  by (simp add: clause_serialize_def w_u8_def w_u32_def)

text \<open>The decoder's text is the printed text exactly for ranges without an \<^const>\<open>VO_Any\<close> clause.\<close>

lemma clauses_text_join: "list_all (\<lambda>c. vc_op c \<noteq> VO_Any) r \<Longrightarrow> clauses_text r = join_clauses r"
  by (induction r rule: clauses_text.induct) (simp_all add: clause_text_def clause_to_string_def)

lemma clauses_reparse:
  assumes "list_all (\<lambda>c. clause_ok c \<and> vc_op c \<noteq> VO_Any) r"
  shows "(if r = [] then Inr [] else range_parse (clauses_text r)) = Inr r"
proof (cases "r = []")
  case False
  have "range_wf r" using assms by (auto simp: range_wf_def list_all_iff clause_ok_def)
  with False have "range_parse (range_to_string r) = Inr (map clause_canon r)" by (intro range_parse_to_string)
  moreover have "range_to_string r = clauses_text r"
    using assms False by (subst clauses_text_join) (auto simp: list_all_iff range_to_string_def)
  moreover have "map clause_canon r = r"
    using assms by (intro map_idI) (auto simp: list_all_iff clause_canon_def clause_ok_def)
  ultimately show ?thesis using False by simp
qed simp

definition rq_ok :: "capability_requirement \<Rightarrow> bool" where
  "rq_ok q \<longleftrightarrow> rq_validate q = EC_Ok \<and> cv_ok (rq_value q) \<and> length (rq_version_range q) \<le> 32 \<and>
     list_all (\<lambda>c. clause_ok c \<and> vc_op c \<noteq> VO_Any) (rq_version_range q)"

lemma reads_rq: "rq_ok q \<Longrightarrow> reads rq_deserialize (rq_serialize q) q"
proof -
  assume ok: "rq_ok q"
  then have "rq_validate q = EC_Ok" by (simp add: rq_ok_def)
  note valid = rq_validate_Ok [OF this]
  from valid(7) obtain key where key: "key_resolve (rq_capability q) = Inr key" "cv_kind (rq_value q) = key_kind key"
    by blast
  have parse: "(if rq_version_range q = [] then Inr [] else range_parse (clauses_text (rq_version_range q))) =
      Inr (rq_version_range q)"
    using ok by (intro clauses_reparse) (simp add: rq_ok_def)
  show ?thesis
    unfolding rq_deserialize_def rq_serialize_def
    apply (rule reads_chain)+
     apply (simp only: strength_wire requirement_operator_wire option.case key(1) sum.case)
     apply (rule reads_Cons [OF reads_cv])
      apply (use ok in \<open>simp add: rq_ok_def\<close>)
     apply (simp only: key(2) rguard_def if_True simp_thms)
     apply (rule reads_chain_list)
         apply (simp only: parse sum.case)
         apply (rule reads_chain reads_chain_list)+
           apply (use ok in \<open>cases q, simp add: rq_ok_def rguard_def reads_rret Let_def\<close>)
    using ok valid by (auto simp: rq_ok_def list_all_iff length_clause_serialize intro: reads_clause)
qed

interpretation requirement_codec: codec rq_serialize rq_deserialize rq_ok
  by unfold_locales (rule reads_rq)

definition wp_ok :: "workload_profile \<Rightarrow> bool" where
  "wp_ok w \<longleftrightarrow> wp_validate w = EC_Ok \<and> list_all rq_ok (wp_requirements w)"

lemma length_rq_serialize: "8 \<le> length (rq_serialize q)"
  by (simp add: rq_serialize_def w_id128_def w_raw_def)

lemma reads_wp: "wp_ok w \<Longrightarrow> reads wp_deserialize (wp_serialize w) w"
proof -
  assume ok: "wp_ok w"
  then have "wp_validate w = EC_Ok" by (simp add: wp_ok_def)
  note valid = wp_validate_Ok [OF this]
  show ?thesis
    unfolding wp_deserialize_def wp_serialize_def
    apply (rule reads_chain)+
      apply (simp only: execution_mode_wire portability_wire migration_need_wire option.case)
      apply (rule reads_chain_list)+
              apply (use ok in \<open>cases w, simp add: wp_ok_def rguard_def reads_rret Let_def\<close>)
    using ok valid
    by (auto simp: wp_ok_def list_all_iff length_rq_serialize length_w_string intro: reads_rq reads_string)
qed

interpretation profile_codec: codec wp_serialize wp_deserialize wp_ok
  by unfold_locales (rule reads_wp)

text \<open>A range with an \<^const>\<open>VO_Any\<close> clause, which \<^verbatim>\<open>"*"\<close> parses to, is written but refused by the reader.\<close>

lemma any_clause_text: "range_parse (clause_text any_clause) = Inl EC_MalformedVersionRange"
  by code_simp

lemma rq_any_refused:
  assumes "rq_validate q = EC_Ok" "cv_ok (rq_value q)" "rq_version_range q = [any_clause]"
  shows "refuses rq_deserialize (rq_serialize q) EC_MalformedVersionRange"
proof -
  note valid = rq_validate_Ok [OF assms(1)]
  from valid(7) obtain key where key: "key_resolve (rq_capability q) = Inr key" "cv_kind (rq_value q) = key_kind key"
    by blast
  have any: "clause_ok any_clause" by (simp add: clause_ok_def any_clause_def sv_wf_def sv_make_def)
  have range: "reads (r_list 32 13 clause_deserialize) (w_list clause_serialize [any_clause]) [any_clause]"
    by (rule reads_list) (simp_all add: length_clause_serialize reads_clause [OF any])
  show ?thesis
    unfolding rq_deserialize_def rq_serialize_def assms(3)
    apply (rule refuses_Cons [OF reads_id128] refuses_Cons [OF reads_string, rotated 2] refuses_Cons [OF reads_u8])+
      apply (simp only: strength_wire requirement_operator_wire option.case key(1) sum.case)
      apply (rule refuses_Cons [OF reads_cv [OF assms(2)]])
      apply (simp only: key(2) rguard_def if_True simp_thms)
      apply (rule refuses_Cons [OF range])
    using valid by (simp_all add: any_clause_text refuses_rfail)
qed

end
