(* ===== verification/Policy.thy ===== *)
theory Policy
  imports Evidence Portability
begin

section \<open>Federation policy\<close>

text \<open>
  \<^verbatim>\<open>model/policy.hpp\<close> and \<^verbatim>\<open>model/policy.cpp\<close>: validation, content digest and identity, and the codec,
  which canonicalizes what it decodes and checks the identity against the content.
\<close>

datatype synthetic_policy = SP_Reject | SP_Allow | SP_Require

fun synthetic_policy_value :: "synthetic_policy \<Rightarrow> byte" where
  "synthetic_policy_value SP_Reject = 0"
| "synthetic_policy_value SP_Allow = 1"
| "synthetic_policy_value SP_Require = 2"

definition synthetic_evidence_policy_from_token :: "string \<Rightarrow> synthetic_policy option" where
  "synthetic_evidence_policy_from_token token =
     (if token = ''reject'' then Some SP_Reject else if token = ''allow'' then Some SP_Allow
      else if token = ''require'' then Some SP_Require else None)"

definition synthetic_evidence_policy_from_wire :: "byte \<Rightarrow> synthetic_policy option" where
  "synthetic_evidence_policy_from_wire raw =
     (if raw = 0 then Some SP_Reject else if raw = 1 then Some SP_Allow
      else if raw = 2 then Some SP_Require else None)"

record federation_policy =
  pl_id :: policy_id
  pl_generation :: generation
  pl_name :: string
  pl_allowed_vendors :: "string list"
  pl_forbidden_vendors :: "string list"
  pl_forbidden_accelerators :: "accelerator_id list"
  pl_deprecated_architectures :: "string list"
  pl_minimum_runtime_version :: version_range
  pl_required_evidence_freshness_nanos :: u64
  pl_synthetic_evidence_policy :: synthetic_policy
  pl_require_real_evidence_for_active :: bool
  pl_required_capabilities :: "string list"
  pl_denied_capabilities :: "string list"
  pl_allowed_portability_classes :: "portability_class list"
  pl_allow_cross_vendor_migration :: bool
  pl_allow_cross_vendor_reconstruction :: bool
  pl_allow_degraded_capabilities :: bool
  pl_minimum_memory_bytes :: u64
  pl_tags :: "string list"

subsection \<open>Canonical lists\<close>

definition canonicalize_sorted :: "'a :: linorder list \<Rightarrow> 'a list result" where
  "canonicalize_sorted values =
     (if length values > 1024 then Inl EC_BoundsExceeded
      else let sorted_values = std_sort values in
        if adjacent_dup sorted_values then Inl EC_DuplicateIdentity else Inr sorted_values)"

definition canonicalize_tokens :: "string list \<Rightarrow> string list result" where
  "canonicalize_tokens values =
     (case collect (\<lambda>v. canonical_token v 128) values of
        Inl e \<Rightarrow> Inl e
      | Inr canonical \<Rightarrow> canonicalize_sorted canonical)"

definition canonicalize_capabilities :: "string list \<Rightarrow> string list result" where
  "canonicalize_capabilities values =
     (case collect key_resolve values of
        Inl e \<Rightarrow> Inl e
      | Inr canonical \<Rightarrow> canonicalize_sorted canonical)"

subsection \<open>Validation, digest, identity\<close>

definition capabilities_resolve :: "string list \<Rightarrow> error_code" where
  "capabilities_resolve names = (case collect key_resolve names of Inl e \<Rightarrow> e | Inr _ \<Rightarrow> EC_Ok)"

definition pl_validate :: "federation_policy \<Rightarrow> error_code" where
  "pl_validate p =
     (if is_nil (pl_id p) then EC_InvalidArgument
      else if length (pl_name p) > 256 then EC_BoundsExceeded
      else if length (pl_allowed_vendors p) > 1024 \<or> length (pl_forbidden_vendors p) > 1024 \<or>
              length (pl_forbidden_accelerators p) > 1024 \<or> length (pl_deprecated_architectures p) > 1024 \<or>
              length (pl_required_capabilities p) > 1024 \<or> length (pl_denied_capabilities p) > 1024 \<or>
              length (pl_tags p) > 1024 then EC_BoundsExceeded
      else if capabilities_resolve (pl_required_capabilities p) \<noteq> EC_Ok
      then capabilities_resolve (pl_required_capabilities p)
      else if capabilities_resolve (pl_denied_capabilities p) \<noteq> EC_Ok
      then capabilities_resolve (pl_denied_capabilities p)
      else if list_ex (binary_search (pl_denied_capabilities p)) (pl_required_capabilities p)
      then EC_ContradictoryCapabilities
      else if list_ex (binary_search (pl_forbidden_vendors p)) (pl_allowed_vendors p) then EC_InvalidArgument
      else if pl_minimum_memory_bytes p > push_bit 62 1 then EC_ImpossibleQuantity
      else if pl_required_evidence_freshness_nanos p > 3600000000000 then EC_ImpossibleQuantity
      else EC_Ok)"

definition pl_content :: "federation_policy \<Rightarrow> bytes" where
  "pl_content p = concat [
     w_string (pl_name p), w_list w_string (std_sort (pl_allowed_vendors p)),
     w_list w_string (std_sort (pl_forbidden_vendors p)), w_list w_id128 (std_sort (pl_forbidden_accelerators p)),
     w_list w_string (std_sort (pl_deprecated_architectures p)),
     w_string (range_to_string (pl_minimum_runtime_version p)),
     w_u64 (pl_required_evidence_freshness_nanos p),
     w_u8 (synthetic_policy_value (pl_synthetic_evidence_policy p)),
     w_boolean (pl_require_real_evidence_for_active p),
     w_list w_string (std_sort (pl_required_capabilities p)), w_list w_string (std_sort (pl_denied_capabilities p)),
     w_list (\<lambda>c. w_u8 (portability_strength c)) (sort_unique (pl_allowed_portability_classes p)),
     w_boolean (pl_allow_cross_vendor_migration p), w_boolean (pl_allow_cross_vendor_reconstruction p),
     w_boolean (pl_allow_degraded_capabilities p), w_u64 (pl_minimum_memory_bytes p),
     w_list w_string (std_sort (pl_tags p))]"

definition pl_digest :: "federation_policy \<Rightarrow> bytes" where
  "pl_digest p = sha_hash (pl_content p)"

definition pl_fold_byte :: "byte \<Rightarrow> u64 \<Rightarrow> u64" where
  "pl_fold_byte b folded = (let f = push_bit 8 folded OR ucast b in f XOR drop_bit 31 f)"

definition pl_refresh_identity :: "federation_policy \<Rightarrow> federation_policy" where
  "pl_refresh_identity p =
     (let folded = fold pl_fold_byte (pl_digest p) 0
      in p\<lparr>pl_id := derive_identity ''haf.policy'' (digest_hex (pl_digest p)),
           pl_generation := (if folded = 0 then 1 else folded)\<rparr>)"

subsection \<open>Codec\<close>

definition pl_serialize :: "federation_policy \<Rightarrow> bytes" where
  "pl_serialize p = concat [
     w_id128 (pl_id p), w_generation (pl_generation p), w_string (pl_name p),
     w_list w_string (pl_allowed_vendors p), w_list w_string (pl_forbidden_vendors p),
     w_list w_id128 (pl_forbidden_accelerators p), w_list w_string (pl_deprecated_architectures p),
     w_string (range_to_string (pl_minimum_runtime_version p)),
     w_u64 (pl_required_evidence_freshness_nanos p),
     w_u8 (synthetic_policy_value (pl_synthetic_evidence_policy p)),
     w_boolean (pl_require_real_evidence_for_active p),
     w_list w_string (pl_required_capabilities p), w_list w_string (pl_denied_capabilities p),
     w_list (\<lambda>c. w_u8 (portability_strength c)) (pl_allowed_portability_classes p),
     w_boolean (pl_allow_cross_vendor_migration p), w_boolean (pl_allow_cross_vendor_reconstruction p),
     w_boolean (pl_allow_degraded_capabilities p), w_u64 (pl_minimum_memory_bytes p),
     w_list w_string (pl_tags p)]"

definition read_tokens :: "nat \<Rightarrow> string list rd" where
  "read_tokens max_bytes = r_list 1024 4 (r_string max_bytes)"

definition r_portability :: "portability_class rd" where
  "r_portability = rbind r_u8 (\<lambda>raw.
     case portability_class_from_wire raw of None \<Rightarrow> rfail EC_MalformedData | Some c \<Rightarrow> rret c)"

text \<open>The lambda that canonicalizes the six token lists, with its early returns.\<close>

definition pl_canonicalize :: "federation_policy \<Rightarrow> federation_policy result" where
  "pl_canonicalize p =
     (case canonicalize_tokens (pl_allowed_vendors p) of Inl e \<Rightarrow> Inl e | Inr allowed \<Rightarrow>
      (case canonicalize_tokens (pl_forbidden_vendors p) of Inl e \<Rightarrow> Inl e | Inr forbidden \<Rightarrow>
      (case canonicalize_tokens (pl_deprecated_architectures p) of Inl e \<Rightarrow> Inl e | Inr deprecated \<Rightarrow>
      (case canonicalize_capabilities (pl_required_capabilities p) of Inl e \<Rightarrow> Inl e | Inr required \<Rightarrow>
      (case canonicalize_capabilities (pl_denied_capabilities p) of Inl e \<Rightarrow> Inl e | Inr denied \<Rightarrow>
      (case canonicalize_tokens (pl_tags p) of Inl e \<Rightarrow> Inl e | Inr tags \<Rightarrow>
        Inr (p\<lparr>pl_allowed_vendors := allowed, pl_forbidden_vendors := forbidden,
               pl_deprecated_architectures := deprecated, pl_required_capabilities := required,
               pl_denied_capabilities := denied, pl_tags := tags\<rparr>)))))))"

definition pl_finish :: "federation_policy \<Rightarrow> federation_policy rd" where
  "pl_finish p =
     (case pl_canonicalize p of
        Inl e \<Rightarrow> rfail e
      | Inr q \<Rightarrow> rguard (pl_validate q = EC_Ok) (pl_validate q)
          (rguard (pl_id (pl_refresh_identity q) = pl_id q) EC_IntegrityFailure (rret (pl_refresh_identity q))))"

definition pl_deserialize :: "federation_policy rd" where
  "pl_deserialize =
     rbind r_id128 (\<lambda>id. rbind r_generation (\<lambda>generation. rbind (r_string 256) (\<lambda>name.
     rbind (read_tokens 128) (\<lambda>allowed. rbind (read_tokens 128) (\<lambda>forbidden.
     rbind (r_list 1024 16 r_id128) (\<lambda>accelerators. rbind (read_tokens 128) (\<lambda>deprecated.
     rbind (r_string 4096) (\<lambda>minimum_version. rbind r_u64 (\<lambda>freshness. rbind r_u8 (\<lambda>raw_synthetic.
     rbind r_boolean (\<lambda>require_real.
       case synthetic_evidence_policy_from_wire raw_synthetic of
         None \<Rightarrow> rfail EC_MalformedData
       | Some synthetic \<Rightarrow>
           rbind (read_tokens 256) (\<lambda>required. rbind (read_tokens 256) (\<lambda>denied.
           rbind (r_list 1024 1 r_portability) (\<lambda>classes.
           rbind r_boolean (\<lambda>migration. rbind r_boolean (\<lambda>reconstruction. rbind r_boolean (\<lambda>degraded.
           rbind r_u64 (\<lambda>memory. rbind (read_tokens 128) (\<lambda>tags.
             case range_parse minimum_version of
               Inl e \<Rightarrow> rfail e
             | Inr minimum \<Rightarrow>
                 pl_finish \<lparr>pl_id = id, pl_generation = generation, pl_name = name,
                   pl_allowed_vendors = allowed, pl_forbidden_vendors = forbidden,
                   pl_forbidden_accelerators = accelerators, pl_deprecated_architectures = deprecated,
                   pl_minimum_runtime_version = minimum, pl_required_evidence_freshness_nanos = freshness,
                   pl_synthetic_evidence_policy = synthetic, pl_require_real_evidence_for_active = require_real,
                   pl_required_capabilities = required, pl_denied_capabilities = denied,
                   pl_allowed_portability_classes = classes, pl_allow_cross_vendor_migration = migration,
                   pl_allow_cross_vendor_reconstruction = reconstruction,
                   pl_allow_degraded_capabilities = degraded, pl_minimum_memory_bytes = memory,
                   pl_tags = tags\<rparr>)))))))))))))))))))"

definition permissive_default :: federation_policy where
  "permissive_default = pl_refresh_identity
     \<lparr>pl_id = nil_id, pl_generation = 0, pl_name = ''default'', pl_allowed_vendors = [],
      pl_forbidden_vendors = [], pl_forbidden_accelerators = [], pl_deprecated_architectures = [],
      pl_minimum_runtime_version = [], pl_required_evidence_freshness_nanos = 0,
      pl_synthetic_evidence_policy = SP_Allow, pl_require_real_evidence_for_active = False,
      pl_required_capabilities = [], pl_denied_capabilities = [], pl_allowed_portability_classes = [],
      pl_allow_cross_vendor_migration = False, pl_allow_cross_vendor_reconstruction = True,
      pl_allow_degraded_capabilities = False, pl_minimum_memory_bytes = 0, pl_tags = []\<rparr>"

subsection \<open>Canonical policies\<close>

lemma synthetic_policy_wire [simp]: "synthetic_evidence_policy_from_wire (synthetic_policy_value s) = Some s"
  by (cases s) (simp_all add: synthetic_evidence_policy_from_wire_def)

lemma canonicalize_sorted_Inr:
  "canonicalize_sorted xs = Inr ys \<longleftrightarrow> length xs \<le> 1024 \<and> distinct xs \<and> ys = sort xs"
  by (auto simp: canonicalize_sorted_def Let_def adjacent_dup_sorted std_sort_sort)

text \<open>A canonical list of tokens or capability names.\<close>

definition canonical_list :: "(string \<Rightarrow> string result) \<Rightarrow> string list \<Rightarrow> bool" where
  "canonical_list f xs \<longleftrightarrow> length xs \<le> 1024 \<and> sorted_wrt (<) xs \<and> list_all (\<lambda>x. f x = Inr x) xs"

lemma canonicalize_result:
  assumes "collect f xs = Inr ys" "canonicalize_sorted ys = Inr zs" "\<And>x y. f x = Inr y \<Longrightarrow> f y = Inr y"
  shows "canonical_list f zs"
  using assms collect_Inr_set [OF assms(1)]
  by (auto simp: canonicalize_sorted_Inr canonical_list_def list_all_iff strict_sorted_iff) metis

lemma canonicalize_fixed:
  assumes "canonical_list f xs"
  shows "collect f xs = Inr xs" "canonicalize_sorted xs = Inr xs"
  using assms
  by (auto simp: canonical_list_def list_all_iff canonicalize_sorted_Inr strict_sorted_iff sorted_sort_id
      intro: collect_id)

abbreviation token_list :: "string list \<Rightarrow> bool" where
  "token_list \<equiv> canonical_list (\<lambda>v. canonical_token v 128)"

abbreviation capability_list :: "string list \<Rightarrow> bool" where
  "capability_list \<equiv> canonical_list key_resolve"

lemma canonicalize_tokens_result: "canonicalize_tokens xs = Inr zs \<Longrightarrow> token_list zs"
  by (auto simp: canonicalize_tokens_def split: sum.splits intro: canonicalize_result canonical_token_idem)

lemma canonicalize_capabilities_result: "canonicalize_capabilities xs = Inr zs \<Longrightarrow> capability_list zs"
  by (auto simp: canonicalize_capabilities_def split: sum.splits intro: canonicalize_result key_resolve_idem)

lemma canonicalize_tokens_fixed: "token_list xs \<Longrightarrow> canonicalize_tokens xs = Inr xs"
  by (simp add: canonicalize_tokens_def canonicalize_fixed)

lemma canonicalize_capabilities_fixed: "capability_list xs \<Longrightarrow> canonicalize_capabilities xs = Inr xs"
  by (simp add: canonicalize_capabilities_def canonicalize_fixed)

definition pl_canonical :: "federation_policy \<Rightarrow> bool" where
  "pl_canonical p \<longleftrightarrow> token_list (pl_allowed_vendors p) \<and> token_list (pl_forbidden_vendors p) \<and>
     token_list (pl_deprecated_architectures p) \<and> capability_list (pl_required_capabilities p) \<and>
     capability_list (pl_denied_capabilities p) \<and> token_list (pl_tags p)"

lemma pl_canonicalize_result: "pl_canonicalize p = Inr q \<Longrightarrow> pl_canonical q"
  by (auto simp: pl_canonicalize_def pl_canonical_def canonicalize_tokens_result canonicalize_capabilities_result
      split: sum.splits)

lemma pl_canonicalize_fixed: "pl_canonical p \<Longrightarrow> pl_canonicalize p = Inr p"
  by (simp add: pl_canonicalize_def pl_canonical_def canonicalize_tokens_fixed canonicalize_capabilities_fixed)

lemma pl_refresh_simps [simp]:
  "pl_name (pl_refresh_identity p) = pl_name p"
  "pl_allowed_vendors (pl_refresh_identity p) = pl_allowed_vendors p"
  "pl_forbidden_vendors (pl_refresh_identity p) = pl_forbidden_vendors p"
  "pl_required_capabilities (pl_refresh_identity p) = pl_required_capabilities p"
  "pl_denied_capabilities (pl_refresh_identity p) = pl_denied_capabilities p"
  "pl_minimum_runtime_version (pl_refresh_identity p) = pl_minimum_runtime_version p"
  "pl_canonical (pl_refresh_identity p) = pl_canonical p"
  "pl_content (pl_refresh_identity p) = pl_content p"
  "pl_digest (pl_refresh_identity p) = pl_digest p"
  by (simp_all add: pl_refresh_identity_def pl_canonical_def pl_digest_def pl_content_def Let_def)

lemma pl_refresh_idem [simp]: "pl_refresh_identity (pl_refresh_identity p) = pl_refresh_identity p"
proof -
  have "pl_digest (pl_refresh_identity p) = pl_digest p" by simp
  then show ?thesis unfolding pl_refresh_identity_def [of "pl_refresh_identity p"]
    by (simp only: pl_refresh_identity_def Let_def) simp
qed

lemma pl_refresh_id_not_nil: "\<not> is_nil (pl_id (pl_refresh_identity p))"
  by (simp add: pl_refresh_identity_def Let_def derive_identity_not_nil)

lemma pl_validate_not_nil: "pl_validate p = EC_Ok \<Longrightarrow> \<not> is_nil (pl_id p)"
  by (auto simp: pl_validate_def)

lemma pl_refresh_validate: "\<not> is_nil (pl_id p) \<Longrightarrow> pl_validate (pl_refresh_identity p) = pl_validate p"
  using pl_refresh_id_not_nil [of p] by (simp add: pl_validate_def) (simp add: pl_refresh_identity_def Let_def)

text \<open>On canonical lists the binary searches of validation decide membership.\<close>

lemma pl_validate_consistent:
  assumes "pl_validate p = EC_Ok" "pl_canonical p"
  shows "set (pl_required_capabilities p) \<inter> set (pl_denied_capabilities p) = {}"
    "set (pl_allowed_vendors p) \<inter> set (pl_forbidden_vendors p) = {}"
proof -
  have "sorted (pl_denied_capabilities p)" "sorted (pl_forbidden_vendors p)"
    using assms(2) by (auto simp: pl_canonical_def canonical_list_def strict_sorted_iff)
  then show "set (pl_required_capabilities p) \<inter> set (pl_denied_capabilities p) = {}"
    "set (pl_allowed_vendors p) \<inter> set (pl_forbidden_vendors p) = {}"
    using assms(1) by (auto simp: pl_validate_def list_ex_iff binary_search_sorted split: if_splits)
qed

lemma pl_finish_yields:
  "yields (pl_finish p) (\<lambda>q. pl_validate q = EC_Ok \<and> pl_canonical q \<and> pl_refresh_identity q = q)"
proof (cases "pl_canonicalize p")
  case (Inl e)
  then show ?thesis by (simp add: pl_finish_def yields_rfail)
next
  case (Inr q)
  have "pl_validate (pl_refresh_identity q) = EC_Ok" if "pl_validate q = EC_Ok"
    using that by (simp add: pl_refresh_validate pl_validate_not_nil)
  with Inr show ?thesis
    by (auto simp: pl_finish_def pl_canonicalize_result intro!: yields_intros)
qed

lemma pl_deserialize_yields:
  "yields pl_deserialize (\<lambda>q. pl_validate q = EC_Ok \<and> pl_canonical q \<and> pl_refresh_identity q = q)"
  unfolding pl_deserialize_def
  by (intro yields_rbind) (auto split: option.split sum.split intro!: yields_rbind yields_rfail pl_finish_yields)

subsection \<open>Round trip\<close>

text \<open>What a policy becomes on the wire: the version range goes through its text, so that no clause at
  all becomes the single clause \<^verbatim>\<open>"*"\<close>.\<close>

definition pl_wire :: "federation_policy \<Rightarrow> federation_policy" where
  "pl_wire p = p\<lparr>pl_minimum_runtime_version :=
     (if pl_minimum_runtime_version p = [] then [any_clause]
      else map clause_canon (pl_minimum_runtime_version p))\<rparr>"

definition pl_ok :: "federation_policy \<Rightarrow> bool" where
  "pl_ok p \<longleftrightarrow> pl_canonical p \<and> pl_validate p = EC_Ok \<and> pl_refresh_identity p = p \<and>
     length (pl_allowed_portability_classes p) \<le> 1024 \<and> range_wf (pl_minimum_runtime_version p) \<and>
     length (range_to_string (pl_minimum_runtime_version p)) \<le> 4096"

lemma range_parse_printed:
  "range_wf r \<Longrightarrow> range_parse (range_to_string r) = Inr (if r = [] then [any_clause] else map clause_canon r)"
  by (simp add: range_parse_to_string range_parse_star) (simp add: range_to_string_def range_parse_star)

lemma clause_to_string_canon: "clause_to_string (clause_canon c) = clause_to_string c"
  by (simp add: clause_canon_def clause_to_string_def sv_to_string_def)

lemma join_clauses_canon: "join_clauses (map clause_canon r) = join_clauses r"
  by (induction r rule: join_clauses.induct) (simp_all add: clause_to_string_canon)

lemma pl_wire_simps [simp]:
  "pl_digest (pl_wire p) = pl_digest p" "pl_canonical (pl_wire p) = pl_canonical p"
  "pl_validate (pl_wire p) = pl_validate p" "pl_id (pl_wire p) = pl_id p"
  by (simp_all add: pl_wire_def pl_digest_def pl_content_def pl_canonical_def pl_validate_def range_to_string_def
      join_clauses_canon) (auto simp: any_clause_def clause_to_string_def)

lemma pl_wire_refresh: "pl_refresh_identity p = p \<Longrightarrow> pl_refresh_identity (pl_wire p) = pl_wire p"
  by (cases p) (simp add: pl_refresh_identity_def Let_def, simp add: pl_wire_def)

lemma reads_tokens:
  "length xs \<le> 1024 \<Longrightarrow> list_all (\<lambda>x. length x \<le> m) xs \<Longrightarrow> m < 2 ^ 32 \<Longrightarrow> reads (read_tokens m) (w_list w_string xs) xs"
  unfolding read_tokens_def by (rule reads_list) (auto simp: length_w_string list_all_iff intro: reads_string)

lemma reads_portability: "reads r_portability (w_u8 (portability_strength c)) c"
  unfolding r_portability_def by (rule reads_rbind_last [OF reads_u8]) (simp add: reads_rret)

lemma reads_pl_finish: "pl_ok p \<Longrightarrow> reads (pl_finish (pl_wire p)) [] (pl_wire p)"
  by (simp add: pl_ok_def pl_finish_def pl_canonicalize_fixed pl_wire_refresh rguard_def reads_rret)

lemma canonical_list_lengths:
  "token_list xs \<Longrightarrow> list_all (\<lambda>x. length x \<le> 128) xs"
  "capability_list xs \<Longrightarrow> list_all (\<lambda>x. length x \<le> 256) xs"
  by (auto simp: canonical_list_def list_all_iff is_canonical_def
      dest!: canonical_token_result bspec key_resolve_length)

lemma reads_pl: "pl_ok p \<Longrightarrow> reads pl_deserialize (pl_serialize p) (pl_wire p)"
proof -
  assume ok: "pl_ok p"
  then have canonical: "pl_canonical p" and wf: "range_wf (pl_minimum_runtime_version p)" by (simp_all add: pl_ok_def)
  note lists = canonical [unfolded pl_canonical_def] canonical_list_lengths
  have bounds: "length (pl_name p) \<le> 256" "length (pl_forbidden_accelerators p) \<le> 1024"
    using ok by (auto simp: pl_ok_def pl_validate_def split: if_splits)
  have finish: "reads (pl_finish p') [] (pl_wire p)" if "p' = pl_wire p" for p'
    using reads_pl_finish [OF ok] that by simp
  show ?thesis
    unfolding pl_deserialize_def pl_serialize_def
    apply (rule reads_chain reads_chain_list reads_Cons [OF reads_tokens, rotated 3])+
    apply (simp only: synthetic_policy_wire option.case)
    apply (rule reads_chain reads_chain_list reads_Cons [OF reads_tokens, rotated 3])+
    apply (simp only: range_parse_printed [OF wf] sum.case concat.simps)
    apply (rule finish)
    apply (cases p, simp add: pl_wire_def)
    using ok lists bounds
    by (auto simp: pl_ok_def canonical_list_def length_w_id128 length_w_u8 intro: reads_id128 reads_portability)
qed

lemma pl_ok_wire: "pl_ok p \<Longrightarrow> pl_minimum_runtime_version p = [] \<Longrightarrow> pl_minimum_runtime_version (pl_wire p) = [any_clause]"
  by (simp add: pl_wire_def)

definition pl_ok_exact :: "federation_policy \<Rightarrow> bool" where
  "pl_ok_exact p \<longleftrightarrow> pl_ok p \<and> pl_minimum_runtime_version p \<noteq> [] \<and>
     list_all (\<lambda>c. clause_canon c = c) (pl_minimum_runtime_version p)"

interpretation policy_codec: codec pl_serialize pl_deserialize pl_ok_exact
proof
  fix p assume ok: "pl_ok_exact p"
  then have "map clause_canon (pl_minimum_runtime_version p) = pl_minimum_runtime_version p"
    by (intro map_idI) (simp add: pl_ok_exact_def list_all_iff)
  with ok have "pl_wire p = p" by (simp add: pl_wire_def pl_ok_exact_def)
  with ok show "reads pl_deserialize (pl_serialize p) p" using reads_pl [of p] by (simp add: pl_ok_exact_def)
qed

lemma permissive_default_ok: "pl_ok permissive_default"
proof -
  have "\<not> is_nil (pl_id permissive_default)" by (simp add: permissive_default_def pl_refresh_id_not_nil)
  then have "pl_validate permissive_default = EC_Ok"
    by (simp add: pl_validate_def) (simp add: permissive_default_def pl_refresh_identity_def Let_def capabilities_resolve_def)
  moreover have "pl_canonical permissive_default"
    by (simp add: permissive_default_def) (simp add: pl_canonical_def canonical_list_def)
  moreover have "pl_refresh_identity permissive_default = permissive_default" by (simp add: permissive_default_def)
  ultimately show ?thesis
    by (simp add: pl_ok_def) (simp add: permissive_default_def pl_refresh_identity_def Let_def range_wf_def range_to_string_def)
qed

end
