(* ===== verification/Compatibility.thy ===== *)
theory Compatibility
  imports Accelerator Workload
begin

section \<open>Compatibility decisions\<close>

text \<open>
  \<^verbatim>\<open>model/compatibility.hpp\<close> and \<^verbatim>\<open>model/compatibility.cpp\<close>: reasons, decisions, the fingerprint that
  binds a decision to the generations it was computed from, and the codec that checks it. The text
  rendering for the command line is not modelled.
\<close>

datatype compatibility_outcome = CO_Eligible | CO_Ineligible | CO_Unknown

fun outcome_value :: "compatibility_outcome \<Rightarrow> byte" where
  "outcome_value CO_Eligible = 0"
| "outcome_value CO_Ineligible = 1"
| "outcome_value CO_Unknown = 2"

fun outcome_to_string :: "compatibility_outcome \<Rightarrow> string" where
  "outcome_to_string CO_Eligible = ''ELIGIBLE''"
| "outcome_to_string CO_Ineligible = ''INELIGIBLE''"
| "outcome_to_string CO_Unknown = ''UNKNOWN''"

definition compatibility_outcome_from_wire :: "byte \<Rightarrow> compatibility_outcome option" where
  "compatibility_outcome_from_wire raw =
     (if raw = 0 then Some CO_Eligible else if raw = 1 then Some CO_Ineligible
      else if raw = 2 then Some CO_Unknown else None)"

record compatibility_reason =
  re_code :: error_code
  re_subject :: string
  re_detail :: string
  re_strength :: requirement_strength
  re_observed :: capability_state

definition re_serialize :: "compatibility_reason \<Rightarrow> bytes" where
  "re_serialize r = concat [
     w_u16 (error_value (re_code r)), w_string (re_subject r), w_string (re_detail r),
     w_u8 (strength_value (re_strength r)), w_u8 (state_value (re_observed r))]"

definition re_deserialize :: "compatibility_reason rd" where
  "re_deserialize =
     rbind r_u16 (\<lambda>raw_code. rbind (r_string 256) (\<lambda>subject. rbind (r_string 8192) (\<lambda>detail.
     rbind r_u8 (\<lambda>raw_strength. rbind r_u8 (\<lambda>raw_observed.
       rguard (\<not> raw_code > error_value EC_Unsupported) EC_MalformedData
         (case requirement_strength_from_wire raw_strength of
            None \<Rightarrow> rfail EC_MalformedData
          | Some strength \<Rightarrow> (case capability_state_from_wire raw_observed of
              None \<Rightarrow> rfail EC_MalformedData
            | Some observed \<Rightarrow> rret \<lparr>re_code = ErrorCode raw_code, re_subject = subject, re_detail = detail,
                                     re_strength = strength, re_observed = observed\<rparr>)))))))"

record compatibility_decision =
  cd_id :: compatibility_decision_id
  cd_decision_id :: decision_id
  cd_generation :: generation
  cd_federation :: federation_id
  cd_federation_generation :: generation
  cd_epoch :: generation
  cd_accelerator :: accelerator_id
  cd_device_generation :: generation
  cd_capability_generation :: generation
  cd_evidence_generation :: generation
  cd_policy_generation :: generation
  cd_policy :: policy_id
  cd_workload :: workload_class_id
  cd_workload_requirement :: workload_requirement_id
  cd_workload_revision :: generation
  cd_outcome :: compatibility_outcome
  cd_portability :: portability_class
  cd_support_level :: support_level
  cd_provenance :: evidence_provenance
  cd_score :: int
  cd_reasons :: "compatibility_reason list"
  cd_created_at :: int

text \<open>The fields that the fingerprint and the encoding share.\<close>

definition cd_bound_fields :: "compatibility_decision \<Rightarrow> bytes list" where
  "cd_bound_fields d = [
     w_id128 (cd_federation d), w_generation (cd_federation_generation d), w_generation (cd_epoch d),
     w_id128 (cd_accelerator d), w_generation (cd_device_generation d),
     w_generation (cd_capability_generation d), w_generation (cd_evidence_generation d),
     w_id128 (cd_policy d), w_generation (cd_policy_generation d), w_id128 (cd_workload d),
     w_id128 (cd_workload_requirement d), w_generation (cd_workload_revision d),
     w_u8 (outcome_value (cd_outcome d)), w_u8 (portability_strength (cd_portability d)),
     w_u8 (support_value (cd_support_level d)), w_u8 (provenance_value (cd_provenance d)),
     w_i64 (cd_score d), w_list re_serialize (cd_reasons d)]"

definition cd_content :: "compatibility_decision \<Rightarrow> bytes" where
  "cd_content d = concat (w_string ''haf.decision.v1'' # cd_bound_fields d)"

definition cd_fingerprint :: "compatibility_decision \<Rightarrow> bytes" where
  "cd_fingerprint d = sha_hash (cd_content d)"

definition cd_is_current ::
    "compatibility_decision \<Rightarrow> generation \<Rightarrow> generation \<Rightarrow> generation \<Rightarrow> generation \<Rightarrow> generation \<Rightarrow>
     generation \<Rightarrow> generation \<Rightarrow> bool" where
  "cd_is_current d federation epoch policy device capability evidence_gen revision \<longleftrightarrow>
     cd_federation_generation d = federation \<and> cd_epoch d = epoch \<and> cd_policy_generation d = policy \<and>
     cd_device_generation d = device \<and> cd_capability_generation d = capability \<and>
     cd_evidence_generation d = evidence_gen \<and> cd_workload_revision d = revision"

definition cd_serialize :: "compatibility_decision \<Rightarrow> bytes" where
  "cd_serialize d = concat ([w_id128 (cd_id d), w_id128 (cd_decision_id d), w_generation (cd_generation d)] @
     cd_bound_fields d @ [w_i64 (cd_created_at d)])"

definition cd_identity :: "compatibility_decision \<Rightarrow> decision_id" where
  "cd_identity d = derive_identity ''haf.decision'' (digest_hex (cd_fingerprint d))"

definition cd_deserialize :: "bool \<Rightarrow> compatibility_decision rd" where
  "cd_deserialize persisted_scale =
     rbind r_id128 (\<lambda>id. rbind r_id128 (\<lambda>decision_id. rbind r_generation (\<lambda>generation.
     rbind r_id128 (\<lambda>federation. rbind r_generation (\<lambda>federation_generation. rbind r_generation (\<lambda>epoch.
     rbind r_id128 (\<lambda>accelerator. rbind r_generation (\<lambda>device_generation.
     rbind r_generation (\<lambda>capability_generation. rbind r_generation (\<lambda>evidence_generation.
     rbind r_id128 (\<lambda>policy. rbind r_generation (\<lambda>policy_generation. rbind r_id128 (\<lambda>workload.
     rbind r_id128 (\<lambda>requirement. rbind r_generation (\<lambda>revision. rbind r_u8 (\<lambda>raw_outcome.
     rbind r_u8 (\<lambda>raw_portability. rbind r_u8 (\<lambda>raw_support. rbind r_u8 (\<lambda>raw_provenance. rbind r_i64 (\<lambda>score.
       case compatibility_outcome_from_wire raw_outcome of
         None \<Rightarrow> rfail EC_MalformedData
       | Some outcome \<Rightarrow> (case portability_class_from_wire raw_portability of
           None \<Rightarrow> rfail EC_MalformedData
         | Some portability \<Rightarrow> (case support_level_from_wire raw_support of
             None \<Rightarrow> rfail EC_MalformedData
           | Some support \<Rightarrow> (case evidence_provenance_from_wire raw_provenance of
               None \<Rightarrow> rfail EC_MalformedData
             | Some provenance \<Rightarrow>
                 rbind (r_list (if persisted_scale then 1000000 else 8192) 6 re_deserialize) (\<lambda>reasons.
                 rbind r_i64 (\<lambda>created_at.
                   let d = \<lparr>cd_id = id, cd_decision_id = decision_id, cd_generation = generation,
                            cd_federation = federation, cd_federation_generation = federation_generation,
                            cd_epoch = epoch, cd_accelerator = accelerator,
                            cd_device_generation = device_generation,
                            cd_capability_generation = capability_generation,
                            cd_evidence_generation = evidence_generation,
                            cd_policy_generation = policy_generation, cd_policy = policy,
                            cd_workload = workload, cd_workload_requirement = requirement,
                            cd_workload_revision = revision, cd_outcome = outcome,
                            cd_portability = portability, cd_support_level = support,
                            cd_provenance = provenance, cd_score = score, cd_reasons = reasons,
                            cd_created_at = created_at\<rparr>
                   in rguard (cd_decision_id d = cd_identity d) EC_IntegrityFailure (rret d))))))))))))))))))))))))))"

definition cd_fold_char :: "char \<Rightarrow> u64 \<Rightarrow> u64" where
  "cd_fold_char c folded = (let f = folded * 131 + of_nat (of_char c) in f XOR drop_bit 29 f)"

definition refresh_decision_identity :: "compatibility_decision \<Rightarrow> compatibility_decision" where
  "refresh_decision_identity d =
     (let hex = digest_hex (cd_fingerprint d); folded = fold cd_fold_char hex 0
      in d\<lparr>cd_decision_id := derive_identity ''haf.decision'' hex,
           cd_id := derive_identity ''haf.compatibility-decision'' hex,
           cd_generation := (if folded = 0 then 1 else folded)\<rparr>)"

subsection \<open>Identity binds content\<close>

lemma outcome_wire [simp]: "compatibility_outcome_from_wire (outcome_value v) = Some v"
  by (cases v) (simp_all add: compatibility_outcome_from_wire_def)

lemma refresh_decision_simps [simp]:
  "cd_outcome (refresh_decision_identity d) = cd_outcome d"
  "cd_score (refresh_decision_identity d) = cd_score d"
  "cd_portability (refresh_decision_identity d) = cd_portability d"
  "cd_accelerator (refresh_decision_identity d) = cd_accelerator d"
  "cd_reasons (refresh_decision_identity d) = cd_reasons d"
  "cd_workload (refresh_decision_identity d) = cd_workload d"
  "cd_federation_generation (refresh_decision_identity d) = cd_federation_generation d"
  "cd_epoch (refresh_decision_identity d) = cd_epoch d"
  "cd_policy_generation (refresh_decision_identity d) = cd_policy_generation d"
  "cd_device_generation (refresh_decision_identity d) = cd_device_generation d"
  "cd_capability_generation (refresh_decision_identity d) = cd_capability_generation d"
  "cd_evidence_generation (refresh_decision_identity d) = cd_evidence_generation d"
  "cd_workload_revision (refresh_decision_identity d) = cd_workload_revision d"
  "cd_fingerprint (refresh_decision_identity d) = cd_fingerprint d"
  by (simp_all add: refresh_decision_identity_def Let_def cd_fingerprint_def cd_content_def cd_bound_fields_def)

lemma refresh_decision_identity_bound:
  "cd_decision_id (refresh_decision_identity d) = cd_identity (refresh_decision_identity d)"
  by (simp add: cd_identity_def) (simp add: refresh_decision_identity_def Let_def)

lemma refresh_decision_generation_pos: "cd_generation (refresh_decision_identity d) \<noteq> 0"
  by (simp add: refresh_decision_identity_def Let_def)

lemma cd_deserialize_yields: "yields (cd_deserialize p) (\<lambda>d. cd_decision_id d = cd_identity d)"
  unfolding cd_deserialize_def
  by (intro yields_rbind) (auto split: option.split simp: Let_def intro!: yields_intros)

subsection \<open>Round trips\<close>

definition re_ok :: "compatibility_reason \<Rightarrow> bool" where
  "re_ok r \<longleftrightarrow> length (re_subject r) \<le> 256 \<and> length (re_detail r) \<le> 8192 \<and> re_code r \<le> EC_Unsupported"

lemma reads_re: "re_ok r \<Longrightarrow> reads re_deserialize (re_serialize r) r"
proof -
  assume ok: "re_ok r"
  then have code: "\<not> error_value EC_Unsupported < error_value (re_code r)"
    by (cases "re_code r") (auto simp: re_ok_def less_eq_error_code_def)
  show ?thesis
    unfolding re_deserialize_def re_serialize_def
    apply (rule reads_chain)+
    apply (simp only: code rguard_def not_False_eq_True if_True strength_wire state_wire option.case)
    apply (rule reads_Nil)
    using ok by (simp_all add: re_ok_def)
qed

interpretation reason_codec: codec re_serialize re_deserialize re_ok
  by unfold_locales (rule reads_re)

definition cd_ok :: "bool \<Rightarrow> compatibility_decision \<Rightarrow> bool" where
  "cd_ok persisted_scale d \<longleftrightarrow> cd_decision_id d = cd_identity d \<and> list_all re_ok (cd_reasons d) \<and>
     length (cd_reasons d) \<le> (if persisted_scale then 1000000 else 8192) \<and>
     - (2 ^ 63) \<le> cd_score d \<and> cd_score d < 2 ^ 63 \<and> - (2 ^ 63) \<le> cd_created_at d \<and> cd_created_at d < 2 ^ 63"

lemma length_re_serialize: "6 \<le> length (re_serialize r)"
  by (simp add: re_serialize_def w_u16_def length_w_string)

lemma reads_cd: "cd_ok p d \<Longrightarrow> reads (cd_deserialize p) (cd_serialize d) d"
proof -
  assume ok: "cd_ok p d"
  show ?thesis
    unfolding cd_deserialize_def cd_serialize_def cd_bound_fields_def append_Cons append_Nil
    apply (rule reads_chain)+
    apply (simp only: outcome_wire portability_wire support_wire provenance_wire option.case)
    apply (rule reads_chain reads_chain_list)+
    subgoal by (insert ok, cases d, simp add: cd_ok_def rguard_def reads_rret Let_def)
    using ok by (auto simp: cd_ok_def list_all_iff length_re_serialize intro: reads_re)
qed

interpretation decision_codec: codec cd_serialize "cd_deserialize p" "cd_ok p" for p
  by unfold_locales (rule reads_cd)

lemma long_detail_refused:
  assumes "length (re_subject r) \<le> 256" "8192 < length (re_detail r)" "length (re_detail r) < 2 ^ 32"
  shows "refuses re_deserialize (re_serialize r) EC_BoundsExceeded"
  unfolding re_deserialize_def re_serialize_def
  using assms
  by (intro refuses_Cons [OF reads_u16] refuses_Cons [OF reads_string [of "re_subject r"]] refuses_head [OF refuses_string]) simp_all

end
