(* ===== verification/Classify.thy ===== *)
theory Classify
  imports Compatibility
begin

section \<open>Portability classification\<close>

text \<open>
  \<^verbatim>\<open>engine/portability_engine.hpp\<close> and \<^verbatim>\<open>engine/portability_engine.cpp\<close>. The borrowed pointers of the
  request are options.
\<close>

record portability_request =
  pq_source :: "capability_set option"
  pq_destination :: "capability_set option"
  pq_source_vendor :: string
  pq_destination_vendor :: string
  pq_workload :: "workload_profile option"
  pq_allows_cross_vendor :: bool

definition supports :: "capability_set \<Rightarrow> string \<Rightarrow> bool" where
  "supports s key = (let l = cs_lookup s key in cl_present l \<and> cl_state l = CS_Supported)"

definition known :: "capability_set \<Rightarrow> string \<Rightarrow> bool" where
  "known s key \<longleftrightarrow> cl_state (cs_lookup s key) \<noteq> CS_Unknown"

definition shares_token :: "capability_set \<Rightarrow> capability_set \<Rightarrow> string \<Rightarrow> bool" where
  "shares_token a b key =
     (let left = cs_lookup a key; right = cs_lookup b key in
      if \<not> cl_present left \<or> \<not> cl_present right then False
      else case (cl_value left, cl_value right) of
        (Some u, Some v) \<Rightarrow> list_ex (\<lambda>token. token \<in> set (value_tokens v)) (value_tokens u)
      | _ \<Rightarrow> False)"

definition make_reason :: "error_code \<Rightarrow> string \<Rightarrow> string \<Rightarrow> compatibility_reason" where
  "make_reason code subject detail =
     \<lparr>re_code = code, re_subject = subject, re_detail = detail, re_strength = RS_Hard, re_observed = CS_Unknown\<rparr>"

definition is_dynamic_capability :: "string \<Rightarrow> bool" where
  "is_dynamic_capability name \<longleftrightarrow>
     take 7 name = ''health.'' \<or> name = ''memory.free_bytes'' \<or> name = ''queue.concurrent_streams''"

definition re_less :: "compatibility_reason \<Rightarrow> compatibility_reason \<Rightarrow> bool" where
  "re_less a b =
     (if re_strength a \<noteq> re_strength b then strength_value (re_strength a) < strength_value (re_strength b)
      else if re_subject a \<noteq> re_subject b then re_subject a < re_subject b
      else if re_code a \<noteq> re_code b then error_value (re_code a) < error_value (re_code b)
      else re_detail a < re_detail b)"

definition sort_reasons :: "compatibility_reason list \<Rightarrow> compatibility_reason list" where
  "sort_reasons = sort_by re_less"

definition required_evidence :: "(string \<times> string) list" where
  "required_evidence = [(''vendor.id'', ''vendor identity''), (''architecture.family'', ''architecture family''),
     (''isa.code_object_targets'', ''ISA code object targets''), (''runtime.family'', ''runtime family'')]"

definition unknown_inputs :: "capability_set \<Rightarrow> capability_set \<Rightarrow> string list" where
  "unknown_inputs source destination =
     map snd (filter (\<lambda>item. \<not> known source (fst item) \<or> \<not> known destination (fst item)) required_evidence)"

definition same_architecture :: "capability_set \<Rightarrow> capability_set \<Rightarrow> bool" where
  "same_architecture source destination =
     (if known source ''architecture.family'' \<and> known destination ''architecture.family''
      then case (cl_value (cs_lookup source ''architecture.family''),
                 cl_value (cs_lookup destination ''architecture.family'')) of
             (Some u, Some v) \<Rightarrow> cv_render u = cv_render v
           | _ \<Rightarrow> False
      else False)"

definition same_vendor :: "portability_request \<Rightarrow> bool" where
  "same_vendor q \<longleftrightarrow> pq_source_vendor q \<noteq> [] \<and> pq_source_vendor q = pq_destination_vendor q"

definition cross_vendor_live_allowed :: "portability_request \<Rightarrow> capability_set \<Rightarrow> capability_set \<Rightarrow> bool" where
  "cross_vendor_live_allowed q source destination \<longleftrightarrow>
     same_vendor q \<or> pq_allows_cross_vendor q \<and> supports source ''migration.cross_vendor_state'' \<and>
     supports destination ''migration.cross_vendor_state''"

text \<open>The chain of cases for the strongest justified class, with the reason each records.\<close>

definition strongest_class ::
    "portability_request \<Rightarrow> capability_set \<Rightarrow> capability_set \<Rightarrow> portability_class \<times> compatibility_reason" where
  "strongest_class q source destination =
     (let shared = shares_token source destination ''isa.code_object_targets'';
          live = supports source ''migration.live_state_transfer'' \<and> supports destination ''migration.live_state_transfer'';
          checkpoint = supports source ''migration.checkpoint_restore'' \<and> supports destination ''migration.checkpoint_restore''
      in if shared \<and> live \<and> same_vendor q then
           (PC_LiveMigrationSupported, make_reason EC_Ok ''migration.live_state_transfer''
              ''both accelerators support live state transfer and share a code object target'')
         else if shared \<and> live \<and> cross_vendor_live_allowed q source destination then
           (PC_LiveMigrationSupported, make_reason EC_Ok ''migration.live_state_transfer''
              ''cross-vendor live state transfer is explicitly supported by both sides and permitted by policy'')
         else if shared \<and> same_vendor q \<and> same_architecture source destination then
           (PC_Native, make_reason EC_Ok ''isa.code_object_targets''
              ''both accelerators present the same code object target on the same architecture and vendor'')
         else if shared then
           (PC_BinaryCompatible, make_reason EC_Ok ''isa.code_object_targets''
              ''the destination presents a code object target that the source already produces'')
         else if checkpoint \<and> same_vendor q then
           (PC_CheckpointRestoreSupported, make_reason EC_Ok ''migration.checkpoint_restore''
              ''no shared code object target, but both sides support checkpoint and restore'')
         else if known destination ''isa.code_object_targets'' \<and> supports destination ''portability.recompile_available'' then
           (PC_RecompileRequired, make_reason EC_Ok ''portability.recompile_available''
              ''the destination accepts recompiled code objects but shares no code object target with the source'')
         else if supports destination ''portability.repackage_available'' then
           (PC_RepackageRequired, make_reason EC_Ok ''portability.repackage_available''
              ''the destination requires repackaging rather than recompilation'')
         else if supports destination ''migration.state_reconstruction'' then
           (PC_StateReconstructionRequired, make_reason EC_Ok ''migration.state_reconstruction''
              ''execution state cannot move; the destination can only host a reconstructed workload'')
         else
           (PC_Unsupported, make_reason EC_MigrationUnsupported []
              ''no shared code object target, no checkpoint path, no recompilation path, and no reconstruction path''))"

definition classify_portability ::
    "portability_request \<Rightarrow> portability_class \<times> compatibility_reason list" where
  "classify_portability q =
     (case (pq_source q, pq_destination q) of
        (Some source, Some destination) \<Rightarrow>
          if unknown_inputs source destination \<noteq> [] then
            (PC_Unknown, sort_reasons [make_reason EC_UnknownCapability []
               (''portability cannot be established because these inputs are UNKNOWN on at least one side:'' @
                concat (map (\<lambda>item. '' '' @ item @ '';'') (unknown_inputs source destination)))])
          else let (class1, reason1) = strongest_class q source destination;
                   reasons2 = (if class1 = PC_LiveMigrationSupported \<and>
                                  (case pq_workload q of None \<Rightarrow> False
                                   | Some w \<Rightarrow> wp_migration_need w \<noteq> MN_LiveStateTransfer)
                               then [reason1, make_reason EC_Ok ''workload.migration_need''
                                       ''live state transfer is available but the workload does not require it'']
                               else [reason1]);
                   (class3, reasons3) =
                     (if \<not> same_vendor q \<and> class1 = PC_LiveMigrationSupported \<and>
                         \<not> cross_vendor_live_allowed q source destination
                      then (PC_Unsupported, reasons2 @ [make_reason EC_MigrationUnsupported ''migration.cross_vendor_state''
                              ''cross-vendor live state transfer is not supported by both accelerators and permitted by policy''])
                      else (class1, reasons2))
               in (class3, sort_reasons reasons3)
      | _ \<Rightarrow> (PC_Unknown, [make_reason EC_InvalidArgument []
               ''portability classification requires both a source and a destination capability set'']))"

subsection \<open>Properties of the classification\<close>

interpretation reason_order: comparator re_less
  "\<lambda>r. (strength_value (re_strength r), re_subject r, error_value (re_code r), re_detail r)"
  by unfold_locales (auto simp: re_less_def less_le error_code.expand)

lemma set_sort_reasons [simp]: "set (sort_reasons rs) = set rs"
  by (simp add: sort_reasons_def)

lemma unknown_inputs_Nil:
  "unknown_inputs s d = [] \<longleftrightarrow> (\<forall>item \<in> set required_evidence. known s (fst item) \<and> known d (fst item))"
  by (auto simp: unknown_inputs_def filter_empty_conv)

lemma strongest_class_not_unknown: "fst (strongest_class q s d) \<noteq> PC_Unknown"
  by (simp add: strongest_class_def Let_def)

lemma strongest_class_live:
  "fst (strongest_class q s d) = PC_LiveMigrationSupported \<longleftrightarrow>
     shares_token s d ''isa.code_object_targets'' \<and> supports s ''migration.live_state_transfer'' \<and>
     supports d ''migration.live_state_transfer'' \<and> cross_vendor_live_allowed q s d"
  by (auto simp: strongest_class_def Let_def cross_vendor_live_allowed_def)

text \<open>The downgrade at the end of the function never applies: the cases before it already require the
  cross-vendor permission.\<close>

lemma classify_known:
  assumes "pq_source q = Some s" "pq_destination q = Some d"
  shows "fst (classify_portability q) =
    (if unknown_inputs s d = [] then fst (strongest_class q s d) else PC_Unknown)"
  using assms strongest_class_live [of q s d]
  by (cases "strongest_class q s d") (auto simp: classify_portability_def Let_def)

end
