(* ===== verification/Evaluate.thy ===== *)
theory Evaluate
  imports Classify Policy
begin

section \<open>The compatibility engine\<close>

text \<open>
  \<^verbatim>\<open>engine/compatibility_engine.hpp\<close> and \<^verbatim>\<open>engine/compatibility_engine.cpp\<close>. The local variables of
  \<^verbatim>\<open>evaluate_compatibility\<close> that its sections update (the two failure flags, the score, the reasons)
  are the record \<open>evaluation\<close>; each section of the function is a function on it, and the whole is
  their composition in the order of the code. The wall clock is an argument.
\<close>

record evaluation_target =
  et_accelerator :: accelerator_id
  et_device_generation :: generation
  et_capability_generation :: generation
  et_evidence_generation :: generation
  et_support_level :: support_level
  et_provenance :: evidence_provenance
  et_capabilities :: "capability_set option"
  et_evidence_fresh :: bool
  et_accepts_new_work :: bool

record evaluation_source =
  es_accelerator :: accelerator_id
  es_device_generation :: generation
  es_capability_generation :: generation
  es_capabilities :: "capability_set option"
  es_vendor :: string

record evaluation_context =
  ec_federation :: federation_id
  ec_federation_generation :: generation
  ec_epoch :: generation
  ec_policy_id :: policy_id
  ec_policy_generation :: generation
  ec_policy :: "federation_policy option"
  ec_workload_revision :: generation
  ec_target :: evaluation_target
  ec_source :: "evaluation_source option"
  ec_now :: int

subsection \<open>Matching one requirement\<close>

definition rq_eval_less :: "capability_requirement \<Rightarrow> capability_requirement \<Rightarrow> bool" where
  "rq_eval_less a b =
     (if rq_capability a \<noteq> rq_capability b then rq_capability a < rq_capability b
      else if rq_strength a \<noteq> rq_strength b then strength_value (rq_strength a) < strength_value (rq_strength b)
      else if rq_op a \<noteq> rq_op b
      then requirement_operator_value (rq_op a) < requirement_operator_value (rq_op b)
      else cv_render (rq_value a) < cv_render (rq_value b))"

definition canonicalize_requirements :: "workload_profile \<Rightarrow> capability_requirement list" where
  "canonicalize_requirements w = sort_by rq_eval_less (wp_requirements w)"

fun numeric_at_least :: "capability_value \<Rightarrow> capability_value \<Rightarrow> bool" where
  "numeric_at_least (CV_Integer a) (CV_Integer b) = (a \<ge> b)"
| "numeric_at_least (CV_Scalar a) (CV_Scalar b) = dbl_le b a"
| "numeric_at_least (CV_Integer a) (CV_Scalar b) = (\<not> dbl_nan b \<and> dbl_of_int_scaled a \<ge> dbl_scaled b)"
| "numeric_at_least (CV_Scalar a) (CV_Integer b) = (\<not> dbl_nan a \<and> dbl_scaled a \<ge> dbl_of_int_scaled b)"
| "numeric_at_least (CV_Version a) (CV_Version b) = (sv_compare a b \<noteq> O_less)"
| "numeric_at_least _ _ = False"

fun numeric_at_most :: "capability_value \<Rightarrow> capability_value \<Rightarrow> bool" where
  "numeric_at_most (CV_Integer a) (CV_Integer b) = (a \<le> b)"
| "numeric_at_most (CV_Scalar a) (CV_Scalar b) = dbl_le a b"
| "numeric_at_most (CV_Integer a) (CV_Scalar b) = (\<not> dbl_nan b \<and> dbl_of_int_scaled a \<le> dbl_scaled b)"
| "numeric_at_most (CV_Scalar a) (CV_Integer b) = (\<not> dbl_nan a \<and> dbl_scaled a \<le> dbl_of_int_scaled b)"
| "numeric_at_most (CV_Version a) (CV_Version b) = (sv_compare a b \<noteq> O_greater)"
| "numeric_at_most _ _ = False"

fun as_token_vector :: "capability_value \<Rightarrow> string list" where
  "as_token_vector (CV_TokenSet ts) = ts"
| "as_token_vector (CV_Enumeration t) = [t]"
| "as_token_vector _ = []"

datatype match_outcome = MO_Satisfied | MO_Violated | MO_Indeterminate

definition satisfied_if :: "bool \<Rightarrow> match_outcome" where
  "satisfied_if b = (if b then MO_Satisfied else MO_Violated)"

definition match_value :: "capability_requirement \<Rightarrow> capability_value \<Rightarrow> match_outcome" where
  "match_value q provided =
     (let required = as_token_vector (rq_value q); actual = as_token_vector provided in
      case rq_op q of
        RO_Present \<Rightarrow> MO_Satisfied
      | RO_Absent \<Rightarrow> MO_Violated
      | RO_Equals \<Rightarrow> satisfied_if (cv_equals provided (rq_value q))
      | RO_NotEquals \<Rightarrow> satisfied_if (\<not> cv_equals provided (rq_value q))
      | RO_AtLeast \<Rightarrow> satisfied_if (numeric_at_least provided (rq_value q))
      | RO_AtMost \<Rightarrow> satisfied_if (numeric_at_most provided (rq_value q))
      | RO_GreaterThan \<Rightarrow> satisfied_if (numeric_at_least provided (rq_value q) \<and> \<not> cv_equals provided (rq_value q))
      | RO_LessThan \<Rightarrow> satisfied_if (numeric_at_most provided (rq_value q) \<and> \<not> cv_equals provided (rq_value q))
      | RO_InSet \<Rightarrow> if actual = [] then MO_Violated else satisfied_if (list_all (\<lambda>t. t \<in> set required) actual)
      | RO_SupersetOf \<Rightarrow> satisfied_if (list_all (\<lambda>t. t \<in> set actual) required)
      | RO_SubsetOf \<Rightarrow> satisfied_if (list_all (\<lambda>t. t \<in> set required) actual)
      | RO_IntersectsWith \<Rightarrow> satisfied_if (list_ex (\<lambda>t. t \<in> set required) actual)
      | RO_VersionSatisfies \<Rightarrow>
          if cv_kind provided \<noteq> CK_Version then MO_Indeterminate
          else satisfied_if (range_matches (rq_version_range q) (version_value provided)))"

definition match_requirement :: "capability_requirement \<Rightarrow> capability_lookup \<Rightarrow> bool \<Rightarrow> match_outcome" where
  "match_requirement q l allow_degraded =
     (if cl_state l = CS_Unknown then MO_Indeterminate
      else if cl_state l = CS_Degraded \<and> \<not> allow_degraded then MO_Violated
      else if rq_op q = RO_Absent then satisfied_if (cl_state l = CS_Unsupported)
      else if cl_state l = CS_Unsupported then MO_Violated
      else case cl_value l of
        None \<Rightarrow> MO_Indeterminate
      | Some provided \<Rightarrow> match_value q provided)"

definition describe_expectation :: "capability_requirement \<Rightarrow> string" where
  "describe_expectation q =
     requirement_operator_to_string (rq_op q) @
     (if rq_op q = RO_VersionSatisfies then '' '' @ range_to_string (rq_version_range q)
      else if rq_op q \<noteq> RO_Present \<and> rq_op q \<noteq> RO_Absent then '' '' @ cv_render (rq_value q)
      else [])"

definition enumeration_token :: "capability_set \<Rightarrow> string \<Rightarrow> string" where
  "enumeration_token s key =
     (let l = cs_lookup s key in
      if cl_present l \<and> cl_state l = CS_Supported
      then (case cl_value l of None \<Rightarrow> [] | Some v \<Rightarrow> cv_render v) else [])"

definition rejection_code_for :: "string \<Rightarrow> error_code" where
  "rejection_code_for name =
     (if name = ''vendor.id'' then EC_VendorMismatch
      else if name = ''architecture.family'' \<or> name = ''architecture.device_generation'' then EC_ArchitectureMismatch
      else if name = ''runtime.family'' then EC_RuntimeMismatch
      else if name = ''runtime.version'' \<or> name = ''driver.version'' then EC_RuntimeVersionUnsupported
      else if name = ''isa.code_object_targets'' \<or> name = ''compute.capability'' then EC_IsaIncompatible
      else if name = ''memory.total_bytes'' \<or> name = ''memory.free_bytes'' then EC_InsufficientMemory
      else if take 8 name = ''numeric.'' then EC_NumericModeUnsupported
      else if take 10 name = ''migration.'' \<or> take 12 name = ''portability.'' then EC_MigrationUnsupported
      else EC_UnsupportedCapability)"

subsection \<open>The accumulated evaluation\<close>

record evaluation =
  va_hard :: bool
  va_indeterminate :: bool
  va_score :: int
  va_reasons :: "compatibility_reason list"

definition reason ::
    "error_code \<Rightarrow> string \<Rightarrow> string \<Rightarrow> requirement_strength \<Rightarrow> capability_state \<Rightarrow> compatibility_reason" where
  "reason code subject detail strength observed =
     \<lparr>re_code = code, re_subject = subject, re_detail = detail, re_strength = strength, re_observed = observed\<rparr>"

definition push_reason :: "compatibility_reason \<Rightarrow> evaluation \<Rightarrow> evaluation" where
  "push_reason r a = a\<lparr>va_reasons := va_reasons a @ [r]\<rparr>"

definition fail_hard :: "compatibility_reason \<Rightarrow> evaluation \<Rightarrow> evaluation" where
  "fail_hard r a = push_reason r (a\<lparr>va_hard := True\<rparr>)"

definition fail_indeterminate :: "compatibility_reason \<Rightarrow> evaluation \<Rightarrow> evaluation" where
  "fail_indeterminate r a = push_reason r (a\<lparr>va_indeterminate := True\<rparr>)"

definition add_score :: "int \<Rightarrow> evaluation \<Rightarrow> evaluation" where
  "add_score n a = a\<lparr>va_score := va_score a + n\<rparr>"

text \<open>One iteration of the loop over the requirements.\<close>

definition eval_requirement ::
    "federation_policy \<Rightarrow> bool \<Rightarrow> capability_set \<Rightarrow> capability_requirement \<Rightarrow> evaluation \<Rightarrow> evaluation" where
  "eval_requirement p fresh s q a =
     (let l = cs_lookup s (rq_capability q); hard = (rq_strength q = RS_Hard) in
      if is_dynamic_capability (rq_capability q) \<and> \<not> fresh then
        (if hard then
           fail_indeterminate (reason EC_StaleEvidence (rq_capability q)
             ''required capability is decay-prone and its evidence exceeded the policy freshness budget''
             (rq_strength q) (cl_state l)) a
         else
           push_reason (reason EC_StaleEvidence (rq_capability q)
             ''soft preference skipped because its evidence is stale'' (rq_strength q) (cl_state l)) a)
      else case match_requirement q l (pl_allow_degraded_capabilities p) of
        MO_Satisfied \<Rightarrow>
          if hard then a
          else push_reason (reason EC_Ok (rq_capability q)
                 (''soft preference satisfied: '' @ describe_expectation q) (rq_strength q) (cl_state l))
               (add_score (weight_score (rq_weight q) 1000) a)
      | MO_Violated \<Rightarrow>
          let r = reason (rejection_code_for (rq_capability q)) (rq_capability q)
                (''observed '' @ state_to_string (cl_state l) @
                 (case (cl_present l, cl_value l) of (True, Some v) \<Rightarrow> '' ('' @ cv_render v @ '')'' | _ \<Rightarrow> []) @
                 ''; required '' @ describe_expectation q) (rq_strength q) (cl_state l)
          in if hard then fail_hard r a
             else add_score (- weight_score (rq_weight q) 500) (push_reason r a)
      | MO_Indeterminate \<Rightarrow>
          let r = reason EC_UnknownCapability (rq_capability q)
                (''required capability has no evidence: observed UNKNOWN; required '' @ describe_expectation q)
                (rq_strength q) (cl_state l)
          in if hard then fail_indeterminate r a else push_reason r a)"

subsection \<open>Policy constraints\<close>

definition eval_identity ::
    "federation_policy \<Rightarrow> accelerator_id \<Rightarrow> string \<Rightarrow> string \<Rightarrow> evaluation \<Rightarrow> evaluation" where
  "eval_identity p accelerator vendor architecture a0 =
     (let a1 = (if accelerator \<in> set (pl_forbidden_accelerators p)
                then fail_hard (reason EC_PolicyMismatch ''policy.forbidden_accelerators''
                       ''accelerator is explicitly forbidden by policy'' RS_Hard CS_Unsupported) a0 else a0);
          a2 = (if vendor \<noteq> [] \<and> vendor \<in> set (pl_forbidden_vendors p)
                then fail_hard (reason EC_VendorMismatch ''vendor.id''
                       (''vendor '' @ [CHR 0x27] @ vendor @ [CHR 0x27] @ '' is forbidden by policy'') RS_Hard CS_Supported) a1
                else a1);
          a3 = (if vendor \<noteq> [] \<and> pl_allowed_vendors p \<noteq> [] \<and> vendor \<notin> set (pl_allowed_vendors p)
                then fail_hard (reason EC_VendorMismatch ''vendor.id''
                       (''vendor '' @ [CHR 0x27] @ vendor @ [CHR 0x27] @ '' is not in the policy allow list'') RS_Hard CS_Supported) a2
                else a2)
      in if architecture \<noteq> [] \<and> architecture \<in> set (pl_deprecated_architectures p)
         then fail_hard (reason EC_ArchitectureMismatch ''architecture.family''
                (''architecture '' @ [CHR 0x27] @ architecture @ [CHR 0x27] @ '' is deprecated by policy'') RS_Hard CS_Supported) a3
         else a3)"

definition eval_runtime :: "federation_policy \<Rightarrow> capability_set \<Rightarrow> evaluation \<Rightarrow> evaluation" where
  "eval_runtime p s a =
     (if pl_minimum_runtime_version p = [] then a
      else let l = cs_lookup s ''runtime.version'' in
        if cl_state l = CS_Unknown then
          fail_indeterminate (reason EC_UnknownCapability ''runtime.version''
            ''policy sets a minimum runtime version but the runtime version is UNKNOWN'' RS_Hard (cl_state l)) a
        else case (cl_present l, cl_value l) of
          (True, Some v) \<Rightarrow>
            if range_matches (pl_minimum_runtime_version p) (version_value v) then a
            else fail_hard (reason EC_RuntimeVersionUnsupported ''runtime.version''
                   (''runtime version '' @ cv_render v @ '' does not satisfy policy minimum '' @
                    range_to_string (pl_minimum_runtime_version p)) RS_Hard (cl_state l)) a
        | _ \<Rightarrow> a)"

definition eval_memory :: "federation_policy \<Rightarrow> capability_set \<Rightarrow> evaluation \<Rightarrow> evaluation" where
  "eval_memory p s a =
     (if \<not> pl_minimum_memory_bytes p > 0 then a
      else let l = cs_lookup s ''memory.total_bytes'' in
        if cl_state l = CS_Unknown then
          fail_indeterminate (reason EC_UnknownCapability ''memory.total_bytes''
            ''policy sets a minimum memory but total memory is UNKNOWN'' RS_Hard (cl_state l)) a
        else case (cl_present l, cl_value l) of
          (True, Some v) \<Rightarrow>
            if (word_of_int (integer_value v) :: u64) < pl_minimum_memory_bytes p
            then fail_hard (reason EC_InsufficientMemory ''memory.total_bytes''
                   (''total memory '' @ string_of_int (integer_value v) @ '' is below the policy minimum '' @
                    string_of_nat (unat (pl_minimum_memory_bytes p))) RS_Hard (cl_state l)) a
            else a
        | _ \<Rightarrow> a)"

definition eval_required :: "capability_set \<Rightarrow> string \<Rightarrow> evaluation \<Rightarrow> evaluation" where
  "eval_required s required a =
     (let l = cs_lookup s required in
      if cl_state l = CS_Unknown then
        fail_indeterminate (reason EC_UnknownCapability required
          ''policy requires this capability but there is no evidence'' RS_Hard (cl_state l)) a
      else if cl_state l \<noteq> CS_Supported then
        fail_hard (reason EC_MissingMandatoryCapability required
          (''policy requires this capability and the accelerator reports '' @ state_to_string (cl_state l))
          RS_Hard (cl_state l)) a
      else a)"

definition eval_denied :: "capability_set \<Rightarrow> string \<Rightarrow> evaluation \<Rightarrow> evaluation" where
  "eval_denied s denied a =
     (let l = cs_lookup s denied in
      if cl_state l = CS_Supported \<or> cl_state l = CS_Degraded then
        fail_hard (reason EC_PolicyMismatch denied
          ''policy denies this capability and the accelerator supports it'' RS_Hard (cl_state l)) a
      else a)"

definition eval_tag :: "federation_policy \<Rightarrow> string \<Rightarrow> evaluation \<Rightarrow> evaluation" where
  "eval_tag p tag a =
     (if tag \<in> set (pl_tags p) then a
      else fail_hard (reason EC_PolicyMismatch (''policy.tag.'' @ tag)
             (''workload requires policy tag '' @ [CHR 0x27] @ tag @ [CHR 0x27] @ '' which the active policy does not provide'')
             RS_Hard CS_Unsupported) a)"

definition eval_provenance :: "federation_policy \<Rightarrow> evidence_provenance \<Rightarrow> evaluation \<Rightarrow> evaluation" where
  "eval_provenance p provenance a =
     (case pl_synthetic_evidence_policy p of
        SP_Reject \<Rightarrow>
          if provenance \<noteq> EP_Real then
            fail_hard (reason EC_PolicyMismatch ''policy.synthetic_evidence''
              (''policy rejects '' @ provenance_to_string provenance @ '' evidence'') RS_Hard CS_Unsupported) a
          else a
      | SP_Require \<Rightarrow>
          if provenance \<noteq> EP_Synthetic then
            fail_hard (reason EC_PolicyMismatch ''policy.synthetic_evidence''
              (''policy accepts only SYNTHETIC evidence but this member reports '' @ provenance_to_string provenance)
              RS_Hard CS_Unsupported) a
          else a
      | SP_Allow \<Rightarrow> a)"

definition eval_membership :: "bool \<Rightarrow> evaluation \<Rightarrow> evaluation" where
  "eval_membership accepts a =
     (if accepts then a
      else fail_hard (reason EC_PolicyMismatch ''membership.state''
             ''member is not in a state that accepts new work'' RS_Hard CS_Unsupported) a)"

definition eval_policy ::
    "workload_profile \<Rightarrow> federation_policy \<Rightarrow> evaluation_target \<Rightarrow> capability_set \<Rightarrow> evaluation \<Rightarrow> evaluation" where
  "eval_policy w p t s a =
     (let vendor = enumeration_token s ''vendor.id''; architecture = enumeration_token s ''architecture.family''
      in eval_membership (et_accepts_new_work t)
           (eval_provenance p (et_provenance t)
           (fold (eval_tag p) (wp_required_policy_tags w)
           (fold (eval_denied s) (pl_denied_capabilities p)
           (fold (eval_required s) (pl_required_capabilities p)
           (eval_memory p s (eval_runtime p s
           (eval_identity p (et_accelerator t) vendor architecture a))))))))"

subsection \<open>Portability\<close>

definition eval_threshold :: "workload_profile \<Rightarrow> portability_class \<Rightarrow> evaluation \<Rightarrow> evaluation" where
  "eval_threshold w c a =
     (if c = PC_Unknown then
        fail_indeterminate (reason EC_UnknownCapability ''portability''
          ''portability from the source accelerator cannot be established'' RS_Hard CS_Unknown) a
      else if c = PC_Unsupported then
        fail_hard (reason EC_PortabilityConstraintViolated ''portability''
          ''no portability path exists from the source accelerator'' RS_Hard CS_Unsupported) a
      else if \<not> meets_portability_threshold c (wp_minimum_portability w) then
        fail_hard (reason EC_PortabilityConstraintViolated ''portability''
          (''portability '' @ portability_to_string c @ '' does not meet the workload minimum '' @
           portability_to_string (wp_minimum_portability w)) RS_Hard CS_Supported) a
      else a)"

definition eval_exact_binary :: "workload_profile \<Rightarrow> portability_class \<Rightarrow> evaluation \<Rightarrow> evaluation" where
  "eval_exact_binary w c a =
     (if wp_execution_mode w = EM_ExactBinary \<and> c \<noteq> PC_Native \<and> c \<noteq> PC_BinaryCompatible \<and>
         c \<noteq> PC_LiveMigrationSupported then
        fail_hard (reason EC_PortabilityConstraintViolated ''execution_mode''
          (''workload requires the exact binary and the destination is '' @ portability_to_string c)
          RS_Hard CS_Supported) a
      else a)"

definition eval_allowed_class :: "federation_policy \<Rightarrow> portability_class \<Rightarrow> evaluation \<Rightarrow> evaluation" where
  "eval_allowed_class p c a =
     (if pl_allowed_portability_classes p \<noteq> [] \<and> c \<noteq> PC_Unknown \<and> c \<notin> set (pl_allowed_portability_classes p) then
        fail_hard (reason EC_PortabilityConstraintViolated ''policy.allowed_portability_classes''
          (''portability '' @ portability_to_string c @ '' is not permitted by policy'') RS_Hard CS_Supported) a
      else a)"

definition eval_migration_need :: "workload_profile \<Rightarrow> portability_class \<Rightarrow> evaluation \<Rightarrow> evaluation" where
  "eval_migration_need w c a0 =
     (let a1 = (if wp_migration_need w = MN_LiveStateTransfer \<and> c \<noteq> PC_LiveMigrationSupported then
                  fail_hard (reason EC_MigrationUnsupported ''workload.migration_need''
                    (''workload requires live state transfer but the destination is '' @ portability_to_string c)
                    RS_Hard CS_Supported) a0
                else a0)
      in if wp_migration_need w = MN_CheckpointRestore \<and>
            \<not> meets_portability_threshold c PC_CheckpointRestoreSupported \<and>
            \<not> (wp_reconstruction_allowed w \<and> meets_portability_threshold c PC_RecompileRequired) then
           fail_hard (reason EC_MigrationUnsupported ''workload.migration_need''
             (''workload requires checkpoint/restore but the destination is '' @ portability_to_string c)
             RS_Hard CS_Supported) a1
         else a1)"

definition source_request ::
    "workload_profile \<Rightarrow> federation_policy \<Rightarrow> capability_set \<Rightarrow> evaluation_source \<Rightarrow> portability_request" where
  "source_request w p s source =
     \<lparr>pq_source = es_capabilities source, pq_destination = Some s, pq_source_vendor = es_vendor source,
      pq_destination_vendor = enumeration_token s ''vendor.id'', pq_workload = Some w,
      pq_allows_cross_vendor = pl_allow_cross_vendor_migration p\<rparr>"

definition eval_portability ::
    "workload_profile \<Rightarrow> federation_policy \<Rightarrow> capability_set \<Rightarrow> evaluation_source option \<Rightarrow> evaluation \<Rightarrow>
     portability_class \<times> evaluation" where
  "eval_portability w p s source a =
     (case source of
        None \<Rightarrow> (PC_Native, a)
      | Some src \<Rightarrow>
          let (c, reasons) = classify_portability (source_request w p s src)
          in (c, eval_migration_need w c (eval_allowed_class p c (eval_exact_binary w c (eval_threshold w c
                   (fold push_reason (filter (\<lambda>r. re_code r \<noteq> EC_Ok) reasons) a))))))"

subsection \<open>Score and outcome\<close>

definition provenance_penalty :: "evidence_provenance \<Rightarrow> int" where
  "provenance_penalty provenance = (case provenance of EP_Synthetic \<Rightarrow> 250 | EP_Unsupported \<Rightarrow> 500 | EP_Real \<Rightarrow> 0)"

definition free_memory_bonus :: "capability_set \<Rightarrow> bool \<Rightarrow> int" where
  "free_memory_bonus s fresh =
     (let l = cs_lookup s ''memory.free_bytes'' in
      if cl_present l \<and> cl_state l = CS_Supported \<and> fresh then
        (case cl_value l of
           None \<Rightarrow> 0
         | Some v \<Rightarrow> min (max (sgn (integer_value v) * (\<bar>integer_value v\<bar> div (1024 * 1024 * 1024))) 0) 1000)
      else 0)"

definition final_outcome :: "evaluation \<Rightarrow> compatibility_outcome" where
  "final_outcome a = (if va_hard a then CO_Ineligible else if va_indeterminate a then CO_Unknown else CO_Eligible)"

definition run_evaluation ::
    "workload_profile \<Rightarrow> federation_policy \<Rightarrow> evaluation_target \<Rightarrow> capability_set \<Rightarrow> evaluation_source option \<Rightarrow>
     portability_class \<times> evaluation" where
  "run_evaluation w p t s source =
     (let a0 = \<lparr>va_hard = False, va_indeterminate = False, va_score = 0, va_reasons = []\<rparr>;
          a1 = fold (eval_requirement p (et_evidence_fresh t) s) (canonicalize_requirements w) a0;
          a2 = eval_policy w p t s a1;
          (c, a3) = eval_portability w p s source a2
      in (c, add_score (free_memory_bonus s (et_evidence_fresh t))
               (add_score (- provenance_penalty (et_provenance t))
               (add_score (- (100 * int (unat (portability_transformation_steps c)))) a3))))"

definition evaluate_compatibility ::
    "int \<Rightarrow> workload_profile \<Rightarrow> evaluation_context \<Rightarrow> compatibility_decision result" where
  "evaluate_compatibility wall w ctx =
     (if wp_validate w \<noteq> EC_Ok then Inl (wp_validate w)
      else case ec_policy ctx of
        None \<Rightarrow> Inl EC_InvalidArgument
      | Some p \<Rightarrow> (case et_capabilities (ec_target ctx) of
          None \<Rightarrow> Inl EC_InvalidArgument
        | Some s \<Rightarrow>
            if is_nil (et_accelerator (ec_target ctx)) then Inl EC_InvalidArgument
            else if pl_validate p \<noteq> EC_Ok then Inl (pl_validate p)
            else let t = ec_target ctx; (c, a) = run_evaluation w p t s (ec_source ctx) in
              Inr (refresh_decision_identity
                \<lparr>cd_id = nil_id, cd_decision_id = nil_id, cd_generation = 0,
                 cd_federation = ec_federation ctx, cd_federation_generation = ec_federation_generation ctx,
                 cd_epoch = ec_epoch ctx, cd_accelerator = et_accelerator t,
                 cd_device_generation = et_device_generation t,
                 cd_capability_generation = et_capability_generation t,
                 cd_evidence_generation = et_evidence_generation t,
                 cd_policy_generation = ec_policy_generation ctx, cd_policy = pl_id p,
                 cd_workload = wp_class_id w, cd_workload_requirement = wp_requirement_id w,
                 cd_workload_revision = ec_workload_revision ctx, cd_outcome = final_outcome a,
                 cd_portability = c, cd_support_level = et_support_level t,
                 cd_provenance = et_provenance t, cd_score = va_score a,
                 cd_reasons = sort_reasons (va_reasons a), cd_created_at = wall\<rparr>)))"

subsection \<open>Fleets\<close>

record fleet_evaluation =
  fe_workload :: workload_class_id
  fe_workload_revision :: generation
  fe_cells :: "(accelerator_id \<times> compatibility_decision) list"
  fe_eligible :: nat
  fe_ineligible :: nat
  fe_unknown :: nat

definition et_less :: "evaluation_target \<Rightarrow> evaluation_target \<Rightarrow> bool" where
  "et_less a b =
     (if et_accelerator a \<noteq> et_accelerator b then et_accelerator a < et_accelerator b
      else if et_device_generation a \<noteq> et_device_generation b then et_device_generation a < et_device_generation b
      else et_capability_generation a < et_capability_generation b)"

definition fleet_step ::
    "(nat \<Rightarrow> int) \<Rightarrow> workload_profile \<Rightarrow> evaluation_context \<Rightarrow> fleet_evaluation \<Rightarrow> evaluation_target \<Rightarrow>
     fleet_evaluation result" where
  "fleet_step walls w ctx f t =
     (case evaluate_compatibility (walls (length (fe_cells f))) w (ctx\<lparr>ec_target := t\<rparr>) of
        Inl e \<Rightarrow> Inl e
      | Inr d \<Rightarrow>
          let g = (case cd_outcome d of
                     CO_Eligible \<Rightarrow> f\<lparr>fe_eligible := fe_eligible f + 1\<rparr>
                   | CO_Ineligible \<Rightarrow> f\<lparr>fe_ineligible := fe_ineligible f + 1\<rparr>
                   | CO_Unknown \<Rightarrow> f\<lparr>fe_unknown := fe_unknown f + 1\<rparr>)
          in Inr (g\<lparr>fe_cells := fe_cells g @ [(et_accelerator t, d)]\<rparr>))"

fun fleet_loop ::
    "(nat \<Rightarrow> int) \<Rightarrow> workload_profile \<Rightarrow> evaluation_context \<Rightarrow> evaluation_target list \<Rightarrow> fleet_evaluation \<Rightarrow>
     fleet_evaluation result" where
  "fleet_loop walls w ctx [] f = Inr f"
| "fleet_loop walls w ctx (t # ts) f =
     (case fleet_step walls w ctx f t of Inl e \<Rightarrow> Inl e | Inr g \<Rightarrow> fleet_loop walls w ctx ts g)"

text \<open>\<open>walls i\<close> is the reading of the wall clock at the \<open>i\<close>-th evaluation.\<close>

definition evaluate_fleet ::
    "(nat \<Rightarrow> int) \<Rightarrow> workload_profile \<Rightarrow> evaluation_context \<Rightarrow> evaluation_target list \<Rightarrow> fleet_evaluation result" where
  "evaluate_fleet walls w ctx targets =
     (if length targets > 1000000 then Inl EC_BoundsExceeded
      else let ordered = sort_by et_less targets in
        if adjacent_dup (map et_accelerator ordered) then Inl EC_DuplicateIdentity
        else fleet_loop walls w ctx ordered
          \<lparr>fe_workload = wp_class_id w, fe_workload_revision = ec_workload_revision ctx, fe_cells = [],
           fe_eligible = 0, fe_ineligible = 0, fe_unknown = 0\<rparr>)"

subsection \<open>What decides the outcome\<close>

text \<open>The two flags after each step, as a disjunction of the flag before and a condition on the inputs.
  \<open>violated\<close> is positive evidence against the candidate, \<open>unproven\<close> is missing evidence.\<close>

named_theorems flags

lemma push_reason_flags [flags]:
  "va_hard (push_reason r a) = va_hard a" "va_indeterminate (push_reason r a) = va_indeterminate a"
  "va_score (push_reason r a) = va_score a"
  by (simp_all add: push_reason_def)

lemma fail_hard_flags [flags]:
  "va_hard (fail_hard r a)" "va_indeterminate (fail_hard r a) = va_indeterminate a"
  "va_score (fail_hard r a) = va_score a"
  by (simp_all add: fail_hard_def push_reason_def)

lemma fail_indeterminate_flags [flags]:
  "va_hard (fail_indeterminate r a) = va_hard a" "va_indeterminate (fail_indeterminate r a)"
  "va_score (fail_indeterminate r a) = va_score a"
  by (simp_all add: fail_indeterminate_def push_reason_def)

lemma add_score_flags [flags]:
  "va_hard (add_score n a) = va_hard a" "va_indeterminate (add_score n a) = va_indeterminate a"
  "va_score (add_score n a) = va_score a + n"
  by (simp_all add: add_score_def)

lemma fold_flag:
  assumes "\<And>x a. flag (step x a) \<longleftrightarrow> flag a \<or> P x"
  shows "flag (fold step xs a) \<longleftrightarrow> flag a \<or> (\<exists>x \<in> set xs. P x)"
  by (induction xs arbitrary: a) (auto simp: assms)

lemma fold_keeps:
  assumes "\<And>x a. f (step x a) = f a"
  shows "f (fold step xs a) = f a"
  by (induction xs arbitrary: a) (simp_all add: assms)

definition requirement_match :: "federation_policy \<Rightarrow> bool \<Rightarrow> capability_set \<Rightarrow> capability_requirement \<Rightarrow> match_outcome" where
  "requirement_match p fresh s q =
     (if is_dynamic_capability (rq_capability q) \<and> \<not> fresh then MO_Indeterminate
      else match_requirement q (cs_lookup s (rq_capability q)) (pl_allow_degraded_capabilities p))"

lemma eval_requirement_flags [flags]:
  "va_hard (eval_requirement p fresh s q a) \<longleftrightarrow>
     va_hard a \<or> rq_strength q = RS_Hard \<and> requirement_match p fresh s q = MO_Violated"
  "va_indeterminate (eval_requirement p fresh s q a) \<longleftrightarrow>
     va_indeterminate a \<or> rq_strength q = RS_Hard \<and> requirement_match p fresh s q = MO_Indeterminate"
  by (auto simp: eval_requirement_def requirement_match_def Let_def flags split: match_outcome.splits)

definition policy_violated ::
    "workload_profile \<Rightarrow> federation_policy \<Rightarrow> evaluation_target \<Rightarrow> capability_set \<Rightarrow> bool" where
  "policy_violated w p t s \<longleftrightarrow>
     et_accelerator t \<in> set (pl_forbidden_accelerators p) \<or>
     (let v = enumeration_token s ''vendor.id'' in v \<noteq> [] \<and>
        (v \<in> set (pl_forbidden_vendors p) \<or> pl_allowed_vendors p \<noteq> [] \<and> v \<notin> set (pl_allowed_vendors p))) \<or>
     (let c = enumeration_token s ''architecture.family'' in c \<noteq> [] \<and> c \<in> set (pl_deprecated_architectures p)) \<or>
     (let l = cs_lookup s ''runtime.version'' in
        pl_minimum_runtime_version p \<noteq> [] \<and> cl_state l \<noteq> CS_Unknown \<and> cl_present l \<and>
        (\<exists>v. cl_value l = Some v \<and> \<not> range_matches (pl_minimum_runtime_version p) (version_value v))) \<or>
     (let l = cs_lookup s ''memory.total_bytes'' in
        pl_minimum_memory_bytes p > 0 \<and> cl_state l \<noteq> CS_Unknown \<and> cl_present l \<and>
        (\<exists>v. cl_value l = Some v \<and> (word_of_int (integer_value v) :: u64) < pl_minimum_memory_bytes p)) \<or>
     (\<exists>c \<in> set (pl_required_capabilities p). cl_state (cs_lookup s c) \<notin> {CS_Supported, CS_Unknown}) \<or>
     (\<exists>c \<in> set (pl_denied_capabilities p). cl_state (cs_lookup s c) \<in> {CS_Supported, CS_Degraded}) \<or>
     (\<exists>tag \<in> set (wp_required_policy_tags w). tag \<notin> set (pl_tags p)) \<or>
     (pl_synthetic_evidence_policy p = SP_Reject \<and> et_provenance t \<noteq> EP_Real) \<or>
     (pl_synthetic_evidence_policy p = SP_Require \<and> et_provenance t \<noteq> EP_Synthetic) \<or>
     \<not> et_accepts_new_work t"

definition policy_unproven :: "federation_policy \<Rightarrow> capability_set \<Rightarrow> bool" where
  "policy_unproven p s \<longleftrightarrow>
     (pl_minimum_runtime_version p \<noteq> [] \<and> cl_state (cs_lookup s ''runtime.version'') = CS_Unknown) \<or>
     (pl_minimum_memory_bytes p > 0 \<and> cl_state (cs_lookup s ''memory.total_bytes'') = CS_Unknown) \<or>
     (\<exists>c \<in> set (pl_required_capabilities p). cl_state (cs_lookup s c) = CS_Unknown)"

lemma eval_identity_flags [flags]:
  "va_hard (eval_identity p i v c a) \<longleftrightarrow> va_hard a \<or> i \<in> set (pl_forbidden_accelerators p) \<or>
     v \<noteq> [] \<and> (v \<in> set (pl_forbidden_vendors p) \<or> pl_allowed_vendors p \<noteq> [] \<and> v \<notin> set (pl_allowed_vendors p)) \<or>
     c \<noteq> [] \<and> c \<in> set (pl_deprecated_architectures p)"
  "va_indeterminate (eval_identity p i v c a) = va_indeterminate a" "va_score (eval_identity p i v c a) = va_score a"
  by (auto simp: eval_identity_def Let_def flags)

lemma eval_runtime_flags [flags]:
  "va_hard (eval_runtime p s a) \<longleftrightarrow> va_hard a \<or> (let l = cs_lookup s ''runtime.version'' in
     pl_minimum_runtime_version p \<noteq> [] \<and> cl_state l \<noteq> CS_Unknown \<and> cl_present l \<and>
     (\<exists>v. cl_value l = Some v \<and> \<not> range_matches (pl_minimum_runtime_version p) (version_value v)))"
  "va_indeterminate (eval_runtime p s a) \<longleftrightarrow> va_indeterminate a \<or>
     pl_minimum_runtime_version p \<noteq> [] \<and> cl_state (cs_lookup s ''runtime.version'') = CS_Unknown"
  "va_score (eval_runtime p s a) = va_score a"
  by (auto simp: eval_runtime_def Let_def flags split: bool.splits option.splits)

lemma eval_memory_flags [flags]:
  "va_hard (eval_memory p s a) \<longleftrightarrow> va_hard a \<or> (let l = cs_lookup s ''memory.total_bytes'' in
     pl_minimum_memory_bytes p > 0 \<and> cl_state l \<noteq> CS_Unknown \<and> cl_present l \<and>
     (\<exists>v. cl_value l = Some v \<and> (word_of_int (integer_value v) :: u64) < pl_minimum_memory_bytes p))"
  "va_indeterminate (eval_memory p s a) \<longleftrightarrow> va_indeterminate a \<or>
     pl_minimum_memory_bytes p > 0 \<and> cl_state (cs_lookup s ''memory.total_bytes'') = CS_Unknown"
  "va_score (eval_memory p s a) = va_score a"
  by (auto simp: eval_memory_def Let_def flags split: bool.splits option.splits)

lemma eval_required_flags [flags]:
  "va_hard (eval_required s c a) \<longleftrightarrow> va_hard a \<or> cl_state (cs_lookup s c) \<notin> {CS_Supported, CS_Unknown}"
  "va_indeterminate (eval_required s c a) \<longleftrightarrow> va_indeterminate a \<or> cl_state (cs_lookup s c) = CS_Unknown"
  "va_score (eval_required s c a) = va_score a"
  by (auto simp: eval_required_def Let_def flags)

lemma eval_denied_flags [flags]:
  "va_hard (eval_denied s c a) \<longleftrightarrow> va_hard a \<or> cl_state (cs_lookup s c) \<in> {CS_Supported, CS_Degraded}"
  "va_indeterminate (eval_denied s c a) = va_indeterminate a" "va_score (eval_denied s c a) = va_score a"
  by (auto simp: eval_denied_def Let_def flags)

lemma eval_tag_flags [flags]:
  "va_hard (eval_tag p tag a) \<longleftrightarrow> va_hard a \<or> tag \<notin> set (pl_tags p)"
  "va_indeterminate (eval_tag p tag a) = va_indeterminate a" "va_score (eval_tag p tag a) = va_score a"
  by (auto simp: eval_tag_def flags)

lemma eval_provenance_flags [flags]:
  "va_hard (eval_provenance p v a) \<longleftrightarrow> va_hard a \<or> pl_synthetic_evidence_policy p = SP_Reject \<and> v \<noteq> EP_Real \<or>
     pl_synthetic_evidence_policy p = SP_Require \<and> v \<noteq> EP_Synthetic"
  "va_indeterminate (eval_provenance p v a) = va_indeterminate a" "va_score (eval_provenance p v a) = va_score a"
  by (auto simp: eval_provenance_def flags split: synthetic_policy.splits)

lemma eval_membership_flags [flags]:
  "va_hard (eval_membership b a) \<longleftrightarrow> va_hard a \<or> \<not> b"
  "va_indeterminate (eval_membership b a) = va_indeterminate a" "va_score (eval_membership b a) = va_score a"
  by (auto simp: eval_membership_def flags)

lemma eval_policy_hard: "va_hard (eval_policy w p t s a) \<longleftrightarrow> va_hard a \<or> policy_violated w p t s"
  unfolding eval_policy_def policy_violated_def Let_def
  by (auto simp: flags Let_def
      fold_flag [where flag = va_hard and step = "eval_tag p", OF eval_tag_flags(1)]
      fold_flag [where flag = va_hard and step = "eval_denied s", OF eval_denied_flags(1)]
      fold_flag [where flag = va_hard and step = "eval_required s", OF eval_required_flags(1)])

lemma eval_policy_indeterminate:
  "va_indeterminate (eval_policy w p t s a) \<longleftrightarrow> va_indeterminate a \<or> policy_unproven p s"
  unfolding eval_policy_def policy_unproven_def Let_def
  by (auto simp: flags
      fold_keeps [where f = va_indeterminate and step = "eval_tag p", OF eval_tag_flags(2)]
      fold_keeps [where f = va_indeterminate and step = "eval_denied s", OF eval_denied_flags(2)]
      fold_flag [where flag = va_indeterminate and step = "eval_required s", OF eval_required_flags(2)])

lemma eval_policy_score: "va_score (eval_policy w p t s a) = va_score a"
  unfolding eval_policy_def Let_def
  by (simp add: flags fold_keeps [where f = va_score and step = "eval_tag p", OF eval_tag_flags(3)]
      fold_keeps [where f = va_score and step = "eval_denied s", OF eval_denied_flags(3)]
      fold_keeps [where f = va_score and step = "eval_required s", OF eval_required_flags(3)])

definition portability_violated :: "workload_profile \<Rightarrow> federation_policy \<Rightarrow> portability_class \<Rightarrow> bool" where
  "portability_violated w p c \<longleftrightarrow>
     c = PC_Unsupported \<or> c \<noteq> PC_Unknown \<and> \<not> meets_portability_threshold c (wp_minimum_portability w) \<or>
     wp_execution_mode w = EM_ExactBinary \<and> c \<notin> {PC_Native, PC_BinaryCompatible, PC_LiveMigrationSupported} \<or>
     pl_allowed_portability_classes p \<noteq> [] \<and> c \<noteq> PC_Unknown \<and> c \<notin> set (pl_allowed_portability_classes p) \<or>
     wp_migration_need w = MN_LiveStateTransfer \<and> c \<noteq> PC_LiveMigrationSupported \<or>
     wp_migration_need w = MN_CheckpointRestore \<and> \<not> meets_portability_threshold c PC_CheckpointRestoreSupported \<and>
       \<not> (wp_reconstruction_allowed w \<and> meets_portability_threshold c PC_RecompileRequired)"

lemma eval_threshold_flags [flags]:
  "va_hard (eval_threshold w c a) \<longleftrightarrow> va_hard a \<or> c = PC_Unsupported \<or>
     c \<noteq> PC_Unknown \<and> \<not> meets_portability_threshold c (wp_minimum_portability w)"
  "va_indeterminate (eval_threshold w c a) \<longleftrightarrow> va_indeterminate a \<or> c = PC_Unknown"
  "va_score (eval_threshold w c a) = va_score a"
  by (auto simp: eval_threshold_def flags)

lemma eval_exact_binary_flags [flags]:
  "va_hard (eval_exact_binary w c a) \<longleftrightarrow> va_hard a \<or>
     wp_execution_mode w = EM_ExactBinary \<and> c \<notin> {PC_Native, PC_BinaryCompatible, PC_LiveMigrationSupported}"
  "va_indeterminate (eval_exact_binary w c a) = va_indeterminate a" "va_score (eval_exact_binary w c a) = va_score a"
  by (auto simp: eval_exact_binary_def flags)

lemma eval_allowed_class_flags [flags]:
  "va_hard (eval_allowed_class p c a) \<longleftrightarrow> va_hard a \<or> pl_allowed_portability_classes p \<noteq> [] \<and> c \<noteq> PC_Unknown \<and>
     c \<notin> set (pl_allowed_portability_classes p)"
  "va_indeterminate (eval_allowed_class p c a) = va_indeterminate a" "va_score (eval_allowed_class p c a) = va_score a"
  by (auto simp: eval_allowed_class_def flags)

lemma eval_migration_need_flags [flags]:
  "va_hard (eval_migration_need w c a) \<longleftrightarrow> va_hard a \<or>
     wp_migration_need w = MN_LiveStateTransfer \<and> c \<noteq> PC_LiveMigrationSupported \<or>
     wp_migration_need w = MN_CheckpointRestore \<and> \<not> meets_portability_threshold c PC_CheckpointRestoreSupported \<and>
       \<not> (wp_reconstruction_allowed w \<and> meets_portability_threshold c PC_RecompileRequired)"
  "va_indeterminate (eval_migration_need w c a) = va_indeterminate a" "va_score (eval_migration_need w c a) = va_score a"
  by (auto simp: eval_migration_need_def Let_def flags)

text \<open>The class a decision records.\<close>

definition target_class ::
    "workload_profile \<Rightarrow> federation_policy \<Rightarrow> capability_set \<Rightarrow> evaluation_source option \<Rightarrow> portability_class" where
  "target_class w p s source =
     (case source of None \<Rightarrow> PC_Native | Some src \<Rightarrow> fst (classify_portability (source_request w p s src)))"

lemma eval_portability_flags:
  "fst (eval_portability w p s source a) = target_class w p s source"
  "va_hard (snd (eval_portability w p s source a)) \<longleftrightarrow> va_hard a \<or>
     source \<noteq> None \<and> portability_violated w p (target_class w p s source)"
  "va_indeterminate (snd (eval_portability w p s source a)) \<longleftrightarrow> va_indeterminate a \<or>
     target_class w p s source = PC_Unknown"
  "va_score (snd (eval_portability w p s source a)) = va_score a"
proof -
  note keeps = fold_keeps [where f = va_hard and step = push_reason, OF push_reason_flags(1)]
    fold_keeps [where f = va_indeterminate and step = push_reason, OF push_reason_flags(2)]
    fold_keeps [where f = va_score and step = push_reason, OF push_reason_flags(3)]
  show "fst (eval_portability w p s source a) = target_class w p s source"
    "va_hard (snd (eval_portability w p s source a)) \<longleftrightarrow> va_hard a \<or>
       source \<noteq> None \<and> portability_violated w p (target_class w p s source)"
    "va_indeterminate (snd (eval_portability w p s source a)) \<longleftrightarrow> va_indeterminate a \<or>
       target_class w p s source = PC_Unknown"
    "va_score (snd (eval_portability w p s source a)) = va_score a"
    by (cases source; simp add: eval_portability_def target_class_def split_beta flags keeps portability_violated_def; blast)+
qed

lemma set_canonicalize_requirements [simp]: "set (canonicalize_requirements w) = set (wp_requirements w)"
  by (simp add: canonicalize_requirements_def)

definition requirements_violated ::
    "workload_profile \<Rightarrow> federation_policy \<Rightarrow> evaluation_target \<Rightarrow> capability_set \<Rightarrow> match_outcome \<Rightarrow> bool" where
  "requirements_violated w p t s m \<longleftrightarrow>
     (\<exists>q \<in> set (wp_requirements w). rq_strength q = RS_Hard \<and> requirement_match p (et_evidence_fresh t) s q = m)"

lemma run_evaluation_flags:
  "fst (run_evaluation w p t s source) = target_class w p s source"
  "va_hard (snd (run_evaluation w p t s source)) \<longleftrightarrow> requirements_violated w p t s MO_Violated \<or>
     policy_violated w p t s \<or> source \<noteq> None \<and> portability_violated w p (target_class w p s source)"
  "va_indeterminate (snd (run_evaluation w p t s source)) \<longleftrightarrow> requirements_violated w p t s MO_Indeterminate \<or>
     policy_unproven p s \<or> target_class w p s source = PC_Unknown"
  by (simp_all add: run_evaluation_def Let_def flags split_beta eval_portability_flags eval_policy_hard
      eval_policy_indeterminate requirements_violated_def
      fold_flag [where flag = va_hard and step = "eval_requirement p f s" for f, OF eval_requirement_flags(1)]
      fold_flag [where flag = va_indeterminate and step = "eval_requirement p f s" for f, OF eval_requirement_flags(2)])

text \<open>The abstract contract of an eligible candidate.\<close>

definition eligible ::
    "workload_profile \<Rightarrow> federation_policy \<Rightarrow> evaluation_target \<Rightarrow> capability_set \<Rightarrow> evaluation_source option \<Rightarrow> bool" where
  "eligible w p t s source \<longleftrightarrow>
     (\<forall>q \<in> set (wp_requirements w). rq_strength q = RS_Hard \<longrightarrow> requirement_match p (et_evidence_fresh t) s q = MO_Satisfied) \<and>
     \<not> policy_violated w p t s \<and> \<not> policy_unproven p s \<and>
     (source \<noteq> None \<longrightarrow> target_class w p s source \<noteq> PC_Unknown \<and> \<not> portability_violated w p (target_class w p s source))"

lemma eligible_flags:
  "eligible w p t s source \<longleftrightarrow>
     \<not> requirements_violated w p t s MO_Violated \<and> \<not> requirements_violated w p t s MO_Indeterminate \<and>
     \<not> policy_violated w p t s \<and> \<not> policy_unproven p s \<and>
     (source \<noteq> None \<longrightarrow> target_class w p s source \<noteq> PC_Unknown \<and> \<not> portability_violated w p (target_class w p s source))"
proof -
  have "requirement_match p f s q = MO_Satisfied \<longleftrightarrow>
      requirement_match p f s q \<noteq> MO_Violated \<and> requirement_match p f s q \<noteq> MO_Indeterminate" for f q
    by (cases "requirement_match p f s q") simp_all
  then show ?thesis unfolding eligible_def requirements_violated_def by blast
qed

lemma run_evaluation_outcome:
  "final_outcome (snd (run_evaluation w p t s source)) =
     (if requirements_violated w p t s MO_Violated \<or> policy_violated w p t s \<or>
         source \<noteq> None \<and> portability_violated w p (target_class w p s source) then CO_Ineligible
      else if eligible w p t s source then CO_Eligible else CO_Unknown)"
proof -
  have "target_class w p s source = PC_Unknown \<Longrightarrow> source \<noteq> None" by (cases source) (simp_all add: target_class_def)
  then show ?thesis
    unfolding final_outcome_def run_evaluation_flags eligible_flags by argo
qed

lemma evaluate_compatibility_cases:
  assumes "evaluate_compatibility wall w ctx = Inr d"
  obtains p s where "ec_policy ctx = Some p" "et_capabilities (ec_target ctx) = Some s"
    "wp_validate w = EC_Ok" "pl_validate p = EC_Ok"
    "cd_outcome d = final_outcome (snd (run_evaluation w p (ec_target ctx) s (ec_source ctx)))"
    "cd_score d = va_score (snd (run_evaluation w p (ec_target ctx) s (ec_source ctx)))"
    "cd_portability d = target_class w p s (ec_source ctx)"
    "cd_accelerator d = et_accelerator (ec_target ctx)" "cd_decision_id d = cd_identity d"
    "cd_is_current d (ec_federation_generation ctx) (ec_epoch ctx) (ec_policy_generation ctx)
       (et_device_generation (ec_target ctx)) (et_capability_generation (ec_target ctx))
       (et_evidence_generation (ec_target ctx)) (ec_workload_revision ctx)"
proof -
  from assms obtain p s where ps: "ec_policy ctx = Some p" "et_capabilities (ec_target ctx) = Some s"
    "wp_validate w = EC_Ok" "pl_validate p = EC_Ok"
    by (auto simp: evaluate_compatibility_def split: if_splits option.splits)
  show thesis
    by (rule that [OF ps])
       (use assms ps in \<open>auto simp: evaluate_compatibility_def Let_def split_beta run_evaluation_flags cd_is_current_def
          refresh_decision_identity_bound split: if_splits\<close>)
qed

lemma evaluate_compatibility_facts:
  assumes "evaluate_compatibility wall w ctx = Inr d" "ec_policy ctx = Some p" "et_capabilities (ec_target ctx) = Some s"
  shows "wp_validate w = EC_Ok"
    "cd_outcome d = final_outcome (snd (run_evaluation w p (ec_target ctx) s (ec_source ctx)))"
    "cd_score d = va_score (snd (run_evaluation w p (ec_target ctx) s (ec_source ctx)))"
    "cd_portability d = target_class w p s (ec_source ctx)" "cd_decision_id d = cd_identity d"
    "cd_is_current d (ec_federation_generation ctx) (ec_epoch ctx) (ec_policy_generation ctx)
       (et_device_generation (ec_target ctx)) (et_capability_generation (ec_target ctx))
       (et_evidence_generation (ec_target ctx)) (ec_workload_revision ctx)"
  by (rule evaluate_compatibility_cases [OF assms(1)], simp add: assms(2,3))+

subsection \<open>Bounds of the score\<close>

lemma dbl_one_e9_scaled: "dbl_scaled dbl_one_e9 = 1000000000 * 2 ^ 1074"
  by (simp add: dbl_scaled_def dbl_magnitude_def dbl_exponent_def dbl_mantissa_def dbl_negative_def dbl_one_e9_def
      bit_simps)

lemma weight_magnitude:
  assumes "rq_validate q = EC_Ok"
  shows "dbl_magnitude (rq_weight q) \<le> 2 ^ 1074 * 1000000000"
proof -
  have "dbl_scaled (rq_weight q) \<le> 1000000000 * 2 ^ 1074" "0 \<le> dbl_scaled (rq_weight q)"
    using rq_validate_Ok(5,6) [OF assms]
    by (simp_all add: dbl_le_def dbl_one_e9_scaled) (simp add: dbl_scaled_def dbl_magnitude_def dbl_exponent_def dbl_mantissa_def dbl_negative_def)
  then have "int (dbl_magnitude (rq_weight q)) \<le> int (2 ^ 1074 * 1000000000)"
    by (auto simp: dbl_scaled_def split: if_splits)
  then show ?thesis by (simp only: of_nat_le_iff)
qed

lemma eval_requirement_score:
  assumes "rq_validate q = EC_Ok"
  shows "\<bar>va_score (eval_requirement p fresh s q a) - va_score a\<bar> \<le> 2 * 10 ^ 12"
  using weight_score_bound [OF weight_magnitude [OF assms], of 1000] weight_score_bound [OF weight_magnitude [OF assms], of 500]
  by (auto simp: eval_requirement_def Let_def flags split: match_outcome.splits)

lemma requirements_score:
  assumes "\<And>q. q \<in> set qs \<Longrightarrow> rq_validate q = EC_Ok"
  shows "\<bar>va_score (fold (eval_requirement p fresh s) qs a) - va_score a\<bar> \<le> int (length qs) * (2 * 10 ^ 12)"
  using assms
proof (induction qs arbitrary: a)
  case (Cons q qs)
  have "\<bar>va_score (eval_requirement p fresh s q a) - va_score a\<bar> \<le> 2 * 10 ^ 12"
    using Cons.prems by (intro eval_requirement_score) simp
  moreover have "\<bar>va_score (fold (eval_requirement p fresh s) qs (eval_requirement p fresh s q a)) -
      va_score (eval_requirement p fresh s q a)\<bar> \<le> int (length qs) * (2 * 10 ^ 12)"
    using Cons by simp
  ultimately show ?case by (simp add: algebra_simps abs_le_iff)
qed simp

lemma run_evaluation_score:
  assumes "wp_validate w = EC_Ok"
  shows "\<bar>va_score (snd (run_evaluation w p t s source))\<bar> \<le> 2 ^ 53"
proof -
  let ?a0 = "\<lparr>va_hard = False, va_indeterminate = False, va_score = 0, va_reasons = []\<rparr>"
  let ?r = "va_score (fold (eval_requirement p (et_evidence_fresh t) s) (canonicalize_requirements w) ?a0)"
  have len: "int (length (canonicalize_requirements w)) \<le> 4096"
    using wp_validate_Ok(5) [OF assms] by (simp add: canonicalize_requirements_def)
  have "\<bar>?r - va_score ?a0\<bar> \<le> int (length (canonicalize_requirements w)) * (2 * 10 ^ 12)"
    using wp_validate_Ok(6) [OF assms] by (intro requirements_score) simp
  also have "\<dots> \<le> 4096 * (2 * 10 ^ 12)" using len by (intro mult_right_mono) auto
  finally have r: "\<bar>?r\<bar> \<le> 8192000000000000" by simp
  have bonus: "0 \<le> free_memory_bonus s f \<and> free_memory_bonus s f \<le> 1000" for f
    by (auto simp: free_memory_bonus_def Let_def split: option.splits)
  have penalty: "0 \<le> provenance_penalty v \<and> provenance_penalty v \<le> 500" for v
    by (simp add: provenance_penalty_def split: evidence_provenance.split)
  have steps: "0 \<le> uint (portability_transformation_steps c) \<and> uint (portability_transformation_steps c) \<le> 255" for c
    by (cases c) simp_all
  have eq: "va_score (snd (run_evaluation w p t s source)) = ?r - 100 * uint (portability_transformation_steps (target_class w p s source)) -
      provenance_penalty (et_provenance t) + free_memory_bonus s (et_evidence_fresh t)"
    by (simp add: run_evaluation_def Let_def flags split_beta eval_portability_flags eval_policy_score)
  have "\<bar>va_score (snd (run_evaluation w p t s source))\<bar> \<le> 9007199254740992"
    unfolding eq
    using r bonus [of "et_evidence_fresh t"] penalty [of "et_provenance t"] steps [of "target_class w p s source"]
    by linarith
  then show ?thesis by simp
qed

subsection \<open>Independence of the order of the inputs\<close>

interpretation evaluation_order: comparator rq_eval_less
  "\<lambda>q. (rq_capability q, strength_value (rq_strength q), requirement_operator_value (rq_op q), cv_render (rq_value q))"
  by unfold_locales (auto simp: rq_eval_less_def less_le)

lemma wp_validate_perm:
  assumes "wp_validate w = EC_Ok" "mset (wp_requirements w) = mset qs"
  shows "wp_validate (w\<lparr>wp_requirements := qs\<rparr>) = EC_Ok"
proof -
  have "set qs = set (wp_requirements w)" "length qs = length (wp_requirements w)"
    using assms(2) by (metis set_mset_mset, metis size_mset)
  moreover have "distinct (map rq_signature qs) = distinct (map rq_signature (wp_requirements w))"
    using assms(2) by (metis mset_eq_imp_distinct_iff mset_map)
  moreover have "rq_validate_all qs = EC_Ok"
    using assms(1) calculation(1) by (simp add: rq_validate_all_Ok wp_validate_Ok(6))
  ultimately show ?thesis
    using assms(1) by (auto simp: wp_validate_def adjacent_dup_std_sort split: if_splits)
qed

lemma canonicalize_requirements_perm:
  assumes "wp_validate w = EC_Ok" "mset (wp_requirements w) = mset qs"
  shows "canonicalize_requirements (w\<lparr>wp_requirements := qs\<rparr>) = canonicalize_requirements w"
proof -
  have "distinct (map (\<lambda>q. (rq_capability q, strength_value (rq_strength q), requirement_operator_value (rq_op q),
      cv_render (rq_value q))) (wp_requirements w))"
    using wp_requirement_keys_distinct [OF assms(1)] by (auto simp: distinct_map inj_on_def)
  from evaluation_order.sort_by_unique [OF assms(2) this] show ?thesis
    by (simp add: canonicalize_requirements_def)
qed

lemma source_request_simps:
  "pq_source (source_request w p s src) = es_capabilities src" "pq_destination (source_request w p s src) = Some s"
  "pq_source_vendor (source_request w p s src) = es_vendor src"
  "pq_destination_vendor (source_request w p s src) = enumeration_token s ''vendor.id''"
  "pq_workload (source_request w p s src) = Some w"
  "pq_allows_cross_vendor (source_request w p s src) = pl_allow_cross_vendor_migration p"
  by (simp_all add: source_request_def)

lemma classify_requirements:
  "classify_portability (source_request (w\<lparr>wp_requirements := qs\<rparr>) p s src) = classify_portability (source_request w p s src)"
proof -
  let ?q = "source_request (w\<lparr>wp_requirements := qs\<rparr>) p s src" and ?r = "source_request w p s src"
  have sv: "same_vendor ?q = same_vendor ?r" by (simp only: same_vendor_def source_request_simps)
  have cv: "cross_vendor_live_allowed ?q x y = cross_vendor_live_allowed ?r x y" for x y
    by (simp only: cross_vendor_live_allowed_def sv source_request_simps)
  have sc: "strongest_class ?q x y = strongest_class ?r x y" for x y by (simp only: strongest_class_def sv cv)
  have need: "wp_migration_need (w\<lparr>wp_requirements := qs\<rparr>) = wp_migration_need w" by simp
  show ?thesis by (simp only: classify_portability_def sv cv sc need source_request_simps option.case)
qed

lemma eval_portability_requirements:
  "eval_portability (w\<lparr>wp_requirements := qs\<rparr>) p s source a = eval_portability w p s source a"
proof -
  let ?w = "w\<lparr>wp_requirements := qs\<rparr>"
  have "eval_threshold ?w c b = eval_threshold w c b" "eval_exact_binary ?w c b = eval_exact_binary w c b"
    "eval_migration_need ?w c b = eval_migration_need w c b" for c b
    by (simp_all add: eval_threshold_def eval_exact_binary_def eval_migration_need_def)
  then show ?thesis by (simp only: eval_portability_def classify_requirements)
qed

lemma evaluate_compatibility_perm:
  assumes "wp_validate w = EC_Ok" "mset (wp_requirements w) = mset qs"
  shows "evaluate_compatibility wall (w\<lparr>wp_requirements := qs\<rparr>) ctx = evaluate_compatibility wall w ctx"
proof -
  have run: "run_evaluation (w\<lparr>wp_requirements := qs\<rparr>) p t s source = run_evaluation w p t s source" for p t s source
    by (simp add: run_evaluation_def canonicalize_requirements_perm [OF assms] eval_portability_requirements eval_policy_def)
  have ids: "wp_class_id (w\<lparr>wp_requirements := qs\<rparr>) = wp_class_id w"
    "wp_requirement_id (w\<lparr>wp_requirements := qs\<rparr>) = wp_requirement_id w" by simp_all
  show ?thesis by (simp only: evaluate_compatibility_def wp_validate_perm [OF assms] assms(1) run ids)
qed

interpretation target_order: comparator et_less
  "\<lambda>t. (et_accelerator t, et_device_generation t, et_capability_generation t)"
  by unfold_locales (auto simp: et_less_def less_le)

lemma targets_sorted:
  "sorted (map et_accelerator (sort_by et_less ts))"
  "distinct (map et_accelerator (sort_by et_less ts)) = distinct (map et_accelerator ts)"
proof -
  have "sorted (map (\<lambda>t. (et_accelerator t, et_device_generation t, et_capability_generation t)) (sort_by et_less ts))"
    by (rule target_order.sorted_sort_by)
  then show "sorted (map et_accelerator (sort_by et_less ts))"
    by (auto simp: sorted_wrt_map intro: sorted_wrt_mono_rel [rotated])
qed (metis mset_eq_imp_distinct_iff mset_map mset_sort_by)

lemma fleet_duplicates:
  "adjacent_dup (map et_accelerator (sort_by et_less ts)) \<longleftrightarrow> \<not> distinct (map et_accelerator ts)"
  by (simp add: adjacent_dup_sorted targets_sorted)

lemma fleet_sorted:
  "distinct (map et_accelerator ts) \<Longrightarrow> sorted_wrt (<) (map et_accelerator (sort_by et_less ts))"
  by (simp add: strict_sorted_iff targets_sorted)

lemma evaluate_fleet_perm:
  assumes "mset ts = mset us"
  shows "evaluate_fleet walls w ctx ts = evaluate_fleet walls w ctx us"
proof -
  have same: "distinct (map et_accelerator ts) = distinct (map et_accelerator us)" "length ts = length us"
    using assms by (metis mset_eq_imp_distinct_iff mset_map, metis size_mset)
  have "sort_by et_less ts = sort_by et_less us" if "distinct (map et_accelerator ts)"
  proof (rule target_order.sort_by_unique [OF assms])
    show "distinct (map (\<lambda>t. (et_accelerator t, et_device_generation t, et_capability_generation t)) ts)"
      using that by (auto simp: distinct_map inj_on_def)
  qed
  with same show ?thesis by (simp add: evaluate_fleet_def Let_def fleet_duplicates)
qed

text \<open>What a fleet evaluation holds: one cell per target, in identity order, each cell the evaluation of
  its target, and the counters partition the cells.\<close>

definition fleet_consistent :: "fleet_evaluation \<Rightarrow> bool" where
  "fleet_consistent f \<longleftrightarrow>
     fe_eligible f = length (filter (\<lambda>c. cd_outcome (snd c) = CO_Eligible) (fe_cells f)) \<and>
     fe_ineligible f = length (filter (\<lambda>c. cd_outcome (snd c) = CO_Ineligible) (fe_cells f)) \<and>
     fe_unknown f = length (filter (\<lambda>c. cd_outcome (snd c) = CO_Unknown) (fe_cells f))"

lemma fleet_step_consistent: "fleet_step walls w ctx f t = Inr g \<Longrightarrow> fleet_consistent f \<Longrightarrow>
    fleet_consistent g \<and> map fst (fe_cells g) = map fst (fe_cells f) @ [et_accelerator t]"
  by (auto simp: fleet_step_def fleet_consistent_def Let_def split: sum.splits compatibility_outcome.splits)

lemma fleet_loop_consistent: "fleet_loop walls w ctx ts f = Inr g \<Longrightarrow> fleet_consistent f \<Longrightarrow>
    fleet_consistent g \<and> map fst (fe_cells g) = map fst (fe_cells f) @ map et_accelerator ts"
  by (induction ts arbitrary: f) (fastforce split: sum.splits dest: fleet_step_consistent)+

text \<open>Soft requirements move the score, never the outcome.\<close>

definition hard_only :: "workload_profile \<Rightarrow> workload_profile" where
  "hard_only w = w\<lparr>wp_requirements := filter (\<lambda>q. rq_strength q = RS_Hard) (wp_requirements w)\<rparr>"

lemma hard_only_conditions:
  "target_class (hard_only w) p s source = target_class w p s source"
  "requirements_violated (hard_only w) p t s m = requirements_violated w p t s m"
  "policy_violated (hard_only w) p t s = policy_violated w p t s"
  "portability_violated (hard_only w) p c = portability_violated w p c"
  by (auto simp: hard_only_def target_class_def classify_requirements requirements_violated_def policy_violated_def
      portability_violated_def split: option.split)

lemma outcome_hard_only:
  "final_outcome (snd (run_evaluation (hard_only w) p t s source)) = final_outcome (snd (run_evaluation w p t s source))"
proof -
  have "eligible (hard_only w) p t s source = eligible w p t s source"
    by (simp only: eligible_def hard_only_conditions) (auto simp: hard_only_def)
  then show ?thesis by (simp only: run_evaluation_outcome hard_only_conditions)
qed

end
