(* ===== verification/Migration.thy ===== *)
theory Migration
  imports Compatibility
begin

section \<open>Migration plans\<close>

text \<open>
  \<^verbatim>\<open>model/migration.hpp\<close> and \<^verbatim>\<open>model/migration.cpp\<close>: the lifecycle of a plan, its fingerprint, which
  leaves out the lifecycle position and the refusal explanations, and its codec.
\<close>

datatype migration_outcome =
  MG_MoveNativeState | MG_RestoreCheckpoint | MG_RecompileThenRestore | MG_RepackageAndRestart
| MG_Reconstruct | MG_Restart | MG_Unsupported | MG_Unknown

fun migration_outcome_value :: "migration_outcome \<Rightarrow> byte" where
  "migration_outcome_value MG_MoveNativeState = 0"
| "migration_outcome_value MG_RestoreCheckpoint = 1"
| "migration_outcome_value MG_RecompileThenRestore = 2"
| "migration_outcome_value MG_RepackageAndRestart = 3"
| "migration_outcome_value MG_Reconstruct = 4"
| "migration_outcome_value MG_Restart = 5"
| "migration_outcome_value MG_Unsupported = 6"
| "migration_outcome_value MG_Unknown = 7"

fun migration_outcome_to_string :: "migration_outcome \<Rightarrow> string" where
  "migration_outcome_to_string MG_MoveNativeState = ''MOVE_NATIVE_STATE''"
| "migration_outcome_to_string MG_RestoreCheckpoint = ''RESTORE_CHECKPOINT''"
| "migration_outcome_to_string MG_RecompileThenRestore = ''RECOMPILE_THEN_RESTORE''"
| "migration_outcome_to_string MG_RepackageAndRestart = ''REPACKAGE_AND_RESTART''"
| "migration_outcome_to_string MG_Reconstruct = ''RECONSTRUCT''"
| "migration_outcome_to_string MG_Restart = ''RESTART''"
| "migration_outcome_to_string MG_Unsupported = ''UNSUPPORTED''"
| "migration_outcome_to_string MG_Unknown = ''UNKNOWN''"

definition migration_outcome_from_token :: "string \<Rightarrow> migration_outcome option" where
  "migration_outcome_from_token token =
     (if token = ''move_native_state'' then Some MG_MoveNativeState
      else if token = ''restore_checkpoint'' then Some MG_RestoreCheckpoint
      else if token = ''recompile_then_restore'' then Some MG_RecompileThenRestore
      else if token = ''repackage_and_restart'' then Some MG_RepackageAndRestart
      else if token = ''reconstruct'' then Some MG_Reconstruct
      else if token = ''restart'' then Some MG_Restart
      else if token = ''unsupported'' then Some MG_Unsupported
      else if token = ''unknown'' then Some MG_Unknown
      else None)"

definition migration_outcome_from_wire :: "byte \<Rightarrow> migration_outcome option" where
  "migration_outcome_from_wire raw =
     (if raw > migration_outcome_value MG_Unknown then None
      else Some ([MG_MoveNativeState, MG_RestoreCheckpoint, MG_RecompileThenRestore, MG_RepackageAndRestart,
                  MG_Reconstruct, MG_Restart, MG_Unsupported, MG_Unknown] ! unat raw))"

datatype migration_state =
  GS_Planned | GS_Validated | GS_Prepared | GS_Transferring | GS_Verified | GS_Committed | GS_Aborted | GS_Refused

fun migration_state_value :: "migration_state \<Rightarrow> byte" where
  "migration_state_value GS_Planned = 0"
| "migration_state_value GS_Validated = 1"
| "migration_state_value GS_Prepared = 2"
| "migration_state_value GS_Transferring = 3"
| "migration_state_value GS_Verified = 4"
| "migration_state_value GS_Committed = 5"
| "migration_state_value GS_Aborted = 6"
| "migration_state_value GS_Refused = 7"

fun migration_state_to_string :: "migration_state \<Rightarrow> string" where
  "migration_state_to_string GS_Planned = ''PLANNED''"
| "migration_state_to_string GS_Validated = ''VALIDATED''"
| "migration_state_to_string GS_Prepared = ''PREPARED''"
| "migration_state_to_string GS_Transferring = ''TRANSFERRING''"
| "migration_state_to_string GS_Verified = ''VERIFIED''"
| "migration_state_to_string GS_Committed = ''COMMITTED''"
| "migration_state_to_string GS_Aborted = ''ABORTED''"
| "migration_state_to_string GS_Refused = ''REFUSED''"

definition migration_state_from_wire :: "byte \<Rightarrow> migration_state option" where
  "migration_state_from_wire raw =
     (if raw > migration_state_value GS_Refused then None
      else Some ([GS_Planned, GS_Validated, GS_Prepared, GS_Transferring, GS_Verified, GS_Committed, GS_Aborted,
                  GS_Refused] ! unat raw))"

definition legal_migration_transitions :: "(migration_state \<times> migration_state) list" where
  "legal_migration_transitions = [
     (GS_Planned, GS_Validated), (GS_Planned, GS_Aborted), (GS_Planned, GS_Refused),
     (GS_Validated, GS_Prepared), (GS_Validated, GS_Aborted),
     (GS_Prepared, GS_Transferring), (GS_Prepared, GS_Aborted),
     (GS_Transferring, GS_Verified), (GS_Transferring, GS_Aborted),
     (GS_Verified, GS_Committed), (GS_Verified, GS_Aborted)]"

definition is_legal_migration_transition :: "migration_state \<Rightarrow> migration_state \<Rightarrow> bool" where
  "is_legal_migration_transition from to \<longleftrightarrow>
     from \<noteq> to \<and> list_ex (\<lambda>t. fst t = from \<and> snd t = to) legal_migration_transitions"

definition is_terminal_migration_state :: "migration_state \<Rightarrow> bool" where
  "is_terminal_migration_state s \<longleftrightarrow> s = GS_Committed \<or> s = GS_Aborted \<or> s = GS_Refused"

subsection \<open>Plans\<close>

record migration_step =
  ms_kind :: string
  ms_description :: string
  ms_required_capability :: string

record migration_plan =
  mp_id :: migration_plan_id
  mp_generation :: generation
  mp_federation :: federation_id
  mp_federation_generation :: generation
  mp_epoch :: generation
  mp_source :: accelerator_id
  mp_source_generation :: generation
  mp_source_capability_generation :: generation
  mp_destination :: accelerator_id
  mp_destination_generation :: generation
  mp_destination_capability_generation :: generation
  mp_workload :: workload_class_id
  mp_workload_revision :: generation
  mp_source_decision :: compatibility_decision_id
  mp_destination_decision :: compatibility_decision_id
  mp_portability :: portability_class
  mp_outcome :: migration_outcome
  mp_state :: migration_state
  mp_policy_generation :: generation
  mp_policy :: policy_id
  mp_steps :: "migration_step list"
  mp_destination_provenance :: evidence_provenance
  mp_estimated_cost :: u32
  mp_refusal_reasons :: "compatibility_reason list"
  mp_created_at :: int

definition ms_serialize :: "migration_step \<Rightarrow> bytes" where
  "ms_serialize s = concat [w_string (ms_kind s), w_string (ms_description s), w_string (ms_required_capability s)]"

definition ms_deserialize :: "migration_step rd" where
  "ms_deserialize =
     rbind (r_string 128) (\<lambda>kind. rbind (r_string 8192) (\<lambda>description. rbind (r_string 256) (\<lambda>required.
       rguard (kind \<noteq> []) EC_MalformedData
         (rret \<lparr>ms_kind = kind, ms_description = description, ms_required_capability = required\<rparr>))))"

text \<open>The fields before and after the lifecycle position in the encoding.\<close>

definition mp_head_fields :: "migration_plan \<Rightarrow> bytes list" where
  "mp_head_fields p = [
     w_id128 (mp_federation p), w_generation (mp_federation_generation p), w_generation (mp_epoch p),
     w_id128 (mp_source p), w_generation (mp_source_generation p), w_generation (mp_source_capability_generation p),
     w_id128 (mp_destination p), w_generation (mp_destination_generation p),
     w_generation (mp_destination_capability_generation p), w_id128 (mp_workload p),
     w_generation (mp_workload_revision p), w_id128 (mp_source_decision p), w_id128 (mp_destination_decision p),
     w_u8 (portability_strength (mp_portability p)), w_u8 (migration_outcome_value (mp_outcome p))]"

definition mp_tail_fields :: "migration_plan \<Rightarrow> bytes list" where
  "mp_tail_fields p = [
     w_id128 (mp_policy p), w_generation (mp_policy_generation p),
     w_u8 (provenance_value (mp_destination_provenance p)), w_u32 (mp_estimated_cost p),
     w_list ms_serialize (mp_steps p)]"

definition mp_fingerprint :: "migration_plan \<Rightarrow> bytes" where
  "mp_fingerprint p = sha_hash (concat (w_string ''haf.migration-plan.v1'' # mp_head_fields p @ mp_tail_fields p))"

definition mp_is_current ::
    "migration_plan \<Rightarrow> generation \<Rightarrow> generation \<Rightarrow> generation \<Rightarrow> generation \<Rightarrow> generation \<Rightarrow> generation \<Rightarrow>
     generation \<Rightarrow> bool" where
  "mp_is_current p epoch policy source destination source_capability destination_capability revision \<longleftrightarrow>
     mp_epoch p = epoch \<and> mp_policy_generation p = policy \<and> mp_source_generation p = source \<and>
     mp_destination_generation p = destination \<and> mp_source_capability_generation p = source_capability \<and>
     mp_destination_capability_generation p = destination_capability \<and> mp_workload_revision p = revision"

definition mp_serialize :: "migration_plan \<Rightarrow> bytes" where
  "mp_serialize p = concat ([w_id128 (mp_id p), w_generation (mp_generation p)] @ mp_head_fields p @
     [w_u8 (migration_state_value (mp_state p))] @ mp_tail_fields p @
     [w_list re_serialize (mp_refusal_reasons p), w_i64 (mp_created_at p)])"

definition mp_identity :: "migration_plan \<Rightarrow> migration_plan_id" where
  "mp_identity p = derive_identity ''haf.migration-plan'' (digest_hex (mp_fingerprint p))"

definition mp_deserialize :: "migration_plan rd" where
  "mp_deserialize =
     rbind r_id128 (\<lambda>id. rbind r_generation (\<lambda>generation. rbind r_id128 (\<lambda>federation.
     rbind r_generation (\<lambda>federation_generation. rbind r_generation (\<lambda>epoch. rbind r_id128 (\<lambda>source.
     rbind r_generation (\<lambda>source_generation. rbind r_generation (\<lambda>source_capability. rbind r_id128 (\<lambda>destination.
     rbind r_generation (\<lambda>destination_generation. rbind r_generation (\<lambda>destination_capability.
     rbind r_id128 (\<lambda>workload. rbind r_generation (\<lambda>revision. rbind r_id128 (\<lambda>source_decision.
     rbind r_id128 (\<lambda>destination_decision. rbind r_u8 (\<lambda>raw_portability. rbind r_u8 (\<lambda>raw_outcome.
     rbind r_u8 (\<lambda>raw_state. rbind r_id128 (\<lambda>policy. rbind r_generation (\<lambda>policy_generation.
     rbind r_u8 (\<lambda>raw_provenance. rbind r_u32 (\<lambda>cost.
       case portability_class_from_wire raw_portability of
         None \<Rightarrow> rfail EC_MalformedData
       | Some portability \<Rightarrow> (case migration_outcome_from_wire raw_outcome of
           None \<Rightarrow> rfail EC_MalformedData
         | Some outcome \<Rightarrow> (case migration_state_from_wire raw_state of
             None \<Rightarrow> rfail EC_MalformedData
           | Some state \<Rightarrow> (case evidence_provenance_from_wire raw_provenance of
               None \<Rightarrow> rfail EC_MalformedData
             | Some provenance \<Rightarrow>
                 rbind (r_list 4096 8 ms_deserialize) (\<lambda>steps. rbind (r_list 4096 6 re_deserialize) (\<lambda>reasons.
                 rbind r_i64 (\<lambda>created_at.
                   let p = \<lparr>mp_id = id, mp_generation = generation, mp_federation = federation,
                            mp_federation_generation = federation_generation, mp_epoch = epoch,
                            mp_source = source, mp_source_generation = source_generation,
                            mp_source_capability_generation = source_capability, mp_destination = destination,
                            mp_destination_generation = destination_generation,
                            mp_destination_capability_generation = destination_capability,
                            mp_workload = workload, mp_workload_revision = revision,
                            mp_source_decision = source_decision, mp_destination_decision = destination_decision,
                            mp_portability = portability, mp_outcome = outcome, mp_state = state,
                            mp_policy_generation = policy_generation, mp_policy = policy, mp_steps = steps,
                            mp_destination_provenance = provenance, mp_estimated_cost = cost,
                            mp_refusal_reasons = reasons, mp_created_at = created_at\<rparr>
                   in rguard (mp_id p = mp_identity p) EC_IntegrityFailure (rret p)))))))))))))))))))))))))))))"

definition refresh_migration_identity :: "migration_plan \<Rightarrow> migration_plan" where
  "refresh_migration_identity p =
     (let hex = digest_hex (mp_fingerprint p); folded = fold cd_fold_char hex 0
      in p\<lparr>mp_id := derive_identity ''haf.migration-plan'' hex, mp_generation := (if folded = 0 then 1 else folded)\<rparr>)"

subsection \<open>The lifecycle of a plan\<close>

lemma is_legal_migration_transition_simps [simp]:
  "\<not> is_legal_migration_transition GS_Committed t" "\<not> is_legal_migration_transition GS_Aborted t"
  "\<not> is_legal_migration_transition GS_Refused t" "\<not> is_legal_migration_transition s GS_Planned"
  "is_legal_migration_transition s GS_Validated \<longleftrightarrow> s = GS_Planned"
  "is_legal_migration_transition s GS_Prepared \<longleftrightarrow> s = GS_Validated"
  "is_legal_migration_transition s GS_Transferring \<longleftrightarrow> s = GS_Prepared"
  "is_legal_migration_transition s GS_Verified \<longleftrightarrow> s = GS_Transferring"
  "is_legal_migration_transition s GS_Committed \<longleftrightarrow> s = GS_Verified"
  "is_legal_migration_transition s GS_Aborted \<longleftrightarrow> \<not> is_terminal_migration_state s"
  "is_legal_migration_transition s GS_Refused \<longleftrightarrow> s = GS_Planned"
  by (cases s; cases t; simp add: is_legal_migration_transition_def legal_migration_transitions_def
      is_terminal_migration_state_def)+

text \<open>\<open>plan_run s path t\<close>: a plan goes from \<open>s\<close> to \<open>t\<close> through the states of \<open>path\<close>.\<close>

inductive plan_run :: "migration_state \<Rightarrow> migration_state list \<Rightarrow> migration_state \<Rightarrow> bool" where
  plan_stay: "plan_run s [] s"
| plan_move: "plan_run s path t \<Longrightarrow> is_legal_migration_transition t u \<Longrightarrow> plan_run s (path @ [u]) u"

text \<open>The measure that every transition decreases, so that every run ends.\<close>

fun remaining_steps :: "migration_state \<Rightarrow> nat" where
  "remaining_steps GS_Planned = 5"
| "remaining_steps GS_Validated = 4"
| "remaining_steps GS_Prepared = 3"
| "remaining_steps GS_Transferring = 2"
| "remaining_steps GS_Verified = 1"
| "remaining_steps _ = 0"

lemma transition_decreases: "is_legal_migration_transition s t \<Longrightarrow> remaining_steps t < remaining_steps s"
  by (cases s; cases t; simp add: is_terminal_migration_state_def)

lemma plan_run_length: "plan_run s path t \<Longrightarrow> length path + remaining_steps t \<le> remaining_steps s"
  by (induction rule: plan_run.induct) (use transition_decreases in fastforce)+

lemma plan_run_committed_path:
  "plan_run GS_Planned path t \<Longrightarrow>
     (t = GS_Planned \<longrightarrow> path = []) \<and> (t = GS_Validated \<longrightarrow> path = [GS_Validated]) \<and>
     (t = GS_Prepared \<longrightarrow> path = [GS_Validated, GS_Prepared]) \<and>
     (t = GS_Transferring \<longrightarrow> path = [GS_Validated, GS_Prepared, GS_Transferring]) \<and>
     (t = GS_Verified \<longrightarrow> path = [GS_Validated, GS_Prepared, GS_Transferring, GS_Verified]) \<and>
     (t = GS_Committed \<longrightarrow> path = [GS_Validated, GS_Prepared, GS_Transferring, GS_Verified, GS_Committed])"
  by (induction GS_Planned path t rule: plan_run.induct) auto

lemma terminal_no_transition: "is_terminal_migration_state s \<Longrightarrow> \<not> is_legal_migration_transition s t"
  by (auto simp: is_terminal_migration_state_def)

lemma nonterminal_can_abort: "\<not> is_terminal_migration_state s \<Longrightarrow> is_legal_migration_transition s GS_Aborted"
  by simp

subsection \<open>Identity and codec\<close>

lemma migration_outcome_wire [simp]: "migration_outcome_from_wire (migration_outcome_value v) = Some v"
  by (cases v) (simp_all add: migration_outcome_from_wire_def)

lemma migration_state_wire [simp]: "migration_state_from_wire (migration_state_value s) = Some s"
  by (cases s) (simp_all add: migration_state_from_wire_def)

lemma mp_identity_lifecycle [simp]:
  "mp_identity (p\<lparr>mp_state := s\<rparr>) = mp_identity p" "mp_identity (p\<lparr>mp_refusal_reasons := rs\<rparr>) = mp_identity p"
  "mp_identity (p\<lparr>mp_id := i\<rparr>) = mp_identity p" "mp_identity (p\<lparr>mp_generation := g\<rparr>) = mp_identity p"
  by (simp_all add: mp_identity_def mp_fingerprint_def mp_head_fields_def mp_tail_fields_def)

lemma refresh_migration_identity_bound: "mp_id (refresh_migration_identity p) = mp_identity (refresh_migration_identity p)"
  by (simp add: refresh_migration_identity_def Let_def) (simp add: mp_identity_def)

lemma mp_deserialize_yields: "yields mp_deserialize (\<lambda>p. mp_id p = mp_identity p)"
  unfolding mp_deserialize_def
  by (intro yields_rbind) (auto split: option.split simp: Let_def intro!: yields_intros)

definition ms_ok :: "migration_step \<Rightarrow> bool" where
  "ms_ok s \<longleftrightarrow> ms_kind s \<noteq> [] \<and> length (ms_kind s) \<le> 128 \<and> length (ms_description s) \<le> 8192 \<and>
     length (ms_required_capability s) \<le> 256"

lemma reads_ms: "ms_ok s \<Longrightarrow> reads ms_deserialize (ms_serialize s) s"
proof -
  assume ok: "ms_ok s"
  show ?thesis
    unfolding ms_deserialize_def ms_serialize_def
    apply (rule reads_chain)+
    subgoal by (insert ok, cases s, simp add: ms_ok_def rguard_def reads_rret)
    using ok by (simp_all add: ms_ok_def)
qed

definition mp_ok :: "migration_plan \<Rightarrow> bool" where
  "mp_ok p \<longleftrightarrow> mp_id p = mp_identity p \<and> list_all ms_ok (mp_steps p) \<and> length (mp_steps p) \<le> 4096 \<and>
     list_all re_ok (mp_refusal_reasons p) \<and> length (mp_refusal_reasons p) \<le> 4096 \<and>
     - (2 ^ 63) \<le> mp_created_at p \<and> mp_created_at p < 2 ^ 63"

lemma length_ms_serialize: "8 \<le> length (ms_serialize s)"
  by (simp add: ms_serialize_def length_w_string)

lemma reads_mp: "mp_ok p \<Longrightarrow> reads mp_deserialize (mp_serialize p) p"
proof -
  assume ok: "mp_ok p"
  show ?thesis
    unfolding mp_deserialize_def mp_serialize_def mp_head_fields_def mp_tail_fields_def append_Cons append_Nil
    apply (rule reads_chain)+
    apply (simp only: migration_outcome_wire migration_state_wire portability_wire provenance_wire option.case)
    apply (rule reads_chain reads_chain_list)+
    subgoal by (insert ok, cases p, simp add: mp_ok_def rguard_def reads_rret Let_def)
    using ok
    by (auto simp: mp_ok_def list_all_iff length_re_serialize length_ms_serialize intro: reads_re reads_ms)
qed

interpretation plan_codec: codec mp_serialize mp_deserialize mp_ok
  by unfold_locales (rule reads_mp)

text \<open>A plan with a reason that cannot be read.\<close>

lemma long_reason_refused:
  assumes "list_all ms_ok (mp_steps p)" "length (mp_steps p) \<le> 4096" "length (mp_refusal_reasons p) \<le> 4096"
    and r: "r \<in> set (mp_refusal_reasons p)" "refuses re_deserialize (re_serialize r) e"
    and others: "\<And>x. x \<in> set (mp_refusal_reasons p) \<Longrightarrow> x \<noteq> r \<Longrightarrow> re_ok x"
  shows "refuses mp_deserialize (mp_serialize p) e"
proof -
  from first_unreadable [OF r(1), of re_ok] others obtain xs zs where
    rs: "mp_refusal_reasons p = xs @ r # zs" "\<And>x. x \<in> set xs \<Longrightarrow> re_ok x" by blast
  have reasons: "refuses (r_list 4096 6 re_deserialize) (w_list re_serialize (mp_refusal_reasons p)) e"
    unfolding rs(1) using assms(3) rs r(2)
    by (intro refuses_list [where v = "\<lambda>x. x"]) (auto intro: reads_re simp: length_re_serialize)
  have steps: "reads (r_list 4096 8 ms_deserialize) (w_list ms_serialize (mp_steps p)) (mp_steps p)"
    using assms(1,2) by (intro reads_list) (auto simp: list_all_iff length_ms_serialize intro: reads_ms)
  show ?thesis
    unfolding mp_deserialize_def mp_serialize_def mp_head_fields_def mp_tail_fields_def append_Cons append_Nil
    apply (rule refuses_Cons [OF reads_id128] refuses_Cons [OF reads_generation] refuses_Cons [OF reads_u8]
        refuses_Cons [OF reads_u32])+
    apply (simp only: migration_outcome_wire migration_state_wire portability_wire provenance_wire option.case)
    by (rule refuses_Cons [OF steps] refuses_head [OF reasons])+
qed

end
