(* ===== verification/Planner.thy ===== *)
theory Planner
  imports Migration Classify Policy
begin

section \<open>Migration planning\<close>

text \<open>
  \<^verbatim>\<open>engine/migration_planner.hpp\<close> and \<^verbatim>\<open>engine/migration_planner.cpp\<close>. The borrowed pointers of the
  request are options; \<open>wall\<close> is the reading of the wall clock.
\<close>

record migration_endpoint =
  me_accelerator :: accelerator_id
  me_device_generation :: generation
  me_capability_generation :: generation
  me_capabilities :: "capability_set option"
  me_vendor :: string
  me_provenance :: evidence_provenance
  me_support_level :: support_level

record migration_request =
  mq_federation :: federation_id
  mq_federation_generation :: generation
  mq_epoch :: generation
  mq_policy_id :: policy_id
  mq_policy_generation :: generation
  mq_policy :: "federation_policy option"
  mq_source :: migration_endpoint
  mq_destination :: migration_endpoint
  mq_workload :: "workload_profile option"
  mq_workload_revision :: generation
  mq_source_decision :: compatibility_decision_id
  mq_destination_decision :: compatibility_decision_id

definition refusal :: "error_code \<Rightarrow> string \<Rightarrow> string \<Rightarrow> compatibility_reason" where
  "refusal code subject detail =
     \<lparr>re_code = code, re_subject = subject, re_detail = detail, re_strength = RS_Hard, re_observed = CS_Unknown\<rparr>"

definition endpoint_supports :: "capability_set option \<Rightarrow> string \<Rightarrow> bool" where
  "endpoint_supports s key =
     (case s of
        None \<Rightarrow> False
      | Some c \<Rightarrow> let l = cs_lookup c key in cl_present l \<and> cl_state l = CS_Supported)"

definition mstep :: "string \<Rightarrow> string \<Rightarrow> string \<Rightarrow> migration_step" where
  "mstep kind description required =
     \<lparr>ms_kind = kind, ms_description = description, ms_required_capability = required\<rparr>"

definition derive_migration_outcome ::
    "portability_class \<Rightarrow> migration_need \<Rightarrow> bool \<Rightarrow> bool \<Rightarrow> bool \<Rightarrow> bool \<Rightarrow> migration_outcome" where
  "derive_migration_outcome portability need reconstruction_allowed destination_reconstruction
     checkpoint_both_ways live_both_ways =
     (if portability = PC_Unsupported then MG_Unsupported
      else if portability = PC_Unknown then MG_Unknown
      else case need of
        MN_LiveStateTransfer \<Rightarrow>
          if portability = PC_LiveMigrationSupported \<and> live_both_ways then MG_MoveNativeState else MG_Unsupported
      | MN_CheckpointRestore \<Rightarrow>
          if portability = PC_LiveMigrationSupported \<and> live_both_ways then MG_MoveNativeState
          else if checkpoint_both_ways \<and> meets_portability_threshold portability PC_CheckpointRestoreSupported
          then MG_RestoreCheckpoint
          else if requires_binary_transformation portability \<and> checkpoint_both_ways then MG_RecompileThenRestore
          else if reconstruction_allowed \<and> destination_reconstruction then MG_Reconstruct
          else MG_Unsupported
      | _ \<Rightarrow>
          if requires_state_reconstruction portability then
            (if reconstruction_allowed \<and> destination_reconstruction then MG_Reconstruct else MG_Unsupported)
          else if requires_binary_transformation portability then MG_RepackageAndRestart
          else MG_Restart)"

text \<open>The refusals that are evaluated before an outcome is derived, in the order of the code.\<close>

definition endpoints_same_vendor :: "migration_request \<Rightarrow> bool" where
  "endpoints_same_vendor q \<longleftrightarrow>
     me_vendor (mq_source q) \<noteq> [] \<and> me_vendor (mq_source q) = me_vendor (mq_destination q)"

definition cross_vendor_state_supported :: "migration_request \<Rightarrow> bool" where
  "cross_vendor_state_supported q \<longleftrightarrow>
     endpoint_supports (me_capabilities (mq_source q)) ''migration.cross_vendor_state'' \<and>
     endpoint_supports (me_capabilities (mq_destination q)) ''migration.cross_vendor_state''"

definition cross_vendor_refusals ::
    "migration_request \<Rightarrow> workload_profile \<Rightarrow> federation_policy \<Rightarrow> portability_class \<Rightarrow> compatibility_reason list" where
  "cross_vendor_refusals q w p portability =
     (if endpoints_same_vendor q then []
      else (if wp_migration_need w = MN_LiveStateTransfer \<and>
               (\<not> cross_vendor_state_supported q \<or> \<not> pl_allow_cross_vendor_migration p)
            then [refusal EC_MigrationUnsupported ''migration.cross_vendor_state''
                    ''live cross-vendor state transfer is not supported by both accelerators and permitted by policy'']
            else []) @
           (if requires_state_reconstruction portability \<and> \<not> pl_allow_cross_vendor_reconstruction p
            then [refusal EC_MigrationUnsupported ''migration.state_reconstruction''
                    ''cross-vendor reconstruction is not permitted by the active policy'']
            else []))"

definition migration_refusals ::
    "migration_request \<Rightarrow> workload_profile \<Rightarrow> federation_policy \<Rightarrow> portability_class \<Rightarrow> compatibility_reason list" where
  "migration_refusals q w p portability =
     cross_vendor_refusals q w p portability @
     (if portability = PC_Unsupported
      then [refusal EC_PortabilityConstraintViolated ''portability'' ''no portability path from source to destination'']
      else []) @
     (if portability = PC_Unknown
      then [refusal EC_UnknownCapability ''portability''
              ''portability from source to destination cannot be established'']
      else []) @
     (if pl_synthetic_evidence_policy p = SP_Reject \<and> me_provenance (mq_destination q) \<noteq> EP_Real
      then [refusal EC_PolicyMismatch ''policy.synthetic_evidence''
              ''policy rejects non-REAL evidence at the migration destination'']
      else []) @
     (if pl_allowed_portability_classes p \<noteq> [] \<and> portability \<noteq> PC_Unknown \<and> portability \<noteq> PC_Unsupported \<and>
         portability \<notin> set (pl_allowed_portability_classes p)
      then [refusal EC_PortabilityConstraintViolated ''policy.allowed_portability_classes''
              (''portability '' @ portability_to_string portability @ '' is not permitted by the active policy'')]
      else [])"

fun outcome_steps :: "migration_outcome \<Rightarrow> migration_step list" where
  "outcome_steps MG_MoveNativeState =
     [mstep ''validate-live-transfer'' ''confirm both endpoints still support live state transfer''
        ''migration.live_state_transfer'',
      mstep ''transfer-state'' ''transfer execution state while the source stays authoritative''
        ''migration.live_state_transfer'']"
| "outcome_steps MG_RestoreCheckpoint =
     [mstep ''export-state'' ''export execution state from the source'' ''migration.checkpoint_restore'',
      mstep ''restore-state'' ''restore the exported state on the destination'' ''migration.checkpoint_restore'']"
| "outcome_steps MG_RecompileThenRestore =
     [mstep ''recompile'' ''rebuild the workload for the destination code object target''
        ''portability.recompile_available'',
      mstep ''export-state'' ''export execution state from the source'' ''migration.checkpoint_restore'',
      mstep ''restore-state'' ''restore the exported state on the recompiled workload''
        ''migration.checkpoint_restore'']"
| "outcome_steps MG_RepackageAndRestart =
     [mstep ''repackage'' ''rebuild the runtime packaging for the destination'' ''portability.repackage_available'',
      mstep ''restart'' ''start the workload fresh on the destination'' []]"
| "outcome_steps MG_Reconstruct =
     [mstep ''reconstruct'' ''rebuild workload state from inputs or durable artifacts''
        ''migration.state_reconstruction'']"
| "outcome_steps MG_Restart = [mstep ''restart'' ''start the workload fresh on the destination'' []]"
| "outcome_steps MG_Unsupported = []"
| "outcome_steps MG_Unknown = []"

definition step_less :: "migration_step \<Rightarrow> migration_step \<Rightarrow> bool" where
  "step_less a b =
     (if ms_kind a \<noteq> ms_kind b then ms_kind a < ms_kind b else ms_description a < ms_description b)"

definition migration_cost :: "portability_class \<Rightarrow> migration_step list \<Rightarrow> u32" where
  "migration_cost portability steps =
     (let cost = (ucast (portability_transformation_steps portability) :: u32)
      in (if cost = 255 then 1000 else cost * 100) + of_nat (length steps))"

text \<open>The plan that binds the request before an outcome is known.\<close>

definition initial_plan ::
    "int \<Rightarrow> migration_request \<Rightarrow> workload_profile \<Rightarrow> federation_policy \<Rightarrow> portability_class \<Rightarrow> migration_plan" where
  "initial_plan wall q w p portability =
     \<lparr>mp_id = nil_id, mp_generation = 0, mp_federation = mq_federation q,
      mp_federation_generation = mq_federation_generation q, mp_epoch = mq_epoch q,
      mp_source = me_accelerator (mq_source q), mp_source_generation = me_device_generation (mq_source q),
      mp_source_capability_generation = me_capability_generation (mq_source q),
      mp_destination = me_accelerator (mq_destination q),
      mp_destination_generation = me_device_generation (mq_destination q),
      mp_destination_capability_generation = me_capability_generation (mq_destination q),
      mp_workload = wp_class_id w, mp_workload_revision = mq_workload_revision q,
      mp_source_decision = mq_source_decision q, mp_destination_decision = mq_destination_decision q,
      mp_portability = portability, mp_outcome = MG_Unknown, mp_state = GS_Planned,
      mp_policy_generation = mq_policy_generation q, mp_policy = pl_id p, mp_steps = [],
      mp_destination_provenance = me_provenance (mq_destination q), mp_estimated_cost = 0,
      mp_refusal_reasons = [], mp_created_at = wall\<rparr>"

definition refuse :: "migration_outcome \<Rightarrow> compatibility_reason list \<Rightarrow> migration_plan \<Rightarrow> migration_plan" where
  "refuse outcome reasons plan = refresh_migration_identity
     (plan\<lparr>mp_outcome := outcome, mp_state := GS_Refused, mp_refusal_reasons := sort_reasons reasons\<rparr>)"

definition request_outcome :: "migration_request \<Rightarrow> workload_profile \<Rightarrow> portability_class \<Rightarrow> migration_outcome" where
  "request_outcome q w portability =
     (let source = me_capabilities (mq_source q); destination = me_capabilities (mq_destination q) in
      derive_migration_outcome portability (wp_migration_need w) (wp_reconstruction_allowed w)
        (endpoint_supports destination ''migration.state_reconstruction'')
        (endpoint_supports source ''migration.checkpoint_restore'' \<and>
         endpoint_supports destination ''migration.checkpoint_restore'')
        (endpoint_supports source ''migration.live_state_transfer'' \<and>
         endpoint_supports destination ''migration.live_state_transfer''))"

definition build_plan ::
    "int \<Rightarrow> migration_request \<Rightarrow> workload_profile \<Rightarrow> federation_policy \<Rightarrow> portability_class \<Rightarrow> migration_plan" where
  "build_plan wall q w p portability =
     (let plan = initial_plan wall q w p portability;
          refusals = migration_refusals q w p portability;
          outcome = request_outcome q w portability
      in if refusals \<noteq> [] then
           refuse (if portability = PC_Unknown then MG_Unknown else MG_Unsupported) refusals plan
         else if outcome = MG_Unsupported \<or> outcome = MG_Unknown then
           refuse outcome
             [refusal (if outcome = MG_Unknown then EC_UnknownCapability else EC_MigrationUnsupported)
                ''workload.migration_need''
                (''the workload requires '' @ migration_need_to_string (wp_migration_need w) @
                 '' but the destination supports only '' @ portability_to_string portability)] plan
         else
           let steps = sort_by step_less (outcome_steps outcome) in
           refresh_migration_identity
             (plan\<lparr>mp_outcome := outcome, mp_steps := steps, mp_estimated_cost := migration_cost portability steps,
                   mp_state := GS_Planned\<rparr>))"

definition request_portability ::
    "migration_request \<Rightarrow> workload_profile \<Rightarrow> federation_policy \<Rightarrow> portability_request" where
  "request_portability q w p =
     \<lparr>pq_source = me_capabilities (mq_source q), pq_destination = me_capabilities (mq_destination q),
      pq_source_vendor = me_vendor (mq_source q), pq_destination_vendor = me_vendor (mq_destination q),
      pq_workload = Some w, pq_allows_cross_vendor = pl_allow_cross_vendor_migration p\<rparr>"

definition plan_migration :: "int \<Rightarrow> migration_request \<Rightarrow> migration_plan result" where
  "plan_migration wall q =
     (case mq_policy q of
        None \<Rightarrow> Inl EC_InvalidArgument
      | Some p \<Rightarrow> (case mq_workload q of
          None \<Rightarrow> Inl EC_InvalidArgument
        | Some w \<Rightarrow>
            if me_capabilities (mq_source q) = None \<or> me_capabilities (mq_destination q) = None then
              Inl EC_InvalidArgument
            else if is_nil (me_accelerator (mq_source q)) \<or> is_nil (me_accelerator (mq_destination q)) then
              Inl EC_InvalidArgument
            else if me_accelerator (mq_source q) = me_accelerator (mq_destination q) then Inl EC_InvalidArgument
            else Inr (build_plan wall q w p (fst (classify_portability (request_portability q w p))))))"

subsection \<open>What a plan promises\<close>

interpretation step_order: comparator step_less "\<lambda>s. (ms_kind s, ms_description s)"
  by unfold_locales (auto simp: step_less_def less_le)

lemma refresh_migration_simps [simp]:
  "mp_outcome (refresh_migration_identity p) = mp_outcome p" "mp_state (refresh_migration_identity p) = mp_state p"
  "mp_steps (refresh_migration_identity p) = mp_steps p"
  "mp_refusal_reasons (refresh_migration_identity p) = mp_refusal_reasons p"
  "mp_portability (refresh_migration_identity p) = mp_portability p"
  "mp_estimated_cost (refresh_migration_identity p) = mp_estimated_cost p"
  "mp_source (refresh_migration_identity p) = mp_source p"
  "mp_destination (refresh_migration_identity p) = mp_destination p"
  by (simp_all add: refresh_migration_identity_def Let_def)

lemma endpoint_supports_Some [simp]: "endpoint_supports (Some s) key = supports s key"
  by (simp add: endpoint_supports_def supports_def)

text \<open>A plan is executable exactly when nothing refuses it and the workload's need is met.\<close>

lemma build_plan_state:
  "mp_state (build_plan wall q w p c) =
     (if migration_refusals q w p c = [] \<and> request_outcome q w c \<notin> {MG_Unsupported, MG_Unknown}
      then GS_Planned else GS_Refused)"
  by (simp add: build_plan_def Let_def refuse_def)

lemma build_plan_planned:
  assumes "mp_state (build_plan wall q w p c) = GS_Planned"
  shows "migration_refusals q w p c = []" "mp_outcome (build_plan wall q w p c) = request_outcome q w c"
    "request_outcome q w c \<notin> {MG_Unsupported, MG_Unknown}"
    "mp_steps (build_plan wall q w p c) = sort_by step_less (outcome_steps (request_outcome q w c))"
    "mp_estimated_cost (build_plan wall q w p c) = migration_cost c (sort_by step_less (outcome_steps (request_outcome q w c)))"
    "mp_refusal_reasons (build_plan wall q w p c) = []"
  using assms by (auto simp: build_plan_def Let_def refuse_def initial_plan_def split: if_splits)

lemma build_plan_refused:
  assumes "mp_state (build_plan wall q w p c) = GS_Refused"
  shows "mp_refusal_reasons (build_plan wall q w p c) \<noteq> []" "mp_steps (build_plan wall q w p c) = []"
    "mp_outcome (build_plan wall q w p c) \<in> {MG_Unsupported, MG_Unknown}"
  using assms by (auto simp: build_plan_def Let_def refuse_def initial_plan_def sort_reasons_def split: if_splits)

lemma build_plan_portability: "mp_portability (build_plan wall q w p c) = c"
  by (simp add: build_plan_def Let_def refuse_def initial_plan_def)

lemma build_plan_identity: "mp_id (build_plan wall q w p c) = mp_identity (build_plan wall q w p c)"
  by (simp add: build_plan_def Let_def refuse_def refresh_migration_identity_bound)

lemma derive_outcome_move:
  "derive_migration_outcome c need ra dr cp live = MG_MoveNativeState \<Longrightarrow> c = PC_LiveMigrationSupported \<and> live"
  by (auto simp: derive_migration_outcome_def split: if_splits migration_need.splits)

lemma derive_outcome_checkpoint:
  "derive_migration_outcome c need ra dr cp live \<in> {MG_RestoreCheckpoint, MG_RecompileThenRestore} \<Longrightarrow> cp"
  by (auto simp: derive_migration_outcome_def split: if_splits migration_need.splits)

lemma derive_outcome_reconstruct:
  "derive_migration_outcome c need ra dr cp live = MG_Reconstruct \<Longrightarrow> ra \<and> dr"
  by (auto simp: derive_migration_outcome_def split: if_splits migration_need.splits)

lemma derive_outcome_live_need:
  "derive_migration_outcome c MN_LiveStateTransfer ra dr cp live \<in> {MG_MoveNativeState, MG_Unsupported, MG_Unknown}"
  by (simp add: derive_migration_outcome_def)

text \<open>A live move between vendors needs both sides and the policy.\<close>

lemma classify_live:
  assumes "pq_source r = Some s" "pq_destination r = Some d" "fst (classify_portability r) = PC_LiveMigrationSupported"
  shows "unknown_inputs s d = []" "shares_token s d ''isa.code_object_targets''"
    "supports s ''migration.live_state_transfer''" "supports d ''migration.live_state_transfer''"
    "cross_vendor_live_allowed r s d"
  using assms strongest_class_live [of r s d] by (auto simp: classify_known split: if_splits)

lemma outcome_steps_length: "length (outcome_steps v) \<le> 3"
  by (cases v) simp_all

lemma transformation_steps_bound:
  "c \<notin> {PC_Unknown, PC_Unsupported} \<Longrightarrow> portability_transformation_steps c \<le> 3"
  by (cases c) simp_all

lemma migration_cost_value:
  assumes "c \<notin> {PC_Unknown, PC_Unsupported}" and "length steps \<le> 3"
  shows "unat (migration_cost c steps) = 100 * unat (portability_transformation_steps c) + length steps"
proof -
  have "length steps = 0 \<or> length steps = 1 \<or> length steps = 2 \<or> length steps = 3" using assms(2) by linarith
  with assms(1) show ?thesis by (cases c) (auto simp: migration_cost_def)
qed

end
