(* ===== verification/Ranking.thy ===== *)
theory Ranking
  imports Migration
begin

section \<open>Ranking\<close>

text \<open>
  \<^verbatim>\<open>engine/ranking.hpp\<close> and \<^verbatim>\<open>engine/ranking.cpp\<close>. The weights are signed 32-bit and the score is a
  signed 64-bit integer: products and sums of the code are reduced to their width (\<open>i32\<close>, \<open>i64\<close>), the
  two's complement behaviour of the compilers the program is built with.
\<close>

definition i32 :: "int \<Rightarrow> int" where
  "i32 n = sint (word_of_int n :: 32 word)"

definition i64 :: "int \<Rightarrow> int" where
  "i64 n = sint (word_of_int n :: 64 word)"

record ranking_weights =
  rw_native_portability_bonus :: int
  rw_transformation_step_penalty :: int
  rw_migration_cost_penalty :: int
  rw_synthetic_evidence_penalty :: int
  rw_topology_distance_penalty :: int
  rw_free_memory_gib_bonus :: int
  rw_use_free_memory :: bool
  rw_use_topology_distance :: bool

definition default_weights :: ranking_weights where
  "default_weights = \<lparr>rw_native_portability_bonus = 1000, rw_transformation_step_penalty = 250,
     rw_migration_cost_penalty = 1, rw_synthetic_evidence_penalty = 500, rw_topology_distance_penalty = 100,
     rw_free_memory_gib_bonus = 10, rw_use_free_memory = False, rw_use_topology_distance = False\<rparr>"

record ranking_candidate =
  rc_accelerator :: accelerator_id
  rc_decision :: compatibility_decision
  rc_topology_distance :: u32
  rc_free_memory_bytes :: u64
  rc_migration_cost :: u32

record ranked_candidate =
  rk_rank :: nat
  rk_accelerator :: accelerator_id
  rk_rank_score :: int
  rk_outcome :: compatibility_outcome
  rk_portability :: portability_class
  rk_migration_outcome :: migration_outcome
  rk_provenance :: evidence_provenance
  rk_rationale :: "string list"

record ranking_result =
  rr_ranked :: "ranked_candidate list"
  rr_excluded :: "ranked_candidate list"

text \<open>The dimensions of the score, each with its contribution and the line of the rationale it adds, in the
  order of the code.\<close>

definition score_dimensions :: "ranking_candidate \<Rightarrow> ranking_weights \<Rightarrow> (int \<times> string) list" where
  "score_dimensions c w =
     (let d = rc_decision c; portability = cd_portability d; steps = portability_transformation_steps portability;
          native = rw_native_portability_bonus w; half = sgn native * (\<bar>native\<bar> div 2);
          step_penalty = i64 (uint steps * rw_transformation_step_penalty w);
          cost_penalty = i64 (uint (rc_migration_cost c) * rw_migration_cost_penalty w);
          synthetic = rw_synthetic_evidence_penalty w;
          topology_penalty = i64 (uint (rc_topology_distance c) * rw_topology_distance_penalty w);
          gib = uint (rc_free_memory_bytes c div (1024 * 1024 * 1024));
          bonus = i64 (gib * rw_free_memory_gib_bonus w)
      in (if portability = PC_Native then [(native, ''portability=native +'' @ string_of_int native)]
          else if portability = PC_LiveMigrationSupported then
            [(half, ''portability=live_migration +'' @ string_of_int half)]
          else []) @
         (if steps \<noteq> 0 \<and> steps \<noteq> 255 then
            [(- step_penalty, ''transformation_steps='' @ string_of_nat (unat steps) @ '' -'' @ string_of_int step_penalty)]
          else []) @
         (if rc_migration_cost c \<noteq> 0 then
            [(- cost_penalty, ''migration_cost='' @ string_of_nat (unat (rc_migration_cost c)) @ '' -'' @
                string_of_int cost_penalty)]
          else []) @
         (case cd_provenance d of
            EP_Synthetic \<Rightarrow> [(- synthetic, ''evidence=synthetic -'' @ string_of_int synthetic)]
          | EP_Unsupported \<Rightarrow> [(- i32 (synthetic * 2), ''evidence=unsupported -'' @ string_of_int (i32 (synthetic * 2)))]
          | EP_Real \<Rightarrow> []) @
         (if rw_use_topology_distance w \<and> rc_topology_distance c \<noteq> 0 then
            [(- topology_penalty, ''topology_distance='' @ string_of_nat (unat (rc_topology_distance c)) @ '' -'' @
                string_of_int topology_penalty)]
          else []) @
         (if rw_use_free_memory w \<and> rc_free_memory_bytes c \<noteq> 0 then
            [(bonus, ''free_memory_gib='' @ string_of_int gib @ '' +'' @ string_of_int bonus)]
          else []) @
         (if cd_score d \<noteq> 0 then
            [(cd_score d, ''compatibility_score '' @ (if cd_score d \<ge> 0 then ''+'' else []) @ string_of_int (cd_score d))]
          else []))"

definition score_candidate :: "ranking_candidate \<Rightarrow> ranking_weights \<Rightarrow> int \<times> string list" where
  "score_candidate c w =
     (foldl (\<lambda>score d. i64 (score + fst d)) 0 (score_dimensions c w), map snd (score_dimensions c w))"

definition rank_entry :: "ranking_weights \<Rightarrow> ranking_candidate \<Rightarrow> ranked_candidate" where
  "rank_entry w c =
     (let d = rc_decision c;
          entry = \<lparr>rk_rank = 0, rk_accelerator = rc_accelerator c, rk_rank_score = 0, rk_outcome = cd_outcome d,
                   rk_portability = cd_portability d, rk_migration_outcome = MG_Unknown,
                   rk_provenance = cd_provenance d, rk_rationale = []\<rparr>
      in if cd_outcome d \<noteq> CO_Eligible then
           entry\<lparr>rk_rationale := [''excluded: outcome is '' @ outcome_to_string (cd_outcome d)]\<rparr>
         else entry\<lparr>rk_rank_score := fst (score_candidate c w), rk_rationale := snd (score_candidate c w)\<rparr>)"

definition rk_less :: "ranked_candidate \<Rightarrow> ranked_candidate \<Rightarrow> bool" where
  "rk_less a b =
     (if rk_rank_score a \<noteq> rk_rank_score b then rk_rank_score a > rk_rank_score b
      else if rk_portability a \<noteq> rk_portability b
      then portability_strength (rk_portability a) > portability_strength (rk_portability b)
      else rk_accelerator a < rk_accelerator b)"

definition excluded_less :: "ranked_candidate \<Rightarrow> ranked_candidate \<Rightarrow> bool" where
  "excluded_less a b \<longleftrightarrow> rk_accelerator a < rk_accelerator b"

text \<open>The loop that numbers the ranked candidates from 1.\<close>

definition number_ranks :: "ranked_candidate list \<Rightarrow> ranked_candidate list" where
  "number_ranks xs = map (\<lambda>(i, e). e\<lparr>rk_rank := i + 1\<rparr>) (enumerate 0 xs)"

definition rank_candidates :: "ranking_candidate list \<Rightarrow> ranking_weights \<Rightarrow> ranking_result result" where
  "rank_candidates candidates w =
     (if length candidates > 1000000 then Inl EC_BoundsExceeded
      else
        let entries = map (rank_entry w) candidates;
            ranked = filter (\<lambda>e. rk_outcome e = CO_Eligible) entries;
            excluded = filter (\<lambda>e. rk_outcome e \<noteq> CO_Eligible) entries
        in Inr \<lparr>rr_ranked = number_ranks (sort_by rk_less ranked), rr_excluded = sort_by excluded_less excluded\<rparr>)"

subsection \<open>Orders and sorting\<close>

lemma rk_less_iff:
  "rk_less = (\<lambda>a b. rk_rank_score a > rk_rank_score b \<or> rk_rank_score a = rk_rank_score b \<and>
     (rk_portability a > rk_portability b \<or> rk_portability a = rk_portability b \<and> rk_accelerator a < rk_accelerator b))"
  by (intro ext) (auto simp: rk_less_def less_portability_class_def)

text \<open>Best first: the score descending, then the portability strength descending, then the identity.\<close>

interpretation rank_order: comparator rk_less
  "\<lambda>e. (- rk_rank_score e, - uint (portability_strength (rk_portability e)), rk_accelerator e)"
proof
  fix a b :: ranked_candidate
  have "uint (portability_strength (rk_portability a)) = uint (portability_strength (rk_portability b)) \<longleftrightarrow>
      rk_portability a = rk_portability b"
    by (metis portability_strength_inject word_uint_eqI)
  then show "rk_less a b \<longleftrightarrow>
      (- rk_rank_score a, - uint (portability_strength (rk_portability a)), rk_accelerator a)
      < (- rk_rank_score b, - uint (portability_strength (rk_portability b)), rk_accelerator b)"
    by (auto simp: rk_less_def word_less_def less_prod_def)
qed

interpretation excluded_order: comparator excluded_less rk_accelerator
  by unfold_locales (simp add: excluded_less_def)

lemma number_ranks_nth [simp]: "i < length xs \<Longrightarrow> number_ranks xs ! i = (xs ! i)\<lparr>rk_rank := i + 1\<rparr>"
  by (simp add: number_ranks_def nth_enumerate_eq)

lemma length_number_ranks [simp]: "length (number_ranks xs) = length xs"
  by (simp add: number_ranks_def)

lemma rank_entry_simps [simp]:
  "rk_accelerator (rank_entry w c) = rc_accelerator c" "rk_outcome (rank_entry w c) = cd_outcome (rc_decision c)"
  "rk_portability (rank_entry w c) = cd_portability (rc_decision c)"
  "rk_provenance (rank_entry w c) = cd_provenance (rc_decision c)"
  by (simp_all add: rank_entry_def Let_def)

lemma map_number_ranks: "(\<And>e r. f (e\<lparr>rk_rank := r\<rparr>) = f e) \<Longrightarrow> map f (number_ranks xs) = map f xs"
  by (rule nth_equalityI) simp_all

lemma accelerators_sorted:
  "mset (map rk_accelerator (sort_by lt (map (rank_entry w) cs))) = mset (map rc_accelerator cs)"
proof -
  have "mset (map rk_accelerator (sort_by lt (map (rank_entry w) cs))) = mset (map rk_accelerator (map (rank_entry w) cs))"
    by (metis mset_map mset_sort_by)
  then show ?thesis by (simp add: comp_def)
qed

lemma rank_accelerators:
  assumes "rank_candidates cs w = Inr r"
  shows "mset (map rk_accelerator (rr_ranked r)) =
      mset (map rc_accelerator (filter (\<lambda>c. cd_outcome (rc_decision c) = CO_Eligible) cs))"
    and "mset (map rk_accelerator (rr_excluded r)) =
      mset (map rc_accelerator (filter (\<lambda>c. cd_outcome (rc_decision c) \<noteq> CO_Eligible) cs))"
  using assms by (auto simp: rank_candidates_def Let_def map_number_ranks filter_map comp_def accelerators_sorted
      split: if_splits simp del: mset_map)

lemma rank_number_ranks: "map rk_rank (number_ranks xs) = [1..<length xs + 1]"
  by (rule nth_equalityI) (simp_all del: upt_Suc)

lemma rank_ranked:
  assumes "rank_candidates cs w = Inr r"
  shows "rr_ranked r = number_ranks (sort_by rk_less (filter (\<lambda>e. rk_outcome e = CO_Eligible) (map (rank_entry w) cs)))"
  using assms unfolding rank_candidates_def Let_def by (simp only: split: if_splits) auto

lemma rank_numbers: "rank_candidates cs w = Inr r \<Longrightarrow> map rk_rank (rr_ranked r) = [1..<length (rr_ranked r) + 1]"
  by (simp only: rank_ranked rank_number_ranks length_number_ranks)

lemma rank_sorted:
  assumes "rank_candidates cs w = Inr r" "distinct (map rc_accelerator cs)"
  shows "sorted_wrt rk_less (rr_ranked r)"
proof -
  let ?key = "\<lambda>e. (- rk_rank_score e, - uint (portability_strength (rk_portability e)), rk_accelerator e)"
  let ?es = "filter (\<lambda>e. rk_outcome e = CO_Eligible) (map (rank_entry w) cs)"
  have r: "rr_ranked r = number_ranks (sort_by rk_less ?es)"
    using assms(1) by (rule rank_ranked)
  have "map rk_accelerator (map (rank_entry w) cs) = map rc_accelerator cs" by simp
  with assms(2) have "distinct (map rk_accelerator ?es)" by (metis distinct_map_filter)
  then have "distinct (map ?key ?es)" by (auto simp: distinct_map inj_on_def)
  then have "sorted_wrt (<) (map ?key (sort_by rk_less ?es))" by (rule rank_order.sort_by_strict)
  moreover have "map ?key (number_ranks es) = map ?key es" for es by (rule map_number_ranks) simp
  ultimately have "sorted_wrt (<) (map ?key (rr_ranked r))" by (simp only: r)
  then show ?thesis by (simp only: sorted_wrt_map rank_order.lt_key [symmetric])
qed

text \<open>With pairwise distinct accelerators the result depends only on the set of candidates.\<close>

lemma rank_perm:
  assumes "mset cs = mset cs'" and "distinct (map rc_accelerator cs)"
  shows "rank_candidates cs w = rank_candidates cs' w"
proof -
  let ?split = "\<lambda>P cs. filter (\<lambda>e. P (rk_outcome e)) (map (rank_entry w) cs)"
  have entries: "mset (?split P cs) = mset (?split P cs')" for P
    using assms(1) by (metis mset_filter mset_map)
  have acc: "distinct (map rk_accelerator (?split P cs))" for P
  proof -
    have "map rk_accelerator (map (rank_entry w) cs) = map rc_accelerator cs" by simp
    with assms(2) show ?thesis by (metis distinct_map_filter)
  qed
  have "distinct (map (\<lambda>e. (- rk_rank_score e, - uint (portability_strength (rk_portability e)), rk_accelerator e))
      (?split P cs))" for P
    using acc [of P] by (auto simp: distinct_map inj_on_def)
  from rank_order.sort_by_unique [OF entries this, of "\<lambda>v. v = CO_Eligible"]
       excluded_order.sort_by_unique [OF entries acc, of "\<lambda>v. v \<noteq> CO_Eligible"]
  have sorted: "sort_by rk_less (?split (\<lambda>v. v = CO_Eligible) cs) = sort_by rk_less (?split (\<lambda>v. v = CO_Eligible) cs')"
    "sort_by excluded_less (?split (\<lambda>v. v \<noteq> CO_Eligible) cs) = sort_by excluded_less (?split (\<lambda>v. v \<noteq> CO_Eligible) cs')"
    by simp_all
  have "length cs = length cs'" using assms(1) by (rule mset_eq_length)
  with sorted show ?thesis by (simp add: rank_candidates_def Let_def)
qed

subsection \<open>The score does not wrap\<close>

lemma i64_id: "- (2 ^ 63) \<le> n \<Longrightarrow> n < 2 ^ 63 \<Longrightarrow> i64 n = n"
  by (simp add: i64_def signed_of_int signed_take_bit_int_eq_self)

lemma i32_id: "- (2 ^ 31) \<le> n \<Longrightarrow> n < 2 ^ 31 \<Longrightarrow> i32 n = n"
  by (simp add: i32_def signed_of_int signed_take_bit_int_eq_self)

lemma score_fold_bounded:
  assumes "\<bar>s\<bar> + (\<Sum>d \<leftarrow> ds. \<bar>fst d\<bar>) < 2 ^ 63"
  shows "foldl (\<lambda>score d. i64 (score + fst d)) s ds = s + (\<Sum>d \<leftarrow> ds. fst d)"
  using assms
proof (induction ds arbitrary: s)
  case (Cons d ds)
  have nonneg: "0 \<le> (\<Sum>d \<leftarrow> ds. \<bar>fst d\<bar>)" by (rule sum_list_nonneg) auto
  with Cons.prems have "i64 (s + fst d) = s + fst d" by (intro i64_id) auto
  moreover have "\<bar>s + fst d\<bar> + (\<Sum>d \<leftarrow> ds. \<bar>fst d\<bar>) < 2 ^ 63" using Cons.prems by auto
  ultimately show ?case using Cons.IH by simp
qed simp

text \<open>The score under the default weights.\<close>

definition default_score :: "ranking_candidate \<Rightarrow> int" where
  "default_score c =
     (let d = rc_decision c; steps = portability_transformation_steps (cd_portability d) in
      (if cd_portability d = PC_Native then 1000 else if cd_portability d = PC_LiveMigrationSupported then 500 else 0)
      - (if steps = 255 then 0 else 250 * uint steps)
      - uint (rc_migration_cost c)
      - (case cd_provenance d of EP_Real \<Rightarrow> 0 | EP_Synthetic \<Rightarrow> 500 | EP_Unsupported \<Rightarrow> 1000)
      + cd_score d)"

lemma i64_step_penalty: "i64 (uint (portability_transformation_steps v) * 250) = 250 * uint (portability_transformation_steps v)"
  by (cases v) (simp_all add: i64_id)

lemma i64_cost: "i64 (uint (n :: u32) * 1) = uint n"
proof (subst i64_id)
  show "- (2 ^ 63) \<le> uint n * 1" by (rule order_trans [of _ 0]) simp_all
  show "uint n * 1 < 2 ^ 63" using uint_lt2p [of n] by simp
qed simp

lemma score_candidate_default:
  assumes "\<bar>cd_score (rc_decision c)\<bar> \<le> 2 ^ 62"
  shows "fst (score_candidate c default_weights) = default_score c"
proof -
  let ?d = "rc_decision c"
  have cost: "uint (rc_migration_cost c) < 2 ^ 32" "0 \<le> uint (rc_migration_cost c)"
    using uint_lt2p [of "rc_migration_cost c"] by simp_all
  have "(\<Sum>d \<leftarrow> score_dimensions c default_weights. \<bar>fst d\<bar>) \<le> 1000 + 250 * 3 + 2 ^ 32 + 1000 + 2 ^ 62"
    using cost assms unfolding score_dimensions_def default_weights_def Let_def
    by (cases "cd_portability ?d"; cases "cd_provenance ?d") (simp_all add: i64_cost [simplified] i64_id i32_id)
  then have "fst (score_candidate c default_weights) = (\<Sum>d \<leftarrow> score_dimensions c default_weights. fst d)"
    unfolding score_candidate_def by (simp add: score_fold_bounded)
  also have "\<dots> = default_score c"
    unfolding score_dimensions_def default_weights_def default_score_def Let_def
    by (cases "cd_portability ?d"; cases "cd_provenance ?d") (simp_all add: i64_cost [simplified] i64_id i32_id)
  finally show ?thesis .
qed

end
