(* ===== verification/Frame.thy ===== *)
theory Frame
  imports Hash
begin

section \<open>Frames of the control plane\<close>

text \<open>
  \<^verbatim>\<open>net/frame.hpp\<close> and \<^verbatim>\<open>net/frame.cpp\<close>: the layout of a frame, its header checksum (a table-driven
  CRC-32) and its trailer digest (FNV-1a). The stores into the output buffer are the concatenation of the
  fields in the order of their offsets; the loads are slices of the input.
\<close>

definition get_u16 :: "bytes \<Rightarrow> nat \<Rightarrow> u16" where
  "get_u16 bs i = le_word (take 2 (drop i bs))"

definition get_u32 :: "bytes \<Rightarrow> nat \<Rightarrow> u32" where
  "get_u32 bs i = le_word (take 4 (drop i bs))"

definition get_u64 :: "bytes \<Rightarrow> nat \<Rightarrow> u64" where
  "get_u64 bs i = le_word (take 8 (drop i bs))"

subsection \<open>CRC-32\<close>

definition crc_step :: "u32 \<Rightarrow> u32" where
  "crc_step v = (if v AND 1 \<noteq> 0 then 0xEDB88320 XOR drop_bit 1 v else drop_bit 1 v)"

definition crc_table :: "u32 list" where
  "crc_table = map (\<lambda>i. (crc_step ^^ 8) (of_nat i)) [0..<256]"

definition crc32_update :: "u32 \<Rightarrow> byte \<Rightarrow> u32" where
  "crc32_update crc b = crc_table ! unat ((crc XOR ucast b) AND 0xFF) XOR drop_bit 8 crc"

definition crc32_ieee :: "bytes \<Rightarrow> u32" where
  "crc32_ieee bs = foldl crc32_update 0xFFFFFFFF bs XOR 0xFFFFFFFF"

subsection \<open>Encoding and decoding\<close>

record frame_header =
  fh_protocol_version :: u16
  fh_type :: u16
  fh_flags :: u16
  fh_sequence :: u64
  fh_payload_length :: u32

record frame =
  fr_header :: frame_header
  fr_payload :: bytes

definition is_response :: "frame_header \<Rightarrow> bool" where
  "is_response h \<longleftrightarrow> fh_flags h AND 1 \<noteq> 0"

definition is_error :: "frame_header \<Rightarrow> bool" where
  "is_error h \<longleftrightarrow> fh_flags h AND 2 \<noteq> 0"

definition frame_magic :: bytes where
  "frame_magic = map byte_of_char ''HAF1''"

definition header_fields :: "frame_header \<Rightarrow> bytes" where
  "header_fields h = frame_magic @ le_bytes 2 (fh_protocol_version h) @ le_bytes 2 (fh_type h) @
     le_bytes 2 (fh_flags h) @ le_bytes 2 (0 :: u16) @ le_bytes 8 (fh_sequence h) @ le_bytes 4 (fh_payload_length h)"

definition write_header :: "frame_header \<Rightarrow> bytes" where
  "write_header h = header_fields h @ le_bytes 4 (crc32_ieee (header_fields h))"

definition frame_trailer_digest :: "bytes \<Rightarrow> bytes \<Rightarrow> u64" where
  "frame_trailer_digest header payload = fnv_update (fnv_update fnv_offset header) payload"

definition encode_frame :: "frame \<Rightarrow> bytes result" where
  "encode_frame f =
     (if length (fr_payload f) > 4 * 1024 * 1024 then Inl EC_FrameTooLarge
      else let header = write_header ((fr_header f)\<lparr>fh_payload_length := of_nat (length (fr_payload f))\<rparr>)
        in Inr (header @ fr_payload f @ le_bytes 8 (frame_trailer_digest header (fr_payload f))))"

definition decode_frame_header :: "bytes \<Rightarrow> nat \<Rightarrow> frame_header result" where
  "decode_frame_header header maximum =
     (if length header < 28 then Inl EC_TruncatedFrame
      else if take 4 header \<noteq> frame_magic then Inl EC_ProtocolViolation
      else if get_u16 header 10 \<noteq> 0 then Inl EC_ProtocolViolation
      else if get_u32 header 24 \<noteq> crc32_ieee (take 24 header) then Inl EC_CorruptPayload
      else let h = \<lparr>fh_protocol_version = get_u16 header 4, fh_type = get_u16 header 6, fh_flags = get_u16 header 8,
                    fh_sequence = get_u64 header 12, fh_payload_length = get_u32 header 20\<rparr>
        in if fh_protocol_version h < 1 \<or> fh_protocol_version h > 1 then Inl EC_UnsupportedProtocolVersion
           else if unat (fh_payload_length h) > 4 * 1024 * 1024 then Inl EC_FrameTooLarge
           else if unat (fh_payload_length h) > maximum then Inl EC_FrameTooLarge
           else Inr h)"

definition verify_frame_trailer :: "bytes \<Rightarrow> bytes \<Rightarrow> bytes \<Rightarrow> error_code" where
  "verify_frame_trailer header payload trailer =
     (if length trailer < 8 then EC_TruncatedFrame
      else if frame_trailer_digest header payload \<noteq> get_u64 trailer 0 then EC_CorruptPayload
      else EC_Ok)"

text \<open>The sequence in which the server and the client read a frame from a connection: the header, the
  payload of the declared length, the trailer. \<open>Inl EC_ConnectionClosed\<close> stands for a stream that ends
  early; the rest of the stream is returned with the frame.\<close>

definition receive_frame :: "nat \<Rightarrow> bytes \<Rightarrow> (frame_header \<times> bytes \<times> bytes) result" where
  "receive_frame maximum stream =
     (if length stream < 28 then Inl EC_ConnectionClosed
      else let header = take 28 stream; rest = drop 28 stream in
        case decode_frame_header header maximum of
          Inl e \<Rightarrow> Inl e
        | Inr h \<Rightarrow>
            let n = unat (fh_payload_length h); payload = take n rest; rest1 = drop n rest in
            if length rest < n then Inl EC_ConnectionClosed
            else if length rest1 < 8 then Inl EC_ConnectionClosed
            else if verify_frame_trailer header payload (take 8 rest1) \<noteq> EC_Ok
            then Inl (verify_frame_trailer header payload (take 8 rest1))
            else Inr (h, payload, drop 8 rest1))"

subsection \<open>The table computes the CRC\<close>

text \<open>The reference: eight shift-and-xor steps for each byte.\<close>

definition crc_reference :: "bytes \<Rightarrow> u32" where
  "crc_reference bs = foldl (\<lambda>crc b. (crc_step ^^ 8) (crc XOR ucast b)) 0xFFFFFFFF bs XOR 0xFFFFFFFF"

lemma and_1_bit: "v AND 1 \<noteq> 0 \<longleftrightarrow> bit v 0" for v :: u32
  by (metis and_one_eq bit_0 bit_0_eq odd_iff_mod_2_eq_one even_iff_mod_2_eq_zero zero_neq_one)

lemma crc_step_xor: "crc_step (a XOR b) = crc_step a XOR crc_step b"
  unfolding crc_step_def and_1_bit by (rule bit_eqI) (auto simp: bit_simps)

lemma crc_steps_xor: "(crc_step ^^ n) (a XOR b) = (crc_step ^^ n) a XOR (crc_step ^^ n) b"
  by (induction n arbitrary: a b) (simp_all add: crc_step_xor)

lemma crc_steps_shift: "(\<And>k. k < n \<Longrightarrow> \<not> bit v k) \<Longrightarrow> (crc_step ^^ n) v = drop_bit n v"
proof (induction n arbitrary: v)
  case (Suc n)
  have "crc_step v = drop_bit 1 v" using Suc.prems [of 0] by (simp add: crc_step_def and_1_bit)
  moreover have "(crc_step ^^ n) (drop_bit 1 v) = drop_bit n (drop_bit 1 v)"
    by (rule Suc.IH) (use Suc.prems in \<open>auto simp: bit_drop_bit_eq\<close>)
  ultimately show ?case by (simp add: funpow_swap1 funpow_Suc_right del: funpow.simps)
qed simp

lemma bit_xor_low: "bit ((v AND 0xFF) XOR v) k \<longleftrightarrow> 8 \<le> k \<and> bit v k" for v :: u32
proof -
  have "bit (0xFF :: u32) k \<longleftrightarrow> k < 32 \<and> k < 8" using bit_255 [where 'a = 32, of k] by simp
  then show ?thesis using bit_imp_le_length [of v k] by (auto simp: bit_xor_iff bit_and_iff)
qed

lemma crc32_update_steps: "crc32_update crc b = (crc_step ^^ 8) (crc XOR ucast b)"
proof -
  let ?v = "crc XOR (ucast b :: u32)"
  have low: "unat (?v AND 0xFF) < 256"
  proof -
    have "?v AND 0xFF \<le> 0xFF" by (rule word_and_le1)
    then show ?thesis by (simp add: word_le_nat_alt)
  qed
  have table: "crc_table ! unat (?v AND 0xFF) = (crc_step ^^ 8) (?v AND 0xFF)"
    using low by (simp add: crc_table_def del: funpow.simps)
  have high: "(crc_step ^^ 8) ((?v AND 0xFF) XOR ?v) = drop_bit 8 ((?v AND 0xFF) XOR ?v)"
    by (rule crc_steps_shift) (simp add: bit_xor_low)
  have "drop_bit 8 ((?v AND 0xFF) XOR ?v) = drop_bit 8 crc"
  proof (rule bit_eqI)
    fix k
    have "\<not> bit b (8 + k)" using bit_imp_le_length [of b "8 + k"] by auto
    then show "bit (drop_bit 8 ((?v AND 0xFF) XOR ?v)) k \<longleftrightarrow> bit (drop_bit 8 crc) k"
      by (simp add: bit_drop_bit_eq bit_xor_low) (auto simp: bit_simps)
  qed
  then have "crc32_update crc b = (crc_step ^^ 8) (?v AND 0xFF) XOR (crc_step ^^ 8) ((?v AND 0xFF) XOR ?v)"
    by (simp only: crc32_update_def table high)
  also have "\<dots> = (crc_step ^^ 8) ?v" by (simp only: crc_steps_xor [symmetric]) simp
  finally show ?thesis .
qed

lemma crc32_reference: "crc32_ieee bs = crc_reference bs"
  by (simp only: crc32_ieee_def crc_reference_def crc32_update_steps [abs_def])

subsection \<open>Single-byte corruption is detected\<close>

lemma xor_cancel [simp]: "a XOR c = b XOR c \<longleftrightarrow> a = b" "c XOR a = c XOR b \<longleftrightarrow> a = b" for a b c :: "'a :: len word"
  by (metis xor.assoc xor.right_neutral xor_self_eq, metis xor.assoc xor.left_neutral xor_self_eq)

lemma crc_step_inject: "crc_step a = crc_step b \<Longrightarrow> a = b"
proof -
  assume eq: "crc_step a = crc_step b"
  have top: "bit (crc_step v) 31 \<longleftrightarrow> bit v 0" for v
    using bit_imp_le_length [of v 32] by (auto simp: crc_step_def and_1_bit bit_simps)
  have low: "bit a 0 \<longleftrightarrow> bit b 0" using top [of a] top [of b] eq by simp
  have "drop_bit 1 a = drop_bit 1 b"
    using eq low by (auto simp: crc_step_def and_1_bit split: if_splits)
  from arg_cong [OF this, of "\<lambda>w. bit w k" for k] have high: "bit a (Suc k) \<longleftrightarrow> bit b (Suc k)" for k
    by (simp add: bit_drop_bit_eq)
  show "a = b"
  proof (rule bit_eqI)
    fix k show "bit a k \<longleftrightarrow> bit b k" using low high by (cases k) simp_all
  qed
qed

lemma crc_steps_inject: "(crc_step ^^ n) a = (crc_step ^^ n) b \<longleftrightarrow> a = b"
  by (induction n arbitrary: a b) (auto dest: crc_step_inject)

lemma ucast_byte_inject [simp]:
  assumes "8 \<le> LENGTH('a :: len)"
  shows "(ucast a :: 'a word) = ucast b \<longleftrightarrow> a = (b :: byte)"
proof
  assume eq: "(ucast a :: 'a word) = ucast b"
  show "a = b"
  proof (rule bit_eqI)
    fix k assume "possible_bit TYPE(8 word) k"
    then have "k < LENGTH('a)" using assms by simp
    then show "bit a k \<longleftrightarrow> bit b k" using arg_cong [OF eq, of "\<lambda>w. bit w k"] by (simp add: bit_ucast_iff)
  qed
qed simp

lemma crc32_update_state_inject: "crc32_update c b = crc32_update d b \<longleftrightarrow> c = d"
  unfolding crc32_update_steps crc_steps_inject by simp

lemma crc32_update_byte_inject: "crc32_update c a = crc32_update c b \<longleftrightarrow> a = b"
  unfolding crc32_update_steps crc_steps_inject by simp

text \<open>A running check value whose update is injective in the state and in the byte separates any two
  messages that differ in exactly one byte.\<close>

locale running_check =
  fixes update :: "'s \<Rightarrow> byte \<Rightarrow> 's"
  assumes state_inject: "update c b = update d b \<Longrightarrow> c = d"
    and byte_inject: "update c a = update c b \<Longrightarrow> a = b"
begin

lemma foldl_state_inject: "foldl update c bs = foldl update d bs \<Longrightarrow> c = d"
  by (induction bs arbitrary: c d) (auto dest: state_inject)

lemma detects_byte:
  assumes "i < length bs" "b \<noteq> bs ! i"
  shows "foldl update c (bs[i := b]) \<noteq> foldl update c bs"
proof
  assume eq: "foldl update c (bs[i := b]) = foldl update c bs"
  have "bs[i := b] = take i bs @ b # drop (Suc i) bs" "bs = take i bs @ bs ! i # drop (Suc i) bs"
    using assms(1) by (simp_all add: upd_conv_take_nth_drop id_take_nth_drop)
  then have "foldl update (update (foldl update c (take i bs)) b) (drop (Suc i) bs) =
      foldl update (update (foldl update c (take i bs)) (bs ! i)) (drop (Suc i) bs)"
    using eq by (metis foldl_Cons foldl_append)
  then have "update (foldl update c (take i bs)) b = update (foldl update c (take i bs)) (bs ! i)"
    by (rule foldl_state_inject)
  with assms(2) show False using byte_inject by blast
qed

end

interpretation crc_check: running_check crc32_update
  by unfold_locales (simp_all add: crc32_update_state_inject crc32_update_byte_inject)

text \<open>The FNV prime is odd, so the multiplication is a bijection of the 64-bit words.\<close>

definition fnv_byte :: "u64 \<Rightarrow> byte \<Rightarrow> u64" where
  "fnv_byte s b = (s XOR ucast b) * fnv_prime"

lemma fnv_prime_inverse: "fnv_prime * 14886173955864302971 = 1"
  by (simp add: fnv_prime_def)

lemma fnv_prime_inject: "a * fnv_prime = b * fnv_prime \<longleftrightarrow> a = b"
proof
  assume "a * fnv_prime = b * fnv_prime"
  then have "a * fnv_prime * 14886173955864302971 = b * fnv_prime * 14886173955864302971" by (simp only:)
  then show "a = b" by (simp only: mult.assoc fnv_prime_inverse mult_1_right)
qed simp

interpretation fnv_check: running_check fnv_byte
  by unfold_locales (simp_all add: fnv_byte_def fnv_prime_inject)

subsection \<open>Round trip and integrity of a frame\<close>

lemma length_header [simp]: "length frame_magic = 4" "length (header_fields h) = 24" "length (write_header h) = 28"
  by (simp_all add: frame_magic_def header_fields_def write_header_def)

lemma get_fields:
  "get_u16 (write_header h @ rest) 4 = fh_protocol_version h" "get_u16 (write_header h @ rest) 6 = fh_type h"
  "get_u16 (write_header h @ rest) 8 = fh_flags h" "get_u16 (write_header h @ rest) 10 = 0"
  "get_u64 (write_header h @ rest) 12 = fh_sequence h" "get_u32 (write_header h @ rest) 20 = fh_payload_length h"
  "get_u32 (write_header h @ rest) 24 = crc32_ieee (header_fields h)"
  "take 4 (write_header h @ rest) = frame_magic" "take 24 (write_header h @ rest) = header_fields h"
  by (simp_all add: get_u16_def get_u32_def get_u64_def write_header_def header_fields_def le_word_le_bytes)

lemma decode_write_header:
  assumes "fh_protocol_version h = 1" "unat (fh_payload_length h) \<le> 4 * 1024 * 1024" "unat (fh_payload_length h) \<le> maximum"
  shows "decode_frame_header (write_header h) maximum = Inr h"
  using assms get_fields [of h "[]"] by (simp add: decode_frame_header_def)

text \<open>The header is determined by its decoded fields.\<close>

lemma le_bytes_slice:
  assumes "i + n \<le> length bs" "8 * n \<le> LENGTH('a :: len)"
  shows "le_bytes n (le_word (take n (drop i bs)) :: 'a word) = take n (drop i bs)"
  using assms by (intro le_bytes_le_word) simp_all

lemma take_drop_split: "take (n + m) (drop i bs) = take n (drop i bs) @ take m (drop (i + n) bs)"
  by (simp add: take_add) (simp add: add.commute)

lemma word_eq_1: "v \<noteq> 0 \<Longrightarrow> \<not> 1 < v \<Longrightarrow> v = 1" for v :: u16
  by (cases v "1 :: u16" rule: linorder_cases) simp_all

lemma decode_frame_header_exact:
  assumes "decode_frame_header bs maximum = Inr h" "length bs = 28"
  shows "bs = write_header h" "fh_protocol_version h = 1" "unat (fh_payload_length h) \<le> maximum"
    "unat (fh_payload_length h) \<le> 4 * 1024 * 1024"
proof -
  from assms(1) have magic: "take 4 bs = frame_magic" and reserved: "get_u16 bs 10 = 0"
    and crc: "get_u32 bs 24 = crc32_ieee (take 24 bs)"
    and h: "h = \<lparr>fh_protocol_version = get_u16 bs 4, fh_type = get_u16 bs 6, fh_flags = get_u16 bs 8,
                 fh_sequence = get_u64 bs 12, fh_payload_length = get_u32 bs 20\<rparr>"
    by (auto simp: decode_frame_header_def Let_def split: if_splits)
  have zero: "le_bytes 2 (0 :: u16) = take 2 (drop 10 bs)"
    using le_bytes_slice [of 10 2 bs, where 'a = 16] assms(2) reserved by (simp add: get_u16_def)
  have fields: "header_fields h = take 24 bs"
  proof -
    have "header_fields h = take 4 (drop 0 bs) @ take 2 (drop 4 bs) @ take 2 (drop 6 bs) @ take 2 (drop 8 bs) @
        take 2 (drop 10 bs) @ take 8 (drop 12 bs) @ take 4 (drop 20 bs)"
      unfolding header_fields_def zero using assms(2)
      by (simp add: h magic get_u16_def get_u32_def get_u64_def le_bytes_slice)
    also have "\<dots> = take 24 (drop 0 bs)"
      using take_drop_split [of 4 20 0 bs] take_drop_split [of 2 18 4 bs] take_drop_split [of 2 16 6 bs]
        take_drop_split [of 2 14 8 bs] take_drop_split [of 2 12 10 bs] take_drop_split [of 8 4 12 bs] by simp
    finally show ?thesis by simp
  qed
  have "le_bytes 4 (crc32_ieee (take 24 bs)) = drop 24 bs"
    using le_bytes_slice [of 24 4 bs, where 'a = 32] assms(2) crc by (simp add: get_u32_def)
  then show "bs = write_header h" by (simp add: write_header_def fields)
  from assms(1) show "fh_protocol_version h = 1"
    by (auto simp: decode_frame_header_def Let_def split: if_splits intro: word_eq_1)
  from assms(1) show "unat (fh_payload_length h) \<le> maximum" "unat (fh_payload_length h) \<le> 4 * 1024 * 1024"
    by (auto simp: decode_frame_header_def Let_def split: if_splits)
qed

lemma receive_encoded:
  assumes "encode_frame f = Inr bs" "fh_protocol_version (fr_header f) = 1" "length (fr_payload f) \<le> maximum"
  shows "receive_frame maximum (bs @ rest) =
    Inr ((fr_header f)\<lparr>fh_payload_length := of_nat (length (fr_payload f))\<rparr>, fr_payload f, rest)"
proof -
  let ?h = "(fr_header f)\<lparr>fh_payload_length := of_nat (length (fr_payload f))\<rparr>"
  have len: "length (fr_payload f) \<le> 4 * 1024 * 1024" and bs: "bs = write_header ?h @ fr_payload f @
      le_bytes 8 (frame_trailer_digest (write_header ?h) (fr_payload f))"
    using assms(1) by (auto simp: encode_frame_def Let_def split: if_splits)
  have n: "unat (fh_payload_length ?h) = length (fr_payload f)" using len by (simp add: unat_of_nat_u32)
  have "decode_frame_header (write_header ?h) maximum = Inr ?h"
    using assms(2,3) len n by (intro decode_write_header) simp_all
  then show ?thesis
    using n by (simp add: receive_frame_def Let_def bs verify_frame_trailer_def get_u64_def le_word_le_bytes)
qed

text \<open>A frame in which one byte was altered is refused, wherever the byte is.\<close>

lemma crc32_detects: "i < length bs \<Longrightarrow> b \<noteq> bs ! i \<Longrightarrow> crc32_ieee (bs[i := b]) \<noteq> crc32_ieee bs"
  using crc_check.detects_byte [of i bs b] by (simp add: crc32_ieee_def)

lemma trailer_digest_fold: "frame_trailer_digest header payload = foldl fnv_byte fnv_offset (header @ payload)"
  by (simp add: frame_trailer_digest_def fnv_update_def fnv_byte_def [abs_def])

lemma trailer_digest_detects:
  "i < length payload \<Longrightarrow> b \<noteq> payload ! i \<Longrightarrow>
     frame_trailer_digest header (payload[i := b]) \<noteq> frame_trailer_digest header payload"
  using fnv_check.detects_byte [of "length header + i" "header @ payload" b fnv_offset]
  by (simp add: trailer_digest_fold list_update_append nth_append)

lemma corrupt_header_refused:
  assumes "i < 28" "b \<noteq> write_header h ! i"
  shows "\<exists>e. decode_frame_header ((write_header h)[i := b]) maximum = Inl e"
proof (cases "decode_frame_header ((write_header h)[i := b]) maximum")
  case (Inr h')
  then have eq: "(write_header h)[i := b] = write_header h'" by (rule decode_frame_header_exact) simp
  have fields: "take 24 (write_header v) = header_fields v" "drop 24 (write_header v) = le_bytes 4 (crc32_ieee (header_fields v))" for v
    by (simp_all add: write_header_def)
  have False
  proof (cases "i < 24")
    case True
    have f: "header_fields h' = (header_fields h)[i := b]"
      using arg_cong [OF eq, of "take 24"] by (simp add: fields take_update_swap)
    have nth: "write_header h ! i = header_fields h ! i" using True by (simp add: write_header_def nth_append)
    have "drop 24 ((write_header h)[i := b]) = drop 24 (write_header h)" using True by simp
    with eq have "le_bytes 4 (crc32_ieee (header_fields h')) = le_bytes 4 (crc32_ieee (header_fields h))"
      by (simp add: fields)
    from arg_cong [OF this, of "le_word :: bytes \<Rightarrow> u32"]
    have "crc32_ieee (header_fields h') = crc32_ieee (header_fields h)" by (simp add: le_word_le_bytes)
    with crc32_detects [of i "header_fields h" b] True assms(2) nth f show False by simp
  next
    case False
    then have "header_fields h' = header_fields h"
      using arg_cong [OF eq, of "take 24"] by (simp add: fields)
    then have "write_header h' = write_header h" by (simp add: write_header_def)
    with eq assms show False by (metis length_header(3) nth_list_update_eq)
  qed
  then show ?thesis ..
qed blast

lemma corrupt_frame_refused:
  assumes "encode_frame f = Inr bs" "fh_protocol_version (fr_header f) = 1" "length (fr_payload f) \<le> maximum"
    and "i < length bs" "b \<noteq> bs ! i"
  shows "\<exists>e. receive_frame maximum (bs[i := b] @ rest) = Inl e"
proof -
  let ?h = "(fr_header f)\<lparr>fh_payload_length := of_nat (length (fr_payload f))\<rparr>"
  let ?n = "length (fr_payload f)" and ?digest = "frame_trailer_digest (write_header ?h) (fr_payload f)"
  have len: "?n \<le> 4 * 1024 * 1024" and bs: "bs = write_header ?h @ fr_payload f @ le_bytes 8 ?digest"
    using assms(1) by (auto simp: encode_frame_def Let_def split: if_splits)
  have n: "unat (fh_payload_length ?h) = ?n" using len by (simp add: unat_of_nat_u32)
  have header: "decode_frame_header (write_header ?h) maximum = Inr ?h"
    using assms(2,3) len n by (intro decode_write_header) simp_all
  have receive: "receive_frame maximum (write_header ?h @ payload @ trailer @ rest) =
      (if frame_trailer_digest (write_header ?h) payload \<noteq> le_word trailer then Inl EC_CorruptPayload
       else Inr (?h, payload, rest))" if "length payload = ?n" "length trailer = 8" for payload trailer
    using that n by (simp add: receive_frame_def Let_def header verify_frame_trailer_def get_u64_def)
  consider "i < 28" | "28 \<le> i" "i < 28 + ?n" | "28 + ?n \<le> i" by linarith
  then show ?thesis
  proof cases
    case 1
    then have "bs[i := b] = (write_header ?h)[i := b] @ fr_payload f @ le_bytes 8 ?digest" "bs ! i = write_header ?h ! i"
      by (simp_all add: bs list_update_append nth_append)
    with corrupt_header_refused [OF 1, of b ?h maximum] assms(5) show ?thesis
      by (auto simp: receive_frame_def Let_def)
  next
    case 2
    then have "i - 28 < ?n" by linarith
    with 2 have upd: "bs[i := b] = write_header ?h @ (fr_payload f)[i - 28 := b] @ le_bytes 8 ?digest"
      and nth: "bs ! i = fr_payload f ! (i - 28)" by (simp_all add: bs list_update_append nth_append)
    have "frame_trailer_digest (write_header ?h) ((fr_payload f)[i - 28 := b]) \<noteq> ?digest"
      using 2 assms(5) nth by (intro trailer_digest_detects) simp_all
    then show ?thesis using receive [of "(fr_payload f)[i - 28 := b]" "le_bytes 8 ?digest"]
      by (simp add: upd le_word_le_bytes)
  next
    case 3
    let ?j = "i - (28 + ?n)"
    have "\<not> i - 28 < ?n" "\<not> i < 28" using 3 by linarith+
    then have upd: "bs[i := b] = write_header ?h @ fr_payload f @ (le_bytes 8 ?digest)[?j := b]"
      and nth: "bs ! i = le_bytes 8 ?digest ! ?j" and j: "?j < 8"
      using 3 assms(4) by (simp_all add: bs list_update_append nth_append)
    have "le_word ((le_bytes 8 ?digest)[?j := b]) \<noteq> ?digest"
    proof
      assume "le_word ((le_bytes 8 ?digest)[?j := b]) = ?digest"
      then have "le_bytes 8 (le_word ((le_bytes 8 ?digest)[?j := b]) :: u64) = le_bytes 8 ?digest" by simp
      then have "(le_bytes 8 ?digest)[?j := b] = le_bytes 8 ?digest" by (simp add: le_bytes_le_word)
      with j assms(5) nth show False by (metis length_le_bytes nth_list_update_eq)
    qed
    then show ?thesis using receive [of "fr_payload f" "(le_bytes 8 ?digest)[?j := b]"] by (simp add: upd)
  qed
qed

end
