(* ===== verification/Store.thy ===== *)
theory Store
  imports Frame
begin

section \<open>Durable stores\<close>

text \<open>
  \<^verbatim>\<open>persist/store.hpp\<close>, \<^verbatim>\<open>persist/store.cpp\<close> and \<^verbatim>\<open>persist/file_store.cpp\<close>. A file system is a map from path
  names to contents. Every call into it may fail: \<open>fails i\<close> says that the \<open>i\<close>-th call site of the function
  reports an error, in the order of the source; a failed write leaves \<open>partial\<close> in the temporary file.
\<close>

subsection \<open>The contract of a store\<close>

locale federation_store =
  fixes get :: "'s \<Rightarrow> bytes result" and put :: "bytes \<Rightarrow> 's \<Rightarrow> error_code \<times> 's"
  assumes read_written: "put payload s = (EC_Ok, s') \<Longrightarrow> get s' = Inr payload"
begin

lemma read_after_write: "fst (put payload s) = EC_Ok \<Longrightarrow> get (snd (put payload s)) = Inr payload"
  using read_written [of payload s "snd (put payload s)"] by (metis prod.collapse)

text \<open>Only the last successful write is visible.\<close>

lemma last_write_wins:
  "fst (put p s) = EC_Ok \<Longrightarrow> fst (put q (snd (put p s))) = EC_Ok \<Longrightarrow>
     get (snd (put q (snd (put p s)))) = Inr q"
  by (rule read_after_write)

end

subsection \<open>The memory store\<close>

record memory_store =
  mem_payload :: bytes
  mem_present :: bool

definition memory_read :: "memory_store \<Rightarrow> bytes result" where
  "memory_read s = (if \<not> mem_present s then Inl EC_NotFound else Inr (mem_payload s))"

definition memory_write :: "bytes \<Rightarrow> memory_store \<Rightarrow> error_code \<times> memory_store" where
  "memory_write payload s = (EC_Ok, s\<lparr>mem_payload := payload, mem_present := True\<rparr>)"

definition memory_erase :: "memory_store \<Rightarrow> error_code \<times> memory_store" where
  "memory_erase s = (EC_Ok, s\<lparr>mem_payload := [], mem_present := False\<rparr>)"

interpretation memory_store: federation_store memory_read memory_write
  by unfold_locales (auto simp: memory_read_def memory_write_def)

subsection \<open>The container format\<close>

definition store_magic :: bytes where
  "store_magic = map byte_of_char ''HAFSTR01''"

definition footer_magic :: bytes where
  "footer_magic = map byte_of_char ''HAFEND01''"

definition max_store_payload :: nat where
  "max_store_payload = 512 * 1024 * 1024"

definition header_crc :: "bytes \<Rightarrow> u64" where
  "header_crc header = fnv_update fnv_offset (take 56 header)"

definition container_header :: "bytes \<Rightarrow> bytes" where
  "container_header payload = store_magic @ le_bytes 4 (1 :: u32) @ le_bytes 4 (0 :: u32) @
     le_bytes 8 (of_nat (length payload) :: u64) @ sha_hash payload"

definition file_container :: "bytes \<Rightarrow> bytes" where
  "file_container payload = container_header payload @ le_bytes 8 (header_crc (container_header payload)) @
     payload @ footer_magic @ le_bytes 8 (of_nat (length payload) :: u64)"

definition read_container :: "bytes \<Rightarrow> bytes result" where
  "read_container bs =
     (if length bs < 64 + 16 then Inl EC_TruncatedStore
      else if length bs > max_store_payload + 64 + 16 then Inl EC_BoundsExceeded
      else if take 8 bs \<noteq> store_magic then Inl EC_CorruptStore
      else if get_u32 bs 8 \<noteq> 1 then Inl EC_UnsupportedStoreVersion
      else if get_u32 bs 12 \<noteq> 0 then Inl EC_CorruptStore
      else if get_u64 bs 56 \<noteq> header_crc bs then Inl EC_IntegrityFailure
      else let declared = get_u64 bs 16; footer = 64 + unat declared in
        if unat declared > max_store_payload then Inl EC_BoundsExceeded
        else if 64 + declared + 16 \<noteq> of_nat (length bs) then Inl EC_TruncatedStore
        else if take 8 (drop footer bs) \<noteq> footer_magic then Inl EC_TruncatedStore
        else if get_u64 bs (footer + 8) \<noteq> declared then Inl EC_TruncatedStore
        else if sha_hash (take (unat declared) (drop 64 bs)) \<noteq> take 32 (drop 24 bs) then Inl EC_IntegrityFailure
        else Inr (take (unat declared) (drop 64 bs)))"

subsection \<open>The file store\<close>

type_synonym filesystem = "string \<Rightarrow> bytes option"

definition file_write ::
    "string \<Rightarrow> (nat \<Rightarrow> bool) \<Rightarrow> bytes \<Rightarrow> bytes \<Rightarrow> filesystem \<Rightarrow> error_code \<times> filesystem" where
  "file_write path fails partial payload fs =
     (if length payload > max_store_payload then (EC_BoundsExceeded, fs)
      else if CHR ''/'' \<in> set path \<and> fails 0 then (EC_PersistenceFailure, fs)
      else
        let tmp = path @ ''.tmp''; bak = path @ ''.bak''; container = file_container payload in
        if fails 1 then (EC_PersistenceFailure, fs)
        else if fails 2 then (EC_PersistenceFailure, fs(tmp := if fails 3 then Some partial else None))
        else if \<not> fails 4 then (EC_Ok, fs(tmp := None, path := Some container))
        else
          let fs1 = fs(tmp := Some container);
              fs2 = (if fails 5 then fs1 else fs1(bak := None)) in
          if fs2 path \<noteq> None \<and> fails 6 then
            (EC_PersistenceFailure, fs2(tmp := if fails 7 then Some container else None))
          else
            let fs3 = (if fs2 path \<noteq> None then fs2(bak := fs2 path, path := None) else fs2) in
            if fails 8 then
              let fs4 = (if fails 9 \<or> fs3 bak = None then fs3 else fs3(path := fs3 bak, bak := None)) in
              (EC_PersistenceFailure, fs4(tmp := if fails 10 then Some container else None))
            else
              (EC_Ok, (if fails 11 then id else (\<lambda>f. f(bak := None))) (fs3(path := Some container, tmp := None))))"

definition file_read :: "string \<Rightarrow> (nat \<Rightarrow> bool) \<Rightarrow> filesystem \<Rightarrow> bytes result" where
  "file_read path fails fs =
     (if fails 0 then Inl EC_NotFound
      else case fs path of
        None \<Rightarrow> Inl EC_NotFound
      | Some bs \<Rightarrow>
          if fails 1 then Inl EC_PersistenceFailure
          else if length bs < 64 + 16 then Inl EC_TruncatedStore
          else if length bs > max_store_payload + 64 + 16 then Inl EC_BoundsExceeded
          else if fails 2 then Inl EC_PersistenceFailure
          else if fails 3 then Inl EC_TruncatedStore
          else read_container bs)"

definition file_erase :: "string \<Rightarrow> (nat \<Rightarrow> bool) \<Rightarrow> filesystem \<Rightarrow> error_code \<times> filesystem" where
  "file_erase path fails fs =
     (let fs1 = (if fails 0 then fs else fs(path := None));
          fs2 = (if fails 1 then fs1 else fs1(path @ ''.tmp'' := None))
      in (EC_Ok, if fails 2 then fs2 else fs2(path @ ''.bak'' := None)))"

definition file_verify :: "string \<Rightarrow> (nat \<Rightarrow> bool) \<Rightarrow> filesystem \<Rightarrow> error_code" where
  "file_verify path fails fs = result_code (file_read path fails fs)"

subsection \<open>A container is read back exactly\<close>

lemma length_store_magic [simp]: "length store_magic = 8" "length footer_magic = 8"
  by (simp_all add: store_magic_def footer_magic_def)

lemma length_container_header [simp]: "length (container_header payload) = 56"
  by (simp add: container_header_def length_sha_hash)

lemma length_file_container [simp]: "length (file_container payload) = 80 + length payload"
  by (simp add: file_container_def)

lemma unat_of_nat_payload: "n \<le> max_store_payload \<Longrightarrow> unat (of_nat n :: u64) = n"
  by (simp add: max_store_payload_def unat_of_nat take_bit_nat_eq_self)

lemma container_slices:
  "take 8 (file_container p) = store_magic" "get_u32 (file_container p) 8 = 1" "get_u32 (file_container p) 12 = 0"
  "get_u64 (file_container p) 16 = of_nat (length p)" "take 32 (drop 24 (file_container p)) = sha_hash p"
  "get_u64 (file_container p) 56 = header_crc (container_header p)" "take 56 (file_container p) = container_header p"
  "take (length p) (drop 64 (file_container p)) = p" "take 8 (drop (64 + length p) (file_container p)) = footer_magic"
  "get_u64 (file_container p) (72 + length p) = of_nat (length p)"
  by (simp_all add: file_container_def container_header_def get_u32_def get_u64_def le_word_le_bytes length_sha_hash)

lemma header_crc_container: "header_crc (file_container p) = header_crc (container_header p)"
  by (simp add: header_crc_def container_slices)

lemma read_file_container: "length p \<le> max_store_payload \<Longrightarrow> read_container (file_container p) = Inr p"
  by (simp add: read_container_def container_slices header_crc_container unat_of_nat_payload Let_def)

text \<open>Conversely a file that is accepted is the container of its payload, byte for byte.\<close>

lemma read_container_exact:
  assumes "read_container bs = Inr p"
  shows "bs = file_container p" "length p \<le> max_store_payload"
proof -
  define n where "n = unat (get_u64 bs 16)"
  have len: "80 \<le> length bs" "length bs \<le> max_store_payload + 80"
    and magic: "take 8 (drop 0 bs) = store_magic" and version: "get_u32 bs 8 = 1" and reserved: "get_u32 bs 12 = 0"
    and crc: "get_u64 bs 56 = header_crc bs" and bound: "n \<le> max_store_payload"
    and size: "64 + get_u64 bs 16 + 16 = of_nat (length bs)"
    and footer: "take 8 (drop (64 + n) bs) = footer_magic" and again: "get_u64 bs (72 + n) = get_u64 bs 16"
    and digest: "sha_hash p = take 32 (drop 24 bs)" and p: "p = take n (drop 64 bs)"
    using assms by (auto simp: read_container_def Let_def n_def add.commute split: if_splits)
  have "unat (64 + get_u64 bs 16 + 16) = n + 80"
    using bound by (simp add: n_def max_store_payload_def unat_word_ariths)
  moreover have "unat (of_nat (length bs) :: u64) = length bs"
    using len by (simp add: max_store_payload_def unat_of_nat take_bit_nat_eq_self)
  ultimately have total: "length bs = n + 80" using size by simp
  then have lp: "length p = n" by (simp add: p)
  have n64: "of_nat n = get_u64 bs 16" by (simp add: n_def)
  have b8: "le_bytes 8 (get_u64 bs i) = take 8 (drop i bs)" if "i + 8 \<le> length bs" for i
    using that by (simp add: get_u64_def le_bytes_slice)
  have b4: "le_bytes 4 (get_u32 bs i) = take 4 (drop i bs)" if "i + 4 \<le> length bs" for i
    using that by (simp add: get_u32_def le_bytes_slice)
  have header: "container_header p = take 56 bs"
  proof -
    have "container_header p = take 8 (drop 0 bs) @ take 4 (drop 8 bs) @ take 4 (drop 12 bs) @
        take 8 (drop 16 bs) @ take 32 (drop 24 bs)"
      using b4 [of 8] b4 [of 12] b8 [of 16] total magic
      by (simp add: container_header_def digest lp n64 version reserved)
    also have "\<dots> = take 56 (drop 0 bs)"
      using take_drop_split [of 8 48 0 bs] take_drop_split [of 4 44 8 bs] take_drop_split [of 4 40 12 bs]
        take_drop_split [of 8 32 16 bs] by simp
    finally show ?thesis by simp
  qed
  have "header_crc (container_header p) = get_u64 bs 56" unfolding header crc by (simp add: header_crc_def)
  then have crc8: "le_bytes 8 (header_crc (container_header p)) = take 8 (drop 56 bs)"
    using b8 [of 56] total by simp
  have foot8: "le_bytes 8 (of_nat (length p) :: u64) = take 8 (drop (72 + n) bs)"
    using b8 [of "72 + n"] total by (simp add: lp n64 again)
  have "file_container p = take 56 (drop 0 bs) @ take 8 (drop 56 bs) @ take n (drop 64 bs) @ take 8 (drop (64 + n) bs) @
      take 8 (drop (72 + n) bs)"
    unfolding file_container_def crc8 foot8 unfolding header using p by (simp add: footer)
  also have "\<dots> = take (n + 80) (drop 0 bs)"
    using take_drop_split [of 56 "n + 24" 0 bs] take_drop_split [of 8 "n + 16" 56 bs] take_drop_split [of n 16 64 bs]
      take_drop_split [of 8 8 "64 + n" bs] by (simp add: add.commute)
  finally show "bs = file_container p" using total by simp
  show "length p \<le> max_store_payload" using lp bound by simp
qed

subsection \<open>Atomic replacement\<close>

lemma path_suffix [simp]: "path \<noteq> path @ ''.tmp''" "path \<noteq> path @ ''.bak''" "path @ ''.tmp'' \<noteq> path @ ''.bak''"
  "path @ ''.tmp'' \<noteq> path" "path @ ''.bak'' \<noteq> path" "path @ ''.bak'' \<noteq> path @ ''.tmp''"
  by simp_all

lemma file_write_published:
  assumes "file_write path fails partial payload fs = (EC_Ok, fs')"
  shows "fs' path = Some (file_container payload)" "length payload \<le> max_store_payload"
  using assms by (auto simp: file_write_def Let_def split: if_splits)

text \<open>A failed write leaves the store file as it was, with two exceptions, both after two failed renames: when
  putting the backup back fails as well, the previous content survives only in the backup; and when there was
  no store file but a stale backup that could not be removed, that backup becomes the store file.\<close>

lemma file_write_failed:
  assumes "file_write path fails partial payload fs = (e, fs')" "e \<noteq> EC_Ok"
  shows "fs' path = fs path \<or>
    fails 4 \<and> fails 8 \<and> fails 9 \<and> fs' path = None \<and> fs' (path @ ''.bak'') = fs path \<or>
    fails 4 \<and> fails 5 \<and> fails 8 \<and> fs path = None \<and> fs' path = fs (path @ ''.bak'')"
  using assms by (auto simp: file_write_def Let_def split: if_splits)

interpretation file_store: federation_store "file_read path (\<lambda>_. False)" "file_write path fails partial"
  for path fails partial
proof
  fix payload fs fs'
  assume w: "file_write path fails partial payload fs = (EC_Ok, fs')"
  from file_write_published [OF w] show "file_read path (\<lambda>_. False) fs' = Inr payload"
    by (simp add: file_read_def read_file_container)
qed

end
