(* ===== verification/Ordered_Map.thy ===== *)
theory Ordered_Map
  imports Prelude
begin

section \<open>Ordered maps\<close>

text \<open>
  \<^verbatim>\<open>std::map\<close>: an association list in ascending order of its keys, which is the order of iteration.
  \<open>om_put\<close> is assignment through \<^verbatim>\<open>operator[]\<close>, \<open>om_emplace\<close> inserts only when the key is absent.
\<close>

type_synonym ('k, 'v) omap = "('k \<times> 'v) list"

definition om_find :: "'k \<Rightarrow> ('k, 'v) omap \<Rightarrow> 'v option" where
  "om_find k m = map_of m k"

fun om_put :: "'k :: linorder \<Rightarrow> 'v \<Rightarrow> ('k, 'v) omap \<Rightarrow> ('k, 'v) omap" where
  "om_put k v [] = [(k, v)]"
| "om_put k v ((l, w) # m) =
     (if k < l then (k, v) # (l, w) # m else if k = l then (k, v) # m else (l, w) # om_put k v m)"

definition om_emplace :: "'k :: linorder \<Rightarrow> 'v \<Rightarrow> ('k, 'v) omap \<Rightarrow> ('k, 'v) omap" where
  "om_emplace k v m = (if om_find k m = None then om_put k v m else m)"

definition om_erase :: "'k \<Rightarrow> ('k, 'v) omap \<Rightarrow> ('k, 'v) omap" where
  "om_erase k m = filter (\<lambda>e. fst e \<noteq> k) m"

definition om_map :: "('v \<Rightarrow> 'w) \<Rightarrow> ('k, 'v) omap \<Rightarrow> ('k, 'w) omap" where
  "om_map f m = map (\<lambda>(k, v). (k, f v)) m"

definition om_wf :: "('k :: linorder, 'v) omap \<Rightarrow> bool" where
  "om_wf m \<longleftrightarrow> sorted_wrt (<) (map fst m)"

subsection \<open>The contract of a table\<close>

text \<open>What the clients of a map rely on: an invariant, a lookup and an update.\<close>

locale keyed_table =
  fixes wf :: "'m \<Rightarrow> bool" and find :: "'k \<Rightarrow> 'm \<Rightarrow> 'v option" and put :: "'k \<Rightarrow> 'v \<Rightarrow> 'm \<Rightarrow> 'm"
  assumes wf_put: "wf m \<Longrightarrow> wf (put k v m)"
    and find_put: "find l (put k v m) = (if l = k then Some v else find l m)"
begin

text \<open>\<open>holds P m\<close>: every entry of the table satisfies \<open>P\<close>.\<close>

definition holds :: "('k \<Rightarrow> 'v \<Rightarrow> bool) \<Rightarrow> 'm \<Rightarrow> bool" where
  "holds P m \<longleftrightarrow> (\<forall>k v. find k m = Some v \<longrightarrow> P k v)"

lemma holds_put: "holds P m \<Longrightarrow> P k v \<Longrightarrow> holds P (put k v m)"
  by (simp add: holds_def find_put)

lemma holdsD: "holds P m \<Longrightarrow> find k m = Some v \<Longrightarrow> P k v"
  by (simp add: holds_def)

text \<open>\<open>evolves R m m'\<close>: every entry that was in the table is still there, changed along \<open>R\<close> at most.\<close>

definition evolves :: "('v \<Rightarrow> 'v \<Rightarrow> bool) \<Rightarrow> 'm \<Rightarrow> 'm \<Rightarrow> bool" where
  "evolves R m m' \<longleftrightarrow> (\<forall>k v. find k m = Some v \<longrightarrow> (\<exists>w. find k m' = Some w \<and> R v w))"

lemma evolves_refl: "(\<And>v. R v v) \<Longrightarrow> evolves R m m"
  by (simp add: evolves_def)

lemma evolves_put: "(\<And>v. R v v) \<Longrightarrow> (\<And>w. find k m = Some w \<Longrightarrow> R w v) \<Longrightarrow> evolves R m (put k v m)"
  by (auto simp: evolves_def find_put)

lemma evolves_trans:
  "evolves R m m' \<Longrightarrow> evolves S m' m'' \<Longrightarrow> (\<And>u v w. R u v \<Longrightarrow> S v w \<Longrightarrow> T u w) \<Longrightarrow> evolves T m m''"
  by (fastforce simp: evolves_def)

end

lemma om_find_put: "om_find l (om_put k v m) = (if l = k then Some v else om_find l m)"
  by (induction k v m rule: om_put.induct) (auto simp: om_find_def)

lemma set_keys_put: "set (map fst (om_put k v m)) = insert k (set (map fst m))"
  by (induction k v m rule: om_put.induct) auto

lemma om_wf_put: "om_wf m \<Longrightarrow> om_wf (om_put k v m)"
proof (induction k v m rule: om_put.induct)
  case (2 k v l w m)
  then have "om_wf m" "\<forall>x \<in> set (map fst m). l < x" by (auto simp: om_wf_def)
  with 2 show ?case using set_keys_put [of k v m] by (auto simp: om_wf_def)
qed (simp add: om_wf_def)

interpretation om: keyed_table om_wf om_find om_put
  by unfold_locales (simp_all add: om_wf_put om_find_put)

lemma om_wf_Nil [simp]: "om_wf []"
  by (simp add: om_wf_def)

lemma om_find_Nil [simp]: "om_find k [] = None"
  by (simp add: om_find_def)

lemma om_find_emplace: "om_find l (om_emplace k v m) = (if l = k \<and> om_find k m = None then Some v else om_find l m)"
  by (auto simp: om_emplace_def om_find_put)

lemma om_wf_emplace: "om_wf m \<Longrightarrow> om_wf (om_emplace k v m)"
  by (simp add: om_emplace_def om_wf_put)

lemma om_find_erase: "om_find l (om_erase k m) = (if l = k then None else om_find l m)"
  by (induction m) (auto simp: om_find_def om_erase_def)

lemma om_wf_erase: "om_wf m \<Longrightarrow> om_wf (om_erase k m)"
  unfolding om_wf_def om_erase_def by (induction m) auto

lemma om_find_map: "om_find k (om_map f m) = map_option f (om_find k m)"
  by (induction m) (auto simp: om_find_def om_map_def)

lemma keys_map [simp]: "map fst (om_map f m) = map fst m"
  by (induction m) (auto simp: om_map_def)

lemma om_wf_map [simp]: "om_wf (om_map f m) = om_wf m"
  by (simp add: om_wf_def)

lemma om_find_mem: "om_wf m \<Longrightarrow> om_find k m = Some v \<longleftrightarrow> (k, v) \<in> set m"
  by (auto simp: om_find_def om_wf_def strict_sorted_iff map_of_eq_Some_iff dest: map_of_SomeD)

lemma om_find_SomeD: "om_find k m = Some v \<Longrightarrow> (k, v) \<in> set m"
  by (simp add: om_find_def map_of_SomeD)

lemma holds_emplace: "om.holds P m \<Longrightarrow> P k v \<Longrightarrow> om.holds P (om_emplace k v m)"
  by (simp add: om_emplace_def om.holds_put)

lemma holds_erase: "om.holds P m \<Longrightarrow> om.holds P (om_erase k m)"
  by (simp add: om.holds_def om_find_erase)

lemma holds_map: "om.holds (\<lambda>k v. P k (f v)) m \<Longrightarrow> om.holds P (om_map f m)"
  by (auto simp: om.holds_def om_find_map)

lemma holds_mono: "om.holds P m \<Longrightarrow> (\<And>k v. P k v \<Longrightarrow> Q k v) \<Longrightarrow> om.holds Q m"
  by (simp add: om.holds_def)

lemma om_put_values:
  "x \<in> snd ` set (om_put k v m) \<Longrightarrow> x = v \<or> x \<in> snd ` set m" "v \<in> snd ` set (om_put k v m)"
  "length (om_put k v m) \<le> Suc (length m)"
  by (induction k v m rule: om_put.induct) (force split: if_splits)+

end
