(* ===== verification/Snapshot.thy ===== *)
theory Snapshot
  imports Migration Policy
begin

section \<open>Snapshots\<close>

text \<open>
  \<^verbatim>\<open>federation/snapshot.hpp\<close> and \<^verbatim>\<open>federation/snapshot.cpp\<close>: the canonical durable form of a federation,
  its digest and its codec.
\<close>

record federation_snapshot =
  sn_federation :: federation_id
  sn_generation :: generation
  sn_epoch :: generation
  sn_name :: string
  sn_policy :: policy_id
  sn_policy_generation :: generation
  sn_policy_data :: federation_policy
  sn_members :: "member_record list"
  sn_descriptors :: "accelerator_descriptor list"
  sn_workloads :: "workload_profile list"
  sn_decisions :: "compatibility_decision list"
  sn_plans :: "migration_plan list"
  sn_created_at :: int

definition sn_canonicalize :: "federation_snapshot \<Rightarrow> federation_snapshot" where
  "sn_canonicalize s = s\<lparr>
     sn_members := sort_by (\<lambda>a b. mr_accelerator a < mr_accelerator b) (sn_members s),
     sn_descriptors := sort_by (\<lambda>a b. ad_id a < ad_id b) (sn_descriptors s),
     sn_workloads := sort_by (\<lambda>a b. wp_class_id a < wp_class_id b) (sn_workloads s),
     sn_decisions := sort_by (\<lambda>a b. cd_decision_id a < cd_decision_id b) (sn_decisions s),
     sn_plans := sort_by (\<lambda>a b. mp_id a < mp_id b) (sn_plans s)\<rparr>"

definition find_member :: "federation_snapshot \<Rightarrow> accelerator_id \<Rightarrow> member_record option" where
  "find_member s i =
     (let k = lower_bound (\<lambda>r. mr_accelerator r < i) (sn_members s) in
      if k < length (sn_members s) \<and> mr_accelerator (sn_members s ! k) = i then Some (sn_members s ! k) else None)"

definition find_descriptor :: "federation_snapshot \<Rightarrow> accelerator_id \<Rightarrow> accelerator_descriptor option" where
  "find_descriptor s i =
     (let k = lower_bound (\<lambda>d. ad_id d < i) (sn_descriptors s) in
      if k < length (sn_descriptors s) \<and> ad_id (sn_descriptors s ! k) = i then Some (sn_descriptors s ! k) else None)"

definition find_workload :: "federation_snapshot \<Rightarrow> workload_class_id \<Rightarrow> workload_profile option" where
  "find_workload s i =
     (let k = lower_bound (\<lambda>w. wp_class_id w < i) (sn_workloads s) in
      if k < length (sn_workloads s) \<and> wp_class_id (sn_workloads s ! k) = i then Some (sn_workloads s ! k) else None)"

definition sn_digest :: "federation_snapshot \<Rightarrow> bytes" where
  "sn_digest s = sha_hash (concat [
     w_string ''haf.snapshot.v1'', w_id128 (sn_federation s), w_generation (sn_generation s),
     w_generation (sn_epoch s), w_string (sn_name s), w_id128 (sn_policy s), w_generation (sn_policy_generation s),
     w_list mr_serialize (sn_members s),
     w_list (\<lambda>d. structural_digest d @ cs_serialize (ad_capabilities d)) (sn_descriptors s),
     w_list wp_digest (sn_workloads s), w_list cd_fingerprint (sn_decisions s), w_list mp_fingerprint (sn_plans s)])"

definition encode_snapshot :: "federation_snapshot \<Rightarrow> bytes" where
  "encode_snapshot s = concat [
     w_u32 1, w_u32 0, w_string ''haf-federation'', w_id128 (sn_federation s), w_generation (sn_generation s),
     w_generation (sn_epoch s), w_string (sn_name s), w_id128 (sn_policy s), w_generation (sn_policy_generation s),
     pl_serialize (sn_policy_data s), w_list mr_serialize (sn_members s), w_list ad_serialize (sn_descriptors s),
     w_list wp_serialize (sn_workloads s), w_list cd_serialize (sn_decisions s), w_list mp_serialize (sn_plans s),
     w_i64 (sn_created_at s), sn_digest s]"

text \<open>The reads of the decoder; the second component is the stored digest.\<close>

definition read_snapshot :: "(federation_snapshot \<times> bytes) rd" where
  "read_snapshot =
     rbind r_u32 (\<lambda>format_version. rbind r_u32 (\<lambda>reserved. rbind (r_string 256) (\<lambda>domain.
     rguard (format_version = 1) EC_UnsupportedStoreVersion
     (rguard (reserved = 0) EC_CorruptStore
     (rguard (domain = ''haf-federation'') EC_CorruptStore
     (rbind r_id128 (\<lambda>federation. rbind r_generation (\<lambda>generation. rbind r_generation (\<lambda>epoch.
     rbind (r_string 256) (\<lambda>name. rbind r_id128 (\<lambda>policy. rbind r_generation (\<lambda>policy_generation.
     rbind pl_deserialize (\<lambda>policy_data. rbind (r_list 1000000 8 mr_deserialize) (\<lambda>members.
     rbind (r_list 1000000 8 (ad_deserialize True)) (\<lambda>descriptors.
     rbind (r_list 1000000 8 wp_deserialize) (\<lambda>workloads.
     rbind (r_list 1000000 8 (cd_deserialize True)) (\<lambda>decisions.
     rbind (r_list 1000000 8 mp_deserialize) (\<lambda>plans. rbind r_i64 (\<lambda>created_at. rbind (r_raw 32) (\<lambda>digest.
       rret (\<lparr>sn_federation = federation, sn_generation = generation, sn_epoch = epoch, sn_name = name,
              sn_policy = policy, sn_policy_generation = policy_generation, sn_policy_data = policy_data,
              sn_members = members, sn_descriptors = descriptors, sn_workloads = workloads,
              sn_decisions = decisions, sn_plans = plans, sn_created_at = created_at\<rparr>, digest)))))))))))))))))))))"

definition decode_snapshot :: "bytes \<Rightarrow> federation_snapshot result" where
  "decode_snapshot payload =
     (if length payload > 512 * 1024 * 1024 then Inl EC_BoundsExceeded
      else case read_snapshot (rd_init payload) of
        (None, r) \<Rightarrow> Inl (rd_error r)
      | (Some (raw, stored), r) \<Rightarrow>
          if rd_remaining r \<noteq> 0 then Inl EC_CorruptStore
          else let s = sn_canonicalize raw in
            if sn_digest s \<noteq> stored then Inl EC_IntegrityFailure
            else if sn_policy s \<noteq> pl_id (sn_policy_data s) then Inl EC_IntegrityFailure
            else if is_nil (sn_federation s) then Inl EC_CorruptStore
            else Inr s)"

subsection \<open>Order and lookup\<close>

interpretation member_order: comparator "\<lambda>a b. mr_accelerator a < mr_accelerator b" mr_accelerator
  by unfold_locales simp

interpretation descriptor_order: comparator "\<lambda>a b. ad_id a < ad_id b" ad_id
  by unfold_locales simp

interpretation workload_order: comparator "\<lambda>a b. wp_class_id a < wp_class_id b" wp_class_id
  by unfold_locales simp

interpretation decision_order: comparator "\<lambda>a b. cd_decision_id a < cd_decision_id b" cd_decision_id
  by unfold_locales simp

interpretation plan_order: comparator "\<lambda>a b. mp_id a < mp_id b" mp_id
  by unfold_locales simp

definition sn_sorted :: "federation_snapshot \<Rightarrow> bool" where
  "sn_sorted s \<longleftrightarrow> sorted (map mr_accelerator (sn_members s)) \<and> sorted (map ad_id (sn_descriptors s)) \<and>
     sorted (map wp_class_id (sn_workloads s)) \<and> sorted (map cd_decision_id (sn_decisions s)) \<and>
     sorted (map mp_id (sn_plans s))"

lemma sn_canonicalize_sorted: "sn_sorted (sn_canonicalize s)"
  by (simp add: sn_sorted_def sn_canonicalize_def member_order.sorted_sort_by descriptor_order.sorted_sort_by
      workload_order.sorted_sort_by decision_order.sorted_sort_by plan_order.sorted_sort_by)

lemma sn_canonicalize_id: "sn_sorted s \<Longrightarrow> sn_canonicalize s = s"
  by (simp add: sn_sorted_def sn_canonicalize_def member_order.sort_by_sorted descriptor_order.sort_by_sorted
      workload_order.sort_by_sorted decision_order.sort_by_sorted plan_order.sort_by_sorted)

lemma find_descriptor_Some: "find_descriptor s i = Some d \<Longrightarrow> d \<in> set (sn_descriptors s) \<and> ad_id d = i"
  by (auto simp: find_descriptor_def Let_def split: if_splits) (metis nth_mem)

subsection \<open>Round trip\<close>

definition sn_ok :: "federation_snapshot \<Rightarrow> bool" where
  "sn_ok s \<longleftrightarrow> sn_sorted s \<and> \<not> is_nil (sn_federation s) \<and> length (sn_name s) \<le> 256 \<and>
     sn_policy s = pl_id (sn_policy_data s) \<and> pl_ok (sn_policy_data s) \<and>
     list_all mr_ok (sn_members s) \<and> length (sn_members s) \<le> 1000000 \<and>
     list_all (ad_ok True) (sn_descriptors s) \<and> length (sn_descriptors s) \<le> 1000000 \<and>
     list_all wp_ok (sn_workloads s) \<and> length (sn_workloads s) \<le> 1000000 \<and>
     list_all (cd_ok True) (sn_decisions s) \<and> length (sn_decisions s) \<le> 1000000 \<and>
     list_all mp_ok (sn_plans s) \<and> length (sn_plans s) \<le> 1000000 \<and>
     - (2 ^ 63) \<le> sn_created_at s \<and> sn_created_at s < 2 ^ 63"

text \<open>What a snapshot becomes on the wire: the version range of the policy is normalised, and the descriptors
  lose what their encoding does not carry.\<close>

definition sn_wire :: "federation_snapshot \<Rightarrow> federation_snapshot" where
  "sn_wire s = s\<lparr>sn_descriptors := map ad_wire (sn_descriptors s), sn_policy_data := pl_wire (sn_policy_data s)\<rparr>"

lemma serialize_lengths:
  "8 \<le> length (mr_serialize r)" "8 \<le> length (ad_serialize d)" "8 \<le> length (wp_serialize w)"
  "8 \<le> length (cd_serialize c)" "8 \<le> length (mp_serialize p)"
  by (simp_all add: mr_serialize_def ad_serialize_def ad_identity_fields_def wp_serialize_def cd_serialize_def
      mp_serialize_def length_w_id128)

lemma length_sn_digest: "length (sn_digest s) = 32"
  by (simp add: sn_digest_def length_sha_hash)

lemma reads_descriptors:
  assumes "list_all (ad_ok True) ds" "length ds \<le> 1000000"
  shows "reads (r_list 1000000 8 (ad_deserialize True)) (w_list ad_serialize ds) (map ad_wire ds)"
proof -
  have "reads (r_list 1000000 8 (ad_deserialize True)) (w_list ad_serialize (map ad_wire ds)) (map ad_wire ds)"
    using assms by (intro reads_list) (auto simp: list_all_iff serialize_lengths intro: reads_ad_exact)
  then show ?thesis by (simp add: w_list_map)
qed

lemma reads_snapshot: "sn_ok s \<Longrightarrow> reads read_snapshot (encode_snapshot s) (sn_wire s, sn_digest s)"
proof -
  assume ok: "sn_ok s"
  show ?thesis
    unfolding read_snapshot_def encode_snapshot_def
    apply (rule reads_chain)+
    apply (simp only: rguard_def if_True simp_thms)
    apply (rule reads_chain reads_Cons [OF reads_descriptors, rotated 2] reads_chain_list reads_Cons [OF reads_pl, rotated])+
    subgoal by (cases s) (simp add: sn_wire_def reads_rret)
    using ok
    by (auto simp: sn_ok_def list_all_iff serialize_lengths length_sn_digest
        intro: reads_mr reads_wp reads_cd reads_mp)
qed

lemma sn_digest_wire: "sn_digest (sn_wire s) = sn_digest s"
  by (simp add: sn_digest_def sn_wire_def w_list_map)

lemma decode_encode_snapshot:
  assumes "sn_ok s" "length (encode_snapshot s) \<le> 512 * 1024 * 1024"
  shows "decode_snapshot (encode_snapshot s) = Inr (sn_wire s)"
proof -
  have "sn_canonicalize (sn_wire s) = sn_wire s"
    using assms(1) by (intro sn_canonicalize_id) (simp add: sn_ok_def sn_sorted_def sn_wire_def comp_def)
  with assms show ?thesis
    by (simp add: decode_snapshot_def reads_init [OF reads_snapshot [OF assms(1)]] rd_remaining_at sn_digest_wire)
       (simp add: sn_ok_def sn_wire_def)
qed

text \<open>What every accepted snapshot satisfies, whatever bytes it came from.\<close>

lemma decode_snapshot_sound:
  assumes "decode_snapshot payload = Inr s"
  shows "sn_sorted s" "\<not> is_nil (sn_federation s)" "sn_policy s = pl_id (sn_policy_data s)"
  using assms sn_canonicalize_sorted
  by (auto simp: decode_snapshot_def Let_def split: if_splits option.splits prod.splits)

text \<open>A snapshot with a plan that cannot be read.\<close>

lemma snapshot_plan_refused:
  assumes ok: "sn_ok (s\<lparr>sn_plans := []\<rparr>)" and count: "length (sn_plans s) \<le> 1000000"
    and p: "p \<in> set (sn_plans s)" "refuses mp_deserialize (mp_serialize p) e"
    and others: "\<And>x. x \<in> set (sn_plans s) \<Longrightarrow> x \<noteq> p \<Longrightarrow> mp_ok x"
  shows "refuses read_snapshot (encode_snapshot s) e"
proof -
  from first_unreadable [OF p(1), of mp_ok] others obtain xs zs where
    ps: "sn_plans s = xs @ p # zs" "\<And>x. x \<in> set xs \<Longrightarrow> mp_ok x" by blast
  have plans: "refuses (r_list 1000000 8 mp_deserialize) (w_list mp_serialize (sn_plans s)) e"
    unfolding ps(1) using count ps p(2)
    by (intro refuses_list [where v = "\<lambda>x. x"]) (auto intro: reads_mp simp: serialize_lengths)
  have parts: "reads (r_list 1000000 8 mr_deserialize) (w_list mr_serialize (sn_members s)) (sn_members s)"
    "reads (r_list 1000000 8 (ad_deserialize True)) (w_list ad_serialize (sn_descriptors s)) (map ad_wire (sn_descriptors s))"
    "reads (r_list 1000000 8 wp_deserialize) (w_list wp_serialize (sn_workloads s)) (sn_workloads s)"
    "reads (r_list 1000000 8 (cd_deserialize True)) (w_list cd_serialize (sn_decisions s)) (sn_decisions s)"
    "reads pl_deserialize (pl_serialize (sn_policy_data s)) (pl_wire (sn_policy_data s))"
    "reads (r_string 256) (w_string (sn_name s)) (sn_name s)"
    "reads (r_string 256) (w_string ''haf-federation'') ''haf-federation''"
    using ok by (auto simp: sn_ok_def list_all_iff serialize_lengths
        intro!: reads_list reads_descriptors intro: reads_mr reads_wp reads_cd reads_pl reads_string)
  note chain = refuses_Cons [OF reads_id128] refuses_Cons [OF reads_generation] refuses_Cons [OF reads_u32]
    parts [THEN refuses_Cons] refuses_head [OF plans]
  show ?thesis
    unfolding read_snapshot_def encode_snapshot_def
    apply (rule chain)+
    apply (simp only: rguard_def if_True simp_thms)
    by (rule chain)+
qed

end
