(* ===== verification/Federation.thy ===== *)
theory Federation
  imports Ordered_Map Snapshot Evaluate Planner Ranking Store
begin

section \<open>The federation\<close>

text \<open>
  \<^verbatim>\<open>federation/authority.hpp\<close>, \<^verbatim>\<open>federation/authority.cpp\<close> and \<^verbatim>\<open>federation/federation.cpp\<close>: the coordinator state
  and its operations. Every operation is a function from the state to a result and a new state. The
  operations of the store are the parameter \<open>put\<close> (and \<open>get\<close> for recovery), over the store's state
  \<^typ>\<open>'s\<close>. \<open>clock\<close> gives the readings of the wall clock that a call stores, in the order of their indexes,
  and \<open>steady\<close> the readings of the monotonic clock. Each call runs under the exclusive lock (mutations) or the shared lock (queries), so
  interleavings of calls are sequences of these functions. The events sent to the sink, with the
  identities drawn for them, are not modelled: no operation reads them.
\<close>

subsection \<open>Authority claims\<close>

record authority_claim =
  ac_federation_generation :: generation
  ac_epoch :: generation
  ac_check_federation_generation :: bool
  ac_check_epoch :: bool
  ac_check_agent :: bool
  ac_agent :: agent_id
  ac_check_agent_boot :: bool
  ac_agent_boot :: agent_boot_id
  ac_check_device_generation :: bool
  ac_device_generation :: generation
  ac_check_capability_generation :: bool
  ac_capability_generation :: generation
  ac_check_policy_generation :: bool
  ac_policy_generation :: generation
  ac_check_workload_revision :: bool
  ac_workload_revision :: generation
  ac_purpose :: string

definition default_claim :: authority_claim where
  "default_claim = \<lparr>ac_federation_generation = 0, ac_epoch = 0, ac_check_federation_generation = False,
     ac_check_epoch = True, ac_check_agent = False, ac_agent = nil_id, ac_check_agent_boot = False,
     ac_agent_boot = nil_id, ac_check_device_generation = False, ac_device_generation = 0,
     ac_check_capability_generation = False, ac_capability_generation = 0, ac_check_policy_generation = False,
     ac_policy_generation = 0, ac_check_workload_revision = False, ac_workload_revision = 0, ac_purpose = []\<rparr>"

definition epoch_only_claim :: "generation \<Rightarrow> string \<Rightarrow> authority_claim" where
  "epoch_only_claim epoch purpose = default_claim\<lparr>ac_check_epoch := True, ac_epoch := epoch, ac_purpose := purpose\<rparr>"

definition agent_claim ::
    "generation \<Rightarrow> generation \<Rightarrow> agent_id \<Rightarrow> agent_boot_id \<Rightarrow> generation \<Rightarrow> generation \<Rightarrow> generation \<Rightarrow> string \<Rightarrow>
     authority_claim" where
  "agent_claim generation epoch agent boot device_generation capability_generation policy_generation purpose =
     default_claim\<lparr>ac_check_federation_generation := True, ac_federation_generation := generation,
       ac_check_epoch := True, ac_epoch := epoch, ac_check_agent := True, ac_agent := agent,
       ac_check_agent_boot := True, ac_agent_boot := boot, ac_check_device_generation := True,
       ac_device_generation := device_generation, ac_check_capability_generation := True,
       ac_capability_generation := capability_generation, ac_check_policy_generation := True,
       ac_policy_generation := policy_generation, ac_purpose := purpose\<rparr>"

subsection \<open>State\<close>

record member_entry =
  en_record :: member_record
  en_descriptor :: accelerator_descriptor

record recovery_report =
  rp_recovered :: bool
  rp_previous_epoch :: generation
  rp_new_epoch :: generation
  rp_new_generation :: generation
  rp_members_restored :: nat
  rp_members_requiring_revalidation :: nat
  rp_decisions_invalidated :: nat
  rp_plans_aborted :: nat
  rp_retired_members :: nat
  rp_detail :: string

definition empty_report :: recovery_report where
  "empty_report = \<lparr>rp_recovered = False, rp_previous_epoch = 0, rp_new_epoch = 0, rp_new_generation = 0,
     rp_members_restored = 0, rp_members_requiring_revalidation = 0, rp_decisions_invalidated = 0,
     rp_plans_aborted = 0, rp_retired_members = 0, rp_detail = []\<rparr>"

record 's federation =
  fd_id :: federation_id
  fd_name :: string
  fd_generation :: generation
  fd_epoch :: generation
  fd_policy :: federation_policy
  fd_shutdown :: bool
  fd_persist_enabled :: bool
  fd_persist_on_mutation :: bool
  fd_force_persist :: bool
  fd_max_recorded_decisions :: nat
  fd_members :: "(accelerator_id, member_entry) omap"
  fd_physical_index :: "(physical_device_id, accelerator_id list) omap"
  fd_workloads :: "(workload_class_id, workload_profile) omap"
  fd_decisions :: "(decision_id, compatibility_decision) omap"
  fd_plans :: "(migration_plan_id, migration_plan) omap"
  fd_store :: 's
  fd_recovery :: recovery_report

record federation_config =
  cf_id :: federation_id
  cf_name :: string
  cf_policy :: federation_policy
  cf_persist :: bool
  cf_persist_on_mutation :: bool
  cf_max_recorded_decisions :: nat

text \<open>The constructor; \<open>fresh\<close> is the identity the generator draws and \<open>store\<close> the store it creates.\<close>

definition fd_create :: "federation_config \<Rightarrow> federation_id \<Rightarrow> 's \<Rightarrow> 's federation" where
  "fd_create cf fresh store =
     \<lparr>fd_id = (if is_nil (cf_id cf) then fresh else cf_id cf), fd_name = cf_name cf, fd_generation = 1, fd_epoch = 1,
      fd_policy = (if is_nil (pl_id (cf_policy cf)) then permissive_default else cf_policy cf),
      fd_shutdown = False, fd_persist_enabled = cf_persist cf, fd_persist_on_mutation = cf_persist_on_mutation cf,
      fd_force_persist = False,
      fd_max_recorded_decisions = (if cf_max_recorded_decisions cf = 0 then 1 else cf_max_recorded_decisions cf),
      fd_members = [], fd_physical_index = [], fd_workloads = [], fd_decisions = [], fd_plans = [],
      fd_store = store, fd_recovery = empty_report\<rparr>"

definition holds_competing_authority :: "member_state \<Rightarrow> bool" where
  "holds_competing_authority s \<longleftrightarrow> s = MS_Admitted \<or> s = MS_Active \<or> s = MS_Draining"

definition transition_text :: "member_state \<Rightarrow> member_state \<Rightarrow> string" where
  "transition_text s t = member_state_to_string s @ ''->'' @ member_state_to_string t"

text \<open>Appending to the history of a member: sort, then cut to 64 entries.\<close>

definition push_history :: "string \<Rightarrow> member_record \<Rightarrow> member_record" where
  "push_history line r =
     (let h = std_sort (mr_history r @ [line]) in r\<lparr>mr_history := (if length h > 64 then take 64 h else h)\<rparr>)"

subsection \<open>Snapshot and persistence\<close>

definition snapshot_locked :: "int \<Rightarrow> 's federation \<Rightarrow> federation_snapshot" where
  "snapshot_locked now fd = sn_canonicalize
     \<lparr>sn_federation = fd_id fd, sn_generation = fd_generation fd, sn_epoch = fd_epoch fd, sn_name = fd_name fd,
      sn_policy = pl_id (fd_policy fd), sn_policy_generation = pl_generation (fd_policy fd),
      sn_policy_data = fd_policy fd, sn_members = map (en_record \<circ> snd) (fd_members fd),
      sn_descriptors = map (en_descriptor \<circ> snd) (fd_members fd), sn_workloads = map snd (fd_workloads fd),
      sn_decisions = map snd (fd_decisions fd), sn_plans = map snd (fd_plans fd), sn_created_at = now\<rparr>"

type_synonym 's store_put = "bytes \<Rightarrow> 's \<Rightarrow> error_code \<times> 's"

definition persist_locked :: "'s store_put \<Rightarrow> int \<Rightarrow> 's federation \<Rightarrow> error_code \<times> 's federation" where
  "persist_locked put now fd =
     (if \<not> fd_persist_enabled fd then (EC_Ok, fd)
      else if \<not> fd_persist_on_mutation fd \<and> \<not> fd_force_persist fd then (EC_Ok, fd)
      else case put (encode_snapshot (snapshot_locked now fd)) (fd_store fd) of
        (code, store) \<Rightarrow> (code, fd\<lparr>fd_store := store\<rparr>))"

text \<open>The end of every mutation: the result is replaced by the status of a failed write.\<close>

definition persisted :: "'s store_put \<Rightarrow> int \<Rightarrow> 'a \<Rightarrow> 's federation \<Rightarrow> 'a result \<times> 's federation" where
  "persisted put now v fd =
     (case persist_locked put now fd of (code, fd') \<Rightarrow> (if code = EC_Ok then Inr v else Inl code, fd'))"

definition fd_persist :: "'s store_put \<Rightarrow> int \<Rightarrow> 's federation \<Rightarrow> error_code \<times> 's federation" where
  "fd_persist put now fd =
     (case persist_locked put now (fd\<lparr>fd_force_persist := True\<rparr>) of
        (code, fd') \<Rightarrow> (code, fd'\<lparr>fd_force_persist := False\<rparr>))"

definition fd_shutdown_op :: "'s store_put \<Rightarrow> int \<Rightarrow> 's federation \<Rightarrow> error_code \<times> 's federation" where
  "fd_shutdown_op put now fd =
     (if fd_shutdown fd then (EC_Ok, fd) else persist_locked put now (fd\<lparr>fd_shutdown := True\<rparr>))"

subsection \<open>Authority\<close>

definition validate_authority :: "authority_claim \<Rightarrow> 's federation \<Rightarrow> error_code" where
  "validate_authority claim fd =
     (if fd_shutdown fd then EC_ShutdownInProgress
      else if ac_check_federation_generation claim \<and> ac_federation_generation claim \<noteq> fd_generation fd
      then EC_StaleFederationGeneration
      else if ac_check_epoch claim \<and> ac_epoch claim \<noteq> fd_epoch fd then EC_StaleEpoch
      else EC_Ok)"

definition validate_member_authority :: "authority_claim \<Rightarrow> member_entry \<Rightarrow> 's federation \<Rightarrow> error_code" where
  "validate_member_authority claim entry fd =
     (let r = en_record entry in
      if validate_authority claim fd \<noteq> EC_Ok then validate_authority claim fd
      else if ac_check_agent claim \<and> ac_agent claim \<noteq> mr_agent r then EC_StaleAgent
      else if ac_check_agent_boot claim \<and> ac_agent_boot claim \<noteq> mr_agent_boot r then EC_StaleBoot
      else if ac_check_device_generation claim \<and> ac_device_generation claim \<noteq> mr_device_generation r
      then EC_StaleDeviceGeneration
      else if ac_check_capability_generation claim \<and> ac_capability_generation claim \<noteq> mr_capability_generation r
      then EC_StaleCapabilityGeneration
      else if ac_check_policy_generation claim \<and> ac_policy_generation claim \<noteq> pl_generation (fd_policy fd)
      then EC_StalePolicy
      else EC_Ok)"

subsection \<open>Membership\<close>

definition incarnations :: "physical_device_id \<Rightarrow> 's federation \<Rightarrow> accelerator_id list" where
  "incarnations device fd = (case om_find device (fd_physical_index fd) of None \<Rightarrow> [] | Some ids \<Rightarrow> ids)"

definition index_push ::
    "physical_device_id \<Rightarrow> accelerator_id \<Rightarrow> (physical_device_id, accelerator_id list) omap \<Rightarrow>
     (physical_device_id, accelerator_id list) omap" where
  "index_push device i index =
     om_put device ((case om_find device index of None \<Rightarrow> [] | Some ids \<Rightarrow> ids) @ [i]) index"

definition duplicate_live :: "accelerator_descriptor \<Rightarrow> 's federation \<Rightarrow> bool" where
  "duplicate_live d fd = list_ex (\<lambda>i. i \<noteq> ad_id d \<and>
     (case om_find i (fd_members fd) of
        None \<Rightarrow> False
      | Some e \<Rightarrow> holds_competing_authority (mr_state (en_record e)) \<and> mr_agent_boot (en_record e) \<noteq> ad_agent_boot d))
     (incarnations (ad_physical_device d) fd)"

definition retire_superseded ::
    "accelerator_descriptor \<Rightarrow> int \<Rightarrow> accelerator_id \<Rightarrow> (accelerator_id, member_entry) omap \<Rightarrow>
     (accelerator_id, member_entry) omap" where
  "retire_superseded d now i members =
     (case om_find i members of
        None \<Rightarrow> members
      | Some e \<Rightarrow>
          let r = en_record e in
          if i = ad_id d then members
          else if mr_agent r = ad_agent d \<and> \<not> is_terminal_state (mr_state r) then
            om_put i (e\<lparr>en_record := push_history (''RETIRED superseded-by '' @ id_to_hex (ad_id d))
              (r\<lparr>mr_state := MS_Retired, mr_state_generation := gen_next (mr_state_generation r),
                 mr_updated_at := now\<rparr>)\<rparr>) members
          else members)"

definition new_record :: "accelerator_descriptor \<Rightarrow> int \<Rightarrow> 's federation \<Rightarrow> member_record" where
  "new_record d now fd =
     \<lparr>mr_federation = fd_id fd, mr_federation_generation = gen_next (fd_generation fd), mr_epoch = fd_epoch fd,
      mr_agent = ad_agent d, mr_agent_boot = ad_agent_boot d, mr_agent_generation = 1, mr_accelerator = ad_id d,
      mr_physical_device = ad_physical_device d, mr_device_generation = ad_generation d,
      mr_capability_generation = cs_generation (ad_capabilities d), mr_evidence_generation = 1,
      mr_policy_generation = pl_generation (fd_policy fd), mr_state = MS_Observed, mr_state_generation = 1,
      mr_support_level = ad_support_level d, mr_provenance = ad_provenance d, mr_admitted_at = now,
      mr_updated_at = now, mr_history = std_sort [''DISCOVERED'', ''OBSERVED'']\<rparr>"

definition observe_new ::
    "(nat \<Rightarrow> int) \<Rightarrow> accelerator_descriptor \<Rightarrow> 's federation \<Rightarrow> member_record \<times> 's federation" where
  "observe_new clock d fd =
     (let ids = incarnations (ad_physical_device d) fd;
          members = fold (\<lambda>(n, i). retire_superseded d (clock n) i) (enumerate 0 ids) (fd_members fd);
          r = new_record d (clock (length ids)) fd
      in (r, fd\<lparr>fd_generation := gen_next (fd_generation fd),
                fd_physical_index := index_push (ad_physical_device d) (ad_id d) (fd_physical_index fd),
                fd_members := om_emplace (ad_id d) \<lparr>en_record = r, en_descriptor = d\<rparr> members\<rparr>))"

definition observe_refresh ::
    "int \<Rightarrow> accelerator_descriptor \<Rightarrow> member_entry \<Rightarrow> 's federation \<Rightarrow> member_record \<times> 's federation" where
  "observe_refresh now d e fd =
     (let r = en_record e; generation = gen_next (fd_generation fd);
          refreshed = r\<lparr>mr_evidence_generation := gen_next (mr_evidence_generation r),
            mr_support_level := ad_support_level d, mr_provenance := ad_provenance d,
            mr_policy_generation := pl_generation (fd_policy fd), mr_updated_at := now,
            mr_federation_generation := generation, mr_epoch := fd_epoch fd\<rparr>;
          next = gen_next (mr_capability_generation r);
          e' = (if cs_digest (ad_capabilities (en_descriptor e)) \<noteq> cs_digest (ad_capabilities d) then
                  \<lparr>en_record = push_history (''CAPABILITY_UPDATE '' @ string_of_nat (unat next))
                     (refreshed\<lparr>mr_capability_generation := next,
                        mr_state_generation := gen_next (mr_state_generation r)\<rparr>),
                   en_descriptor = d\<lparr>ad_capabilities := (ad_capabilities d)\<lparr>cs_generation := next\<rparr>\<rparr>\<rparr>
                else \<lparr>en_record = refreshed, en_descriptor = d\<rparr>)
      in (en_record e', fd\<lparr>fd_generation := generation, fd_members := om_put (ad_id d) e' (fd_members fd)\<rparr>))"

definition observe ::
    "'s store_put \<Rightarrow> (nat \<Rightarrow> int) \<Rightarrow> accelerator_descriptor \<Rightarrow> authority_claim \<Rightarrow> 's federation \<Rightarrow>
     member_record result \<times> 's federation" where
  "observe put clock d claim fd =
     (let snap = clock (length (incarnations (ad_physical_device d) fd) + 1) in
      if validate_authority claim fd \<noteq> EC_Ok then (Inl (validate_authority claim fd), fd)
      else if ad_validate d \<noteq> EC_Ok then (Inl (ad_validate d), fd)
      else if derive_accelerator_id (ad_physical_device d) (ad_agent d) (ad_agent_boot d) (ad_generation d) \<noteq> ad_id d
      then (Inl EC_IntegrityFailure, fd)
      else if ad_agent_boot d \<noteq> ac_agent_boot claim \<and> ac_check_agent_boot claim then (Inl EC_StaleBoot, fd)
      else if duplicate_live d fd then (Inl EC_DuplicateLiveBoot, fd)
      else case om_find (ad_id d) (fd_members fd) of
        None \<Rightarrow> (case observe_new clock d fd of (r, fd') \<Rightarrow> persisted put snap r fd')
      | Some e \<Rightarrow>
          if is_terminal_state (mr_state (en_record e)) then (Inl EC_Retired, fd)
          else if mr_state (en_record e) = MS_Fenced then (Inl EC_Fenced, fd)
          else if mr_agent_boot (en_record e) \<noteq> ad_agent_boot d then (Inl EC_StaleBoot, fd)
          else (case observe_refresh (clock 0) d e fd of (r, fd') \<Rightarrow> persisted put snap r fd'))"

definition apply_transition ::
    "int \<Rightarrow> accelerator_id \<Rightarrow> member_state \<Rightarrow> member_entry \<Rightarrow> 's federation \<Rightarrow> member_record \<times> 's federation" where
  "apply_transition now i target e fd =
     (let r = en_record e; generation = gen_next (fd_generation fd);
          r' = push_history (transition_text (mr_state r) target)
                 (r\<lparr>mr_state := target, mr_state_generation := gen_next (mr_state_generation r),
                    mr_policy_generation := pl_generation (fd_policy fd), mr_updated_at := now,
                    mr_federation_generation := generation, mr_epoch := fd_epoch fd\<rparr>)
      in (r', fd\<lparr>fd_generation := generation, fd_members := om_put i (e\<lparr>en_record := r'\<rparr>) (fd_members fd)\<rparr>))"

definition transition ::
    "'s store_put \<Rightarrow> (nat \<Rightarrow> int) \<Rightarrow> accelerator_id \<Rightarrow> member_state \<Rightarrow> authority_claim \<Rightarrow> 's federation \<Rightarrow>
     member_record result \<times> 's federation" where
  "transition put clock i target claim fd =
     (if validate_authority claim fd \<noteq> EC_Ok then (Inl (validate_authority claim fd), fd)
      else case om_find i (fd_members fd) of
        None \<Rightarrow> (Inl EC_UnknownAccelerator, fd)
      | Some e \<Rightarrow>
          if validate_member_authority claim e fd \<noteq> EC_Ok then (Inl (validate_member_authority claim e fd), fd)
          else if mr_state (en_record e) = target then (Inr (en_record e), fd)
          else if \<not> is_legal_transition (mr_state (en_record e)) target then (Inl EC_InvalidTransition, fd)
          else (case apply_transition (clock 0) i target e fd of (r, fd') \<Rightarrow> persisted put (clock 1) r fd'))"

definition fd_admit where "fd_admit put clock i claim fd = transition put clock i MS_Admitted claim fd"

definition fd_activate where "fd_activate put clock i claim fd = transition put clock i MS_Active claim fd"

definition fd_fence where "fd_fence put clock i claim fd = transition put clock i MS_Fenced claim fd"

definition fd_reopen where "fd_reopen put clock i claim fd = transition put clock i MS_Observed claim fd"

definition fd_retire where "fd_retire put clock i claim fd = transition put clock i MS_Retired claim fd"

definition apply_capabilities ::
    "int \<Rightarrow> accelerator_id \<Rightarrow> capability_set \<Rightarrow> evidence_record \<Rightarrow> member_entry \<Rightarrow> 's federation \<Rightarrow>
     member_record \<times> 's federation" where
  "apply_capabilities now i capabilities ev e fd =
     (let r = en_record e; next = gen_next (mr_capability_generation r); generation = gen_next (fd_generation fd);
          r' = push_history (''CAPABILITY_UPDATE '' @ string_of_nat (unat next))
                 (r\<lparr>mr_capability_generation := next, mr_evidence_generation := gen_next (mr_evidence_generation r),
                    mr_state_generation := gen_next (mr_state_generation r),
                    mr_policy_generation := pl_generation (fd_policy fd), mr_updated_at := now,
                    mr_federation_generation := generation, mr_epoch := fd_epoch fd\<rparr>);
          d' = (en_descriptor e)\<lparr>ad_capabilities := capabilities\<lparr>cs_generation := next\<rparr>, ad_evidence := [ev]\<rparr>
      in (r', fd\<lparr>fd_generation := generation,
                 fd_members := om_put i \<lparr>en_record = r', en_descriptor = d'\<rparr> (fd_members fd)\<rparr>))"

definition update_capabilities ::
    "'s store_put \<Rightarrow> (nat \<Rightarrow> int) \<Rightarrow> accelerator_id \<Rightarrow> capability_set \<Rightarrow> evidence_record \<Rightarrow> authority_claim \<Rightarrow>
     's federation \<Rightarrow> member_record result \<times> 's federation" where
  "update_capabilities put clock i capabilities ev claim fd =
     (if validate_authority claim fd \<noteq> EC_Ok then (Inl (validate_authority claim fd), fd)
      else case om_find i (fd_members fd) of
        None \<Rightarrow> (Inl EC_UnknownAccelerator, fd)
      | Some e \<Rightarrow>
          let r = en_record e in
          if validate_member_authority claim e fd \<noteq> EC_Ok then (Inl (validate_member_authority claim e fd), fd)
          else if mr_state r = MS_Fenced \<or> is_terminal_state (mr_state r)
          then (Inl (if mr_state r = MS_Fenced then EC_Fenced else EC_Retired), fd)
          else if cs_validate capabilities \<noteq> EC_Ok then (Inl (cs_validate capabilities), fd)
          else if ev_validate ev \<noteq> EC_Ok then (Inl (ev_validate ev), fd)
          else if ev_subject ev \<noteq> i then (Inl EC_IntegrityFailure, fd)
          else if ev_provenance ev \<noteq> mr_provenance r then (Inl EC_IntegrityFailure, fd)
          else if ev_payload_digest ev \<noteq> cs_digest capabilities then (Inl EC_IntegrityFailure, fd)
          else (case apply_capabilities (clock 0) i capabilities ev e fd of (r', fd') \<Rightarrow> persisted put (clock 1) r' fd'))"

definition fd_member :: "accelerator_id \<Rightarrow> 's federation \<Rightarrow> member_record result" where
  "fd_member i fd = (case om_find i (fd_members fd) of None \<Rightarrow> Inl EC_UnknownAccelerator | Some e \<Rightarrow> Inr (en_record e))"

definition fd_member_list :: "'s federation \<Rightarrow> member_record list" where
  "fd_member_list fd = map (en_record \<circ> snd) (fd_members fd)"

definition fd_member_ids :: "'s federation \<Rightarrow> accelerator_id list" where
  "fd_member_ids fd = map fst (fd_members fd)"

definition fd_epoch_claim :: "string \<Rightarrow> 's federation \<Rightarrow> authority_claim" where
  "fd_epoch_claim purpose fd = epoch_only_claim (fd_epoch fd) purpose"

definition fd_descriptor :: "accelerator_id \<Rightarrow> 's federation \<Rightarrow> accelerator_descriptor result" where
  "fd_descriptor i fd =
     (case om_find i (fd_members fd) of None \<Rightarrow> Inl EC_UnknownAccelerator | Some e \<Rightarrow> Inr (en_descriptor e))"

subsection \<open>Policy and workloads\<close>

definition abort_plan :: "error_code \<Rightarrow> string \<Rightarrow> string \<Rightarrow> migration_plan \<Rightarrow> migration_plan" where
  "abort_plan code subject detail plan =
     plan\<lparr>mp_state := GS_Aborted, mp_refusal_reasons := sort_reasons (mp_refusal_reasons plan @
       [\<lparr>re_code = code, re_subject = subject, re_detail = detail, re_strength = RS_Hard, re_observed = CS_Unknown\<rparr>])\<rparr>"

definition set_policy ::
    "'s store_put \<Rightarrow> (nat \<Rightarrow> int) \<Rightarrow> federation_policy \<Rightarrow> authority_claim \<Rightarrow> 's federation \<Rightarrow>
     generation result \<times> 's federation" where
  "set_policy put clock policy claim fd =
     (let updated = pl_refresh_identity policy in
      if validate_authority claim fd \<noteq> EC_Ok then (Inl (validate_authority claim fd), fd)
      else if pl_validate updated \<noteq> EC_Ok then (Inl (pl_validate updated), fd)
      else persisted put (clock 0) (pl_generation updated)
        (fd\<lparr>fd_policy := updated, fd_decisions := [],
            fd_plans := om_map (\<lambda>p. if is_terminal_migration_state (mp_state p) then p
              else abort_plan EC_StalePolicy ''policy'' ''policy generation advanced while this plan was in flight'' p)
              (fd_plans fd),
            fd_members := om_map (\<lambda>e. e\<lparr>en_record := (en_record e)\<lparr>mr_policy_generation := pl_generation updated\<rparr>\<rparr>)
              (fd_members fd),
            fd_generation := gen_next (fd_generation fd)\<rparr>))"

definition stored_profile :: "workload_profile \<Rightarrow> workload_profile" where
  "stored_profile w =
     (let w1 = (if is_nil (wp_class_id w) then w\<lparr>wp_class_id := workload_class_id_from_token (wp_name w)\<rparr> else w);
          w2 = (if is_nil (wp_requirement_id w1) then w1\<lparr>wp_requirement_id := derive_requirement_id w1\<rparr> else w1)
      in w2\<lparr>wp_revision := derive_workload_revision w2\<rparr>)"

definition register_workload ::
    "'s store_put \<Rightarrow> (nat \<Rightarrow> int) \<Rightarrow> workload_profile \<Rightarrow> authority_claim \<Rightarrow> 's federation \<Rightarrow>
     generation result \<times> 's federation" where
  "register_workload put clock profile claim fd =
     (let stored = stored_profile profile in
      if validate_authority claim fd \<noteq> EC_Ok then (Inl (validate_authority claim fd), fd)
      else if wp_validate stored \<noteq> EC_Ok then (Inl (wp_validate stored), fd)
      else persisted put (clock 0) (wp_revision stored)
        (fd\<lparr>fd_workloads := om_put (wp_class_id stored) stored (fd_workloads fd),
            fd_generation := gen_next (fd_generation fd)\<rparr>))"

definition fd_workload :: "workload_class_id \<Rightarrow> 's federation \<Rightarrow> workload_profile result" where
  "fd_workload i fd = (case om_find i (fd_workloads fd) of None \<Rightarrow> Inl EC_NotFound | Some w \<Rightarrow> Inr w)"

subsection \<open>Decisions\<close>

definition evidence_fresh :: "federation_policy \<Rightarrow> int \<Rightarrow> evidence_record list \<Rightarrow> bool" where
  "evidence_fresh p steady es \<longleftrightarrow>
     \<not> list_ex (\<lambda>e. ev_requires_revalidation e \<or>
         ev_dynamic e \<and> pl_required_evidence_freshness_nanos p \<noteq> 0 \<and>
         \<not> ev_is_fresh e steady (pl_required_evidence_freshness_nanos p)) es"

definition entry_target :: "federation_policy \<Rightarrow> int \<Rightarrow> accelerator_id \<Rightarrow> member_entry \<Rightarrow> evaluation_target" where
  "entry_target p steady i e =
     (let r = en_record e in
      \<lparr>et_accelerator = i, et_device_generation = mr_device_generation r,
       et_capability_generation = mr_capability_generation r, et_evidence_generation = mr_evidence_generation r,
       et_support_level = mr_support_level r, et_provenance = mr_provenance r,
       et_capabilities = Some (ad_capabilities (en_descriptor e)),
       et_evidence_fresh = evidence_fresh p steady (ad_evidence (en_descriptor e)),
       et_accepts_new_work = accepts_new_work r\<rparr>)"

definition default_target :: evaluation_target where
  "default_target = \<lparr>et_accelerator = nil_id, et_device_generation = 0, et_capability_generation = 0,
     et_evidence_generation = 0, et_support_level = SL_Unknown, et_provenance = EP_Unsupported,
     et_capabilities = None, et_evidence_fresh = True, et_accepts_new_work = True\<rparr>"

definition vendor_text :: "capability_set \<Rightarrow> string" where
  "vendor_text s = (let l = cs_lookup s ''vendor.id'' in
     if cl_present l then (case cl_value l of None \<Rightarrow> [] | Some v \<Rightarrow> cv_render v) else [])"

definition entry_source :: "accelerator_id \<Rightarrow> member_entry \<Rightarrow> evaluation_source" where
  "entry_source i e =
     \<lparr>es_accelerator = i, es_device_generation = mr_device_generation (en_record e),
      es_capability_generation = mr_capability_generation (en_record e),
      es_capabilities = Some (ad_capabilities (en_descriptor e)),
      es_vendor = vendor_text (ad_capabilities (en_descriptor e))\<rparr>"

definition fd_context ::
    "workload_profile \<Rightarrow> int \<Rightarrow> evaluation_target \<Rightarrow> evaluation_source option \<Rightarrow> 's federation \<Rightarrow> evaluation_context" where
  "fd_context w steady target source fd =
     \<lparr>ec_federation = fd_id fd, ec_federation_generation = fd_generation fd, ec_epoch = fd_epoch fd,
      ec_policy_id = pl_id (fd_policy fd), ec_policy_generation = pl_generation (fd_policy fd),
      ec_policy = Some (fd_policy fd), ec_workload_revision = wp_revision w, ec_target = target,
      ec_source = source, ec_now = steady\<rparr>"

definition evaluate_locked ::
    "int \<Rightarrow> int \<Rightarrow> workload_profile \<Rightarrow> accelerator_id \<Rightarrow> accelerator_id option \<Rightarrow> bool \<Rightarrow> 's federation \<Rightarrow>
     compatibility_decision result" where
  "evaluate_locked wall steady w i origin source_must_exist fd =
     (case om_find i (fd_members fd) of
        None \<Rightarrow> Inl EC_UnknownAccelerator
      | Some e \<Rightarrow>
          let target = entry_target (fd_policy fd) steady (mr_accelerator (en_record e)) e in
          case origin of
            None \<Rightarrow> evaluate_compatibility wall w (fd_context w steady target None fd)
          | Some j \<Rightarrow> (case om_find j (fd_members fd) of
              None \<Rightarrow> if source_must_exist then Inl EC_UnknownAccelerator
                else evaluate_compatibility wall w (fd_context w steady target None fd)
            | Some src \<Rightarrow>
                evaluate_compatibility wall w (fd_context w steady target (Some (entry_source j src)) fd)))"

text \<open>The scan for the oldest decision, the smaller identity on a tie, and the loop that evicts it.\<close>

definition older :: "(decision_id \<times> compatibility_decision) \<Rightarrow> (decision_id \<times> compatibility_decision) \<Rightarrow> bool" where
  "older a b \<longleftrightarrow> cd_created_at (snd a) < cd_created_at (snd b) \<or>
     cd_created_at (snd a) = cd_created_at (snd b) \<and> fst a < fst b"

definition oldest :: "(decision_id, compatibility_decision) omap \<Rightarrow> decision_id \<times> compatibility_decision" where
  "oldest ds = foldl (\<lambda>best e. if older e best then e else best) (hd ds) ds"

lemma oldest_scan: "foldl (\<lambda>best e. if older e best then e else best) b es \<in> insert b (set es)"
  by (induction es arbitrary: b) auto

lemma oldest_mem:
  assumes "ds \<noteq> []"
  shows "oldest ds \<in> set ds"
proof -
  have "insert (hd ds) (set ds) = set ds" using assms by (intro insert_absorb) simp
  then show ?thesis using oldest_scan [of "hd ds" ds] unfolding oldest_def by (simp only:)
qed

function evict_oldest :: "nat \<Rightarrow> (decision_id, compatibility_decision) omap \<Rightarrow> (decision_id, compatibility_decision) omap" where
  "evict_oldest limit ds =
     (if length ds > limit then evict_oldest limit (om_erase (fst (oldest ds)) ds) else ds)"
  by pat_completeness auto
termination
proof (relation "measure (length \<circ> snd)")
  fix limit :: nat and ds :: "(decision_id, compatibility_decision) omap"
  assume "limit < length ds"
  then have "oldest ds \<in> set ds" by (intro oldest_mem) auto
  then have "length (om_erase (fst (oldest ds)) ds) < length ds"
    unfolding om_erase_def by (intro length_filter_less) auto
  then show "((limit, om_erase (fst (oldest ds)) ds), limit, ds) \<in> measure (length \<circ> snd)" by simp
qed simp

declare evict_oldest.simps [simp del]

definition fd_evaluate ::
    "'s store_put \<Rightarrow> (nat \<Rightarrow> int) \<Rightarrow> int \<Rightarrow> workload_class_id \<Rightarrow> accelerator_id \<Rightarrow> accelerator_id option \<Rightarrow>
     's federation \<Rightarrow> compatibility_decision result \<times> 's federation" where
  "fd_evaluate put clock steady w i origin fd =
     (if fd_shutdown fd then (Inl EC_ShutdownInProgress, fd)
      else case om_find w (fd_workloads fd) of
        None \<Rightarrow> (Inl EC_NotFound, fd)
      | Some profile \<Rightarrow>
          (case evaluate_locked (clock 0) steady profile i origin True fd of
             Inl e \<Rightarrow> (Inl e, fd)
           | Inr d \<Rightarrow> persisted put (clock 1) d
               (fd\<lparr>fd_decisions := evict_oldest (fd_max_recorded_decisions fd)
                     (om_put (cd_decision_id d) d (fd_decisions fd))\<rparr>)))"

definition fd_evaluate_transient ::
    "int \<Rightarrow> int \<Rightarrow> workload_class_id \<Rightarrow> accelerator_id \<Rightarrow> accelerator_id option \<Rightarrow> 's federation \<Rightarrow>
     compatibility_decision result" where
  "fd_evaluate_transient wall steady w i origin fd =
     (case om_find w (fd_workloads fd) of
        None \<Rightarrow> Inl EC_NotFound
      | Some profile \<Rightarrow> evaluate_locked wall steady profile i origin False fd)"

definition fd_evaluate_fleet ::
    "(nat \<Rightarrow> int) \<Rightarrow> int \<Rightarrow> workload_class_id \<Rightarrow> accelerator_id option \<Rightarrow> 's federation \<Rightarrow> fleet_evaluation result" where
  "fd_evaluate_fleet walls steady w origin fd =
     (case om_find w (fd_workloads fd) of
        None \<Rightarrow> Inl EC_NotFound
      | Some profile \<Rightarrow>
          let targets = map (\<lambda>(i, e). entry_target (fd_policy fd) steady i e) (fd_members fd);
              run = (\<lambda>source. evaluate_fleet walls profile
                (fd_context profile steady default_target source fd) targets)
          in if length (fd_members fd) > 1000000 then Inl EC_BoundsExceeded
             else case origin of
               None \<Rightarrow> run None
             | Some j \<Rightarrow> (case om_find j (fd_members fd) of
                 None \<Rightarrow> Inl EC_UnknownAccelerator
               | Some src \<Rightarrow> run (Some (entry_source j src))))"

definition fd_candidate :: "accelerator_id \<Rightarrow> member_entry \<Rightarrow> compatibility_decision \<Rightarrow> ranking_candidate" where
  "fd_candidate i e d =
     (let l = cs_lookup (ad_capabilities (en_descriptor e)) ''memory.free_bytes'' in
      \<lparr>rc_accelerator = i, rc_decision = d, rc_topology_distance = 0,
       rc_free_memory_bytes = (if cl_present l \<and> cl_state l = CS_Supported
         then (case cl_value l of None \<Rightarrow> 0 | Some v \<Rightarrow> word_of_int (integer_value v)) else 0),
       rc_migration_cost = 0\<rparr>)"

definition fd_rank ::
    "(nat \<Rightarrow> int) \<Rightarrow> (nat \<Rightarrow> int) \<Rightarrow> workload_class_id \<Rightarrow> ranking_weights \<Rightarrow> 's federation \<Rightarrow> ranking_result result" where
  "fd_rank walls steady w weights fd =
     (case om_find w (fd_workloads fd) of
        None \<Rightarrow> Inl EC_NotFound
      | Some profile \<Rightarrow>
          (case collect (\<lambda>(n, i, e). case evaluate_locked (walls n) (steady n) profile i None False fd of
                   Inl err \<Rightarrow> Inl err | Inr d \<Rightarrow> Inr (fd_candidate i e d)) (enumerate 0 (fd_members fd)) of
             Inl err \<Rightarrow> Inl err
           | Inr candidates \<Rightarrow> rank_candidates candidates weights))"

definition fd_decision :: "decision_id \<Rightarrow> 's federation \<Rightarrow> compatibility_decision result" where
  "fd_decision i fd = (case om_find i (fd_decisions fd) of None \<Rightarrow> Inl EC_NotFound | Some d \<Rightarrow> Inr d)"

definition decision_kept :: "'s federation \<Rightarrow> compatibility_decision \<Rightarrow> bool" where
  "decision_kept fd d \<longleftrightarrow>
     cd_federation_generation d = fd_generation fd \<and> cd_epoch d = fd_epoch fd \<and>
     cd_policy_generation d = pl_generation (fd_policy fd) \<and>
     (case om_find (cd_accelerator d) (fd_members fd) of
        None \<Rightarrow> False
      | Some e \<Rightarrow> cd_device_generation d = mr_device_generation (en_record e) \<and>
          cd_capability_generation d = mr_capability_generation (en_record e)) \<and>
     (case om_find (cd_workload d) (fd_workloads fd) of
        None \<Rightarrow> False
      | Some w \<Rightarrow> wp_revision w = cd_workload_revision d)"

definition invalidate_stale_decisions :: "'s store_put \<Rightarrow> int \<Rightarrow> 's federation \<Rightarrow> nat \<times> 's federation" where
  "invalidate_stale_decisions put now fd =
     (let kept = filter (\<lambda>(i, d). decision_kept fd d) (fd_decisions fd);
          removed = length (fd_decisions fd) - length kept;
          fd' = fd\<lparr>fd_decisions := kept\<rparr>
      in (removed, if removed \<noteq> 0 then snd (persist_locked put now fd') else fd'))"

definition verify_decision :: "decision_id \<Rightarrow> 's federation \<Rightarrow> bool result" where
  "verify_decision i fd =
     (case fd_decision i fd of
        Inl e \<Rightarrow> Inl e
      | Inr d \<Rightarrow> if cd_decision_id d \<noteq> cd_identity d then Inl EC_IntegrityFailure else Inr True)"

definition decision_is_current :: "decision_id \<Rightarrow> 's federation \<Rightarrow> bool result" where
  "decision_is_current i fd =
     (case om_find i (fd_decisions fd) of
        None \<Rightarrow> Inl EC_NotFound
      | Some d \<Rightarrow>
          if cd_federation_generation d \<noteq> fd_generation fd \<or> cd_epoch d \<noteq> fd_epoch fd \<or>
             cd_policy_generation d \<noteq> pl_generation (fd_policy fd) then Inr False
          else case om_find (cd_accelerator d) (fd_members fd) of
            None \<Rightarrow> Inr False
          | Some e \<Rightarrow> (case om_find (cd_workload d) (fd_workloads fd) of
              None \<Rightarrow> Inr False
            | Some w \<Rightarrow> Inr (cd_is_current d (fd_generation fd) (fd_epoch fd) (pl_generation (fd_policy fd))
                (mr_device_generation (en_record e)) (mr_capability_generation (en_record e))
                (mr_evidence_generation (en_record e)) (wp_revision w))))"

subsection \<open>Migration\<close>

definition entry_endpoint :: "accelerator_id \<Rightarrow> member_entry \<Rightarrow> migration_endpoint" where
  "entry_endpoint i e =
     \<lparr>me_accelerator = i, me_device_generation = mr_device_generation (en_record e),
      me_capability_generation = mr_capability_generation (en_record e),
      me_capabilities = Some (ad_capabilities (en_descriptor e)),
      me_vendor = vendor_text (ad_capabilities (en_descriptor e)), me_provenance = mr_provenance (en_record e),
      me_support_level = mr_support_level (en_record e)\<rparr>"

definition fd_request ::
    "workload_profile \<Rightarrow> accelerator_id \<Rightarrow> member_entry \<Rightarrow> accelerator_id \<Rightarrow> member_entry \<Rightarrow>
     compatibility_decision \<Rightarrow> compatibility_decision \<Rightarrow> 's federation \<Rightarrow> migration_request" where
  "fd_request w i src j dst source_decision destination_decision fd =
     \<lparr>mq_federation = fd_id fd, mq_federation_generation = fd_generation fd, mq_epoch = fd_epoch fd,
      mq_policy_id = pl_id (fd_policy fd), mq_policy_generation = pl_generation (fd_policy fd),
      mq_policy = Some (fd_policy fd), mq_source = entry_endpoint i src, mq_destination = entry_endpoint j dst,
      mq_workload = Some w, mq_workload_revision = wp_revision w,
      mq_source_decision = cd_id source_decision, mq_destination_decision = cd_id destination_decision\<rparr>"

definition fd_plan_migration ::
    "'s store_put \<Rightarrow> (nat \<Rightarrow> int) \<Rightarrow> (nat \<Rightarrow> int) \<Rightarrow> workload_class_id \<Rightarrow> accelerator_id \<Rightarrow> accelerator_id \<Rightarrow>
     authority_claim \<Rightarrow> 's federation \<Rightarrow> migration_plan result \<times> 's federation" where
  "fd_plan_migration put clock steady wid i j claim fd =
     (if validate_authority claim fd \<noteq> EC_Ok then (Inl (validate_authority claim fd), fd)
      else case om_find wid (fd_workloads fd) of
        None \<Rightarrow> (Inl EC_NotFound, fd)
      | Some w \<Rightarrow> (case om_find i (fd_members fd) of
          None \<Rightarrow> (Inl EC_UnknownAccelerator, fd)
        | Some src \<Rightarrow> (case om_find j (fd_members fd) of
            None \<Rightarrow> (Inl EC_UnknownAccelerator, fd)
          | Some dst \<Rightarrow> (case evaluate_locked (clock 0) (steady 0) w i (Some j) False fd of
              Inl e \<Rightarrow> (Inl e, fd)
            | Inr sd \<Rightarrow> (case evaluate_locked (clock 1) (steady 1) w j (Some i) False fd of
                Inl e \<Rightarrow> (Inl e, fd)
              | Inr dd \<Rightarrow>
                  let fd1 = fd\<lparr>fd_generation := gen_next (fd_generation fd)\<rparr> in
                  case plan_migration (clock 2) (fd_request w i src j dst sd dd fd1) of
                    Inl e \<Rightarrow> (Inl e, fd1)
                  | Inr plan \<Rightarrow>
                      let ds = om_put (cd_decision_id dd) dd (om_put (cd_decision_id sd) sd (fd_decisions fd1)) in
                      persisted put (clock 3) plan
                        (fd1\<lparr>fd_plans := om_put (mp_id plan) plan (fd_plans fd1),
                             fd_decisions := drop (length ds - fd_max_recorded_decisions fd1) ds\<rparr>))))))"

definition fd_migration_plan :: "migration_plan_id \<Rightarrow> 's federation \<Rightarrow> migration_plan result" where
  "fd_migration_plan i fd = (case om_find i (fd_plans fd) of None \<Rightarrow> Inl EC_NotFound | Some p \<Rightarrow> Inr p)"

definition drain_source :: "int \<Rightarrow> member_entry \<Rightarrow> member_entry" where
  "drain_source now e =
     (let r = en_record e in
      if mr_state r = MS_Active \<or> mr_state r = MS_Degraded then
        e\<lparr>en_record := r\<lparr>mr_state := MS_Draining, mr_state_generation := gen_next (mr_state_generation r),
            mr_updated_at := now, mr_history := std_sort (mr_history r @ [''DRAINING migration-commit''])\<rparr>\<rparr>
      else e)"

definition advance_migration ::
    "'s store_put \<Rightarrow> (nat \<Rightarrow> int) \<Rightarrow> migration_plan_id \<Rightarrow> migration_state \<Rightarrow> authority_claim \<Rightarrow> 's federation \<Rightarrow>
     migration_plan result \<times> 's federation" where
  "advance_migration put clock pid target claim fd =
     (if validate_authority claim fd \<noteq> EC_Ok then (Inl (validate_authority claim fd), fd)
      else case om_find pid (fd_plans fd) of
        None \<Rightarrow> (Inl EC_NotFound, fd)
      | Some p \<Rightarrow>
          if ac_check_policy_generation claim \<and> ac_policy_generation claim \<noteq> pl_generation (fd_policy fd)
          then (Inl EC_StalePolicy, fd)
          else if \<not> mp_is_current p (fd_epoch fd) (pl_generation (fd_policy fd)) (mp_source_generation p)
                    (mp_destination_generation p) (mp_source_capability_generation p)
                    (mp_destination_capability_generation p) (mp_workload_revision p)
          then (Inl EC_StaleMigration, fd)
          else case (om_find (mp_source p) (fd_members fd), om_find (mp_destination p) (fd_members fd)) of
            (Some src, Some dst) \<Rightarrow>
              if mr_device_generation (en_record src) \<noteq> mp_source_generation p \<or>
                 mr_device_generation (en_record dst) \<noteq> mp_destination_generation p \<or>
                 mr_capability_generation (en_record src) \<noteq> mp_source_capability_generation p \<or>
                 mr_capability_generation (en_record dst) \<noteq> mp_destination_capability_generation p
              then (Inl EC_StaleMigration, fd)
              else if mp_state p = target then (Inr p, fd)
              else if \<not> is_legal_migration_transition (mp_state p) target then (Inl EC_InvalidTransition, fd)
              else
                let p' = p\<lparr>mp_state := target\<rparr> in
                persisted put (clock 1) p'
                  (fd\<lparr>fd_plans := om_put pid p' (fd_plans fd),
                      fd_members := (if target = GS_Committed
                        then om_put (mp_source p) (drain_source (clock 0) src) (fd_members fd) else fd_members fd),
                      fd_generation := gen_next (fd_generation fd)\<rparr>)
          | _ \<Rightarrow> (Inl EC_StaleMigration, fd))"

definition commit_migration where
  "commit_migration put clock pid claim fd = advance_migration put clock pid GS_Committed claim fd"

definition abort_migration ::
    "'s store_put \<Rightarrow> (nat \<Rightarrow> int) \<Rightarrow> migration_plan_id \<Rightarrow> string \<Rightarrow> authority_claim \<Rightarrow> 's federation \<Rightarrow>
     migration_plan result \<times> 's federation" where
  "abort_migration put clock pid detail claim fd =
     (if validate_authority claim fd \<noteq> EC_Ok then (Inl (validate_authority claim fd), fd)
      else case om_find pid (fd_plans fd) of
        None \<Rightarrow> (Inl EC_NotFound, fd)
      | Some p \<Rightarrow>
          if is_terminal_migration_state (mp_state p) then (Inl EC_InvalidTransition, fd)
          else let p' = abort_plan EC_Cancelled ''abort'' detail p in
            persisted put (clock 0) p'
              (fd\<lparr>fd_plans := om_put pid p' (fd_plans fd), fd_generation := gen_next (fd_generation fd)\<rparr>))"

definition migration_plan_is_current :: "migration_plan_id \<Rightarrow> 's federation \<Rightarrow> bool result" where
  "migration_plan_is_current pid fd =
     (case om_find pid (fd_plans fd) of
        None \<Rightarrow> Inl EC_NotFound
      | Some p \<Rightarrow>
          if mp_epoch p \<noteq> fd_epoch fd \<or> mp_policy_generation p \<noteq> pl_generation (fd_policy fd) then Inr False
          else case (om_find (mp_source p) (fd_members fd), om_find (mp_destination p) (fd_members fd)) of
            (Some src, Some dst) \<Rightarrow> Inr (mp_is_current p (fd_epoch fd) (pl_generation (fd_policy fd))
               (mr_device_generation (en_record src)) (mr_device_generation (en_record dst))
               (mr_capability_generation (en_record src)) (mr_capability_generation (en_record dst))
               (mp_workload_revision p))
          | _ \<Rightarrow> Inr False)"

subsection \<open>Recovery\<close>

definition restored_state :: "member_state \<Rightarrow> member_state" where
  "restored_state s =
     (if s = MS_Active \<or> s = MS_Admitted \<or> s = MS_Degraded \<or> s = MS_Draining then MS_Degraded else s)"

definition restored_evidence :: "evidence_record \<Rightarrow> evidence_record" where
  "restored_evidence e = e\<lparr>ev_requires_revalidation := True, ev_marker := 0,
     ev_generation := gen_next (ev_generation e)\<rparr>"

definition restored_entry ::
    "generation \<Rightarrow> generation \<Rightarrow> int \<Rightarrow> member_record \<Rightarrow> accelerator_descriptor \<Rightarrow> member_entry" where
  "restored_entry epoch generation now r d =
     \<lparr>en_record = (push_history
        (''RECOVERED '' @ member_state_to_string (restored_state (mr_state r)) @ '' epoch='' @
           string_of_nat (unat epoch))
        (r\<lparr>mr_state := restored_state (mr_state r), mr_epoch := epoch, mr_federation_generation := generation,
           mr_state_generation := gen_next (mr_state_generation r)\<rparr>))\<lparr>mr_updated_at := now\<rparr>,
      en_descriptor = d\<lparr>ad_evidence := map restored_evidence (ad_evidence d)\<rparr>\<rparr>"

definition count_restored :: "member_state \<Rightarrow> recovery_report \<Rightarrow> recovery_report" where
  "count_restored s rp =
     (let rp1 = (if s = MS_Retired then rp\<lparr>rp_retired_members := rp_retired_members rp + 1\<rparr>
        else rp\<lparr>rp_members_requiring_revalidation := rp_members_requiring_revalidation rp + 1\<rparr>)
      in rp1\<lparr>rp_members_restored := rp_members_restored rp1 + 1\<rparr>)"

definition restore_member ::
    "federation_snapshot \<Rightarrow> (nat \<Rightarrow> int) \<Rightarrow> nat \<times> member_record \<Rightarrow> 's federation \<Rightarrow> 's federation" where
  "restore_member sn clock = (\<lambda>(n, r) fd.
     case find_descriptor sn (mr_accelerator r) of
       None \<Rightarrow> fd\<lparr>fd_recovery := (fd_recovery fd)\<lparr>rp_decisions_invalidated := rp_decisions_invalidated (fd_recovery fd) + 1\<rparr>\<rparr>
     | Some d \<Rightarrow>
         fd\<lparr>fd_physical_index := index_push (mr_physical_device r) (mr_accelerator r) (fd_physical_index fd),
            fd_members := om_emplace (mr_accelerator r)
              (restored_entry (fd_epoch fd) (fd_generation fd) (clock n) r d) (fd_members fd),
            fd_recovery := count_restored (mr_state r) (fd_recovery fd)\<rparr>)"

definition restored_plan :: "migration_plan \<Rightarrow> migration_plan" where
  "restored_plan p = (if is_terminal_migration_state (mp_state p) then p
     else abort_plan EC_StaleEpoch ''recovery''
       ''coordinator authority advanced while this plan was in flight; the plan was aborted'' p)"

definition recovery_text :: "recovery_report \<Rightarrow> string" where
  "recovery_text rp = ''epoch '' @ string_of_nat (unat (rp_previous_epoch rp)) @ '' -> '' @
     string_of_nat (unat (rp_new_epoch rp)) @ '', generation '' @ string_of_nat (unat (rp_new_generation rp)) @
     '', members restored '' @ string_of_nat (rp_members_restored rp) @ '', requiring revalidation '' @
     string_of_nat (rp_members_requiring_revalidation rp)"

definition restore_snapshot ::
    "(nat \<Rightarrow> int) \<Rightarrow> federation_snapshot \<Rightarrow> 's federation \<Rightarrow> 's federation" where
  "restore_snapshot clock sn fd =
     (let epoch = gen_next (sn_epoch sn); generation = gen_next (sn_generation sn);
          fd1 = fd\<lparr>fd_recovery := empty_report\<lparr>rp_recovered := True, rp_previous_epoch := sn_epoch sn,
                      rp_new_epoch := epoch, rp_new_generation := generation\<rparr>,
                   fd_epoch := epoch, fd_generation := generation,
                   fd_name := (if sn_name sn = [] then fd_name fd else sn_name sn), fd_policy := sn_policy_data sn\<rparr>;
          fd2 = fold (restore_member sn clock) (enumerate 0 (sn_members sn)) fd1;
          fd3 = fd2\<lparr>fd_workloads := fold (\<lambda>w. om_emplace (wp_class_id w) w) (sn_workloads sn) (fd_workloads fd2),
                    fd_plans := fold (\<lambda>p. om_emplace (mp_id p) (restored_plan p)) (sn_plans sn) (fd_plans fd2)\<rparr>
      in fd3\<lparr>fd_recovery := (fd_recovery fd3)\<lparr>
           rp_decisions_invalidated := rp_decisions_invalidated (fd_recovery fd3) + length (sn_decisions sn),
           rp_plans_aborted := length (sn_plans sn),
           rp_detail := recovery_text (fd_recovery fd3)\<rparr>\<rparr>)"

definition restore_locked ::
    "('s \<Rightarrow> bytes result) \<Rightarrow> 's store_put \<Rightarrow> (nat \<Rightarrow> int) \<Rightarrow> 's federation \<Rightarrow> error_code \<times> 's federation" where
  "restore_locked get put clock fd =
     (case get (fd_store fd) of
        Inl e \<Rightarrow>
          if e = EC_NotFound then
            persist_locked put (clock 0) (fd\<lparr>fd_recovery := empty_report\<lparr>rp_new_epoch := fd_epoch fd,
              rp_new_generation := fd_generation fd,
              rp_detail := ''fresh federation; no durable state was found''\<rparr>\<rparr>)
          else (e, fd\<lparr>fd_recovery := empty_report\<rparr>)
      | Inr payload \<Rightarrow> (case decode_snapshot payload of
          Inl e \<Rightarrow> (e, fd\<lparr>fd_recovery := empty_report\<rparr>)
        | Inr sn \<Rightarrow>
            if sn_federation sn \<noteq> fd_id fd then (EC_IntegrityFailure, fd\<lparr>fd_recovery := empty_report\<rparr>)
            else persist_locked put (clock (length (sn_members sn))) (restore_snapshot clock sn fd)))"

definition fd_open ::
    "('s \<Rightarrow> bytes result) \<Rightarrow> 's store_put \<Rightarrow> (nat \<Rightarrow> int) \<Rightarrow> federation_config \<Rightarrow> federation_id \<Rightarrow> 's \<Rightarrow>
     's federation result" where
  "fd_open get put clock cf fresh store =
     (case restore_locked get put clock (fd_create cf fresh store) of
        (code, fd) \<Rightarrow> if code = EC_Ok then Inr fd else Inl code)"

end
