(* ===== verification/Federation_Laws.thy ===== *)
theory Federation_Laws
  imports Federation
begin

section \<open>Laws of the federation\<close>

text \<open>
  The contract of the operations of \<^verbatim>\<open>federation/federation.cpp\<close>: which claims they accept, the invariant of
  the coordinator state, and how members and plans evolve over any sequence of operations.
\<close>

subsection \<open>Writing to the store changes nothing else\<close>

lemma persist_locked_eq:
  "snd (persist_locked put now fd) =
     (if fd_persist_enabled fd \<and> (fd_persist_on_mutation fd \<or> fd_force_persist fd)
      then fd\<lparr>fd_store := snd (put (encode_snapshot (snapshot_locked now fd)) (fd_store fd))\<rparr> else fd)"
  by (simp add: persist_locked_def split_beta)

lemma persist_locked_only_store:
  assumes "Q fd" "\<And>s. Q (fd\<lparr>fd_store := s\<rparr>)"
  shows "Q (snd (persist_locked put now fd))"
  using assms by (simp add: persist_locked_eq)

lemma persist_locked_fields [simp]:
  "fd_id (snd (persist_locked put now fd)) = fd_id fd" "fd_generation (snd (persist_locked put now fd)) = fd_generation fd"
  "fd_epoch (snd (persist_locked put now fd)) = fd_epoch fd" "fd_policy (snd (persist_locked put now fd)) = fd_policy fd"
  "fd_shutdown (snd (persist_locked put now fd)) = fd_shutdown fd"
  "fd_max_recorded_decisions (snd (persist_locked put now fd)) = fd_max_recorded_decisions fd"
  "fd_members (snd (persist_locked put now fd)) = fd_members fd"
  "fd_physical_index (snd (persist_locked put now fd)) = fd_physical_index fd"
  "fd_workloads (snd (persist_locked put now fd)) = fd_workloads fd"
  "fd_decisions (snd (persist_locked put now fd)) = fd_decisions fd"
  "fd_plans (snd (persist_locked put now fd)) = fd_plans fd"
  "fd_recovery (snd (persist_locked put now fd)) = fd_recovery fd"
  by (simp_all add: persist_locked_eq)

lemma snd_persisted [simp]: "snd (persisted put now v fd) = snd (persist_locked put now fd)"
  by (simp add: persisted_def split_beta)

lemma persisted_result: "fst (persisted put now v fd) = Inr w \<Longrightarrow> w = v"
  by (auto simp: persisted_def split: prod.splits if_splits)

subsection \<open>Stale authority\<close>

text \<open>Every mutation under a claim checks the claim before it looks at anything else.\<close>

locale authorised =
  fixes mutate :: "authority_claim \<Rightarrow> 's federation \<Rightarrow> 'a result \<times> 's federation"
  assumes unauthorised:
    "validate_authority claim fd \<noteq> EC_Ok \<Longrightarrow> mutate claim fd = (Inl (validate_authority claim fd), fd)"
begin

lemma rejected:
  "validate_authority claim fd \<noteq> EC_Ok \<Longrightarrow>
     result_code (fst (mutate claim fd)) = validate_authority claim fd \<and> snd (mutate claim fd) = fd"
  by (simp add: unauthorised)

lemma after_shutdown: "fd_shutdown fd \<Longrightarrow> mutate claim fd = (Inl EC_ShutdownInProgress, fd)"
  using unauthorised [of claim fd] by (simp add: validate_authority_def)

lemma accepted_is_current:
  assumes "fst (mutate claim fd) = Inr v"
  shows "\<not> fd_shutdown fd" "ac_check_epoch claim \<Longrightarrow> ac_epoch claim = fd_epoch fd"
    "ac_check_federation_generation claim \<Longrightarrow> ac_federation_generation claim = fd_generation fd"
proof -
  have "validate_authority claim fd = EC_Ok" using assms unauthorised [of claim fd] by fastforce
  then show "\<not> fd_shutdown fd" "ac_check_epoch claim \<Longrightarrow> ac_epoch claim = fd_epoch fd"
    "ac_check_federation_generation claim \<Longrightarrow> ac_federation_generation claim = fd_generation fd"
    by (auto simp: validate_authority_def split: if_splits)
qed

end

interpretation observe: authorised "observe put clock d" for put clock d
  by unfold_locales (simp add: observe_def Let_def)

interpretation transition: authorised "transition put clock i target" for put clock i target
  by unfold_locales (simp add: transition_def)

interpretation update_capabilities: authorised "update_capabilities put clock i capabilities ev"
  for put clock i capabilities ev
  by unfold_locales (simp add: update_capabilities_def)

interpretation set_policy: authorised "set_policy put clock policy" for put clock policy
  by unfold_locales (simp add: set_policy_def Let_def)

interpretation register_workload: authorised "register_workload put clock profile" for put clock profile
  by unfold_locales (simp add: register_workload_def Let_def)

interpretation plan_migration: authorised "fd_plan_migration put clock steady wid i j" for put clock steady wid i j
  by unfold_locales (simp add: fd_plan_migration_def)

interpretation advance_migration: authorised "advance_migration put clock pid target" for put clock pid target
  by unfold_locales (simp add: advance_migration_def)

interpretation abort_migration: authorised "abort_migration put clock pid detail" for put clock pid detail
  by unfold_locales (simp add: abort_migration_def)

lemmas authority_rejected =
  observe.rejected transition.rejected update_capabilities.rejected set_policy.rejected register_workload.rejected
  plan_migration.rejected advance_migration.rejected abort_migration.rejected

subsection \<open>Operations and runs\<close>

text \<open>The calls that may change the coordinator state, as data.\<close>

datatype operation =
    Observe accelerator_descriptor authority_claim
  | Transition accelerator_id member_state authority_claim
  | Update_Capabilities accelerator_id capability_set evidence_record authority_claim
  | Set_Policy federation_policy authority_claim
  | Register_Workload workload_profile authority_claim
  | Evaluate workload_class_id accelerator_id "accelerator_id option"
  | Invalidate_Stale
  | Plan_Migration workload_class_id accelerator_id accelerator_id authority_claim
  | Advance_Migration migration_plan_id migration_state authority_claim
  | Abort_Migration migration_plan_id string authority_claim
  | Persist
  | Shutdown

fun operation_claim :: "operation \<Rightarrow> authority_claim option" where
  "operation_claim (Observe d c) = Some c"
| "operation_claim (Transition i t c) = Some c"
| "operation_claim (Update_Capabilities i s e c) = Some c"
| "operation_claim (Set_Policy p c) = Some c"
| "operation_claim (Register_Workload w c) = Some c"
| "operation_claim (Plan_Migration w i j c) = Some c"
| "operation_claim (Advance_Migration p t c) = Some c"
| "operation_claim (Abort_Migration p d c) = Some c"
| "operation_claim _ = None"

definition call_of :: "'a result \<times> 's federation \<Rightarrow> error_code \<times> 's federation" where
  "call_of = (\<lambda>(r, fd). (result_code r, fd))"

fun perform ::
    "'s store_put \<Rightarrow> (nat \<Rightarrow> int) \<Rightarrow> (nat \<Rightarrow> int) \<Rightarrow> operation \<Rightarrow> 's federation \<Rightarrow> error_code \<times> 's federation" where
  "perform put clock steady (Observe d c) fd = call_of (observe put clock d c fd)"
| "perform put clock steady (Transition i t c) fd = call_of (transition put clock i t c fd)"
| "perform put clock steady (Update_Capabilities i s e c) fd = call_of (update_capabilities put clock i s e c fd)"
| "perform put clock steady (Set_Policy p c) fd = call_of (set_policy put clock p c fd)"
| "perform put clock steady (Register_Workload w c) fd = call_of (register_workload put clock w c fd)"
| "perform put clock steady (Evaluate w i j) fd = call_of (fd_evaluate put clock (steady 0) w i j fd)"
| "perform put clock steady Invalidate_Stale fd = (EC_Ok, snd (invalidate_stale_decisions put (clock 0) fd))"
| "perform put clock steady (Plan_Migration w i j c) fd = call_of (fd_plan_migration put clock steady w i j c fd)"
| "perform put clock steady (Advance_Migration p t c) fd = call_of (advance_migration put clock p t c fd)"
| "perform put clock steady (Abort_Migration p d c) fd = call_of (abort_migration put clock p d c fd)"
| "perform put clock steady Persist fd = fd_persist put (clock 0) fd"
| "perform put clock steady Shutdown fd = fd_shutdown_op put (clock 0) fd"

lemma snd_call_of [simp]: "snd (call_of x) = snd x"
  by (simp add: call_of_def split_beta)

lemma fst_call_of [simp]: "fst (call_of x) = result_code (fst x)"
  by (simp add: call_of_def split_beta)

text \<open>The states that calls lead to, whatever the clocks and the store do.\<close>

inductive fd_steps :: "'s federation \<Rightarrow> 's federation \<Rightarrow> bool" where
  steps_refl: "fd_steps fd fd"
| steps_step: "fd_steps fd fd' \<Longrightarrow> fd_steps fd (snd (perform put clock steady op fd'))"

lemma perform_rejected:
  assumes "operation_claim op = Some claim" "validate_authority claim fd \<noteq> EC_Ok"
  shows "perform put clock steady op fd = (validate_authority claim fd, fd)"
  using assms by (cases op) (auto simp: call_of_def split_beta authority_rejected)

subsection \<open>How members evolve\<close>

text \<open>A member keeps its identity, moves along legal transitions, and its generations never decrease.\<close>

definition member_evolves :: "member_entry \<Rightarrow> member_entry \<Rightarrow> bool" where
  "member_evolves e e' \<longleftrightarrow>
     mr_federation (en_record e') = mr_federation (en_record e) \<and>
     mr_accelerator (en_record e') = mr_accelerator (en_record e) \<and>
     mr_physical_device (en_record e') = mr_physical_device (en_record e) \<and>
     mr_agent (en_record e') = mr_agent (en_record e) \<and>
     mr_agent_boot (en_record e') = mr_agent_boot (en_record e) \<and>
     mr_device_generation (en_record e') = mr_device_generation (en_record e) \<and>
     (\<exists>path. lifecycle (mr_state (en_record e)) path (mr_state (en_record e'))) \<and>
     mr_state_generation (en_record e) \<le> mr_state_generation (en_record e') \<and>
     mr_capability_generation (en_record e) \<le> mr_capability_generation (en_record e') \<and>
     mr_evidence_generation (en_record e) \<le> mr_evidence_generation (en_record e')"

lemma member_evolves_refl: "member_evolves e e"
  using stay by (auto simp: member_evolves_def)

lemma member_evolves_trans: "member_evolves a b \<Longrightarrow> member_evolves b c \<Longrightarrow> member_evolves a c"
  unfolding member_evolves_def by (auto dest: lifecycle_append)

lemma lifecycle_step: "is_legal_transition s t \<Longrightarrow> \<exists>path. lifecycle s path t"
  using move [OF stay [of s], of t] by blast

lemma lifecycle_stay: "\<exists>path. lifecycle s path s"
  using stay by blast

lemma push_history_simps [simp]:
  "mr_federation (push_history l r) = mr_federation r" "mr_accelerator (push_history l r) = mr_accelerator r"
  "mr_physical_device (push_history l r) = mr_physical_device r" "mr_agent (push_history l r) = mr_agent r"
  "mr_agent_boot (push_history l r) = mr_agent_boot r" "mr_device_generation (push_history l r) = mr_device_generation r"
  "mr_state (push_history l r) = mr_state r" "mr_state_generation (push_history l r) = mr_state_generation r"
  "mr_capability_generation (push_history l r) = mr_capability_generation r"
  "mr_evidence_generation (push_history l r) = mr_evidence_generation r" "mr_epoch (push_history l r) = mr_epoch r"
  "mr_support_level (push_history l r) = mr_support_level r" "mr_provenance (push_history l r) = mr_provenance r"
  "mr_policy_generation (push_history l r) = mr_policy_generation r"
  "mr_federation_generation (push_history l r) = mr_federation_generation r"
  by (simp_all add: push_history_def Let_def)

lemma evolves_map: "(\<And>v. R v (f v)) \<Longrightarrow> om.evolves R m (om_map f m)"
  by (auto simp: om.evolves_def om_find_map)

lemma evolves_emplace: "(\<And>v. R v v) \<Longrightarrow> om.evolves R m (om_emplace k v m)"
  by (auto simp: om.evolves_def om_find_emplace)

lemma evolves_fold:
  assumes "\<And>v. R v v" "\<And>u v w. R u v \<Longrightarrow> R v w \<Longrightarrow> R u w" "\<And>x m. om.evolves R m (f x m)"
  shows "om.evolves R m (fold f xs m)"
proof (induction xs arbitrary: m)
  case Nil
  show ?case using assms(1) by (simp add: om.evolves_refl)
next
  case (Cons x xs)
  from om.evolves_trans [OF assms(3) [of m x] Cons.IH assms(2)] show ?case by simp
qed

lemma retire_superseded_evolves: "om.evolves member_evolves ms (retire_superseded d now i ms)"
  unfolding retire_superseded_def
  by (auto simp: Let_def member_evolves_def is_terminal_state_def gen_next_ge lifecycle_stay
      intro!: om.evolves_put lifecycle_step om.evolves_refl split: option.splits)

lemma retire_all_evolves:
  "om.evolves member_evolves ms (fold (\<lambda>(n, i). retire_superseded d (clock n) i) xs ms)"
  by (rule evolves_fold) (auto simp: member_evolves_refl retire_superseded_evolves intro: member_evolves_trans)

lemma observe_new_evolves: "om.evolves member_evolves (fd_members fd) (fd_members (snd (observe_new clock d fd)))"
proof -
  let ?retired = "fold (\<lambda>(n, i). retire_superseded d (clock n) i)
    (enumerate 0 (incarnations (ad_physical_device d) fd)) (fd_members fd)"
  have "om.evolves member_evolves (fd_members fd) (om_emplace (ad_id d) e ?retired)" for e
    by (rule om.evolves_trans [OF retire_all_evolves evolves_emplace member_evolves_trans]) (rule member_evolves_refl)
  then show ?thesis by (simp add: observe_new_def Let_def)
qed

lemma evolves_replace:
  "om_find i ms = Some e \<Longrightarrow> member_evolves e e' \<Longrightarrow> om.evolves member_evolves ms (om_put i e' ms)"
  by (rule om.evolves_put) (auto simp: member_evolves_refl)

lemma drain_source_evolves: "member_evolves e (drain_source now e)"
  by (auto simp: drain_source_def Let_def member_evolves_def gen_next_ge lifecycle_stay intro!: lifecycle_step)

lemma members_evolve_refl: "om.evolves member_evolves ms ms"
  by (rule om.evolves_refl) (rule member_evolves_refl)

lemma observe_refresh_evolves:
  assumes "om_find (ad_id d) (fd_members fd) = Some e"
  shows "om.evolves member_evolves (fd_members fd) (fd_members (snd (observe_refresh now d e fd)))"
  using assms unfolding observe_refresh_def Let_def
  by (simp add: evolves_replace member_evolves_def gen_next_ge lifecycle_stay)

lemma observe_members: "om.evolves member_evolves (fd_members fd) (fd_members (snd (observe put clock d c fd)))"
  unfolding observe_def Let_def
  by (simp add: split_beta members_evolve_refl observe_new_evolves observe_refresh_evolves split: option.split)

lemma apply_transition_evolves:
  assumes "om_find i (fd_members fd) = Some e" "is_legal_transition (mr_state (en_record e)) t"
  shows "om.evolves member_evolves (fd_members fd) (fd_members (snd (apply_transition now i t e fd)))"
  using assms unfolding apply_transition_def Let_def
  by (simp add: evolves_replace member_evolves_def gen_next_ge lifecycle_step)

lemma transition_members:
  "om.evolves member_evolves (fd_members fd) (fd_members (snd (transition put clock i t c fd)))"
  unfolding transition_def
  by (simp add: split_beta members_evolve_refl apply_transition_evolves split: option.split)

lemma apply_capabilities_evolves:
  assumes "om_find i (fd_members fd) = Some e"
  shows "om.evolves member_evolves (fd_members fd) (fd_members (snd (apply_capabilities now i s ev e fd)))"
  using assms unfolding apply_capabilities_def Let_def
  by (simp add: evolves_replace member_evolves_def gen_next_ge lifecycle_stay)

lemma update_capabilities_members:
  "om.evolves member_evolves (fd_members fd) (fd_members (snd (update_capabilities put clock i s ev c fd)))"
  unfolding update_capabilities_def Let_def
  by (simp add: split_beta members_evolve_refl apply_capabilities_evolves split: option.split)

lemma advance_migration_members:
  "om.evolves member_evolves (fd_members fd) (fd_members (snd (advance_migration put clock pid t c fd)))"
  unfolding advance_migration_def Let_def
  by (simp add: members_evolve_refl drain_source_evolves evolves_replace split: option.split)

lemma set_policy_members: "om.evolves member_evolves (fd_members fd) (fd_members (snd (set_policy put clock p c fd)))"
  unfolding set_policy_def Let_def
  by (simp add: members_evolve_refl evolves_map member_evolves_def lifecycle_stay)

lemma perform_members:
  "om.evolves member_evolves (fd_members fd) (fd_members (snd (perform put clock steady op fd)))"
proof (cases op)
  case (Register_Workload w c)
  then show ?thesis
    by (auto simp: register_workload_def Let_def members_evolve_refl)
next
  case (Evaluate w i j)
  then show ?thesis
    by (auto simp: fd_evaluate_def members_evolve_refl split: option.splits sum.splits)
next
  case Invalidate_Stale
  then show ?thesis
    by (auto simp: invalidate_stale_decisions_def Let_def members_evolve_refl)
next
  case (Plan_Migration w i j c)
  then show ?thesis
    by (auto simp: fd_plan_migration_def Let_def members_evolve_refl
        split: option.splits sum.splits)
next
  case (Abort_Migration p d c)
  then show ?thesis
    by (auto simp: abort_migration_def Let_def members_evolve_refl
        split: option.splits)
next
  case Persist
  then show ?thesis
    by (auto simp: fd_persist_def split_beta members_evolve_refl)
next
  case Shutdown
  then show ?thesis
    by (auto simp: fd_shutdown_op_def members_evolve_refl)
qed (simp_all add: observe_members transition_members update_capabilities_members set_policy_members
       advance_migration_members)

lemma steps_members: "fd_steps fd fd' \<Longrightarrow> om.evolves member_evolves (fd_members fd) (fd_members fd')"
proof (induction rule: fd_steps.induct)
  case (steps_refl fd)
  show ?case by (rule members_evolve_refl)
next
  case (steps_step fd fd' put clock steady op)
  from steps_step.IH perform_members [of fd'] show ?case
    by (rule om.evolves_trans) (rule member_evolves_trans)
qed

subsection \<open>How plans evolve\<close>

text \<open>Only the state and the refusal reasons of a plan change, and the state only along the plan lifecycle.\<close>

definition plan_evolves :: "migration_plan \<Rightarrow> migration_plan \<Rightarrow> bool" where
  "plan_evolves p p' \<longleftrightarrow> (\<exists>path. plan_run (mp_state p) path (mp_state p')) \<and>
     p'\<lparr>mp_state := mp_state p, mp_refusal_reasons := mp_refusal_reasons p\<rparr> = p"

text \<open>A plan that the planner has just authored for generation \<open>g\<close>.\<close>

definition fresh_plan :: "generation \<Rightarrow> migration_plan \<Rightarrow> bool" where
  "fresh_plan g p \<longleftrightarrow> mp_state p \<in> {GS_Planned, GS_Refused} \<and> mp_federation_generation p = g \<and> mp_id p = mp_identity p"

lemma plan_stays: "\<exists>path. plan_run s path s"
  using plan_stay by blast

lemma plan_moves: "is_legal_migration_transition s t \<Longrightarrow> \<exists>path. plan_run s path t"
  using plan_move [OF plan_stay [of s], of t] by blast

lemma plan_run_append: "plan_run t path' u \<Longrightarrow> plan_run s path t \<Longrightarrow> \<exists>path. plan_run s path u"
proof (induction rule: plan_run.induct)
  case (plan_move t path' u v)
  then show ?case by (metis plan_run.plan_move)
qed blast

lemma plan_evolves_refl: "plan_evolves p p"
  by (simp add: plan_evolves_def plan_stays)

lemma plan_evolves_content:
  assumes "plan_evolves p p'"
  shows "mp_id p' = mp_id p" "mp_identity p' = mp_identity p" "mp_federation p' = mp_federation p"
    "mp_source p' = mp_source p" "mp_destination p' = mp_destination p"
    "mp_source_generation p' = mp_source_generation p" "mp_destination_generation p' = mp_destination_generation p"
    "mp_federation_generation p' = mp_federation_generation p"
proof -
  have eq: "p'\<lparr>mp_state := mp_state p, mp_refusal_reasons := mp_refusal_reasons p\<rparr> = p"
    using assms by (simp add: plan_evolves_def)
  show "mp_id p' = mp_id p" "mp_identity p' = mp_identity p" "mp_federation p' = mp_federation p"
    "mp_source p' = mp_source p" "mp_destination p' = mp_destination p"
    "mp_source_generation p' = mp_source_generation p" "mp_destination_generation p' = mp_destination_generation p"
    "mp_federation_generation p' = mp_federation_generation p"
    using arg_cong [OF eq, of mp_id] arg_cong [OF eq, of mp_identity] arg_cong [OF eq, of mp_federation]
      arg_cong [OF eq, of mp_source] arg_cong [OF eq, of mp_destination] arg_cong [OF eq, of mp_source_generation]
      arg_cong [OF eq, of mp_destination_generation] arg_cong [OF eq, of mp_federation_generation]
    by simp_all
qed

lemma abort_plan_evolves: "\<not> is_terminal_migration_state (mp_state p) \<Longrightarrow> plan_evolves p (abort_plan code subject detail p)"
  by (simp add: plan_evolves_def abort_plan_def plan_moves nonterminal_can_abort)

lemma plans_evolve_refl: "om.evolves (\<lambda>p p'. plan_evolves p p' \<or> Q p') ps ps"
  by (rule om.evolves_refl) (simp add: plan_evolves_refl)

lemma plan_replace:
  "om_find k ps = Some p \<Longrightarrow> plan_evolves p p' \<Longrightarrow>
     om.evolves (\<lambda>p p'. plan_evolves p p' \<or> Q p') ps (om_put k p' ps)"
  by (rule om.evolves_put) (auto simp: plan_evolves_refl)

lemma plan_insert: "Q p' \<Longrightarrow> om.evolves (\<lambda>p p'. plan_evolves p p' \<or> Q p') ps (om_put k p' ps)"
  by (rule om.evolves_put) (auto simp: plan_evolves_refl)

lemma fresh_plan_planned:
  "plan_migration wall q = Inr p \<Longrightarrow> fresh_plan (mq_federation_generation q) p"
  by (auto simp: plan_migration_def fresh_plan_def build_plan_state build_plan_identity
      split: option.splits if_splits) (auto simp: build_plan_def refuse_def initial_plan_def Let_def refresh_migration_identity_def)

lemma advance_plan_evolves:
  "is_legal_migration_transition (mp_state p) t \<Longrightarrow> plan_evolves p (p\<lparr>mp_state := t\<rparr>)"
  by (simp add: plan_evolves_def plan_moves)

lemma perform_plans:
  "om.evolves (\<lambda>p p'. plan_evolves p p' \<or> fresh_plan (fd_generation (snd (perform put clock steady op fd))) p')
     (fd_plans fd) (fd_plans (snd (perform put clock steady op fd)))"
proof (cases op)
  case (Observe d c)
  then show ?thesis
    by (simp add: observe_def Let_def split_beta plans_evolve_refl observe_new_def observe_refresh_def
        split: option.split)
next
  case (Transition i t c)
  then show ?thesis
    by (simp add: transition_def Let_def split_beta plans_evolve_refl apply_transition_def split: option.split)
next
  case (Update_Capabilities i s e c)
  then show ?thesis
    by (simp add: update_capabilities_def Let_def split_beta plans_evolve_refl apply_capabilities_def
        split: option.split)
next
  case (Set_Policy p c)
  then show ?thesis
    by (simp add: set_policy_def Let_def plans_evolve_refl evolves_map plan_evolves_refl abort_plan_evolves)
next
  case (Register_Workload w c)
  then show ?thesis by (simp add: register_workload_def Let_def plans_evolve_refl)
next
  case (Evaluate w i j)
  then show ?thesis by (simp add: fd_evaluate_def plans_evolve_refl split: option.split sum.split)
next
  case Invalidate_Stale
  then show ?thesis by (simp add: invalidate_stale_decisions_def Let_def plans_evolve_refl)
next
  case (Plan_Migration w i j c)
  then show ?thesis
    by (auto simp: fd_plan_migration_def Let_def plans_evolve_refl fd_request_def
        intro!: plan_insert dest!: fresh_plan_planned split: option.split sum.split)
next
  case (Advance_Migration p t c)
  then show ?thesis
    by (simp add: advance_migration_def Let_def plans_evolve_refl plan_replace advance_plan_evolves
        split: option.split)
next
  case (Abort_Migration p d c)
  then show ?thesis
    by (simp add: abort_migration_def Let_def plans_evolve_refl plan_replace abort_plan_evolves split: option.split)
next
  case Persist
  then show ?thesis by (simp add: fd_persist_def split_beta plans_evolve_refl)
next
  case Shutdown
  then show ?thesis by (simp add: fd_shutdown_op_def plans_evolve_refl)
qed

end
