(* ===== verification/Federation_Invariant.thy ===== *)
theory Federation_Invariant
  imports Federation_Laws
begin

section \<open>The invariant of the coordinator state\<close>

text \<open>
  Every table of the federation is keyed by the identity of its entries, every member agrees with its
  descriptor, the index by physical device is complete, and decisions and plans refer to members, workloads
  and the policy that exist. The invariant holds of a new federation, every operation of
  \<^verbatim>\<open>federation/federation.cpp\<close> keeps it, and recovery from a stored snapshot re-establishes it.
\<close>

subsection \<open>Statement\<close>

text \<open>The identity of a member is derived from the device, the agent, its boot and the incarnation; the
  record and the descriptor each derive it.\<close>

definition record_identity :: "member_record \<Rightarrow> accelerator_id" where
  "record_identity r =
     derive_accelerator_id (mr_physical_device r) (mr_agent r) (mr_agent_boot r) (mr_device_generation r)"

definition descriptor_identity :: "accelerator_descriptor \<Rightarrow> accelerator_id" where
  "descriptor_identity d = derive_accelerator_id (ad_physical_device d) (ad_agent d) (ad_agent_boot d) (ad_generation d)"

definition record_ok :: "federation_id \<Rightarrow> generation \<Rightarrow> accelerator_id \<Rightarrow> member_record \<Rightarrow> bool" where
  "record_ok fid epoch i r \<longleftrightarrow> mr_accelerator r = i \<and> record_identity r = i \<and> mr_federation r = fid \<and>
     mr_epoch r \<le> epoch \<and> mr_history r \<noteq> [] \<and> sorted (mr_history r) \<and> mr_evidence_generation r \<noteq> 0 \<and>
     mr_state_generation r \<noteq> 0 \<and> mr_state r \<noteq> MS_Discovered"

definition descriptor_ok :: "accelerator_id \<Rightarrow> accelerator_descriptor \<Rightarrow> bool" where
  "descriptor_ok i d \<longleftrightarrow> ad_id d = i \<and> descriptor_identity d = i \<and> cs_validate (ad_capabilities d) = EC_Ok \<and>
     list_all (\<lambda>e. ev_subject e = i) (ad_evidence d)"

definition member_ok :: "federation_id \<Rightarrow> generation \<Rightarrow> accelerator_id \<Rightarrow> member_entry \<Rightarrow> bool" where
  "member_ok fid epoch i e \<longleftrightarrow> record_ok fid epoch i (en_record e) \<and> descriptor_ok i (en_descriptor e) \<and>
     mr_agent_boot (en_record e) = ad_agent_boot (en_descriptor e) \<and>
     mr_support_level (en_record e) = ad_support_level (en_descriptor e) \<and>
     mr_provenance (en_record e) = ad_provenance (en_descriptor e)"

definition indexed :: "(physical_device_id, accelerator_id list) omap \<Rightarrow> accelerator_id \<Rightarrow> member_entry \<Rightarrow> bool" where
  "indexed index i e \<longleftrightarrow>
     (case om_find (mr_physical_device (en_record e)) index of None \<Rightarrow> False | Some ids \<Rightarrow> i \<in> set ids)"

definition table_ok ::
    "federation_id \<Rightarrow> generation \<Rightarrow> (physical_device_id, accelerator_id list) omap \<Rightarrow>
     (accelerator_id, member_entry) omap \<Rightarrow> bool" where
  "table_ok fid epoch index ms \<longleftrightarrow> om_wf ms \<and> om.holds (\<lambda>i e. member_ok fid epoch i e \<and> indexed index i e) ms"

definition members_ok :: "'s federation \<Rightarrow> bool" where
  "members_ok fd \<longleftrightarrow> table_ok (fd_id fd) (fd_epoch fd) (fd_physical_index fd) (fd_members fd)"

definition workloads_ok :: "'s federation \<Rightarrow> bool" where
  "workloads_ok fd \<longleftrightarrow> om_wf (fd_workloads fd) \<and>
     om.holds (\<lambda>i w. wp_class_id w = i \<and> wp_validate w = EC_Ok) (fd_workloads fd)"

definition decision_ok :: "'s federation \<Rightarrow> decision_id \<Rightarrow> compatibility_decision \<Rightarrow> bool" where
  "decision_ok fd i d \<longleftrightarrow> cd_decision_id d = i \<and> cd_identity d = i \<and> cd_federation d = fd_id fd \<and>
     cd_policy d = pl_id (fd_policy fd) \<and> om_find (cd_accelerator d) (fd_members fd) \<noteq> None \<and>
     om_find (cd_workload d) (fd_workloads fd) \<noteq> None"

definition decisions_ok :: "'s federation \<Rightarrow> bool" where
  "decisions_ok fd \<longleftrightarrow> om_wf (fd_decisions fd) \<and> om.holds (decision_ok fd) (fd_decisions fd) \<and>
     length (fd_decisions fd) \<le> fd_max_recorded_decisions fd"

definition endpoint_ok :: "'s federation \<Rightarrow> accelerator_id \<Rightarrow> generation \<Rightarrow> bool" where
  "endpoint_ok fd i g \<longleftrightarrow>
     (case om_find i (fd_members fd) of None \<Rightarrow> False | Some e \<Rightarrow> mr_device_generation (en_record e) = g)"

definition plan_ok :: "'s federation \<Rightarrow> migration_plan_id \<Rightarrow> migration_plan \<Rightarrow> bool" where
  "plan_ok fd i p \<longleftrightarrow> mp_id p = i \<and> mp_identity p = i \<and> mp_federation p = fd_id fd \<and>
     mp_source p \<noteq> mp_destination p \<and> endpoint_ok fd (mp_source p) (mp_source_generation p) \<and>
     endpoint_ok fd (mp_destination p) (mp_destination_generation p)"

definition plans_ok :: "'s federation \<Rightarrow> bool" where
  "plans_ok fd \<longleftrightarrow> om_wf (fd_plans fd) \<and> om.holds (plan_ok fd) (fd_plans fd)"

definition fd_inv :: "'s federation \<Rightarrow> bool" where
  "fd_inv fd \<longleftrightarrow> members_ok fd \<and> workloads_ok fd \<and> decisions_ok fd \<and> plans_ok fd"

lemmas fd_inv_defs = fd_inv_def members_ok_def workloads_ok_def decisions_ok_def plans_ok_def

lemma fd_inv_store [simp]: "fd_inv (fd\<lparr>fd_store := s\<rparr>) = fd_inv fd"
  by (simp add: fd_inv_defs decision_ok_def [abs_def] plan_ok_def [abs_def] endpoint_ok_def)

lemma fd_inv_persist [simp]: "fd_inv (snd (persist_locked put now fd)) = fd_inv fd"
  by (simp add: persist_locked_eq)

lemma fd_inv_create: "fd_inv (fd_create cf fresh store)"
  by (simp add: fd_inv_defs table_ok_def fd_create_def om.holds_def)

subsection \<open>Frame rules\<close>

text \<open>Changing the members: the new table keeps every old member with its device generation.\<close>

lemma evolves_find:
  "om.evolves R m m' \<Longrightarrow> om_find k m \<noteq> None \<Longrightarrow> om_find k m' \<noteq> None"
  by (fastforce simp: om.evolves_def)

lemma evolves_endpoint:
  assumes "om.evolves member_evolves (fd_members fd) (fd_members fd')" "endpoint_ok fd i g"
  shows "endpoint_ok fd' i g"
  using assms by (fastforce simp: endpoint_ok_def om.evolves_def member_evolves_def split: option.splits)

lemma decisions_ok_frame:
  assumes "decisions_ok fd" "om.evolves member_evolves (fd_members fd) (fd_members fd')"
    "om.evolves (\<lambda>_ _. True) (fd_workloads fd) (fd_workloads fd')" "fd_id fd' = fd_id fd"
    "pl_id (fd_policy fd') = pl_id (fd_policy fd)" "fd_decisions fd' = fd_decisions fd"
    "fd_max_recorded_decisions fd' = fd_max_recorded_decisions fd"
  shows "decisions_ok fd'"
proof -
  have "decision_ok fd i d \<Longrightarrow> decision_ok fd' i d" for i d
    using assms(4,5) evolves_find [OF assms(2)] evolves_find [OF assms(3)]
    by (simp add: decision_ok_def del: not_None_eq)
  with assms show ?thesis by (auto simp: decisions_ok_def intro: holds_mono)
qed

lemma plan_ok_frame:
  assumes "plan_ok fd i p" "om.evolves member_evolves (fd_members fd) (fd_members fd')" "fd_id fd' = fd_id fd"
  shows "plan_ok fd' i p"
  using assms evolves_endpoint [OF assms(2)] by (simp add: plan_ok_def)

lemma plans_ok_frame:
  assumes "plans_ok fd" "om.evolves member_evolves (fd_members fd) (fd_members fd')" "fd_id fd' = fd_id fd"
    "fd_plans fd' = fd_plans fd"
  shows "plans_ok fd'"
  using assms plan_ok_frame [OF _ assms(2,3)] by (auto simp: plans_ok_def intro: holds_mono)

lemma evolves_any: "om.evolves (\<lambda>_ _. True) m m"
  by (simp add: om.evolves_def)

lemma fd_inv_members:
  assumes "fd_inv fd" "members_ok fd'" "om.evolves member_evolves (fd_members fd) (fd_members fd')"
    "fd_id fd' = fd_id fd" "fd_policy fd' = fd_policy fd" "fd_workloads fd' = fd_workloads fd"
    "fd_decisions fd' = fd_decisions fd" "fd_plans fd' = fd_plans fd"
    "fd_max_recorded_decisions fd' = fd_max_recorded_decisions fd"
  shows "fd_inv fd'"
proof -
  have "decisions_ok fd'"
    by (rule decisions_ok_frame [of fd]) (use assms in \<open>simp_all add: fd_inv_def evolves_any\<close>)
  moreover have "plans_ok fd'"
    by (rule plans_ok_frame [of fd]) (use assms in \<open>simp_all add: fd_inv_def\<close>)
  ultimately show ?thesis using assms by (simp add: fd_inv_def workloads_ok_def)
qed

subsection \<open>Operations on members\<close>

lemma push_history_ok [simp]: "mr_history (push_history l r) \<noteq> []" "sorted (mr_history (push_history l r))"
proof -
  have "l \<in> set (std_sort (mr_history r @ [l]))" by (simp add: std_sort_sort)
  then have "std_sort (mr_history r @ [l]) \<noteq> []" by auto
  then show "mr_history (push_history l r) \<noteq> []" by (simp add: push_history_def Let_def)
  show "sorted (mr_history (push_history l r))"
    by (simp add: push_history_def Let_def std_sort_sort sorted_wrt_take)
qed

lemma cs_validate_generation [simp]: "cs_validate (s\<lparr>cs_generation := g\<rparr>) = cs_validate s"
  by (simp add: cs_validate_def)

lemmas member_ok_defs = member_ok_def record_ok_def descriptor_ok_def record_identity_def descriptor_identity_def

lemma table_ok_find:
  "table_ok fid epoch index ms \<Longrightarrow> om_find i ms = Some e \<Longrightarrow> member_ok fid epoch i e \<and> indexed index i e"
  by (simp add: table_ok_def om.holds_def)

lemma table_ok_put:
  assumes "table_ok fid epoch index ms" "om_find i ms = Some e" "member_ok fid epoch i e'"
    "mr_physical_device (en_record e') = mr_physical_device (en_record e)"
  shows "table_ok fid epoch index (om_put i e' ms)"
proof -
  have "indexed index i e'" using table_ok_find [OF assms(1,2)] assms(4) by (simp add: indexed_def)
  with assms show ?thesis by (simp add: table_ok_def om_wf_put om.holds_put)
qed

lemma members_ok_replace:
  assumes "members_ok fd" "om_find i (fd_members fd) = Some e" "member_ok (fd_id fd) (fd_epoch fd) i e'"
    "mr_physical_device (en_record e') = mr_physical_device (en_record e)"
    "fd_members fd' = om_put i e' (fd_members fd)" "fd_id fd' = fd_id fd" "fd_epoch fd' = fd_epoch fd"
    "fd_physical_index fd' = fd_physical_index fd"
  shows "members_ok fd'"
  using assms table_ok_put [OF _ assms(2-4)] by (simp add: members_ok_def)

lemma members_ok_find: "members_ok fd \<Longrightarrow> om_find i (fd_members fd) = Some e \<Longrightarrow> member_ok (fd_id fd) (fd_epoch fd) i e"
  by (simp add: members_ok_def table_ok_find)

lemma apply_transition_ok:
  assumes "members_ok fd" "om_find i (fd_members fd) = Some e" "t \<noteq> MS_Discovered"
  shows "members_ok (snd (apply_transition now i t e fd))"
proof (rule members_ok_replace [OF assms(1,2)])
  let ?r = "en_record e"
  let ?r' = "push_history (transition_text (mr_state ?r) t)
    (?r\<lparr>mr_state := t, mr_state_generation := gen_next (mr_state_generation ?r),
       mr_policy_generation := pl_generation (fd_policy fd), mr_updated_at := now,
       mr_federation_generation := gen_next (fd_generation fd), mr_epoch := fd_epoch fd\<rparr>)"
  show "fd_members (snd (apply_transition now i t e fd)) = om_put i (e\<lparr>en_record := ?r'\<rparr>) (fd_members fd)"
    by (simp add: apply_transition_def Let_def)
  show "member_ok (fd_id fd) (fd_epoch fd) i (e\<lparr>en_record := ?r'\<rparr>)"
    using members_ok_find [OF assms(1,2)] assms(3) by (clarsimp simp: member_ok_defs gen_next_pos)
qed (simp_all add: apply_transition_def Let_def)

lemma apply_capabilities_ok:
  assumes "members_ok fd" "om_find i (fd_members fd) = Some e" "cs_validate s = EC_Ok" "ev_subject ev = i"
  shows "members_ok (snd (apply_capabilities now i s ev e fd))"
proof (rule members_ok_replace [OF assms(1,2)])
  let ?r = "en_record e"
  let ?next = "gen_next (mr_capability_generation ?r)"
  let ?r' = "push_history (''CAPABILITY_UPDATE '' @ string_of_nat (unat ?next))
    (?r\<lparr>mr_capability_generation := ?next, mr_evidence_generation := gen_next (mr_evidence_generation ?r),
       mr_state_generation := gen_next (mr_state_generation ?r),
       mr_policy_generation := pl_generation (fd_policy fd), mr_updated_at := now,
       mr_federation_generation := gen_next (fd_generation fd), mr_epoch := fd_epoch fd\<rparr>)"
  let ?d' = "(en_descriptor e)\<lparr>ad_capabilities := s\<lparr>cs_generation := ?next\<rparr>, ad_evidence := [ev]\<rparr>"
  show "fd_members (snd (apply_capabilities now i s ev e fd)) =
      om_put i \<lparr>en_record = ?r', en_descriptor = ?d'\<rparr> (fd_members fd)"
    by (simp add: apply_capabilities_def Let_def)
  show "member_ok (fd_id fd) (fd_epoch fd) i \<lparr>en_record = ?r', en_descriptor = ?d'\<rparr>"
    using members_ok_find [OF assms(1,2)] assms(3,4) by (clarsimp simp: member_ok_defs gen_next_pos)
qed (simp_all add: apply_capabilities_def Let_def)

lemma observed_descriptor_ok:
  assumes "ad_validate d = EC_Ok" "descriptor_identity d = ad_id d"
  shows "descriptor_ok (ad_id d) d"
  using ad_validate_Ok [OF assms(1)] assms(2) by (simp add: descriptor_ok_def list_all_iff)

lemma observe_refresh_ok:
  assumes "members_ok fd" "om_find (ad_id d) (fd_members fd) = Some e" "descriptor_ok (ad_id d) d"
    "mr_agent_boot (en_record e) = ad_agent_boot d"
  shows "members_ok (snd (observe_refresh now d e fd))"
proof -
  let ?i = "ad_id d"
  have old: "member_ok (fd_id fd) (fd_epoch fd) ?i e" by (rule members_ok_find [OF assms(1,2)])
  show ?thesis
  proof (cases "cs_digest (ad_capabilities (en_descriptor e)) \<noteq> cs_digest (ad_capabilities d)")
    case True
    with assms(3,4) old show ?thesis
      by (intro members_ok_replace [OF assms(1,2)])
         (simp_all add: observe_refresh_def Let_def, clarsimp simp: member_ok_defs gen_next_pos)
  next
    case False
    with assms(3,4) old show ?thesis
      by (intro members_ok_replace [OF assms(1,2)])
         (simp_all add: observe_refresh_def Let_def, clarsimp simp: member_ok_defs gen_next_pos)
  qed
qed

lemma retire_superseded_ok:
  assumes "table_ok fid epoch index ms"
  shows "table_ok fid epoch index (retire_superseded d now i ms)"
proof (cases "om_find i ms")
  case None
  with assms show ?thesis by (simp add: retire_superseded_def)
next
  case (Some e)
  let ?r = "en_record e"
  let ?r' = "push_history (''RETIRED superseded-by '' @ id_to_hex (ad_id d))
    (?r\<lparr>mr_state := MS_Retired, mr_state_generation := gen_next (mr_state_generation ?r), mr_updated_at := now\<rparr>)"
  have "member_ok fid epoch i (e\<lparr>en_record := ?r'\<rparr>)"
    using table_ok_find [OF assms Some] by (clarsimp simp: member_ok_defs gen_next_pos)
  then have "table_ok fid epoch index (om_put i (e\<lparr>en_record := ?r'\<rparr>) ms)"
    by (intro table_ok_put [OF assms Some]) simp_all
  with assms Some show ?thesis by (simp add: retire_superseded_def Let_def)
qed

lemma retire_all_ok:
  "table_ok fid epoch index ms \<Longrightarrow>
     table_ok fid epoch index (fold (\<lambda>(n, i). retire_superseded d (clock n) i) xs ms)"
  by (induction xs arbitrary: ms) (auto simp: retire_superseded_ok)

lemma indexed_push: "indexed index i e \<Longrightarrow> indexed (index_push device j index) i e"
  by (auto simp: indexed_def index_push_def om_find_put split: option.splits)

lemma indexed_push_new: "indexed (index_push (mr_physical_device (en_record e)) i index) i e"
  by (simp add: indexed_def index_push_def om_find_put)

lemma table_ok_index: "table_ok fid epoch index ms \<Longrightarrow> table_ok fid epoch (index_push device j index) ms"
  by (auto simp: table_ok_def indexed_push intro: holds_mono)

lemma table_ok_emplace:
  "table_ok fid epoch index ms \<Longrightarrow> member_ok fid epoch i e \<Longrightarrow> indexed index i e \<Longrightarrow>
     table_ok fid epoch index (om_emplace i e ms)"
  by (simp add: table_ok_def om_wf_emplace holds_emplace)

lemma new_record_ok:
  assumes "descriptor_ok (ad_id d) d"
  shows "member_ok (fd_id fd) (fd_epoch fd) (ad_id d) \<lparr>en_record = new_record d now fd, en_descriptor = d\<rparr>"
proof -
  have "sorted (std_sort [''DISCOVERED'', ''OBSERVED''])" "std_sort [''DISCOVERED'', ''OBSERVED''] \<noteq> []"
    by (simp_all add: std_sort_sort)
  with assms show ?thesis by (simp add: member_ok_defs new_record_def)
qed

lemma observe_new_ok:
  assumes "members_ok fd" "descriptor_ok (ad_id d) d"
  shows "members_ok (snd (observe_new clock d fd))"
proof -
  let ?now = "clock (length (incarnations (ad_physical_device d) fd))"
  let ?index = "index_push (ad_physical_device d) (ad_id d) (fd_physical_index fd)"
  let ?e = "\<lparr>en_record = new_record d ?now fd, en_descriptor = d\<rparr>"
  have "indexed ?index (ad_id d) ?e" using indexed_push_new [of ?e] by (simp add: new_record_def)
  moreover have "table_ok (fd_id fd) (fd_epoch fd) ?index
      (fold (\<lambda>(n, i). retire_superseded d (clock n) i) (enumerate 0 (incarnations (ad_physical_device d) fd)) (fd_members fd))"
    using assms(1) by (intro table_ok_index retire_all_ok) (simp add: members_ok_def)
  ultimately show ?thesis
    using new_record_ok [OF assms(2), of fd ?now] by (simp add: observe_new_def Let_def members_ok_def table_ok_emplace)
qed

lemma drain_source_ok: "member_ok fid epoch i e \<Longrightarrow> member_ok fid epoch i (drain_source now e)"
proof -
  have "l \<in> set (sort (h @ [l]))" for l :: string and h by simp
  then have "sort (h @ [l]) \<noteq> []" for l :: string and h by (metis empty_iff empty_set)
  then show "member_ok fid epoch i e \<Longrightarrow> member_ok fid epoch i (drain_source now e)"
    by (clarsimp simp: drain_source_def Let_def member_ok_defs gen_next_pos std_sort_sort)
qed

lemma observe_inv: "fd_inv fd \<Longrightarrow> fd_inv (snd (observe put clock d c fd))"
proof -
  assume inv: "fd_inv fd"
  then have ok: "members_ok fd" by (simp add: fd_inv_def)
  have new: "fd_inv (snd (observe_new clock d fd))" if "descriptor_ok (ad_id d) d"
    by (rule fd_inv_members [OF inv observe_new_ok [OF ok that] observe_new_evolves])
       (simp_all add: observe_new_def Let_def)
  have refresh: "fd_inv (snd (observe_refresh now d e fd))"
    if "descriptor_ok (ad_id d) d" "om_find (ad_id d) (fd_members fd) = Some e"
      "mr_agent_boot (en_record e) = ad_agent_boot d" for now e
    by (rule fd_inv_members [OF inv observe_refresh_ok [OF ok that(2,1,3)] observe_refresh_evolves [OF that(2)]])
       (simp_all add: observe_refresh_def Let_def)
  from inv show ?thesis
    unfolding observe_def Let_def
    by (simp add: split_beta new refresh observed_descriptor_ok descriptor_identity_def split: option.split)
qed

lemma transition_inv: "fd_inv fd \<Longrightarrow> fd_inv (snd (transition put clock i t c fd))"
proof -
  assume inv: "fd_inv fd"
  have "fd_inv (snd (apply_transition now i t e fd))"
    if "om_find i (fd_members fd) = Some e" "is_legal_transition (mr_state (en_record e)) t" for now e
    by (rule fd_inv_members [OF inv apply_transition_ok [OF _ that(1)] apply_transition_evolves [OF that]])
       (use inv that in \<open>auto simp: fd_inv_def apply_transition_def Let_def\<close>)
  with inv show ?thesis unfolding transition_def by (simp add: split_beta split: option.split)
qed

lemma update_capabilities_inv: "fd_inv fd \<Longrightarrow> fd_inv (snd (update_capabilities put clock i s ev c fd))"
proof -
  assume inv: "fd_inv fd"
  have "fd_inv (snd (apply_capabilities now i s ev e fd))"
    if "om_find i (fd_members fd) = Some e" "cs_validate s = EC_Ok" "ev_subject ev = i" for now e
    by (rule fd_inv_members [OF inv apply_capabilities_ok [OF _ that] apply_capabilities_evolves [OF that(1)]])
       (use inv in \<open>simp_all add: fd_inv_def apply_capabilities_def Let_def\<close>)
  with inv show ?thesis unfolding update_capabilities_def Let_def by (simp add: split_beta split: option.split)
qed

subsection \<open>Policy and workloads\<close>

lemma abort_plan_ok: "plan_ok fd i p \<Longrightarrow> plan_ok fd i (abort_plan code subject detail p)"
  by (simp add: plan_ok_def abort_plan_def)

lemma set_policy_inv: "fd_inv fd \<Longrightarrow> fd_inv (snd (set_policy put clock policy c fd))"
proof -
  assume inv: "fd_inv fd"
  let ?p = "pl_refresh_identity policy"
  let ?abort = "\<lambda>p. if is_terminal_migration_state (mp_state p) then p
    else abort_plan EC_StalePolicy ''policy'' ''policy generation advanced while this plan was in flight'' p"
  let ?stamp = "\<lambda>e. e\<lparr>en_record := (en_record e)\<lparr>mr_policy_generation := pl_generation ?p\<rparr>\<rparr>"
  let ?fd = "fd\<lparr>fd_policy := ?p, fd_decisions := [], fd_plans := om_map ?abort (fd_plans fd),
    fd_members := om_map ?stamp (fd_members fd), fd_generation := gen_next (fd_generation fd)\<rparr>"
  have evolves: "om.evolves member_evolves (fd_members fd) (fd_members ?fd)"
    by (simp add: evolves_map member_evolves_def lifecycle_stay)
  have "members_ok ?fd"
    using inv by (auto simp: fd_inv_def members_ok_def table_ok_def indexed_def member_ok_defs
        intro!: holds_map elim!: holds_mono)
  moreover have "plans_ok ?fd"
  proof -
    have step: "plan_ok ?fd k (?abort v)" if "plan_ok fd k v" for k v
      using plan_ok_frame [OF that evolves] abort_plan_ok [of ?fd k v] by simp
    have "om.holds (plan_ok fd) (fd_plans fd)" using inv by (simp add: fd_inv_def plans_ok_def)
    then have "om.holds (\<lambda>k v. plan_ok ?fd k (?abort v)) (fd_plans fd)" by (rule holds_mono) (rule step)
    then have "om.holds (plan_ok ?fd) (om_map ?abort (fd_plans fd))" by (rule holds_map)
    with inv show ?thesis by (simp add: fd_inv_def plans_ok_def)
  qed
  ultimately have "fd_inv ?fd" using inv by (simp add: fd_inv_def workloads_ok_def decisions_ok_def om.holds_def)
  with inv show ?thesis by (simp add: set_policy_def Let_def)
qed

lemma register_workload_inv: "fd_inv fd \<Longrightarrow> fd_inv (snd (register_workload put clock w c fd))"
proof -
  assume inv: "fd_inv fd"
  let ?w = "stored_profile w"
  let ?fd = "fd\<lparr>fd_workloads := om_put (wp_class_id ?w) ?w (fd_workloads fd), fd_generation := gen_next (fd_generation fd)\<rparr>"
  have "fd_inv ?fd" if "wp_validate ?w = EC_Ok"
  proof -
    have "workloads_ok ?fd" using inv that by (simp add: fd_inv_def workloads_ok_def om_wf_put om.holds_put)
    moreover have "decisions_ok ?fd"
      by (rule decisions_ok_frame [of fd])
         (use inv in \<open>simp_all add: fd_inv_def members_evolve_refl om.evolves_put\<close>)
    moreover have "plans_ok ?fd"
      by (rule plans_ok_frame [of fd]) (use inv in \<open>simp_all add: fd_inv_def members_evolve_refl\<close>)
    ultimately show ?thesis using inv by (simp add: fd_inv_def members_ok_def)
  qed
  with inv show ?thesis by (simp add: register_workload_def Let_def)
qed

subsection \<open>Decisions\<close>

lemma evaluate_compatibility_binding:
  assumes "evaluate_compatibility wall w ctx = Inr d" "ec_policy ctx = Some p"
  shows "cd_federation d = ec_federation ctx" "cd_policy d = pl_id p"
    "cd_accelerator d = et_accelerator (ec_target ctx)" "cd_workload d = wp_class_id w"
  using assms by (auto simp: evaluate_compatibility_def Let_def split_beta refresh_decision_identity_def
      split: option.splits if_splits)

lemma evaluate_compatibility_identity:
  "evaluate_compatibility wall w ctx = Inr d \<Longrightarrow> cd_identity d = cd_decision_id d"
  by (erule evaluate_compatibility_cases) simp

lemma evaluate_locked_context:
  assumes "evaluate_locked wall steady w i origin must fd = Inr d"
  obtains e source where "om_find i (fd_members fd) = Some e"
    "evaluate_compatibility wall w
       (fd_context w steady (entry_target (fd_policy fd) steady (mr_accelerator (en_record e)) e) source fd) = Inr d"
  using assms unfolding evaluate_locked_def Let_def
  by (auto split: option.splits if_splits)

lemma evaluate_locked_ok:
  assumes "evaluate_locked wall steady w i origin must fd = Inr d" "members_ok fd"
    "om_find (wp_class_id w) (fd_workloads fd) \<noteq> None"
  shows "decision_ok fd (cd_decision_id d) d"
proof -
  from assms(1) obtain e source where e: "om_find i (fd_members fd) = Some e" and
    run: "evaluate_compatibility wall w
       (fd_context w steady (entry_target (fd_policy fd) steady (mr_accelerator (en_record e)) e) source fd) = Inr d"
    by (rule evaluate_locked_context)
  have "mr_accelerator (en_record e) = i"
    using members_ok_find [OF assms(2) e] by (simp add: member_ok_def record_ok_def)
  with e assms(3) evaluate_compatibility_binding [OF run] evaluate_compatibility_identity [OF run] show ?thesis
    by (simp add: decision_ok_def fd_context_def entry_target_def Let_def)
qed

lemma holds_subset:
  assumes "om.holds P m" "om_wf m" "om_wf m'" "set m' \<subseteq> set m"
  shows "om.holds P m'"
  using assms by (auto simp: om.holds_def om_find_mem)

lemma evict_oldest_ok:
  "om_wf ds \<Longrightarrow> om_wf (evict_oldest limit ds) \<and> set (evict_oldest limit ds) \<subseteq> set ds \<and>
     length (evict_oldest limit ds) \<le> limit"
proof (induction limit ds rule: evict_oldest.induct)
  case (1 limit ds)
  have "set (om_erase k ds) \<subseteq> set ds" for k by (auto simp: om_erase_def)
  with 1 show ?case
    by (cases "length ds > limit") (auto simp: evict_oldest.simps [of limit ds] om_wf_erase)
qed

lemma om_wf_drop: "om_wf m \<Longrightarrow> om_wf (drop n m)"
  by (simp add: om_wf_def drop_map [symmetric] sorted_wrt_drop)

lemma om_wf_filter: "om_wf m \<Longrightarrow> om_wf (filter P m)"
  unfolding om_wf_def by (induction m) auto

text \<open>The table of decisions after some are added and some removed.\<close>

lemma fd_inv_decisions:
  assumes "fd_inv fd" "om_wf ds" "om.holds (decision_ok fd) ds" "length ds \<le> fd_max_recorded_decisions fd"
  shows "fd_inv (fd\<lparr>fd_decisions := ds\<rparr>)"
  using assms by (simp add: fd_inv_defs decision_ok_def [abs_def] plan_ok_def [abs_def] endpoint_ok_def)

lemma fd_evaluate_inv: "fd_inv fd \<Longrightarrow> fd_inv (snd (fd_evaluate put clock steady w i origin fd))"
proof -
  assume inv: "fd_inv fd"
  have "fd_inv (fd\<lparr>fd_decisions := evict_oldest (fd_max_recorded_decisions fd) (om_put (cd_decision_id d) d (fd_decisions fd))\<rparr>)"
    if "om_find w (fd_workloads fd) = Some profile" "evaluate_locked wall steady profile i origin True fd = Inr d"
    for profile wall d
  proof -
    have "wp_class_id profile = w" using inv that(1) by (simp add: fd_inv_def workloads_ok_def om.holds_def)
    then have "decision_ok fd (cd_decision_id d) d"
      using inv that by (intro evaluate_locked_ok [OF that(2)]) (simp_all add: fd_inv_def)
    then have holds: "om.holds (decision_ok fd) (om_put (cd_decision_id d) d (fd_decisions fd))"
      and wf: "om_wf (om_put (cd_decision_id d) d (fd_decisions fd))"
      using inv by (simp_all add: fd_inv_def decisions_ok_def om.holds_put om_wf_put)
    note evicted = evict_oldest_ok [OF wf, of "fd_max_recorded_decisions fd"]
    show ?thesis
      by (rule fd_inv_decisions [OF inv _ holds_subset [OF holds wf]]) (simp_all add: evicted)
  qed
  with inv show ?thesis by (simp add: fd_evaluate_def split: option.split sum.split)
qed

lemma invalidate_stale_inv: "fd_inv fd \<Longrightarrow> fd_inv (snd (invalidate_stale_decisions put now fd))"
proof -
  assume inv: "fd_inv fd"
  let ?kept = "filter (\<lambda>(i, d). decision_kept fd d) (fd_decisions fd)"
  have old: "om.holds (decision_ok fd) (fd_decisions fd)" "om_wf (fd_decisions fd)"
    "length (fd_decisions fd) \<le> fd_max_recorded_decisions fd"
    using inv by (simp_all add: fd_inv_def decisions_ok_def)
  have wf: "om_wf ?kept" by (rule om_wf_filter [OF old(2)])
  have "om.holds (decision_ok fd) ?kept" by (rule holds_subset [OF old(1,2) wf]) auto
  moreover have "length ?kept \<le> fd_max_recorded_decisions fd"
    using length_filter_le old(3) by (rule order_trans)
  ultimately have "fd_inv (fd\<lparr>fd_decisions := ?kept\<rparr>)" by (rule fd_inv_decisions [OF inv wf])
  then show ?thesis by (simp add: invalidate_stale_decisions_def Let_def)
qed

subsection \<open>Plans\<close>

lemma entry_endpoint_ok: "om_find i (fd_members fd) = Some e \<Longrightarrow> endpoint_ok fd i (mr_device_generation (en_record e))"
  by (simp add: endpoint_ok_def)

lemma planned_ok:
  assumes "plan_migration wall (fd_request w i src j dst sd dd fd) = Inr p"
    "om_find i (fd_members fd) = Some src" "om_find j (fd_members fd) = Some dst"
  shows "plan_ok fd (mp_id p) p"
proof -
  let ?q = "fd_request w i src j dst sd dd fd"
  from assms(1) obtain c where p: "p = build_plan wall ?q w (fd_policy fd) c" and "i \<noteq> j"
    by (auto simp: plan_migration_def fd_request_def entry_endpoint_def split: if_splits)
  have "mp_federation p = fd_id fd" "mp_source p = i" "mp_destination p = j"
    "mp_source_generation p = mr_device_generation (en_record src)"
    "mp_destination_generation p = mr_device_generation (en_record dst)"
    unfolding p by (auto simp: build_plan_def Let_def refuse_def initial_plan_def fd_request_def entry_endpoint_def
        refresh_migration_identity_def)
  with \<open>i \<noteq> j\<close> assms(2,3) show ?thesis
    using build_plan_identity [of wall ?q w "fd_policy fd" c]
    by (simp add: plan_ok_def endpoint_ok_def p [symmetric])
qed

lemma fd_inv_plans:
  assumes "fd_inv fd" "plans_ok fd'" "fd_members fd' = fd_members fd" "fd_id fd' = fd_id fd"
    "fd_epoch fd' = fd_epoch fd" "fd_policy fd' = fd_policy fd" "fd_workloads fd' = fd_workloads fd"
    "fd_physical_index fd' = fd_physical_index fd" "fd_decisions fd' = fd_decisions fd"
    "fd_max_recorded_decisions fd' = fd_max_recorded_decisions fd"
  shows "fd_inv fd'"
  using assms by (simp add: fd_inv_def members_ok_def workloads_ok_def decisions_ok_def decision_ok_def [abs_def])

lemma plans_ok_put:
  assumes "plans_ok fd" "plan_ok fd k p" "fd_plans fd' = om_put k p (fd_plans fd)"
    "fd_members fd' = fd_members fd" "fd_id fd' = fd_id fd"
  shows "plans_ok fd'"
proof -
  have "plan_ok fd' = plan_ok fd" using assms(4,5) by (simp add: plan_ok_def [abs_def] endpoint_ok_def fun_eq_iff)
  with assms(1-3) show ?thesis by (simp add: plans_ok_def om_wf_put om.holds_put)
qed

lemma abort_migration_inv: "fd_inv fd \<Longrightarrow> fd_inv (snd (abort_migration put clock pid detail c fd))"
proof -
  assume inv: "fd_inv fd"
  have "fd_inv (fd\<lparr>fd_plans := om_put pid (abort_plan code subject detail p) (fd_plans fd),
      fd_generation := gen_next (fd_generation fd)\<rparr>)" if "om_find pid (fd_plans fd) = Some p" for p code subject
  proof (rule fd_inv_plans [OF inv])
    have "plan_ok fd pid p" using inv that by (simp add: fd_inv_def plans_ok_def om.holds_def)
    then have "plan_ok fd pid (abort_plan code subject detail p)" by (rule abort_plan_ok)
    then show "plans_ok (fd\<lparr>fd_plans := om_put pid (abort_plan code subject detail p) (fd_plans fd),
        fd_generation := gen_next (fd_generation fd)\<rparr>)"
      by (rule plans_ok_put [of fd, rotated]) (use inv in \<open>simp_all add: fd_inv_def\<close>)
  qed simp_all
  with inv show ?thesis by (simp add: abort_migration_def Let_def split: option.split)
qed

lemma advance_migration_inv: "fd_inv fd \<Longrightarrow> fd_inv (snd (advance_migration put clock pid t c fd))"
proof -
  assume inv: "fd_inv fd"
  let ?fd = "\<lambda>p. fd\<lparr>fd_plans := om_put pid (p\<lparr>mp_state := t\<rparr>) (fd_plans fd), fd_generation := gen_next (fd_generation fd)\<rparr>"
  have moved: "fd_inv (?fd p)" if "om_find pid (fd_plans fd) = Some p" for p
  proof (rule fd_inv_plans [OF inv])
    have "plan_ok fd pid p" using inv that by (simp add: fd_inv_def plans_ok_def om.holds_def)
    then have "plan_ok fd pid (p\<lparr>mp_state := t\<rparr>)" by (simp add: plan_ok_def)
    then show "plans_ok (?fd p)"
      by (rule plans_ok_put [of fd, rotated]) (use inv in \<open>simp_all add: fd_inv_def\<close>)
  qed simp_all
  let ?fd' = "\<lambda>p ms. fd\<lparr>fd_plans := om_put pid (p\<lparr>mp_state := t\<rparr>) (fd_plans fd), fd_members := ms,
    fd_generation := gen_next (fd_generation fd)\<rparr>"
  have drained: "fd_inv (?fd' p (om_put i (drain_source now src) (fd_members fd)))"
    if "om_find pid (fd_plans fd) = Some p" "om_find i (fd_members fd) = Some src" for p i src now
  proof (rule fd_inv_members [OF moved [OF that(1)]])
    have "member_ok (fd_id fd) (fd_epoch fd) i src" using inv that(2) by (simp add: fd_inv_def members_ok_find)
    then have "member_ok (fd_id fd) (fd_epoch fd) i (drain_source now src)" by (rule drain_source_ok)
    then show "members_ok (?fd' p (om_put i (drain_source now src) (fd_members fd)))"
      by (rule members_ok_replace [of fd i src, rotated 2])
         (use inv that(2) in \<open>simp_all add: fd_inv_def drain_source_def Let_def\<close>)
  qed (simp_all add: evolves_replace [OF that(2) drain_source_evolves])
  from inv moved drained show ?thesis
    unfolding advance_migration_def Let_def by (cases "t = GS_Committed") (simp_all split: option.split)
qed

lemma fd_plan_migration_inv: "fd_inv fd \<Longrightarrow> fd_inv (snd (fd_plan_migration put clock steady wid i j c fd))"
proof -
  assume inv: "fd_inv fd"
  let ?fd = "fd\<lparr>fd_generation := gen_next (fd_generation fd)\<rparr>"
  have inv1: "fd_inv ?fd" by (rule fd_inv_plans [OF inv plans_ok_frame [of fd]])
    (use inv in \<open>simp_all add: fd_inv_def members_evolve_refl\<close>)
  have recorded: "fd_inv (fd\<lparr>fd_generation := gen_next (fd_generation fd), fd_plans := om_put (mp_id p) p (fd_plans fd),
      fd_decisions := drop (length ds - fd_max_recorded_decisions fd) ds\<rparr>)"
    if "om_find wid (fd_workloads fd) = Some w" "om_find i (fd_members fd) = Some src" "om_find j (fd_members fd) = Some dst"
      "evaluate_locked wall1 steady1 w i o1 False fd = Inr sd" "evaluate_locked wall2 steady2 w j o2 False fd = Inr dd"
      "plan_migration wall3 (fd_request w i src j dst sd dd ?fd) = Inr p"
      "ds = om_put (cd_decision_id dd) dd (om_put (cd_decision_id sd) sd (fd_decisions fd))"
    for w src dst wall1 steady1 o1 sd wall2 steady2 o2 dd wall3 p ds
  proof -
    let ?fd1 = "?fd\<lparr>fd_plans := om_put (mp_id p) p (fd_plans fd)\<rparr>"
    have "plan_ok ?fd (mp_id p) p" by (rule planned_ok [OF that(6)]) (simp_all add: that(2,3))
    then have "plans_ok ?fd1"
      by (rule plans_ok_put [of ?fd, rotated]) (use inv1 in \<open>simp_all add: fd_inv_def\<close>)
    then have inv2: "fd_inv ?fd1" by (rule fd_inv_plans [OF inv1]) simp_all
    have "wp_class_id w = wid" using inv that(1) by (simp add: fd_inv_def workloads_ok_def om.holds_def)
    then have "decision_ok fd (cd_decision_id sd) sd" "decision_ok fd (cd_decision_id dd) dd"
      using inv that(1) evaluate_locked_ok [OF that(4)] evaluate_locked_ok [OF that(5)] by (simp_all add: fd_inv_def)
    then have "om.holds (decision_ok fd) ds" and wf: "om_wf ds"
      using inv that(7) by (simp_all add: fd_inv_def decisions_ok_def om.holds_put om_wf_put)
    then have holds: "om.holds (decision_ok ?fd1) ds" by (simp add: decision_ok_def [abs_def])
    show ?thesis
      using fd_inv_decisions [OF inv2 om_wf_drop [OF wf] holds_subset [OF holds wf om_wf_drop [OF wf]]]
      by (simp add: set_drop_subset)
  qed
  show ?thesis
    unfolding fd_plan_migration_def Let_def
    by (auto simp: inv inv1 recorded split: option.splits sum.splits)
qed

subsection \<open>Every run keeps the invariant\<close>

lemma fd_persist_inv: "fd_inv fd \<Longrightarrow> fd_inv (snd (fd_persist put now fd))"
proof -
  have frame: "fd_inv (fd\<lparr>fd_force_persist := b\<rparr>) = fd_inv fd" for fd :: "'a federation" and b
    by (simp add: fd_inv_defs decision_ok_def [abs_def] plan_ok_def [abs_def] endpoint_ok_def)
  assume "fd_inv fd"
  then show ?thesis by (simp add: fd_persist_def split_beta frame)
qed

lemma fd_shutdown_inv: "fd_inv fd \<Longrightarrow> fd_inv (snd (fd_shutdown_op put now fd))"
proof -
  have frame: "fd_inv (fd\<lparr>fd_shutdown := b\<rparr>) = fd_inv fd" for fd :: "'a federation" and b
    by (simp add: fd_inv_defs decision_ok_def [abs_def] plan_ok_def [abs_def] endpoint_ok_def)
  assume "fd_inv fd"
  then show ?thesis by (simp add: fd_shutdown_op_def frame)
qed

lemma perform_inv: "fd_inv fd \<Longrightarrow> fd_inv (snd (perform put clock steady op fd))"
  by (cases op) (simp_all add: observe_inv transition_inv update_capabilities_inv set_policy_inv register_workload_inv
      fd_evaluate_inv invalidate_stale_inv fd_plan_migration_inv advance_migration_inv abort_migration_inv
      fd_persist_inv fd_shutdown_inv)

lemma steps_inv: "fd_steps fd fd' \<Longrightarrow> fd_inv fd \<Longrightarrow> fd_inv fd'"
  by (induction rule: fd_steps.induct) (simp_all add: perform_inv)

end
