(* ===== verification/Federation_Recovery.thy ===== *)
theory Federation_Recovery
  imports Federation_Invariant
begin

section \<open>Snapshots of a federation and recovery\<close>

text \<open>
  What \<^verbatim>\<open>snapshot_locked\<close> stores of a federation and what \<^verbatim>\<open>restore_locked\<close> makes of it.
\<close>

subsection \<open>The snapshot of a federation\<close>

lemma find_by_key:
  fixes k :: "'a \<Rightarrow> 'k :: linorder"
  assumes "sorted_wrt (<) (map k xs)"
  shows "(let i = lower_bound (\<lambda>x. k x < v) xs in if i < length xs \<and> k (xs ! i) = v then Some (xs ! i) else None) =
    map_of (map (\<lambda>x. (k x, x)) xs) v"
proof -
  define i where "i = lower_bound (\<lambda>x. k x < v) xs"
  have i: "i = lower_bound (\<lambda>x. x < v) (map k xs)" unfolding i_def by (rule lower_bound_map)
  have sorted: "sorted (map k xs)" and dist: "distinct (map k xs)"
    using assms by (auto simp: strict_sorted_iff)
  have found: "i < length xs \<and> k (xs ! i) = v \<longleftrightarrow> v \<in> k ` set xs"
    using lower_bound_found [OF sorted, of v] by (auto simp: i)
  show ?thesis
  proof (cases "v \<in> k ` set xs")
    case True
    with found have "i < length xs" "k (xs ! i) = v" by auto
    with map_of_key_nth [OF dist this] show ?thesis by (simp add: i_def [symmetric])
  next
    case False
    then have "map_of (map (\<lambda>x. (k x, x)) xs) v = None" by (auto simp: map_of_eq_None_iff)
    with False found show ?thesis by (auto simp: i_def [symmetric])
  qed
qed

lemma keys_of_table:
  assumes "om_wf m" "om.holds (\<lambda>i v. k v = i) m"
  shows "map (k \<circ> snd) m = map fst m"
  using assms by (auto simp: om.holds_def om_find_mem)

lemma map_of_table:
  assumes "om_wf m" "om.holds (\<lambda>i v. k (f v) = i) m"
  shows "map_of (map (\<lambda>x. (k x, x)) (map (f \<circ> snd) m)) i = map_option f (om_find i m)"
proof -
  have eq: "map (\<lambda>x. (k x, x)) (map (f \<circ> snd) m) = map (\<lambda>(i, v). (i, f v)) m"
    using assms by (auto simp: om.holds_def om_find_mem)
  show ?thesis unfolding eq by (simp add: om_find_def map_of_map)
qed

lemma sorted_table:
  assumes "om_wf m" "om.holds (\<lambda>i v. k (f v) = i) m"
  shows "sorted_wrt (<) (map k (map (f \<circ> snd) m))"
proof -
  have eq: "map k (map (f \<circ> snd) m) = map fst m" using keys_of_table [OF assms] by (simp add: comp_def)
  show ?thesis unfolding eq using assms(1) by (simp add: om_wf_def)
qed

text \<open>The keys of the tables, from the invariant.\<close>

lemma fd_inv_keys:
  assumes "fd_inv fd"
  shows "om_wf (fd_members fd)" "om.holds (\<lambda>i e. mr_accelerator (en_record e) = i) (fd_members fd)"
    "om.holds (\<lambda>i e. ad_id (en_descriptor e) = i) (fd_members fd)"
    "om_wf (fd_workloads fd)" "om.holds (\<lambda>i w. wp_class_id (id w) = i) (fd_workloads fd)"
    "om_wf (fd_decisions fd)" "om.holds (\<lambda>i d. cd_decision_id (id d) = i) (fd_decisions fd)"
    "om_wf (fd_plans fd)" "om.holds (\<lambda>i p. mp_id (id p) = i) (fd_plans fd)"
  using assms by (simp_all add: fd_inv_defs table_ok_def om.holds_def member_ok_def record_ok_def descriptor_ok_def
      decision_ok_def plan_ok_def)

definition raw_snapshot :: "int \<Rightarrow> 's federation \<Rightarrow> federation_snapshot" where
  "raw_snapshot now fd =
     \<lparr>sn_federation = fd_id fd, sn_generation = fd_generation fd, sn_epoch = fd_epoch fd, sn_name = fd_name fd,
      sn_policy = pl_id (fd_policy fd), sn_policy_generation = pl_generation (fd_policy fd),
      sn_policy_data = fd_policy fd, sn_members = map (en_record \<circ> snd) (fd_members fd),
      sn_descriptors = map (en_descriptor \<circ> snd) (fd_members fd), sn_workloads = map (id \<circ> snd) (fd_workloads fd),
      sn_decisions = map (id \<circ> snd) (fd_decisions fd), sn_plans = map (id \<circ> snd) (fd_plans fd), sn_created_at = now\<rparr>"

lemma snapshot_locked_raw: "fd_inv fd \<Longrightarrow> snapshot_locked now fd = raw_snapshot now fd"
proof -
  assume inv: "fd_inv fd"
  note keys = fd_inv_keys [OF inv]
  have "sn_sorted (raw_snapshot now fd)"
    unfolding sn_sorted_def raw_snapshot_def
    using sorted_table [where f = en_record, OF keys(1,2)] sorted_table [where f = en_descriptor, OF keys(1,3)]
      sorted_table [where f = id, OF keys(4,5)] sorted_table [where f = id, OF keys(6,7)]
      sorted_table [where f = id, OF keys(8,9)]
    by (simp add: strict_sorted_iff)
  then have "sn_canonicalize (raw_snapshot now fd) = raw_snapshot now fd" by (rule sn_canonicalize_id)
  then show ?thesis by (simp add: snapshot_locked_def raw_snapshot_def)
qed

lemma snapshot_find_descriptor:
  assumes "fd_inv fd"
  shows "find_descriptor (raw_snapshot now fd) i = map_option en_descriptor (om_find i (fd_members fd))"
proof -
  note keys = fd_inv_keys [OF assms]
  have "find_descriptor (raw_snapshot now fd) i =
      map_of (map (\<lambda>d. (ad_id d, d)) (map (en_descriptor \<circ> snd) (fd_members fd))) i"
    using find_by_key [OF sorted_table [where f = en_descriptor, OF keys(1,3)]]
    by (simp only: find_descriptor_def raw_snapshot_def federation_snapshot.simps)
  also have "\<dots> = map_option en_descriptor (om_find i (fd_members fd))"
    by (rule map_of_table [where f = en_descriptor, OF keys(1,3)])
  finally show ?thesis .
qed

lemma snapshot_find_workload:
  assumes "fd_inv fd"
  shows "find_workload (raw_snapshot now fd) i = om_find i (fd_workloads fd)"
proof -
  note keys = fd_inv_keys [OF assms]
  have "find_workload (raw_snapshot now fd) i =
      map_of (map (\<lambda>w. (wp_class_id w, w)) (map (id \<circ> snd) (fd_workloads fd))) i"
    using find_by_key [OF sorted_table [where f = id, OF keys(4,5)]]
    by (simp only: find_workload_def raw_snapshot_def federation_snapshot.simps)
  also have "\<dots> = map_option id (om_find i (fd_workloads fd))"
    by (rule map_of_table [where f = id, OF keys(4,5)])
  finally show ?thesis by (simp add: option.map_id)
qed

lemma find_descriptor_wire [simp]: "find_descriptor (sn_wire s) i = map_option ad_wire (find_descriptor s i)"
  by (simp add: find_descriptor_def sn_wire_def Let_def lower_bound_map [symmetric] comp_def)

subsection \<open>Restoring the members\<close>

lemma restore_member_fields [simp]:
  "fd_id (restore_member sn clock x fd) = fd_id fd" "fd_epoch (restore_member sn clock x fd) = fd_epoch fd"
  "fd_generation (restore_member sn clock x fd) = fd_generation fd"
  "fd_policy (restore_member sn clock x fd) = fd_policy fd"
  "fd_shutdown (restore_member sn clock x fd) = fd_shutdown fd"
  "fd_workloads (restore_member sn clock x fd) = fd_workloads fd"
  "fd_decisions (restore_member sn clock x fd) = fd_decisions fd"
  "fd_plans (restore_member sn clock x fd) = fd_plans fd"
  "fd_max_recorded_decisions (restore_member sn clock x fd) = fd_max_recorded_decisions fd"
  "fd_store (restore_member sn clock x fd) = fd_store fd"
  by (simp_all add: restore_member_def split_beta split: option.split)

lemma restore_members_fields [simp]:
  "fd_id (fold (restore_member sn clock) xs fd) = fd_id fd"
  "fd_epoch (fold (restore_member sn clock) xs fd) = fd_epoch fd"
  "fd_generation (fold (restore_member sn clock) xs fd) = fd_generation fd"
  "fd_policy (fold (restore_member sn clock) xs fd) = fd_policy fd"
  "fd_shutdown (fold (restore_member sn clock) xs fd) = fd_shutdown fd"
  "fd_workloads (fold (restore_member sn clock) xs fd) = fd_workloads fd"
  "fd_decisions (fold (restore_member sn clock) xs fd) = fd_decisions fd"
  "fd_plans (fold (restore_member sn clock) xs fd) = fd_plans fd"
  "fd_max_recorded_decisions (fold (restore_member sn clock) xs fd) = fd_max_recorded_decisions fd"
  "fd_store (fold (restore_member sn clock) xs fd) = fd_store fd"
  by (induction xs arbitrary: fd) simp_all

text \<open>Every member of the new table was there before or is a stored one, restored; every stored member with
  a descriptor is there.\<close>

lemma restore_members_from:
  assumes "om_find i (fd_members (fold (restore_member sn clock) xs fd)) = Some e"
  shows "om_find i (fd_members fd) = Some e \<or>
    (\<exists>n r d. (n, r) \<in> set xs \<and> mr_accelerator r = i \<and> find_descriptor sn i = Some d \<and>
       e = restored_entry (fd_epoch fd) (fd_generation fd) (clock n) r d)"
  using assms
proof (induction xs arbitrary: fd)
  case (Cons x xs)
  obtain n r where x: "x = (n, r)" by fastforce
  from Cons.prems have "om_find i (fd_members (fold (restore_member sn clock) xs (restore_member sn clock x fd))) = Some e"
    by simp
  from Cons.IH [OF this] have "om_find i (fd_members (restore_member sn clock x fd)) = Some e \<or>
    (\<exists>n r d. (n, r) \<in> set xs \<and> mr_accelerator r = i \<and> find_descriptor sn i = Some d \<and>
       e = restored_entry (fd_epoch fd) (fd_generation fd) (clock n) r d)" by simp
  then show ?case
    by (auto simp: x restore_member_def om_find_emplace split: option.splits if_splits)
qed simp

lemma restore_members_keep:
  "om_find i (fd_members fd) \<noteq> None \<Longrightarrow> om_find i (fd_members (fold (restore_member sn clock) xs fd)) \<noteq> None"
proof (induction xs arbitrary: fd)
  case (Cons x xs)
  then have "om_find i (fd_members (restore_member sn clock x fd)) \<noteq> None"
    by (auto simp: restore_member_def split_beta om_find_emplace split: option.splits)
  from Cons.IH [OF this] show ?case by simp
qed simp

lemma restore_members_present:
  "(n, r) \<in> set xs \<Longrightarrow> find_descriptor sn (mr_accelerator r) \<noteq> None \<Longrightarrow>
     om_find (mr_accelerator r) (fd_members (fold (restore_member sn clock) xs fd)) \<noteq> None"
proof (induction xs arbitrary: fd)
  case (Cons x xs)
  show ?case
  proof (cases "x = (n, r)")
    case True
    with Cons.prems have "om_find (mr_accelerator r) (fd_members (restore_member sn clock x fd)) \<noteq> None"
      by (auto simp: restore_member_def om_find_emplace)
    from restore_members_keep [OF this] show ?thesis by simp
  next
    case False
    with Cons show ?thesis by simp
  qed
qed simp

lemma restore_members_ok:
  assumes "members_ok fd"
    "\<And>n r d. (n, r) \<in> set xs \<Longrightarrow> find_descriptor sn (mr_accelerator r) = Some d \<Longrightarrow>
       member_ok (fd_id fd) (fd_epoch fd) (mr_accelerator r) (restored_entry (fd_epoch fd) (fd_generation fd) (clock n) r d)"
  shows "members_ok (fold (restore_member sn clock) xs fd)"
  using assms
proof (induction xs arbitrary: fd)
  case (Cons x xs)
  obtain n r where x: "x = (n, r)" by fastforce
  have "members_ok (restore_member sn clock x fd)"
  proof (cases "find_descriptor sn (mr_accelerator r)")
    case None
    with Cons.prems(1) show ?thesis by (simp add: x restore_member_def members_ok_def)
  next
    case (Some d)
    let ?e = "restored_entry (fd_epoch fd) (fd_generation fd) (clock n) r d"
    have "mr_physical_device (en_record ?e) = mr_physical_device r" by (simp add: restored_entry_def)
    then have "indexed (index_push (mr_physical_device r) (mr_accelerator r) (fd_physical_index fd)) (mr_accelerator r) ?e"
      using indexed_push_new [of ?e] by simp
    moreover have "member_ok (fd_id fd) (fd_epoch fd) (mr_accelerator r) ?e" using Cons.prems(2) [of n r d] Some by (simp add: x)
    ultimately show ?thesis
      using Cons.prems(1) Some by (simp add: x restore_member_def members_ok_def table_ok_emplace table_ok_index)
  qed
  then show ?case using Cons.IH [of "restore_member sn clock x fd"] Cons.prems(2) by simp
qed simp

subsection \<open>The restored federation\<close>

lemma fold_emplace_find:
  "om_find i (fold (\<lambda>x. om_emplace (k x) (f x)) xs m) =
     (case om_find i m of Some v \<Rightarrow> Some v | None \<Rightarrow> map_option f (map_of (map (\<lambda>x. (k x, x)) xs) i))"
  by (induction xs arbitrary: m) (auto simp: om_find_emplace split: option.split)

lemma fold_emplace_wf: "om_wf m \<Longrightarrow> om_wf (fold (\<lambda>x. om_emplace (k x) (f x)) xs m)"
  by (induction xs arbitrary: m) (simp_all add: om_wf_emplace)

lemma restored_state_not_active: "restored_state s \<noteq> MS_Active" "restored_state s \<noteq> MS_Admitted" "restored_state s \<noteq> MS_Draining"
  "restored_state s = MS_Discovered \<longleftrightarrow> s = MS_Discovered"
  by (auto simp: restored_state_def)

lemma restored_entry_ok:
  assumes "member_ok fid old_epoch i e"
  shows "member_ok fid epoch i (restored_entry epoch g now (en_record e) (ad_wire (en_descriptor e)))"
  using assms
  by (clarsimp simp: restored_entry_def member_ok_defs gen_next_pos restored_state_not_active restored_evidence_def
      list_all_iff ad_wire_def ev_wire_def)

lemma mem_enumerate: "(n, x) \<in> set (enumerate m xs) \<Longrightarrow> x \<in> set xs"
  by (auto simp: in_set_enumerate_eq)

lemma enumerate_mem: "x \<in> set xs \<Longrightarrow> \<exists>n. (n, x) \<in> set (enumerate m xs)"
  using map_snd_enumerate [of m xs] by (metis imageE image_set prod.collapse)

text \<open>\<open>blank fd0\<close>: the state in which recovery starts.\<close>

definition blank :: "'s federation \<Rightarrow> bool" where
  "blank fd0 \<longleftrightarrow> fd_members fd0 = [] \<and> fd_physical_index fd0 = [] \<and> fd_workloads fd0 = [] \<and> fd_decisions fd0 = [] \<and>
     fd_plans fd0 = []"

lemma blank_create [simp]: "blank (fd_create cf fresh store)"
  by (simp add: blank_def fd_create_def)

definition restored_from :: "'s federation \<Rightarrow> 't federation \<Rightarrow> bool" where
  "restored_from fd fd' \<longleftrightarrow> fd_epoch fd' = gen_next (fd_epoch fd) \<and> fd_generation fd' = gen_next (fd_generation fd) \<and>
     fd_id fd' = fd_id fd \<and> fd_policy fd' = pl_wire (fd_policy fd) \<and> fd_decisions fd' = [] \<and>
     (\<forall>w. om_find w (fd_workloads fd') = om_find w (fd_workloads fd)) \<and>
     (\<forall>k. om_find k (fd_plans fd') = map_option restored_plan (om_find k (fd_plans fd))) \<and>
     (\<forall>i. om_find i (fd_members fd) = None \<longleftrightarrow> om_find i (fd_members fd') = None) \<and>
     (\<forall>i e e'. om_find i (fd_members fd) = Some e \<longrightarrow> om_find i (fd_members fd') = Some e' \<longrightarrow>
        (\<exists>now. e' = restored_entry (fd_epoch fd') (fd_generation fd') now (en_record e) (ad_wire (en_descriptor e))))"

lemma stored_member:
  assumes "fd_inv fd" "r \<in> set (sn_members (sn_wire (raw_snapshot now fd)))"
  obtains e where "om_find (mr_accelerator r) (fd_members fd) = Some e" "en_record e = r"
proof -
  from assms(2) obtain i e where "(i, e) \<in> set (fd_members fd)" "r = en_record e"
    by (auto simp: sn_wire_def raw_snapshot_def)
  moreover from this have "om_find i (fd_members fd) = Some e" using om_find_mem [OF fd_inv_keys(1) [OF assms(1)]] by simp
  moreover from this have "mr_accelerator (en_record e) = i" using fd_inv_keys(2) [OF assms(1)] by (simp add: om.holds_def)
  ultimately show thesis using that by simp
qed

lemma restored_members:
  fixes fd :: "'t federation" and fd0 :: "'s federation" and clock :: "nat \<Rightarrow> int" and stamp :: int
  assumes inv: "fd_inv fd" and blank: "blank fd0"
  defines "sn \<equiv> sn_wire (raw_snapshot stamp fd)"
  defines "fd' \<equiv> fold (restore_member sn clock) (enumerate 0 (sn_members sn)) fd0"
  shows "om_find i (fd_members fd) = None \<longleftrightarrow> om_find i (fd_members fd') = None"
    "om_find i (fd_members fd) = Some e \<Longrightarrow> om_find i (fd_members fd') = Some e' \<Longrightarrow>
       \<exists>now. e' = restored_entry (fd_epoch fd0) (fd_generation fd0) now (en_record e) (ad_wire (en_descriptor e))"
    "fd_id fd0 = fd_id fd \<Longrightarrow> members_ok fd'"
proof -
  have descr: "find_descriptor sn j = map_option (ad_wire \<circ> en_descriptor) (om_find j (fd_members fd))" for j
    by (simp add: sn_def snapshot_find_descriptor [OF inv] option.map_comp)
  have from_stored: "\<exists>e n. om_find j (fd_members fd) = Some e \<and>
      f = restored_entry (fd_epoch fd0) (fd_generation fd0) (clock n) (en_record e) (ad_wire (en_descriptor e))"
    if "om_find j (fd_members fd') = Some f" for j f
  proof -
    from restore_members_from [OF that [unfolded fd'_def]] blank obtain n r d where
      *: "(n, r) \<in> set (enumerate 0 (sn_members sn))" "mr_accelerator r = j" "find_descriptor sn j = Some d"
        "f = restored_entry (fd_epoch fd0) (fd_generation fd0) (clock n) r d"
      by (auto simp: blank_def)
    from mem_enumerate [OF *(1)] have "r \<in> set (sn_members (sn_wire (raw_snapshot stamp fd)))" by (simp add: sn_def)
    from stored_member [OF inv this] *(2) obtain e where "om_find j (fd_members fd) = Some e" "en_record e = r" by auto
    with * show ?thesis by (auto simp: descr)
  qed
  have present: "om_find j (fd_members fd') \<noteq> None" if j: "om_find j (fd_members fd) = Some f" for j f
  proof -
    have "mr_accelerator (en_record f) = j" using fd_inv_keys(2) [OF inv] j by (simp add: om.holds_def)
    moreover have "en_record f \<in> set (sn_members sn)"
      using om_find_SomeD [OF j] by (force simp: sn_def sn_wire_def raw_snapshot_def)
    from enumerate_mem [OF this, of 0] obtain n where "(n, en_record f) \<in> set (enumerate 0 (sn_members sn))" ..
    ultimately show ?thesis
      using restore_members_present [of n "en_record f" _ sn clock fd0] j unfolding fd'_def by (simp add: descr)
  qed
  show "om_find i (fd_members fd) = None \<longleftrightarrow> om_find i (fd_members fd') = None"
    using from_stored [of i] present [of i] by (cases "om_find i (fd_members fd)"; cases "om_find i (fd_members fd')") auto
  show "\<exists>now. e' = restored_entry (fd_epoch fd0) (fd_generation fd0) now (en_record e) (ad_wire (en_descriptor e))"
    if "om_find i (fd_members fd) = Some e" "om_find i (fd_members fd') = Some e'"
    using from_stored [OF that(2)] that(1) by auto
  show "members_ok fd'" if same: "fd_id fd0 = fd_id fd"
    unfolding fd'_def
  proof (rule restore_members_ok)
    show "members_ok fd0" using blank by (simp add: blank_def members_ok_def table_ok_def om.holds_def)
    fix n r d
    assume "(n, r) \<in> set (enumerate 0 (sn_members sn))" and d: "find_descriptor sn (mr_accelerator r) = Some d"
    then have "r \<in> set (sn_members (sn_wire (raw_snapshot stamp fd)))" using mem_enumerate by (fastforce simp: sn_def)
    from stored_member [OF inv this] obtain e where e: "om_find (mr_accelerator r) (fd_members fd) = Some e" "en_record e = r"
      by auto
    then have "member_ok (fd_id fd) (fd_epoch fd) (mr_accelerator r) e" using inv by (simp add: fd_inv_def members_ok_find)
    then have "member_ok (fd_id fd) (fd_epoch fd0) (mr_accelerator r)
        (restored_entry (fd_epoch fd0) (fd_generation fd0) (clock n) (en_record e) (ad_wire (en_descriptor e)))"
      by (rule restored_entry_ok)
    with e d same show "member_ok (fd_id fd0) (fd_epoch fd0) (mr_accelerator r)
        (restored_entry (fd_epoch fd0) (fd_generation fd0) (clock n) r d)"
      by (simp add: descr)
  qed
qed

lemma fd_inv_recovery [simp]: "fd_inv (fd\<lparr>fd_recovery := rp\<rparr>) = fd_inv fd"
  by (simp add: fd_inv_defs decision_ok_def [abs_def] plan_ok_def [abs_def] endpoint_ok_def)

lemma restored_plan_ok: "plan_ok fd i p \<Longrightarrow> plan_ok fd i (restored_plan p)"
  by (simp add: restored_plan_def abort_plan_ok)

lemma restored_plan_terminal: "is_terminal_migration_state (mp_state (restored_plan p))"
  by (simp add: restored_plan_def abort_plan_def is_terminal_migration_state_def)

lemma restored_entry_simps [simp]:
  "mr_device_generation (en_record (restored_entry epoch g now r d)) = mr_device_generation r"
  "mr_state (en_record (restored_entry epoch g now r d)) = restored_state (mr_state r)"
  "mr_epoch (en_record (restored_entry epoch g now r d)) = epoch"
  "ad_evidence (en_descriptor (restored_entry epoch g now r d)) = map restored_evidence (ad_evidence d)"
  by (simp_all add: restored_entry_def)

lemma restore_snapshot_correct:
  fixes fd :: "'t federation" and fd0 :: "'s federation" and clock :: "nat \<Rightarrow> int" and stamp :: int
  assumes inv: "fd_inv fd" and blank: "blank fd0" and same: "fd_id fd0 = fd_id fd"
  defines "fd' \<equiv> restore_snapshot clock (sn_wire (raw_snapshot stamp fd)) fd0"
  shows "restored_from fd fd'" "fd_inv fd'"
proof -
  let ?sn = "sn_wire (raw_snapshot stamp fd)"
  define fd1 where "fd1 = fd0\<lparr>fd_recovery := empty_report\<lparr>rp_recovered := True, rp_previous_epoch := sn_epoch ?sn,
      rp_new_epoch := gen_next (sn_epoch ?sn), rp_new_generation := gen_next (sn_generation ?sn)\<rparr>,
    fd_epoch := gen_next (sn_epoch ?sn), fd_generation := gen_next (sn_generation ?sn),
    fd_name := (if sn_name ?sn = [] then fd_name fd0 else sn_name ?sn), fd_policy := sn_policy_data ?sn\<rparr>"
  define fd2 where "fd2 = fold (restore_member ?sn clock) (enumerate 0 (sn_members ?sn)) fd1"
  have blank1: "blank fd1" using blank by (simp add: blank_def fd1_def)
  note members = restored_members [where stamp = stamp and clock = clock, OF inv blank1, folded fd2_def]
  let ?ws = "fold (\<lambda>w. om_emplace (wp_class_id w) w) (sn_workloads ?sn) (fd_workloads fd2)"
  let ?ps = "fold (\<lambda>p. om_emplace (mp_id p) (restored_plan p)) (sn_plans ?sn) (fd_plans fd2)"
  have fields: "fd_id fd' = fd_id fd" "fd_epoch fd' = gen_next (fd_epoch fd)"
    "fd_generation fd' = gen_next (fd_generation fd)" "fd_policy fd' = pl_wire (fd_policy fd)" "fd_decisions fd' = []"
    "fd_members fd' = fd_members fd2" "fd_physical_index fd' = fd_physical_index fd2"
    "fd_workloads fd' = ?ws" "fd_plans fd' = ?ps"
    using blank same
    by (simp_all add: fd'_def restore_snapshot_def Let_def fd2_def fd1_def blank_def sn_wire_def raw_snapshot_def)
  have empty2: "fd_workloads fd2 = []" "fd_plans fd2 = []" using blank1 by (simp_all add: fd2_def blank_def)
  have ws: "om_find w (fd_workloads fd') = om_find w (fd_workloads fd)" for w
    using map_of_table [where f = id, OF fd_inv_keys(4,5) [OF inv], of w]
    by (simp add: fields empty2 fold_emplace_find [where f = "\<lambda>w. w"] sn_wire_def raw_snapshot_def option.map_id option.map_ident)
  have ps: "om_find k (fd_plans fd') = map_option restored_plan (om_find k (fd_plans fd))" for k
    using map_of_table [where f = id, OF fd_inv_keys(8,9) [OF inv], of k]
    by (simp add: fields empty2 fold_emplace_find sn_wire_def raw_snapshot_def option.map_id)
  show "restored_from fd fd'"
    unfolding restored_from_def using members(1,2) ws ps by (simp add: fields fd1_def sn_wire_def raw_snapshot_def)
  have endpoint: "endpoint_ok fd' j g" if "endpoint_ok fd j g" for j g
    using that members(1) [of j] members(2) [of j]
    by (force simp: endpoint_ok_def fields split: option.splits)
  have "plan_ok fd' k p'" if "om_find k (fd_plans fd') = Some p'" for k p'
  proof -
    from that ps obtain p where p: "om_find k (fd_plans fd) = Some p" "p' = restored_plan p" by auto
    then have "plan_ok fd k p" using inv by (simp add: fd_inv_def plans_ok_def om.holds_def)
    then have "plan_ok fd' k p" using endpoint by (simp add: plan_ok_def fields)
    with p show ?thesis by (simp add: restored_plan_ok)
  qed
  then have "plans_ok fd'" by (simp add: plans_ok_def om.holds_def fields empty2 fold_emplace_wf)
  moreover have "workloads_ok fd'"
    using inv ws by (simp add: fd_inv_def workloads_ok_def om.holds_def) (simp add: fields empty2 fold_emplace_wf [where f = "\<lambda>w. w"])
  moreover have "members_ok fd'"
    using members(3) same by (simp add: members_ok_def fields fd1_def) (simp add: fd2_def fd1_def sn_wire_def raw_snapshot_def)
  moreover have "decisions_ok fd'" by (simp add: decisions_ok_def fields om.holds_def)
  ultimately show "fd_inv fd'" by (simp add: fd_inv_def)
qed

lemma restored_from_store [simp]: "restored_from fd (fd'\<lparr>fd_store := s\<rparr>) = restored_from fd fd'"
  by (simp add: restored_from_def)

lemma restored_from_persist [simp]: "restored_from fd (snd (persist_locked put now fd')) = restored_from fd fd'"
  by (simp add: persist_locked_eq)

text \<open>Opening a store that holds the snapshot of a federation restores it and writes the restored state.\<close>

lemma open_stored:
  fixes fd :: "'t federation"
  assumes "fd_inv fd" "sn_ok (snapshot_locked stamp fd)"
    "length (encode_snapshot (snapshot_locked stamp fd)) \<le> 512 * 1024 * 1024"
    "get store = Inr (encode_snapshot (snapshot_locked stamp fd))" "cf_id cf = fd_id fd"
  obtains now fd1 where "restored_from fd fd1" "fd_inv fd1" "\<not> fd_shutdown fd1" "fd_store fd1 = store"
    "fd_open get put clock cf fresh store =
      (if fst (persist_locked put now fd1) = EC_Ok then Inr (snd (persist_locked put now fd1))
       else Inl (fst (persist_locked put now fd1)))"
proof -
  let ?fd0 = "fd_create cf fresh store"
  let ?sn = "sn_wire (raw_snapshot stamp fd)"
  let ?fd1 = "restore_snapshot clock ?sn ?fd0"
  let ?now = "clock (length (sn_members ?sn))"
  have "\<not> is_nil (fd_id fd)" using assms(2) by (simp add: sn_ok_def snapshot_locked_raw [OF assms(1)] raw_snapshot_def)
  then have same: "fd_id ?fd0 = fd_id fd" using assms(5) by (simp add: fd_create_def)
  have decoded: "decode_snapshot (encode_snapshot (snapshot_locked stamp fd)) = Inr ?sn"
    using decode_encode_snapshot [OF assms(2,3)] by (simp add: snapshot_locked_raw [OF assms(1)])
  have sn_id: "sn_federation ?sn = fd_id fd" by (simp add: sn_wire_def raw_snapshot_def)
  have store: "fd_store ?fd0 = store" by (simp add: fd_create_def)
  have "restore_locked get put clock ?fd0 = persist_locked put ?now ?fd1"
    by (simp add: restore_locked_def store assms(4) decoded sn_id same)
  then have opened: "fd_open get put clock cf fresh store =
      (if fst (persist_locked put ?now ?fd1) = EC_Ok then Inr (snd (persist_locked put ?now ?fd1))
       else Inl (fst (persist_locked put ?now ?fd1)))"
    by (simp add: fd_open_def split_beta)
  note restored = restore_snapshot_correct [OF assms(1) blank_create same, of clock stamp]
  have "\<not> fd_shutdown ?fd1" "fd_store ?fd1 = store" by (simp_all add: restore_snapshot_def Let_def fd_create_def)
  from that [OF restored this opened] show thesis .
qed

lemma open_restored:
  assumes "fd_inv fd" "sn_ok (snapshot_locked stamp fd)"
    "length (encode_snapshot (snapshot_locked stamp fd)) \<le> 512 * 1024 * 1024"
    "get store = Inr (encode_snapshot (snapshot_locked stamp fd))" "cf_id cf = fd_id fd"
    "fd_open get put clock cf fresh store = Inr fd'"
  shows "restored_from fd fd'" "fd_inv fd'" "\<not> fd_shutdown fd'"
proof -
  from open_stored [where get = get and store = store and put = put and clock = clock and fresh = fresh, OF assms(1-5)] obtain now fd1 where
    fd1: "restored_from fd fd1" "fd_inv fd1" "\<not> fd_shutdown fd1" and
    opened: "fd_open get put clock cf fresh store =
      (if fst (persist_locked put now fd1) = EC_Ok then Inr (snd (persist_locked put now fd1))
       else Inl (fst (persist_locked put now fd1)))" .
  from opened assms(6) have "fd' = snd (persist_locked put now fd1)" by (simp split: if_splits)
  with fd1 show "restored_from fd fd'" "fd_inv fd'" "\<not> fd_shutdown fd'" by simp_all
qed

lemma open_succeeds:
  assumes "fd_inv fd" "sn_ok (snapshot_locked stamp fd)"
    "length (encode_snapshot (snapshot_locked stamp fd)) \<le> 512 * 1024 * 1024"
    "get store = Inr (encode_snapshot (snapshot_locked stamp fd))" "cf_id cf = fd_id fd"
    "\<And>payload. fst (put payload store) = EC_Ok"
  shows "\<exists>fd'. fd_open get put clock cf fresh store = Inr fd'"
proof -
  from open_stored [where get = get and store = store and put = put and clock = clock and fresh = fresh, OF assms(1-5)] obtain now fd1 where
    "fd_store fd1 = store" and
    opened: "fd_open get put clock cf fresh store =
      (if fst (persist_locked put now fd1) = EC_Ok then Inr (snd (persist_locked put now fd1))
       else Inl (fst (persist_locked put now fd1)))" .
  then have "fst (persist_locked put now fd1) = EC_Ok" using assms(6) by (simp add: persist_locked_def split_beta)
  with opened show ?thesis by simp
qed

text \<open>After a write that the store accepted, the store holds the snapshot.\<close>

lemma persisted_snapshot:
  assumes "federation_store get put" "fd_persist_enabled fd" "fd_persist put stamp fd = (EC_Ok, fd1)"
  shows "get (fd_store fd1) = Inr (encode_snapshot (snapshot_locked stamp fd))"
proof -
  let ?payload = "encode_snapshot (snapshot_locked stamp fd)"
  have "snapshot_locked stamp (fd\<lparr>fd_force_persist := True\<rparr>) = snapshot_locked stamp fd"
    by (simp add: snapshot_locked_def)
  then have "put ?payload (fd_store fd) = (EC_Ok, fd_store fd1)"
    using assms(2,3) by (auto simp: fd_persist_def persist_locked_def split: prod.splits)
  then show ?thesis by (rule federation_store.read_written [OF assms(1)])
qed

subsection \<open>A store that cannot be opened\<close>

text \<open>Aborting a plan with a long reason leaves a plan that no reader accepts.\<close>

lemma long_abort_refused:
  assumes ok: "mp_ok p" "length (mp_refusal_reasons p) < 4096"
    and detail: "8192 < length detail" "length detail < 2 ^ 32" and subject: "length subject \<le> 256"
  shows "refuses mp_deserialize (mp_serialize (abort_plan code subject detail p)) EC_BoundsExceeded"
proof -
  let ?r = "\<lparr>re_code = code, re_subject = subject, re_detail = detail, re_strength = RS_Hard, re_observed = CS_Unknown\<rparr>"
  have "refuses re_deserialize (re_serialize ?r) EC_BoundsExceeded"
    using detail subject by (intro long_detail_refused) simp_all
  then show ?thesis
    using ok by (intro long_reason_refused [where r = ?r]) (auto simp: abort_plan_def mp_ok_def list_all_iff sort_reasons_def)
qed

lemma long_abort_lost:
  assumes "federation_store get put" "fd_persist_enabled fd" "fd_persist_on_mutation fd"
    and ok: "sn_ok (snapshot_locked (clock 0) fd)" and p: "om_find k (fd_plans fd) = Some p"
    and few: "length (fd_plans fd) < 1000000" and reasons: "length (mp_refusal_reasons p) < 4096"
    and aborted: "abort_migration put clock k detail claim fd = (Inr p', fd')"
    and detail: "8192 < length detail" "length detail < 2 ^ 32"
  shows "fd_open get put clock' cf fresh (fd_store fd') = Inl EC_BoundsExceeded"
proof -
  let ?p = "abort_plan EC_Cancelled ''abort'' detail p"
  define fd1 where "fd1 = fd\<lparr>fd_plans := om_put k ?p (fd_plans fd), fd_generation := gen_next (fd_generation fd)\<rparr>"
  let ?sn = "snapshot_locked (clock 0) fd1"
  have "persisted put (clock 0) ?p fd1 = (Inr p', fd')"
    using aborted p by (simp add: abort_migration_def fd1_def Let_def split: if_splits)
  then have "put (encode_snapshot ?sn) (fd_store fd) = (EC_Ok, fd_store fd')"
    using assms(2,3) by (auto simp: persisted_def persist_locked_def fd1_def split: prod.splits if_splits)
  then have stored: "get (fd_store fd') = Inr (encode_snapshot ?sn)" by (rule federation_store.read_written [OF assms(1)])
  have mp: "mp_ok x" if "x \<in> snd ` set (fd_plans fd)" for x
    using ok that by (auto simp: sn_ok_def snapshot_locked_def sn_canonicalize_def list_all_iff)
  have p_in: "p \<in> snd ` set (fd_plans fd)" using om_find_SomeD [OF p] by force
  have plans: "set (sn_plans ?sn) = snd ` set (om_put k ?p (fd_plans fd))"
    by (simp add: snapshot_locked_def sn_canonicalize_def fd1_def image_def)
  have "refuses read_snapshot (encode_snapshot ?sn) EC_BoundsExceeded"
  proof (rule snapshot_plan_refused)
    show "sn_ok (?sn\<lparr>sn_plans := []\<rparr>)"
      using ok by (simp add: sn_ok_def snapshot_locked_def sn_canonicalize_def fd1_def sn_sorted_def)
    show "refuses mp_deserialize (mp_serialize ?p) EC_BoundsExceeded"
      using mp [OF p_in] reasons detail by (intro long_abort_refused) simp_all
    show "length (sn_plans ?sn) \<le> 1000000"
      using few om_put_values(3) [of k ?p "fd_plans fd"] by (simp add: snapshot_locked_def sn_canonicalize_def fd1_def)
    show "?p \<in> set (sn_plans ?sn)" unfolding plans by (rule om_put_values(2))
    show "mp_ok x" if "x \<in> set (sn_plans ?sn)" "x \<noteq> ?p" for x
      using that mp om_put_values(1) [of x k ?p "fd_plans fd"] unfolding plans by blast
  qed
  from refuses_init [OF this] have "decode_snapshot (encode_snapshot ?sn) = Inl EC_BoundsExceeded"
    by (auto simp: decode_snapshot_def split: prod.splits option.splits)
  moreover have "fd_store (fd_create cf fresh (fd_store fd')) = fd_store fd'" by (simp add: fd_create_def)
  ultimately show ?thesis by (simp add: fd_open_def restore_locked_def stored)
qed

subsection \<open>Reachable states\<close>

text \<open>The states of a federation that is created, or opened on an empty store, operated on, and
  restarted from what it stored.\<close>

inductive reachable :: "'s federation \<Rightarrow> bool" where
  created: "reachable (fd_create cf fresh store)"
| opened: "get store = Inl EC_NotFound \<Longrightarrow> fd_open get put clock cf fresh store = Inr fd \<Longrightarrow> reachable fd"
| operated: "reachable fd \<Longrightarrow> reachable (snd (perform put clock steady op fd))"
| restarted: "reachable fd \<Longrightarrow> sn_ok (snapshot_locked stamp fd) \<Longrightarrow>
    length (encode_snapshot (snapshot_locked stamp fd)) \<le> 512 * 1024 * 1024 \<Longrightarrow>
    get store = Inr (encode_snapshot (snapshot_locked stamp fd)) \<Longrightarrow> cf_id cf = fd_id fd \<Longrightarrow>
    fd_open get put clock cf fresh store = Inr fd' \<Longrightarrow> reachable fd'"

lemma open_empty:
  assumes "get store = Inl EC_NotFound" "fd_open get put clock cf fresh store = Inr fd"
  shows "fd_inv fd"
proof -
  let ?fd0 = "fd_create cf fresh store"
  have store: "fd_store ?fd0 = store" by (simp add: fd_create_def)
  obtain rp where "persist_locked put (clock 0) (?fd0\<lparr>fd_recovery := rp\<rparr>) = (EC_Ok, fd)"
    using assms by (auto simp: fd_open_def restore_locked_def store split: prod.splits if_splits)
  then have "fd = snd (persist_locked put (clock 0) (?fd0\<lparr>fd_recovery := rp\<rparr>))" by simp
  then show ?thesis by (simp add: fd_inv_create)
qed

lemma reachable_inv: "reachable fd \<Longrightarrow> fd_inv fd"
proof (induction rule: reachable.induct)
  case (restarted fd stamp get store cf put clock fresh fd')
  from open_restored(2) [where get = get and store = store, OF restarted.IH restarted.hyps(2-6)] show ?case .
qed (auto simp: fd_inv_create perform_inv open_empty)

end
