(* ===== verification/Snapshot_Audit.thy ===== *)
theory Snapshot_Audit
  imports Snapshot
begin

section \<open>The audit of a snapshot\<close>

text \<open>
  \<^verbatim>\<open>engine/audit.hpp\<close> and \<^verbatim>\<open>engine/audit.cpp\<close>. A part of the audit is the number of checks it runs with the
  violations it finds; the parts follow each other in the order of the code and the report is sorted. The
  text of the status of a failed validation is an argument (\<open>set_text\<close>, \<open>profile_text\<close>).
\<close>

record audit_violation =
  av_code :: string
  av_subject :: string
  av_detail :: string

record audit_report =
  ar_checks_run :: nat
  ar_violations :: "audit_violation list"

type_synonym audit_part = "nat \<times> audit_violation list"

definition violation :: "string \<Rightarrow> string \<Rightarrow> string \<Rightarrow> audit_violation" where
  "violation code subject detail = \<lparr>av_code = code, av_subject = subject, av_detail = detail\<rparr>"

definition audit_check :: "bool \<Rightarrow> string \<Rightarrow> string \<Rightarrow> string \<Rightarrow> audit_part" where
  "audit_check bad code subject detail = (1, if bad then [violation code subject detail] else [])"

definition audit_seq :: "audit_part list \<Rightarrow> audit_part" where
  "audit_seq parts = (sum_list (map fst parts), concat (map snd parts))"

definition av_less :: "audit_violation \<Rightarrow> audit_violation \<Rightarrow> bool" where
  "av_less a b = (if av_code a \<noteq> av_code b then av_code a < av_code b
     else if av_subject a \<noteq> av_subject b then av_subject a < av_subject b
     else av_detail a < av_detail b)"

definition audit_finish :: "audit_part \<Rightarrow> audit_report" where
  "audit_finish part = \<lparr>ar_checks_run = fst part, ar_violations = sort_by av_less (snd part)\<rparr>"

definition render_report :: "audit_report \<Rightarrow> string" where
  "render_report report = ''audit checks='' @ string_of_nat (ar_checks_run report) @ '' violations='' @
     string_of_nat (length (ar_violations report)) @
     concat (map (\<lambda>v. CHR 0x0A # ''  ['' @ av_code v @ ''] '' @ av_subject v @ '': '' @ av_detail v)
       (ar_violations report))"

text \<open>The keys that occur again after their first occurrence.\<close>

fun repeated :: "string list \<Rightarrow> string list \<Rightarrow> string list" where
  "repeated seen [] = []"
| "repeated seen (k # ks) = (if k \<in> set seen then [k] else []) @ repeated (k # seen) ks"

definition audit_unique :: "string \<Rightarrow> string list \<Rightarrow> audit_part" where
  "audit_unique detail keys = (1, map (\<lambda>k. violation ''identity.uniqueness'' k detail) (repeated [] keys))"

definition audit_member :: "federation_snapshot \<Rightarrow> member_record \<Rightarrow> audit_part" where
  "audit_member s r =
     (let subject = id_to_hex (mr_accelerator r); missing = ''member has no matching accelerator descriptor'' in
      case find_descriptor s (mr_accelerator r) of
        None \<Rightarrow> audit_check True ''membership.descriptor'' subject missing
      | Some d \<Rightarrow> audit_seq [
          audit_check False ''membership.descriptor'' subject missing,
          audit_check (ad_agent d \<noteq> mr_agent r \<or> ad_agent_boot d \<noteq> mr_agent_boot r) ''membership.ownership'' subject
            ''member agent ownership disagrees with the descriptor'',
          audit_check (ad_generation d \<noteq> mr_device_generation r) ''membership.device_generation'' subject
            ''member device generation disagrees with the descriptor'',
          audit_check (cs_generation (ad_capabilities d) \<noteq> mr_capability_generation r)
            ''membership.capability_generation'' subject
            ''member capability generation disagrees with the descriptor capability set'',
          audit_check (ad_support_level d \<noteq> mr_support_level r \<or> ad_provenance d \<noteq> mr_provenance r)
            ''membership.support_level'' subject
            ''member support level or evidence provenance disagrees with the descriptor'',
          audit_check (mr_federation r \<noteq> sn_federation s) ''membership.federation'' subject
            ''member belongs to a different federation identity'',
          audit_check (mr_epoch r > sn_epoch s \<and> is_live r) ''membership.epoch'' subject
            ''live member claims an epoch newer than the federation epoch'',
          audit_check (is_live r \<and> mr_evidence_generation r = 0) ''membership.evidence'' subject
            ''live member has no evidence generation''])"

text \<open>\<open>claimed\<close> is the map from the devices claimed so far to the boot that claims them.\<close>

fun audit_claims :: "(string \<times> string) list \<Rightarrow> member_record list \<Rightarrow> audit_part" where
  "audit_claims claimed [] = (0, [])"
| "audit_claims claimed (r # rs) =
     (let key = id_to_hex (mr_physical_device r); boot = id_to_hex (mr_agent_boot r) in
      if \<not> is_live r then audit_seq [(1, []), audit_claims claimed rs]
      else case map_of claimed key of
        None \<Rightarrow> audit_seq [(1, []), audit_claims ((key, boot) # claimed) rs]
      | Some holder \<Rightarrow> audit_seq [
          audit_check (holder \<noteq> boot) ''membership.duplicate_live_boot'' key
            (''physical device is claimed by two live boots: '' @ holder @ '' and '' @ boot),
          audit_claims claimed rs])"

definition audit_lifecycle :: "member_record \<Rightarrow> audit_part" where
  "audit_lifecycle r =
     (let subject = id_to_hex (mr_accelerator r) in audit_seq [
        audit_check (is_terminal_state (mr_state r) \<and> mr_state r \<noteq> MS_Retired) ''lifecycle.terminal'' subject
          ''member is in an undefined terminal state'',
        audit_check (mr_history r = []) ''lifecycle.history'' subject ''member has no lifecycle history'',
        audit_check (list_ex (\<lambda>(a, b). b < a) (zip (mr_history r) (tl (mr_history r)))) ''lifecycle.history_order''
          subject ''member history is not in canonical order''])"

definition audit_policy :: "federation_snapshot \<Rightarrow> audit_part" where
  "audit_policy s = audit_seq [
     audit_check (sn_policy s \<noteq> pl_id (sn_policy_data s)) ''policy.identity'' (id_to_hex (sn_policy s))
       ''snapshot policy identity disagrees with the embedded policy'',
     audit_check (sn_policy_generation s \<noteq> pl_generation (sn_policy_data s)) ''policy.generation''
       (id_to_hex (sn_policy s)) ''snapshot policy generation disagrees with the embedded policy generation'']"

definition audit_decision :: "federation_snapshot \<Rightarrow> compatibility_decision \<Rightarrow> audit_part" where
  "audit_decision s d =
     (let subject = id_to_hex (cd_decision_id d); descriptor = find_descriptor s (cd_accelerator d) in audit_seq [
        audit_check (cd_federation d \<noteq> sn_federation s) ''decision.federation'' subject
          ''decision references a different federation identity'',
        audit_check (descriptor = None) ''decision.accelerator'' subject
          ''decision references an accelerator that is not present'',
        audit_check (cd_policy d \<noteq> sn_policy s) ''decision.policy'' subject
          ''decision references a policy that is not the active policy'',
        audit_check (find_workload s (cd_workload d) = None) ''decision.workload'' subject
          ''decision references a workload that is not registered'',
        audit_check (cd_decision_id d \<noteq> cd_identity d) ''decision.fingerprint'' subject
          ''decision identity does not match its content fingerprint'',
        audit_check (case descriptor of None \<Rightarrow> False
             | Some a \<Rightarrow> cd_capability_generation d \<noteq> cs_generation (ad_capabilities a)) ''decision.stale_capability'' subject
          ''decision was produced from a capability generation that is no longer current''])"

definition audit_plan :: "federation_snapshot \<Rightarrow> migration_plan \<Rightarrow> audit_part" where
  "audit_plan s p =
     (let subject = id_to_hex (mp_id p);
          missing = ''migration plan references a source or destination that is not present'' in audit_seq [
        audit_check (mp_federation p \<noteq> sn_federation s) ''migration.federation'' subject
          ''migration plan references a different federation identity'',
        (case (find_descriptor s (mp_source p), find_descriptor s (mp_destination p)) of
           (Some source, Some destination) \<Rightarrow> audit_seq [
             audit_check False ''migration.endpoint'' subject missing,
             audit_check (ad_generation source \<noteq> mp_source_generation p) ''migration.source_generation'' subject
               ''migration plan source generation is no longer current'',
             audit_check (ad_generation destination \<noteq> mp_destination_generation p) ''migration.destination_generation''
               subject ''migration plan destination generation is no longer current'',
             audit_check (cs_generation (ad_capabilities source) \<noteq> mp_source_capability_generation p)
               ''migration.source_capability'' subject
               ''migration plan source capability generation is no longer current'',
             audit_check (cs_generation (ad_capabilities destination) \<noteq> mp_destination_capability_generation p)
               ''migration.destination_capability'' subject
               ''migration plan destination capability generation is no longer current'']
         | _ \<Rightarrow> audit_check True ''migration.endpoint'' subject missing),
        audit_check (mp_source p = mp_destination p) ''migration.self'' subject
          ''migration plan moves a workload onto itself'',
        audit_check (mp_policy p \<noteq> sn_policy s) ''migration.policy'' subject
          ''migration plan references a policy that is not the active policy'',
        audit_check (mp_state p = GS_Refused \<and> mp_refusal_reasons p = []) ''migration.refusal'' subject
          ''refused migration plan carries no refusal reason''])"

text \<open>The committed plans per workload, in the order of the map.\<close>

definition committed_workloads :: "migration_plan list \<Rightarrow> string list" where
  "committed_workloads ps = map (id_to_hex \<circ> mp_workload) (filter (\<lambda>p. mp_state p = GS_Committed) ps)"

definition audit_committed :: "migration_plan list \<Rightarrow> audit_part" where
  "audit_committed ps =
     (let ks = committed_workloads ps in
      (length ps, map (\<lambda>k. violation ''migration.double_authority'' k
         ''more than one committed migration plan exists for this workload'')
        (filter (\<lambda>k. count_list ks k > 1) (sort_unique ks))))"

definition audit_descriptor :: "(capability_set \<Rightarrow> string) \<Rightarrow> accelerator_descriptor \<Rightarrow> audit_part" where
  "audit_descriptor set_text d =
     (let subject = id_to_hex (ad_id d) in audit_seq [
        audit_check (cs_validate (ad_capabilities d) \<noteq> EC_Ok) ''capability.invalid'' subject (set_text (ad_capabilities d)),
        audit_check (cs_records (ad_capabilities d) = []) ''capability.empty'' subject
          ''descriptor advertises no capabilities'',
        (1, map (\<lambda>e. violation ''evidence.subject'' subject ''evidence record is bound to a different accelerator'')
          (filter (\<lambda>e. ev_subject e \<noteq> ad_id d) (ad_evidence d)))])"

definition audit_workload :: "(workload_profile \<Rightarrow> string) \<Rightarrow> workload_profile \<Rightarrow> audit_part" where
  "audit_workload profile_text w =
     audit_check (wp_validate w \<noteq> EC_Ok) ''workload.invalid'' (id_to_hex (wp_class_id w)) (profile_text w)"

definition audit_generations :: "member_record list \<Rightarrow> audit_part" where
  "audit_generations rs =
     (1, map (\<lambda>r. violation ''generation.monotonic'' (id_to_hex (mr_accelerator r))
        ''live member has an initial state generation'') (filter (\<lambda>r. is_live r \<and> mr_state_generation r = 0) rs))"

definition audit_parts ::
    "(capability_set \<Rightarrow> string) \<Rightarrow> (workload_profile \<Rightarrow> string) \<Rightarrow> federation_snapshot \<Rightarrow> audit_part list" where
  "audit_parts set_text profile_text s = [
     audit_unique ''accelerator identity appears in more than one member record''
       (map (id_to_hex \<circ> mr_accelerator) (sn_members s)),
     audit_unique ''accelerator identity appears in more than one descriptor''
       (map (id_to_hex \<circ> ad_id) (sn_descriptors s)),
     audit_unique ''decision identity is duplicated'' (map (id_to_hex \<circ> cd_decision_id) (sn_decisions s)),
     audit_seq (map (audit_member s) (sn_members s)),
     audit_claims [] (sn_members s),
     audit_seq (map audit_lifecycle (sn_members s)),
     audit_policy s,
     audit_seq (map (audit_decision s) (sn_decisions s)),
     audit_seq (map (audit_plan s) (sn_plans s)),
     audit_committed (sn_plans s),
     audit_seq (map (audit_descriptor set_text) (sn_descriptors s)),
     audit_seq (map (audit_workload profile_text) (sn_workloads s)),
     audit_generations (sn_members s)]"

definition audit_snapshot ::
    "(capability_set \<Rightarrow> string) \<Rightarrow> (workload_profile \<Rightarrow> string) \<Rightarrow> federation_snapshot \<Rightarrow> audit_report" where
  "audit_snapshot set_text profile_text s = audit_finish (audit_seq (audit_parts set_text profile_text s))"

subsection \<open>What a clean audit means\<close>

lemma audit_seq_violations: "v \<in> set (snd (audit_seq parts)) \<longleftrightarrow> (\<exists>part \<in> set parts. v \<in> set (snd part))"
  by (auto simp: audit_seq_def)

lemma audit_seq_Nil: "snd (audit_seq parts) = [] \<longleftrightarrow> (\<forall>part \<in> set parts. snd part = [])"
  by (auto simp: audit_seq_def)

lemma audit_check_violations: "v \<in> set (snd (audit_check bad code subject detail)) \<longleftrightarrow> bad \<and> v = violation code subject detail"
  by (auto simp: audit_check_def)

lemma audit_check_Nil: "snd (audit_check bad code subject detail) = [] \<longleftrightarrow> \<not> bad"
  by (simp add: audit_check_def)

lemma audit_violations:
  "v \<in> set (ar_violations (audit_snapshot set_text profile_text s)) \<longleftrightarrow>
     (\<exists>part \<in> set (audit_parts set_text profile_text s). v \<in> set (snd part))"
  by (simp add: audit_snapshot_def audit_finish_def audit_seq_violations)

lemma audit_clean:
  "ar_violations (audit_snapshot set_text profile_text s) = [] \<longleftrightarrow>
     (\<forall>part \<in> set (audit_parts set_text profile_text s). snd part = [])"
proof -
  have "sort_by av_less xs = [] \<longleftrightarrow> xs = []" for xs
    using set_sort_by [of av_less xs] by (metis empty_set set_empty)
  then show ?thesis by (simp add: audit_snapshot_def audit_finish_def audit_seq_Nil)
qed

lemma repeated_Nil: "repeated seen ks = [] \<longleftrightarrow> distinct ks \<and> set ks \<inter> set seen = {}"
  by (induction ks arbitrary: seen) auto

lemma inj_id_to_hex: "id_to_hex a = id_to_hex b \<longleftrightarrow> a = b"
proof -
  have "id_parse (id_to_hex i) = Some i" for i by (simp add: id_parse_def id_to_hex_def)
  then have "inj id_to_hex" by (intro inj_on_inverseI [of _ "\<lambda>s. the (id_parse s)"]) simp
  then show ?thesis by (rule inj_eq)
qed

lemma claims_holder:
  "snd (audit_claims claimed rs) = [] \<Longrightarrow> r \<in> set rs \<Longrightarrow> is_live r \<Longrightarrow>
     map_of claimed (id_to_hex (mr_physical_device r)) = Some holder \<Longrightarrow> id_to_hex (mr_agent_boot r) = holder"
proof (induction rs arbitrary: claimed)
  case (Cons x rs)
  let ?key = "id_to_hex (mr_physical_device r)"
  obtain c where c: "snd (audit_claims c rs) = []" "map_of c ?key = Some holder"
  proof (cases "is_live x")
    case True
    show thesis
    proof (cases "map_of claimed (id_to_hex (mr_physical_device x))")
      case None
      let ?c = "(id_to_hex (mr_physical_device x), id_to_hex (mr_agent_boot x)) # claimed"
      have "snd (audit_claims ?c rs) = []" using Cons.prems(1) True None by (simp add: Let_def audit_seq_Nil)
      moreover have "map_of ?c ?key = Some holder" using Cons.prems(4) None by auto
      ultimately show thesis by (rule that)
    next
      case (Some h)
      then have "snd (audit_claims claimed rs) = []" using Cons.prems(1) True by (simp add: Let_def audit_seq_Nil)
      then show thesis using Cons.prems(4) by (rule that)
    qed
  next
    case False
    then have "snd (audit_claims claimed rs) = []" using Cons.prems(1) by (simp add: Let_def audit_seq_Nil)
    then show thesis using Cons.prems(4) by (rule that)
  qed
  show ?case
  proof (cases "x = r")
    case True
    with Cons.prems(1,3,4) show ?thesis by (simp add: Let_def audit_seq_Nil audit_check_Nil)
  next
    case False
    with Cons.prems(2) have "r \<in> set rs" by simp
    from Cons.IH [OF c(1) this Cons.prems(3) c(2)] show ?thesis .
  qed
qed simp

lemma claims_exclusive:
  "snd (audit_claims claimed rs) = [] \<Longrightarrow> r \<in> set rs \<Longrightarrow> r' \<in> set rs \<Longrightarrow> is_live r \<Longrightarrow> is_live r' \<Longrightarrow>
     mr_physical_device r = mr_physical_device r' \<Longrightarrow> mr_agent_boot r = mr_agent_boot r'"
proof (induction rs arbitrary: claimed)
  case (Cons x rs)
  have later: "mr_agent_boot y = mr_agent_boot x"
    if y: "y \<in> set rs" "is_live y" "mr_physical_device y = mr_physical_device x" "is_live x" for y
  proof (cases "map_of claimed (id_to_hex (mr_physical_device x))")
    case None
    with Cons.prems(1) y(4)
    have "snd (audit_claims ((id_to_hex (mr_physical_device x), id_to_hex (mr_agent_boot x)) # claimed) rs) = []"
      by (simp add: Let_def audit_seq_Nil)
    from claims_holder [OF this y(1,2)] y(3) show ?thesis by (simp add: inj_id_to_hex)
  next
    case (Some holder)
    with Cons.prems(1) y(4) have "snd (audit_claims claimed rs) = []" "holder = id_to_hex (mr_agent_boot x)"
      by (simp_all add: Let_def audit_seq_Nil audit_check_Nil)
    with claims_holder [OF this(1) y(1,2)] y(3) Some show ?thesis by (simp add: inj_id_to_hex)
  qed
  have rest: "\<exists>c. snd (audit_claims c rs) = []"
    using Cons.prems(1) by (auto simp: Let_def audit_seq_Nil split: if_splits option.splits)
  then obtain c where c: "snd (audit_claims c rs) = []" ..
  consider "r = x" "r' = x" | "r = x" "r' \<in> set rs" | "r' = x" "r \<in> set rs" | "r \<in> set rs" "r' \<in> set rs"
    using Cons.prems(2,3) by auto
  then show ?case
  proof cases
    case 2
    with later [of r'] Cons.prems(4-6) show ?thesis by simp
  next
    case 3
    with later [of r] Cons.prems(4-6) show ?thesis by simp
  next
    case 4
    from Cons.IH [OF c this Cons.prems(4-6)] show ?thesis .
  qed simp
qed simp

end
