(* ===== verification/Federation_Audit.thy ===== *)
theory Federation_Audit
  imports Snapshot_Audit Federation_Recovery
begin

section \<open>The audit of a running federation\<close>

text \<open>
  \<^verbatim>\<open>Federation::audit\<close>: what the audit can report about a state that satisfies the invariant, and the
  states for which it reports something.
\<close>

definition fd_audit ::
    "(capability_set \<Rightarrow> string) \<Rightarrow> (workload_profile \<Rightarrow> string) \<Rightarrow> int \<Rightarrow> 's federation \<Rightarrow> audit_report" where
  "fd_audit set_text profile_text now fd = audit_snapshot set_text profile_text (snapshot_locked now fd)"

text \<open>No two different incarnations of the federation have the same derived identity.\<close>

definition record_incarnation where
  "record_incarnation r = (mr_physical_device r, mr_agent r, mr_agent_boot r, mr_device_generation r)"

definition descriptor_incarnation where
  "descriptor_incarnation d = (ad_physical_device d, ad_agent d, ad_agent_boot d, ad_generation d)"

definition no_collision :: "'s federation \<Rightarrow> bool" where
  "no_collision fd \<longleftrightarrow> inj_on (\<lambda>(p, a, b, g). derive_accelerator_id p a b g)
     ((record_incarnation \<circ> en_record \<circ> snd) ` set (fd_members fd) \<union>
      (descriptor_incarnation \<circ> en_descriptor \<circ> snd) ` set (fd_members fd))"

lemma no_collision_member:
  assumes "no_collision fd" "(i, e) \<in> set (fd_members fd)" "member_ok fid epoch i e"
  shows "record_incarnation (en_record e) = descriptor_incarnation (en_descriptor e)"
proof (rule inj_onD [OF assms(1) [unfolded no_collision_def]])
  show "(case record_incarnation (en_record e) of (p, a, b, g) \<Rightarrow> derive_accelerator_id p a b g) =
      (case descriptor_incarnation (en_descriptor e) of (p, a, b, g) \<Rightarrow> derive_accelerator_id p a b g)"
    using assms(3) by (clarsimp simp: record_incarnation_def descriptor_incarnation_def member_ok_defs)
qed (use assms(2) in force)+

lemma snapshot_fields:
  "sn_members (raw_snapshot now fd) = map (en_record \<circ> snd) (fd_members fd)"
  "sn_descriptors (raw_snapshot now fd) = map (en_descriptor \<circ> snd) (fd_members fd)"
  "sn_workloads (raw_snapshot now fd) = map snd (fd_workloads fd)"
  "sn_decisions (raw_snapshot now fd) = map snd (fd_decisions fd)"
  "sn_plans (raw_snapshot now fd) = map snd (fd_plans fd)"
  "sn_federation (raw_snapshot now fd) = fd_id fd" "sn_epoch (raw_snapshot now fd) = fd_epoch fd"
  "sn_policy (raw_snapshot now fd) = pl_id (fd_policy fd)" "sn_policy_data (raw_snapshot now fd) = fd_policy fd"
  "sn_policy_generation (raw_snapshot now fd) = pl_generation (fd_policy fd)"
  by (simp_all add: raw_snapshot_def)

lemma inv_member:
  assumes "fd_inv fd" "(i, e) \<in> set (fd_members fd)"
  shows "member_ok (fd_id fd) (fd_epoch fd) i e" "om_find i (fd_members fd) = Some e"
proof -
  show "om_find i (fd_members fd) = Some e" using om_find_mem [OF fd_inv_keys(1) [OF assms(1)]] assms(2) by simp
  then show "member_ok (fd_id fd) (fd_epoch fd) i e" using assms(1) by (simp add: fd_inv_def members_ok_find)
qed

lemma unique_clean:
  assumes "om_wf m" "om.holds (\<lambda>i v. k (f v) = i) m"
  shows "snd (audit_unique detail (map (id_to_hex \<circ> k) (map (f \<circ> snd) m))) = []"
proof -
  have "distinct (map k (map (f \<circ> snd) m))" using sorted_table [where f = f and k = k, OF assms] by (simp only: strict_sorted_iff)
  then have "distinct (map id_to_hex (map k (map (f \<circ> snd) m)))"
    by (simp only: distinct_map) (simp add: inj_on_def inj_id_to_hex)
  then have "repeated [] (map (id_to_hex \<circ> k) (map (f \<circ> snd) m)) = []" by (simp add: repeated_Nil comp_assoc)
  then show ?thesis by (simp add: audit_unique_def)
qed

lemma member_audit:
  assumes "fd_inv fd" "no_collision fd" "(i, e) \<in> set (fd_members fd)"
    "v \<in> set (snd (audit_member (raw_snapshot now fd) (en_record e)))"
  shows "av_code v = ''membership.capability_generation''"
proof -
  note ok = inv_member [OF assms(1,3)]
  have "find_descriptor (raw_snapshot now fd) (mr_accelerator (en_record e)) = Some (en_descriptor e)"
    using ok by (simp add: snapshot_find_descriptor [OF assms(1)] member_ok_def record_ok_def)
  moreover have "record_incarnation (en_record e) = descriptor_incarnation (en_descriptor e)"
    by (rule no_collision_member [OF assms(2,3) ok(1)])
  ultimately show ?thesis
    using ok(1) assms(4)
    by (auto simp: audit_member_def Let_def audit_seq_violations audit_check_violations violation_def snapshot_fields
        record_incarnation_def descriptor_incarnation_def member_ok_def record_ok_def)
qed

lemma zip_tl_sorted: "sorted xs \<Longrightarrow> \<not> list_ex (\<lambda>(a, b). b < a) (zip xs (tl xs))"
  by (induction xs rule: induct_list012) auto

lemma lifecycle_audit: "member_ok fid epoch i e \<Longrightarrow> snd (audit_lifecycle (en_record e)) = []"
  by (auto simp: audit_lifecycle_def Let_def audit_seq_Nil audit_check_Nil is_terminal_state_def member_ok_def record_ok_def
      dest: zip_tl_sorted)

lemma decision_audit:
  assumes "fd_inv fd" "(k, d) \<in> set (fd_decisions fd)" "v \<in> set (snd (audit_decision (raw_snapshot now fd) d))"
  shows "av_code v = ''decision.stale_capability''"
proof -
  have "om_find k (fd_decisions fd) = Some d"
    using om_find_mem [OF fd_inv_keys(6) [OF assms(1)]] assms(2) by simp
  then have "decision_ok fd k d" using assms(1) by (simp add: fd_inv_def decisions_ok_def om.holds_def)
  with assms(3) show ?thesis
    by (auto simp: audit_decision_def Let_def audit_seq_violations audit_check_violations violation_def snapshot_fields
        snapshot_find_descriptor [OF assms(1)] snapshot_find_workload [OF assms(1)] decision_ok_def)
qed

lemma plan_audit:
  assumes "fd_inv fd" "no_collision fd" "(k, p) \<in> set (fd_plans fd)" "v \<in> set (snd (audit_plan (raw_snapshot now fd) p))"
  shows "av_code v \<in> {''migration.source_capability'', ''migration.destination_capability'', ''migration.policy'',
    ''migration.refusal''}"
proof -
  have "om_find k (fd_plans fd) = Some p"
    using om_find_mem [OF fd_inv_keys(8) [OF assms(1)]] assms(3) by simp
  then have ok: "plan_ok fd k p" using assms(1) by (simp add: fd_inv_def plans_ok_def om.holds_def)
  have endpoint: "\<exists>d. find_descriptor (raw_snapshot now fd) i = Some d \<and> ad_generation d = g"
    if "endpoint_ok fd i g" for i g
  proof -
    from that obtain e where e: "om_find i (fd_members fd) = Some e" "mr_device_generation (en_record e) = g"
      by (auto simp: endpoint_ok_def split: option.splits)
    then have mem: "(i, e) \<in> set (fd_members fd)" by (simp add: om_find_SomeD)
    from no_collision_member [OF assms(2) mem inv_member(1) [OF assms(1) mem]] e show ?thesis
      by (auto simp: snapshot_find_descriptor [OF assms(1)] record_incarnation_def descriptor_incarnation_def)
  qed
  from ok endpoint obtain source destination where
    "find_descriptor (raw_snapshot now fd) (mp_source p) = Some source" "ad_generation source = mp_source_generation p"
    "find_descriptor (raw_snapshot now fd) (mp_destination p) = Some destination"
    "ad_generation destination = mp_destination_generation p"
    unfolding plan_ok_def by metis
  with ok assms(4) show ?thesis
    by (auto simp: audit_plan_def Let_def audit_seq_violations audit_check_violations violation_def snapshot_fields
        plan_ok_def)
qed

lemma descriptor_audit:
  "member_ok fid epoch i e \<Longrightarrow> v \<in> set (snd (audit_descriptor set_text (en_descriptor e))) \<Longrightarrow>
     av_code v = ''capability.empty''"
  by (auto simp: audit_descriptor_def Let_def audit_seq_violations audit_check_violations violation_def member_ok_def
      descriptor_ok_def list_all_iff)

lemma claims_codes: "v \<in> set (snd (audit_claims claimed rs)) \<Longrightarrow> av_code v = ''membership.duplicate_live_boot''"
  by (induction rs arbitrary: claimed)
     (auto simp: Let_def audit_seq_violations audit_check_violations violation_def split: if_splits option.splits)

text \<open>The violations that a state with the invariant can show.\<close>

definition tolerated_codes :: "string list" where
  "tolerated_codes = [''membership.capability_generation'', ''membership.duplicate_live_boot'',
     ''decision.stale_capability'', ''migration.source_capability'', ''migration.destination_capability'',
     ''migration.policy'', ''migration.refusal'', ''migration.double_authority'', ''capability.empty'']"

definition tolerable :: "audit_part \<Rightarrow> bool" where
  "tolerable part \<longleftrightarrow> (\<forall>v \<in> set (snd part). av_code v \<in> set tolerated_codes)"

lemma tolerable_clean: "snd part = [] \<Longrightarrow> tolerable part"
  by (simp add: tolerable_def)

lemma tolerable_seq: "(\<And>x. x \<in> set xs \<Longrightarrow> tolerable (f x)) \<Longrightarrow> tolerable (audit_seq (map f xs))"
  by (auto simp: tolerable_def audit_seq_violations)

lemma tolerable_parts:
  assumes inv: "fd_inv fd" and unique: "no_collision fd"
  shows "\<forall>part \<in> set (audit_parts set_text profile_text (raw_snapshot now fd)). tolerable part"
proof -
  note keys = fd_inv_keys [OF inv]
  let ?s = "raw_snapshot now fd"
  have members: "tolerable (audit_unique detail (map (id_to_hex \<circ> mr_accelerator) (sn_members ?s)))" for detail
    using unique_clean [where f = en_record and k = mr_accelerator, OF keys(1,2)]
    by (simp add: tolerable_clean snapshot_fields)
  have descriptors: "tolerable (audit_unique detail (map (id_to_hex \<circ> ad_id) (sn_descriptors ?s)))" for detail
    using unique_clean [where f = en_descriptor and k = ad_id, OF keys(1,3)]
    by (simp add: tolerable_clean snapshot_fields)
  have decisions: "tolerable (audit_unique detail (map (id_to_hex \<circ> cd_decision_id) (sn_decisions ?s)))" for detail
    using unique_clean [where f = id and k = cd_decision_id, OF keys(6,7)]
    by (simp add: tolerable_clean snapshot_fields)
  have member: "tolerable (audit_seq (map (audit_member ?s) (sn_members ?s)))"
    using member_audit [OF inv unique] by (intro tolerable_seq) (fastforce simp: tolerable_def tolerated_codes_def snapshot_fields)
  have lifecycle: "tolerable (audit_seq (map audit_lifecycle (sn_members ?s)))"
    using lifecycle_audit [OF inv_member(1) [OF inv]]
    by (intro tolerable_seq tolerable_clean) (auto simp: snapshot_fields)
  have decision: "tolerable (audit_seq (map (audit_decision ?s) (sn_decisions ?s)))"
    using decision_audit [OF inv] by (intro tolerable_seq) (fastforce simp: tolerable_def tolerated_codes_def snapshot_fields)
  have plan: "tolerable (audit_seq (map (audit_plan ?s) (sn_plans ?s)))"
    using plan_audit [OF inv unique] by (intro tolerable_seq) (fastforce simp: tolerable_def tolerated_codes_def snapshot_fields)
  have descriptor: "tolerable (audit_seq (map (audit_descriptor set_text) (sn_descriptors ?s)))"
    using descriptor_audit [OF inv_member(1) [OF inv]]
    by (intro tolerable_seq) (fastforce simp: tolerable_def tolerated_codes_def snapshot_fields)
  have workload: "tolerable (audit_seq (map (audit_workload profile_text) (sn_workloads ?s)))"
  proof (rule tolerable_seq)
    fix w assume "w \<in> set (sn_workloads ?s)"
    then obtain k where "om_find k (fd_workloads fd) = Some w"
      using om_find_mem [OF keys(4)] by (auto simp: snapshot_fields)
    with inv show "tolerable (audit_workload profile_text w)"
      by (intro tolerable_clean) (simp add: audit_workload_def audit_check_Nil fd_inv_def workloads_ok_def om.holds_def)
  qed
  have claims: "tolerable (audit_claims [] (sn_members ?s))"
    using claims_codes by (auto simp: tolerable_def tolerated_codes_def)
  have committed: "tolerable (audit_committed (sn_plans ?s))"
    by (auto simp: tolerable_def tolerated_codes_def audit_committed_def Let_def violation_def)
  have policy: "tolerable (audit_policy ?s)"
    by (rule tolerable_clean) (simp add: audit_policy_def audit_seq_Nil audit_check_Nil snapshot_fields)
  have generations: "tolerable (audit_generations (sn_members ?s))"
    using inv_member(1) [OF inv]
    by (intro tolerable_clean) (auto simp: audit_generations_def member_ok_def record_ok_def filter_empty_conv snapshot_fields)
  show ?thesis
    unfolding audit_parts_def
    by (simp add: members descriptors decisions member lifecycle decision plan descriptor workload claims committed
        policy generations del: map_map)
qed

lemma audit_codes:
  assumes "fd_inv fd" "no_collision fd" "v \<in> set (ar_violations (fd_audit set_text profile_text now fd))"
  shows "av_code v \<in> set tolerated_codes"
  using assms(3) tolerable_parts [OF assms(1,2)]
  unfolding fd_audit_def snapshot_locked_raw [OF assms(1)] audit_violations tolerable_def by blast

text \<open>When the audit is clean, every device has one live boot.\<close>

lemma audit_exclusive:
  assumes "ar_violations (audit_snapshot set_text profile_text s) = []"
    "r \<in> set (sn_members s)" "r' \<in> set (sn_members s)" "is_live r" "is_live r'"
    "mr_physical_device r = mr_physical_device r'"
  shows "mr_agent_boot r = mr_agent_boot r'"
proof -
  have "snd (audit_claims [] (sn_members s)) = []"
    using assms(1) unfolding audit_clean audit_parts_def by simp
  from claims_exclusive [OF this assms(2-)] show ?thesis .
qed

end
