(* ===== verification/Spec2Isabelle.thy ===== *)
theory Spec2Isabelle
  imports Prelude Status_Ids Bytes Hash Versions Taxonomy Floats Capability Evidence
    Accelerator Portability Workload Policy Compatibility Classify Evaluate
    Migration Planner Ranking Frame Store Ordered_Map Snapshot
    Federation Federation_Laws Federation_Invariant Federation_Recovery Snapshot_Audit Federation_Audit
begin

text \<open>
The Heterogeneous Accelerator Federation runtime, modelled from its C++ sources under \<^verbatim>\<open>src/\<close>.
\<close>

section \<open>Core: codec, hashing, versions\<close>

text \<open>Parsing the hexadecimal text of an identity gives the identity back.\<close>

lemma id_hex_roundtrip: "id_parse (id_to_hex i) = Some i"
  by (simp add: id_parse_def id_to_hex_def)

text \<open>Reading a length-prefixed string from an arbitrary buffer is memory safe:
  from an offset inside the buffer the reader keeps the buffer, ends at an offset inside it, stores a
  string no longer than the caller's limit, and reports failure exactly when it stores nothing; on a
  reader that has failed it does nothing.\<close>

lemma string_reader_safe:
  assumes "rd_offset r \<le> length (rd_data r)"
  shows "rd_offset (snd (r_string m r)) \<le> length (rd_data r) \<and> rd_data (snd (r_string m r)) = rd_data r \<and>
    (fst (r_string m r) = None \<longleftrightarrow> rd_failed (snd (r_string m r))) \<and>
    (\<forall>s. fst (r_string m r) = Some s \<longrightarrow> length s \<le> m) \<and>
    (rd_failed r \<longrightarrow> r_string m r = (None, r))"
proof -
  have wf: "rd_wf r" using assms by (simp add: rd_wf_def)
  have "length s \<le> m" if "fst (r_string m r) = Some s" for s
    using that by (auto simp: r_string_def rbind_def rguard_def rfail_def rret_def r_raw_def
        split: prod.splits option.splits bool.splits if_splits)
  with string_reader.wf [OF wf, of m] string_reader.keeps_data [OF wf, of m]
    string_reader.failure [OF wf, of m] string_reader.failed [OF wf, of m]
  show ?thesis by (auto simp: rd_wf_def split: option.splits)
qed

text \<open>C21. However a message is split over calls of \<^verbatim>\<open>Sha256::update\<close>, the padding loop of
  \<^verbatim>\<open>finalize\<close> ends and the digest is the compression fold over the padded message.\<close>

theorem sha256_streaming:
  "sha_finalize (foldl sha_update sha_reset chunks) = sha256_spec (concat chunks)"
  by (rule sha_chunks_spec)

text \<open>C23. The version comparison is a total preorder on versions with well-formed
  prerelease and build text, and exchanging the arguments mirrors its result.\<close>

theorem version_precedence:
  assumes "sv_wf a" "sv_wf b" "sv_wf c"
  shows "sv_compare a a = O_equal \<and>
    (sv_compare a b = O_less \<longleftrightarrow> sv_compare b a = O_greater) \<and>
    (sv_compare a b = O_equal \<longleftrightarrow> sv_compare b a = O_equal) \<and>
    (sv_compare a b \<noteq> O_greater \<longrightarrow> sv_compare b c \<noteq> O_greater \<longrightarrow> sv_compare a c \<noteq> O_greater)"
  using assms by (auto simp: sv_compare_key key_ordering_laws)

theorem version_precedence_witness:
  "sv_compare (sv_make 1 2 3) (sv_make 1 3 0) = O_less \<and> sv_compare (sv_make 1 3 0) (sv_make 1 2 3) = O_greater"
proof -
  have wf: "sv_wf (sv_make 1 2 3)" "sv_wf (sv_make 1 3 0)" by code_simp+
  have "sv_compare (sv_make 1 2 3) (sv_make 1 3 0) = O_less" by code_simp
  with version_precedence [OF wf wf(1)] show ?thesis by simp
qed

text \<open>Every well-formed version is recovered from its full text.\<close>

lemma version_text_roundtrip: "sv_wf v \<Longrightarrow> sv_parse (sv_to_string_full v) = Some v"
  by (rule sv_parse_to_string_full)

text \<open>Parsing the text of a well-formed version range succeeds and gives a range
  that admits exactly the same versions.\<close>

lemma range_text_roundtrip:
  assumes "range_wf r"
  shows "\<exists>r'. range_parse (range_to_string r) = Inr r' \<and> (\<forall>v. range_matches r' v \<longleftrightarrow> range_matches r v)"
proof (cases "r = []")
  case True
  have "range_parse ''*'' = Inr [\<lparr>vc_op = VO_Any, vc_version = sv_make 0 0 0\<rparr>]" by code_simp
  with True show ?thesis by (simp add: range_to_string_def range_matches_def)
next
  case False
  with assms have "range_parse (range_to_string r) = Inr (map clause_canon r)" by (rule range_parse_to_string)
  moreover have "range_matches (map clause_canon r) v \<longleftrightarrow> range_matches r v" for v
    by (simp add: range_matches_def list_all_iff clause_canon_matches)
  ultimately show ?thesis by blast
qed

section \<open>Capability evidence\<close>

text \<open>C22. Resolving a capability name keeps the registry invariant and every existing
  handle, and returns a handle whose name is the canonical name and whose kind is the kind of that
  name; it fails for no other reason than a name outside the vocabulary or a full table.\<close>

theorem registry_interning:
  assumes "registry_inv reg" "capability_key_from_name reg name = (r, reg')"
  shows "registry_inv reg' \<and> take (length (rg_names reg)) (rg_names reg') = rg_names reg \<and>
    (case r of
       Inr i \<Rightarrow> i < length (rg_names reg') \<and> key_resolve name = Inr (handle_name reg' i) \<and>
                handle_kind reg' i = key_kind (handle_name reg' i)
     | Inl e \<Rightarrow> key_resolve name = Inl e \<or> e = EC_ResourceExhausted \<and> length (rg_names reg) \<ge> 4096)"
  using capability_key_from_name_inv [OF assms] by auto

theorem registry_interning_witness:
  "registry_inv (snd (capability_key_from_name registry_init ''x.acme.tile''))"
  using registry_interning [OF registry_init_inv prod.collapse [symmetric]] by blast

text \<open>C18. On a set built by the set operations, the binary-search lookup is the lookup in
  the finite map of its records, and absence means unsupported exactly in a closed namespace.\<close>

theorem lookup_refines_map:
  assumes "cs_set_records records cs_empty = Inr s1" "cs_set_closed_namespaces namespaces s1 = Inr s2"
  shows "cs_lookup s2 name = lookup_spec (cs_map s2) (set (cs_closed s2)) name"
  by (rule cs_lookup_spec) (rule cs_set_closed_wf [OF cs_set_records_wf [OF cs_wf_empty assms(1)] assms(2)])

theorem lookup_refines_map_witness:
  "\<exists>s1 s2. cs_set_records [make_presence ''comm.rdma'' CS_Supported] cs_empty = Inr s1 \<and>
     cs_set_closed_namespaces [''comm''] s1 = Inr s2 \<and>
     cl_state (cs_lookup s2 ''comm.collectives'') = CS_Unsupported"
proof -
  define r where "r = \<lparr>cr_key = ''comm.rdma'', cr_state = CS_Supported, cr_value = CV_Presence True, cr_unit = []\<rparr>"
  define s1 where "s1 = cs_refresh_identity (cs_empty\<lparr>cs_records := [r]\<rparr>)"
  define s2 where "s2 = cs_refresh_identity (s1\<lparr>cs_closed := [''comm'']\<rparr>)"
  have "collect cr_admit [make_presence ''comm.rdma'' CS_Supported] = Inr [r]" unfolding r_def by code_simp
  then have s1: "cs_set_records [make_presence ''comm.rdma'' CS_Supported] cs_empty = Inr s1"
    by (simp add: cs_set_records_def Let_def sort_by_def s1_def)
  have "collect ns_admit [''comm''] = Inr [''comm'']" by code_simp
  then have s2: "cs_set_closed_namespaces [''comm''] s1 = Inr s2"
    by (simp add: cs_set_closed_namespaces_def s2_def sort_unique_id)
  have "name_space ''comm.collectives'' = ''comm''" by code_simp
  moreover have "cs_map s2 ''comm.collectives'' = None" by (simp add: cs_map_def s2_def s1_def r_def)
  ultimately have "cl_state (cs_lookup s2 ''comm.collectives'') = CS_Unsupported"
    by (simp add: lookup_refines_map [OF s1 s2] lookup_spec_def) (simp add: s2_def)
  with s1 s2 show ?thesis by blast
qed

text \<open>C19. A capability set does not depend on the order in which its records were
  supplied: records, identity and digest are the same.\<close>

theorem set_order_independent:
  "cs_set_records records s = Inr s' \<Longrightarrow> mset records = mset records' \<Longrightarrow> cs_set_records records' s = Inr s'"
  by (rule cs_set_records_perm)

theorem set_order_independent_witness:
  "\<exists>s'. cs_set_records [make_presence ''sync.events'' CS_Supported, make_presence ''comm.rdma'' CS_Unsupported] cs_empty = Inr s' \<and>
        cs_set_records [make_presence ''comm.rdma'' CS_Unsupported, make_presence ''sync.events'' CS_Supported] cs_empty = Inr s'"
proof -
  let ?a = "make_presence ''sync.events'' CS_Supported" and ?b = "make_presence ''comm.rdma'' CS_Unsupported"
  have "\<not> adjacent_dup (map cr_key (sort_by cr_less [?a, ?b]))" by code_simp
  moreover have "collect cr_admit [?a, ?b] = Inr [?a, ?b]" by code_simp
  ultimately have "\<exists>s'. cs_set_records [?a, ?b] cs_empty = Inr s'"
    by (simp add: cs_set_records_def Let_def)
  then obtain s' where s': "cs_set_records [?a, ?b] cs_empty = Inr s'" by blast
  moreover from set_order_independent [OF s', of "[?b, ?a]"]
  have "cs_set_records [?b, ?a] cs_empty = Inr s'" by (simp add: add_mset_commute)
  ultimately show ?thesis by blast
qed

text \<open>C20. Decoding the encoding of a well-formed capability set, followed by any other
  bytes, gives the set back.\<close>

theorem set_wire_roundtrip: "cs_ok s \<Longrightarrow> fst (cs_deserialize (rd_init (cs_serialize s @ rest))) = Some s"
  by (rule set_codec.decode_prefix)

theorem set_wire_roundtrip_witness:
  "let s = cs_refresh_identity (cs_empty\<lparr>cs_records := [make_presence ''comm.rdma'' CS_Supported]\<rparr>) in
     fst (cs_deserialize (rd_init (cs_serialize s @ [7]))) = Some s"
proof -
  define s where "s = cs_refresh_identity (cs_empty\<lparr>cs_records := [make_presence ''comm.rdma'' CS_Supported]\<rparr>)"
  have r: "cr_ok (make_presence ''comm.rdma'' CS_Supported)" by code_simp
  then have "cs_wf s" by (simp add: s_def cs_wf_def cs_empty_def cr_ok_def)
  with r have "cs_ok s"
    by (simp add: cs_ok_def) (simp add: s_def cs_refresh_identity_def cs_digest_def cs_content_def)
  from set_wire_roundtrip [OF this, of "[7]"] show ?thesis by (simp add: s_def Let_def)
qed

section \<open>Compatibility\<close>

text \<open>The concrete inputs of the witnesses below: a device with one supported capability, a policy without
  restrictions, and a workload with one hard and one soft requirement.\<close>

definition sample_set :: capability_set where
  "sample_set = \<lparr>cs_id = Id128 1, cs_generation = 1,
     cs_records = [\<lparr>cr_key = ''comm.rdma'', cr_state = CS_Supported, cr_value = CV_Presence True, cr_unit = []\<rparr>],
     cs_closed = []\<rparr>"

definition sample_policy :: federation_policy where
  "sample_policy = \<lparr>pl_id = Id128 2, pl_generation = 1, pl_name = ''open'', pl_allowed_vendors = [],
     pl_forbidden_vendors = [], pl_forbidden_accelerators = [], pl_deprecated_architectures = [],
     pl_minimum_runtime_version = [], pl_required_evidence_freshness_nanos = 0,
     pl_synthetic_evidence_policy = SP_Allow, pl_require_real_evidence_for_active = False,
     pl_required_capabilities = [], pl_denied_capabilities = [], pl_allowed_portability_classes = [],
     pl_allow_cross_vendor_migration = False, pl_allow_cross_vendor_reconstruction = True,
     pl_allow_degraded_capabilities = False, pl_minimum_memory_bytes = 0, pl_tags = []\<rparr>"

definition sample_requirement :: "string \<Rightarrow> requirement_strength \<Rightarrow> capability_requirement" where
  "sample_requirement key strength = \<lparr>rq_id = Id128 3, rq_capability = key, rq_strength = strength,
     rq_op = RO_Present, rq_value = CV_Presence True, rq_version_range = [], rq_weight = 0, rq_rationale = []\<rparr>"

definition sample_workload :: workload_profile where
  "sample_workload = \<lparr>wp_class_id = Id128 4, wp_requirement_id = Id128 5, wp_revision = 1, wp_name = ''train'',
     wp_description = [], wp_requirements = [sample_requirement ''comm.rdma'' RS_Hard,
       sample_requirement ''sync.events'' RS_Soft], wp_execution_mode = EM_AnyPortability,
     wp_minimum_portability = PC_RecompileRequired, wp_migration_need = MN_None, wp_reconstruction_allowed = False,
     wp_required_policy_tags = []\<rparr>"

definition sample_context :: evaluation_context where
  "sample_context = \<lparr>ec_federation = Id128 6, ec_federation_generation = 1, ec_epoch = 1, ec_policy_id = Id128 2,
     ec_policy_generation = 1, ec_policy = Some sample_policy, ec_workload_revision = 1,
     ec_target = \<lparr>et_accelerator = Id128 7, et_device_generation = 1, et_capability_generation = 1,
       et_evidence_generation = 1, et_support_level = SL_Native, et_provenance = EP_Real,
       et_capabilities = Some sample_set, et_evidence_fresh = True, et_accepts_new_work = True\<rparr>,
     ec_source = None, ec_now = 0\<rparr>"

lemma zero_weight: "dbl_finite 0" "dbl_le 0 0" "dbl_eq 0 0" "dbl_le 0 dbl_one_e9"
proof -
  have "dbl_exponent 0 = 0" "dbl_mantissa 0 = 0" "dbl_scaled 0 = 0"
    by (simp_all add: dbl_exponent_def dbl_mantissa_def dbl_scaled_def dbl_magnitude_def)
  moreover have "dbl_exponent dbl_one_e9 \<noteq> 2047"
    by (simp add: dbl_exponent_def dbl_one_e9_def)
  ultimately show "dbl_finite 0" "dbl_le 0 0" "dbl_eq 0 0" "dbl_le 0 dbl_one_e9"
    by (simp_all add: dbl_finite_def dbl_le_def dbl_eq_def dbl_nan_def dbl_one_e9_scaled)
qed

lemma sample_requirement_valid:
  "rq_validate (sample_requirement ''comm.rdma'' strength) = EC_Ok"
  "rq_validate (sample_requirement ''sync.events'' strength) = EC_Ok"
proof -
  have "key_resolve ''comm.rdma'' = Inr ''comm.rdma''" "key_kind ''comm.rdma'' = CK_Presence"
    "key_resolve ''sync.events'' = Inr ''sync.events''" "key_kind ''sync.events'' = CK_Presence" by code_simp+
  then show "rq_validate (sample_requirement ''comm.rdma'' strength) = EC_Ok"
    "rq_validate (sample_requirement ''sync.events'' strength) = EC_Ok"
    by (simp_all add: rq_validate_def sample_requirement_def is_nil_iff nil_id_def zero_weight rq_validate_operator_def)
qed

lemma sample_valid:
  "wp_validate sample_workload = EC_Ok" "pl_validate sample_policy = EC_Ok"
  "\<not> is_nil (et_accelerator (ec_target sample_context))"
proof -
  have "\<not> adjacent_dup (std_sort (map rq_signature (wp_requirements sample_workload)))" by code_simp
  then show "wp_validate sample_workload = EC_Ok"
    by (simp add: wp_validate_def sample_workload_def sample_requirement_valid is_nil_iff nil_id_def std_sort_def)
qed (simp_all add: pl_validate_def sample_policy_def is_nil_iff nil_id_def capabilities_resolve_def sample_context_def)

lemma sample_single_valid:
  "rq_validate q = EC_Ok \<Longrightarrow> wp_validate (sample_workload\<lparr>wp_requirements := [q]\<rparr>) = EC_Ok"
  by (simp add: wp_validate_def sample_workload_def is_nil_iff nil_id_def std_sort_def sort_by_def)

lemma sample_context_simps:
  "ec_policy sample_context = Some sample_policy" "et_capabilities (ec_target sample_context) = Some sample_set"
  "ec_source sample_context = None"
  by (simp_all add: sample_context_def)

lemma sample_evaluates: "\<exists>d. evaluate_compatibility 0 sample_workload sample_context = Inr d"
  by (simp add: evaluate_compatibility_def sample_context_simps sample_valid Let_def split_beta)

lemma sample_eligible:
  "eligible sample_workload sample_policy (ec_target sample_context) sample_set None"
  "\<not> requirements_violated sample_workload sample_policy (ec_target sample_context) sample_set MO_Violated"
  "\<not> policy_violated sample_workload sample_policy (ec_target sample_context) sample_set"
proof -
  have m: "requirement_match sample_policy True sample_set (sample_requirement ''comm.rdma'' RS_Hard) = MO_Satisfied"
    "enumeration_token sample_set ''vendor.id'' = []" "enumeration_token sample_set ''architecture.family'' = []"
    by code_simp+
  have reqs: "wp_requirements sample_workload = [sample_requirement ''comm.rdma'' RS_Hard,
      sample_requirement ''sync.events'' RS_Soft]" "wp_required_policy_tags sample_workload = []"
    by (simp_all add: sample_workload_def)
  show v: "\<not> policy_violated sample_workload sample_policy (ec_target sample_context) sample_set"
    by (simp add: policy_violated_def m Let_def reqs) (simp add: sample_policy_def sample_context_def)
  have "\<not> policy_unproven sample_policy sample_set" by (simp add: policy_unproven_def sample_policy_def)
  with v m show "eligible sample_workload sample_policy (ec_target sample_context) sample_set None"
    by (simp add: eligible_def reqs) (simp add: sample_context_def sample_requirement_def)
  show "\<not> requirements_violated sample_workload sample_policy (ec_target sample_context) sample_set MO_Violated"
    using m by (simp add: requirements_violated_def reqs) (simp add: sample_context_def sample_requirement_def)
qed



text \<open>C2. Missing evidence never makes a candidate eligible: when the state of a
  capability is Unknown and a hard requirement names it, whatever its operator, or the policy lists it as required,
  or it is the runtime version or the memory size and the policy sets a minimum for it, the decision is not Eligible.
  (The vendor and architecture lists of the policy are the exception, C3.)\<close>

theorem unknown_never_eligible:
  assumes "evaluate_compatibility wall w ctx = Inr d" "ec_policy ctx = Some p" "et_capabilities (ec_target ctx) = Some s"
    and "cl_state (cs_lookup s key) = CS_Unknown"
    and "key \<in> set (pl_required_capabilities p) \<or>
      key = ''runtime.version'' \<and> pl_minimum_runtime_version p \<noteq> [] \<or>
      key = ''memory.total_bytes'' \<and> pl_minimum_memory_bytes p > 0 \<or>
      (\<exists>q \<in> set (wp_requirements w). rq_strength q = RS_Hard \<and> rq_capability q = key)"
  shows "cd_outcome d \<noteq> CO_Eligible"
proof -
  have "\<not> eligible w p (ec_target ctx) s (ec_source ctx)"
    using assms(4,5) by (auto simp: eligible_def policy_unproven_def requirement_match_def match_requirement_def)
  then show ?thesis
    by (simp only: evaluate_compatibility_facts [OF assms(1-3)] run_evaluation_outcome if_False split: if_split) simp
qed

theorem unknown_never_eligible_witness:
  "\<exists>d. evaluate_compatibility 0 (sample_workload\<lparr>wp_requirements := [sample_requirement ''sync.events'' RS_Hard]\<rparr>)
      sample_context = Inr d \<and> cd_outcome d \<noteq> CO_Eligible"
proof -
  let ?w = "sample_workload\<lparr>wp_requirements := [sample_requirement ''sync.events'' RS_Hard]\<rparr>"
  have "cl_state (cs_lookup sample_set ''sync.events'') = CS_Unknown" by code_simp
  moreover obtain d where "evaluate_compatibility 0 ?w sample_context = Inr d"
    using sample_single_valid [OF sample_requirement_valid(2)]
    by (simp add: evaluate_compatibility_def sample_context_simps sample_valid Let_def split_beta)
  moreover have "\<exists>q \<in> set (wp_requirements ?w). rq_strength q = RS_Hard \<and> rq_capability q = ''sync.events''"
    by (simp add: sample_requirement_def)
  ultimately show ?thesis
    using unknown_never_eligible [OF _ sample_context_simps(1,2), of 0 ?w d "''sync.events''"] by blast
qed

text \<open>C3. The vendor and architecture lists of the policy fail open: for a device that does not
  report its vendor and its architecture the decision is the same whatever vendors the policy allows or forbids and
  whatever architectures it deprecates, and such a device is found Eligible under a policy that allows a single
  vendor.\<close>

theorem identity_lists_bypassed:
  assumes "evaluate_compatibility wall w ctx = Inr d" "ec_policy ctx = Some p" "et_capabilities (ec_target ctx) = Some s"
    and "cl_state (cs_lookup s ''vendor.id'') = CS_Unknown" "cl_state (cs_lookup s ''architecture.family'') = CS_Unknown"
    and "evaluate_compatibility wall w (ctx\<lparr>ec_policy := Some (p\<lparr>pl_allowed_vendors := allowed,
      pl_forbidden_vendors := forbidden, pl_deprecated_architectures := deprecated\<rparr>)\<rparr>) = Inr d'"
  shows "cd_outcome d' = cd_outcome d"
proof -
  let ?p = "p\<lparr>pl_allowed_vendors := allowed, pl_forbidden_vendors := forbidden, pl_deprecated_architectures := deprecated\<rparr>"
  have silent: "enumeration_token s ''vendor.id'' = []" "enumeration_token s ''architecture.family'' = []"
    using assms(4,5) by (simp_all add: enumeration_token_def Let_def)
  have "requirement_match ?p = requirement_match p" by (intro ext) (simp add: requirement_match_def)
  moreover have "target_class w ?p s source = target_class w p s source" for source
    by (simp add: target_class_def source_request_def split: option.split)
  moreover have "policy_violated w ?p t s = policy_violated w p t s" for t
    using silent by (simp add: policy_violated_def)
  moreover have "policy_unproven ?p s = policy_unproven p s" "portability_violated w ?p c = portability_violated w p c" for c
    by (simp_all add: policy_unproven_def portability_violated_def)
  ultimately have "final_outcome (snd (run_evaluation w ?p t s source)) = final_outcome (snd (run_evaluation w p t s source))"
    for t source
    by (simp only: run_evaluation_outcome eligible_def requirements_violated_def)
  then show ?thesis
    using evaluate_compatibility_facts(2) [OF assms(1-3)] evaluate_compatibility_facts(2) [OF assms(6)] assms(3) by simp
qed

theorem identity_lists_bypassed_witness:
  "\<exists>d. evaluate_compatibility 0 sample_workload
       (sample_context\<lparr>ec_policy := Some (sample_policy\<lparr>pl_allowed_vendors := [''acme'']\<rparr>)\<rparr>) = Inr d \<and>
     cd_outcome d = CO_Eligible"
proof -
  let ?p = "sample_policy\<lparr>pl_allowed_vendors := [''acme''], pl_forbidden_vendors := [], pl_deprecated_architectures := []\<rparr>"
  have p: "sample_policy\<lparr>pl_allowed_vendors := [''acme'']\<rparr> = ?p" by (simp add: sample_policy_def)
  have silent_search: "\<not> binary_search [] ''acme''" by code_simp
  have valid: "pl_validate ?p = EC_Ok"
    by (simp add: pl_validate_def sample_policy_def is_nil_iff nil_id_def capabilities_resolve_def silent_search)
  obtain d where d: "evaluate_compatibility 0 sample_workload sample_context = Inr d" using sample_evaluates by blast
  have eligible: "cd_outcome d = CO_Eligible"
    using evaluate_compatibility_facts(2) [OF d sample_context_simps(1,2)]
    by (simp only: run_evaluation_outcome sample_context_simps(3) sample_eligible simp_thms if_True if_False)
  have unknown: "cl_state (cs_lookup sample_set ''vendor.id'') = CS_Unknown"
    "cl_state (cs_lookup sample_set ''architecture.family'') = CS_Unknown" by code_simp+
  obtain d' where d': "evaluate_compatibility 0 sample_workload (sample_context\<lparr>ec_policy := Some ?p\<rparr>) = Inr d'"
    using valid by (simp add: evaluate_compatibility_def sample_context_simps sample_valid Let_def split_beta)
  from identity_lists_bypassed [OF d sample_context_simps(1,2) unknown d'] eligible d' show ?thesis
    by (subst p) (intro exI [of _ d'] conjI, simp_all only:)
qed

text \<open>C24. Soft requirements only move the score: dropping them all leaves the outcome
  of every evaluation unchanged.\<close>

theorem soft_requirements_outcome:
  assumes "evaluate_compatibility wall w ctx = Inr d" "evaluate_compatibility wall' (hard_only w) ctx = Inr d'"
  shows "cd_outcome d' = cd_outcome d"
proof (rule evaluate_compatibility_cases [OF assms(1)])
  fix p s assume "ec_policy ctx = Some p" "et_capabilities (ec_target ctx) = Some s"
  from evaluate_compatibility_facts(2) [OF assms(1) this] evaluate_compatibility_facts(2) [OF assms(2) this]
  show ?thesis by (simp only: outcome_hard_only)
qed

theorem soft_requirements_outcome_witness:
  "\<exists>d d'. evaluate_compatibility 0 sample_workload sample_context = Inr d \<and>
     evaluate_compatibility 0 (hard_only sample_workload) sample_context = Inr d' \<and> cd_outcome d' = cd_outcome d"
proof -
  have "hard_only sample_workload = sample_workload\<lparr>wp_requirements := [sample_requirement ''comm.rdma'' RS_Hard]\<rparr>"
    by (simp add: hard_only_def sample_workload_def sample_requirement_def)
  then have "wp_validate (hard_only sample_workload) = EC_Ok"
    using sample_single_valid [OF sample_requirement_valid(1)] by simp
  then obtain d' where "evaluate_compatibility 0 (hard_only sample_workload) sample_context = Inr d'"
    by (simp add: evaluate_compatibility_def sample_context_simps sample_valid Let_def split_beta)
  with sample_evaluates soft_requirements_outcome show ?thesis by blast
qed

text \<open>C25. The 64-bit score accumulator never overflows: the score of every decision lies within
  the integers a double represents exactly.\<close>

theorem score_bounds:
  assumes "evaluate_compatibility wall w ctx = Inr d"
  shows "- (2 ^ 53) \<le> cd_score d \<and> cd_score d \<le> 2 ^ 53"
proof (rule evaluate_compatibility_cases [OF assms])
  fix p s assume "wp_validate w = EC_Ok"
    "cd_score d = va_score (snd (run_evaluation w p (ec_target ctx) s (ec_source ctx)))"
  then have "\<bar>cd_score d\<bar> \<le> 2 ^ 53" by (simp only: run_evaluation_score)
  then show ?thesis by (simp add: abs_le_iff)
qed

theorem score_bounds_witness:
  "\<exists>d. evaluate_compatibility 0 sample_workload sample_context = Inr d \<and> cd_score d \<le> 2 ^ 53"
  using sample_evaluates score_bounds by blast

text \<open>C26. The decision does not depend on the order in which a valid profile lists
  its requirements.\<close>

theorem evaluation_order_independent:
  "wp_validate w = EC_Ok \<Longrightarrow> mset (wp_requirements w) = mset qs \<Longrightarrow>
     evaluate_compatibility wall (w\<lparr>wp_requirements := qs\<rparr>) ctx = evaluate_compatibility wall w ctx"
  by (rule evaluate_compatibility_perm)

theorem evaluation_order_independent_witness:
  "evaluate_compatibility 0 (sample_workload\<lparr>wp_requirements := rev (wp_requirements sample_workload)\<rparr>) sample_context =
     evaluate_compatibility 0 sample_workload sample_context"
  by (rule evaluation_order_independent) (simp_all add: sample_valid)

text \<open>C27. A fleet evaluation has one cell per target, in strictly ascending order of identity,
  its three counters count the cells of each outcome, and it does not depend on the order of the targets.\<close>

theorem fleet_partition:
  assumes "evaluate_fleet walls w ctx ts = Inr f"
  shows "mset (map fst (fe_cells f)) = mset (map et_accelerator ts) \<and> sorted_wrt (<) (map fst (fe_cells f)) \<and>
    fleet_consistent f \<and> fe_eligible f + fe_ineligible f + fe_unknown f = length ts \<and>
    (\<forall>us. mset us = mset ts \<longrightarrow> evaluate_fleet walls w ctx us = Inr f)"
proof -
  let ?f = "\<lparr>fe_workload = wp_class_id w, fe_workload_revision = ec_workload_revision ctx, fe_cells = [],
    fe_eligible = 0, fe_ineligible = 0, fe_unknown = 0\<rparr>"
  have loop: "distinct (map et_accelerator ts)" "fleet_loop walls w ctx (sort_by et_less ts) ?f = Inr f"
    using assms by (simp_all add: evaluate_fleet_def Let_def fleet_duplicates split: if_splits)
  have f: "fleet_consistent f" "map fst (fe_cells f) = map et_accelerator (sort_by et_less ts)"
    using fleet_loop_consistent [OF loop(2)] by (simp_all add: fleet_consistent_def)
  have m: "mset (map fst (fe_cells f)) = mset (map et_accelerator ts)"
    unfolding f(2) by (metis mset_map mset_sort_by)
  moreover have "sorted_wrt (<) (map fst (fe_cells f))"
    unfolding f(2) using loop(1) by (rule fleet_sorted)
  moreover have "fe_eligible f + fe_ineligible f + fe_unknown f = length ts"
  proof -
    have "length (filter (\<lambda>c. cd_outcome (snd c) = CO_Eligible) cs) + length (filter (\<lambda>c. cd_outcome (snd c) = CO_Ineligible) cs) +
        length (filter (\<lambda>c. cd_outcome (snd c) = CO_Unknown) cs) = length cs" for cs :: "(accelerator_id \<times> compatibility_decision) list"
      by (induction cs) (auto, metis compatibility_outcome.exhaust)
    moreover have "length (fe_cells f) = length ts" using m by (metis length_map size_mset)
    ultimately show ?thesis using f(1) by (simp add: fleet_consistent_def)
  qed
  moreover have "\<forall>us. mset us = mset ts \<longrightarrow> evaluate_fleet walls w ctx us = Inr f"
    by (intro allI impI, rule trans [OF evaluate_fleet_perm assms])
  ultimately show ?thesis using f(1) by blast
qed

theorem fleet_partition_witness:
  "\<exists>f. evaluate_fleet (\<lambda>i. 0) sample_workload sample_context [ec_target sample_context] = Inr f \<and>
     fe_eligible f + fe_ineligible f + fe_unknown f = 1"
proof -
  have "\<exists>f. evaluate_fleet (\<lambda>i. 0) sample_workload sample_context [ec_target sample_context] = Inr f"
    using sample_evaluates
    by (auto simp: evaluate_fleet_def Let_def sort_by_def fleet_step_def)
  then obtain f where f: "evaluate_fleet (\<lambda>i. 0) sample_workload sample_context [ec_target sample_context] = Inr f" ..
  from fleet_partition [OF f] have "fe_eligible f + fe_ineligible f + fe_unknown f = 1" by simp
  with f show ?thesis by blast
qed

section \<open>Membership, policies and workloads\<close>

text \<open>C28. A member that was not live becomes live only through admission from the observed
  state: on every path of legal transitions from a state that is not live to one that is, there is a
  last transition into Admitted, taken from Observed, and the member is live ever after.\<close>

theorem admission_precedes_live:
  assumes "lifecycle s path t" "\<not> live_state s" "live_state t"
  shows "\<exists>before after. path = before @ MS_Admitted # after \<and> list_all live_state after \<and>
    last (s # before) = MS_Observed"
  using assms by (rule lifecycle_live_admitted)

theorem admission_precedes_live_witness:
  "\<exists>before after. [MS_Observed, MS_Admitted, MS_Active] = before @ MS_Admitted # after \<and>
     list_all live_state after \<and> last (MS_Fenced # before) = MS_Observed"
proof (rule admission_precedes_live)
  show "lifecycle MS_Fenced [MS_Observed, MS_Admitted, MS_Active] MS_Active"
    using move [OF move [OF move [OF stay [of MS_Fenced], of MS_Observed], of MS_Admitted], of MS_Active] by simp
qed (simp_all add: live_state_def)

text \<open>C29. No member is stuck before retirement: from every state but Retired both Active and
  Retired can be reached, and nothing is reachable from Retired.\<close>

theorem lifecycle_progress:
  "(s \<noteq> MS_Retired \<longrightarrow> (\<exists>path. lifecycle s path MS_Active) \<and> (\<exists>path. lifecycle s path MS_Retired)) \<and>
   (lifecycle MS_Retired path t \<longrightarrow> path = [] \<and> t = MS_Retired)"
proof -
  have fenced: "lifecycle MS_Fenced [MS_Observed, MS_Admitted, MS_Active] MS_Active"
    using move [OF move [OF move [OF stay [of MS_Fenced], of MS_Observed], of MS_Admitted], of MS_Active] by simp
  have "\<exists>path. lifecycle s path MS_Active" if "s \<noteq> MS_Retired"
    using that fenced lifecycle_via_fence [of s, OF _ _ fenced] stay [of MS_Active] by (cases "s = MS_Fenced") blast+
  moreover have "\<exists>path. lifecycle s path MS_Retired" if "s \<noteq> MS_Retired"
    using that move [OF stay [of s], of MS_Retired] by auto
  ultimately show ?thesis using lifecycle_retired by blast
qed

theorem lifecycle_progress_witness: "\<exists>path. lifecycle MS_Draining path MS_Retired"
  using lifecycle_progress [of MS_Draining] by simp

text \<open>C30. Whatever bytes a policy is decoded from, the result is valid, canonical and
  free of contradictions, and its identity and generation are those derived from its content.\<close>

theorem decoded_policy_consistent:
  assumes "fst (pl_deserialize r) = Some p"
  shows "pl_validate p = EC_Ok \<and> pl_canonical p \<and> pl_refresh_identity p = p \<and>
    set (pl_required_capabilities p) \<inter> set (pl_denied_capabilities p) = {} \<and>
    set (pl_allowed_vendors p) \<inter> set (pl_forbidden_vendors p) = {}"
  using yieldsD [OF pl_deserialize_yields assms] pl_validate_consistent by blast

theorem decoded_policy_consistent_witness:
  "\<exists>p. fst (pl_deserialize (rd_init (pl_serialize permissive_default))) = Some p \<and> pl_canonical p"
  using decoded_policy_consistent reads_init [OF reads_pl [OF permissive_default_ok]] by (metis fst_conv)

text \<open>C31. The default policy does not survive its own encoding: it decodes to a policy
  whose runtime constraint is the clause for any version instead of no constraint, under which no device
  with an unknown runtime version is eligible, although the default policy leaves nothing of it unproven.\<close>

theorem default_policy_not_preserved:
  "\<exists>p. fst (pl_deserialize (rd_init (pl_serialize permissive_default))) = Some p \<and>
     pl_minimum_runtime_version permissive_default = [] \<and> pl_minimum_runtime_version p = [any_clause] \<and>
     (\<forall>s. cl_state (cs_lookup s ''runtime.version'') = CS_Unknown \<longrightarrow> \<not> policy_unproven permissive_default s \<and>
        (\<forall>w t source. final_outcome (snd (run_evaluation w p t s source)) \<noteq> CO_Eligible))"
proof -
  let ?p = "pl_wire permissive_default"
  have none: "pl_minimum_runtime_version permissive_default = []" "pl_minimum_memory_bytes permissive_default = 0"
    "pl_required_capabilities permissive_default = []"
    by (simp_all add: permissive_default_def pl_refresh_identity_def Let_def)
  have any: "pl_minimum_runtime_version ?p = [any_clause]" by (rule pl_ok_wire [OF permissive_default_ok none(1)])
  have "final_outcome (snd (run_evaluation w ?p t s source)) \<noteq> CO_Eligible"
    if "cl_state (cs_lookup s ''runtime.version'') = CS_Unknown" for w t s source
    using that by (simp add: run_evaluation_outcome eligible_def policy_unproven_def any)
  moreover have "\<not> policy_unproven permissive_default s" for s using none by (simp add: policy_unproven_def)
  ultimately show ?thesis
    using any none(1) reads_init [OF reads_pl [OF permissive_default_ok]] by (intro exI [of _ ?p]) auto
qed

theorem default_policy_not_preserved_witness:
  "\<exists>p. fst (pl_deserialize (rd_init (pl_serialize permissive_default))) = Some p \<and>
     final_outcome (snd (run_evaluation sample_workload p (ec_target sample_context) cs_empty None)) \<noteq> CO_Eligible"
proof -
  have "cl_state (cs_lookup cs_empty ''runtime.version'') = CS_Unknown" by code_simp
  with default_policy_not_preserved show ?thesis by blast
qed

text \<open>C32. A requirement whose version range is the clause for any version is valid and can be
  encoded, but its encoding is always refused by the decoder.\<close>

theorem any_range_refused:
  assumes "rq_validate q = EC_Ok" "cv_ok (rq_value q)" "rq_version_range q = [any_clause]"
  shows "fst (rq_deserialize (rd_init (rq_serialize q @ rest))) = None \<and>
    rd_error (snd (rq_deserialize (rd_init (rq_serialize q @ rest)))) = EC_MalformedVersionRange"
  using rq_any_refused [OF assms] unfolding refuses_def by (metis append_Nil rd_init_at)

theorem any_range_refused_witness:
  "let q = (sample_requirement ''runtime.version'' RS_Hard)\<lparr>rq_op := RO_VersionSatisfies,
         rq_value := CV_Version (sv_make 0 0 0), rq_version_range := [any_clause]\<rparr>
   in rq_validate q = EC_Ok \<and> fst (rq_deserialize (rd_init (rq_serialize q @ []))) = None"
proof -
  define q where "q = (sample_requirement ''runtime.version'' RS_Hard)\<lparr>rq_op := RO_VersionSatisfies,
    rq_value := CV_Version (sv_make 0 0 0), rq_version_range := [any_clause]\<rparr>"
  have "key_resolve ''runtime.version'' = Inr ''runtime.version''" "key_kind ''runtime.version'' = CK_Version"
    by code_simp+
  then have valid: "rq_validate q = EC_Ok"
    by (simp add: rq_validate_def q_def sample_requirement_def is_nil_iff nil_id_def zero_weight rq_validate_operator_def)
  have "cv_ok (CV_Version (sv_make 0 0 0))" by code_simp
  then have "cv_ok (rq_value q)" by (simp add: q_def)
  from any_range_refused [OF valid this, of "[]"] valid show ?thesis by (simp add: q_def Let_def)
qed

text \<open>Decoding the encoding of a well-formed workload profile, followed by any other
  bytes, gives the profile back.\<close>

lemma workload_wire_roundtrip: "wp_ok w \<Longrightarrow> fst (wp_deserialize (rd_init (wp_serialize w @ rest))) = Some w"
  by (rule profile_codec.decode_prefix)

section \<open>Portability and migration\<close>

text \<open>C33. A move is classified as live exactly when every input is known on both sides, a
  code object target is shared, both sides support live state transfer, and the vendors are the same or
  the policy allows the crossing and both sides support it.\<close>

theorem live_migration_fail_closed:
  assumes "pq_source q = Some s" "pq_destination q = Some d"
  shows "fst (classify_portability q) = PC_LiveMigrationSupported \<longleftrightarrow>
    (\<forall>item \<in> set required_evidence. known s (fst item) \<and> known d (fst item)) \<and>
    shares_token s d ''isa.code_object_targets'' \<and>
    supports s ''migration.live_state_transfer'' \<and> supports d ''migration.live_state_transfer'' \<and>
    (same_vendor q \<or> pq_allows_cross_vendor q \<and> supports s ''migration.cross_vendor_state'' \<and>
       supports d ''migration.cross_vendor_state'')"
  using strongest_class_live [of q s d]
  by (auto simp: classify_known [OF assms] unknown_inputs_Nil cross_vendor_live_allowed_def)

theorem live_migration_fail_closed_witness:
  "fst (classify_portability \<lparr>pq_source = Some cs_empty, pq_destination = Some cs_empty, pq_source_vendor = ''acme'',
     pq_destination_vendor = ''acme'', pq_workload = None, pq_allows_cross_vendor = True\<rparr>) \<noteq> PC_LiveMigrationSupported"
proof -
  have "\<not> supports cs_empty ''migration.live_state_transfer''" by code_simp
  then show ?thesis by (subst live_migration_fail_closed [where s = cs_empty and d = cs_empty]) simp_all
qed

text \<open>C34. Every run of a migration plan is finite: at most five transitions follow, fewer
  after each one, and a plan that can make none is terminal.\<close>

theorem plan_lifecycle_terminates:
  "(plan_run s path t \<longrightarrow> length path \<le> 5 \<and> length path + remaining_steps t \<le> remaining_steps s) \<and>
   ((\<forall>u. \<not> is_legal_migration_transition t u) \<longleftrightarrow> is_terminal_migration_state t)"
proof -
  have "remaining_steps s \<le> 5" by (cases s) simp_all
  then show ?thesis
    using plan_run_length [of s path t] terminal_no_transition nonterminal_can_abort [of t] by fastforce
qed

theorem plan_lifecycle_terminates_witness:
  "plan_run GS_Planned [GS_Validated, GS_Aborted] GS_Aborted \<and>
   length [GS_Validated, GS_Aborted] + remaining_steps GS_Aborted \<le> remaining_steps GS_Planned \<and>
   (\<forall>u. \<not> is_legal_migration_transition GS_Aborted u)"
proof -
  have "plan_run GS_Planned ([GS_Validated] @ [GS_Aborted]) GS_Aborted"
    by (rule plan_move [OF plan_move [OF plan_stay, of GS_Planned GS_Validated, simplified]])
       (simp_all add: is_terminal_migration_state_def)
  moreover have "is_terminal_migration_state GS_Aborted" by (simp add: is_terminal_migration_state_def)
  ultimately show ?thesis
    using plan_lifecycle_terminates [of GS_Planned "[GS_Validated, GS_Aborted]" GS_Aborted] by simp
qed

text \<open>C35. A plan is committed only after it was validated, prepared, transferred and verified, in
  this order, and a committed plan was never aborted or refused.\<close>

theorem commit_order:
  assumes "plan_run GS_Planned path GS_Committed"
  shows "path = [GS_Validated, GS_Prepared, GS_Transferring, GS_Verified, GS_Committed]"
  using plan_run_committed_path [OF assms] by simp

theorem commit_order_witness:
  "\<exists>path. plan_run GS_Planned path GS_Committed \<and> path ! 3 = GS_Verified"
proof -
  have "\<exists>path. plan_run GS_Planned path GS_Committed"
    using plan_move [OF plan_move [OF plan_move [OF plan_move [OF plan_move [OF plan_stay [of GS_Planned],
      of GS_Validated], of GS_Prepared], of GS_Transferring], of GS_Verified], of GS_Committed] by auto
  then obtain path where "plan_run GS_Planned path GS_Committed" by blast
  with commit_order [OF this] show ?thesis by auto
qed

text \<open>C36. What the planner promises: a plan is either planned with no refusal, or refused with
  at least one and without steps; its identity is derived from its content; a plan's portability class
  is one the policy allows, and its destination's evidence is real where the policy rejects other evidence; a planned
  live move has both endpoints supporting it and, between vendors, the policy's permission; a planned move between
  vendors for a workload that needs live state transfer has the support of both ends and the policy's consent, and
  one of a class that requires reconstruction the policy's consent to that; a planned restore has checkpoint
  support on both sides, a reconstruction is allowed by the workload and supported by the destination; and
  the cost is the number of transformation steps times a hundred plus the number of plan steps.\<close>

theorem planned_move_justified:
  assumes "plan_migration wall q = Inr plan" "mq_policy q = Some p" "mq_workload q = Some w"
    "me_capabilities (mq_source q) = Some s" "me_capabilities (mq_destination q) = Some d"
  shows "mp_id plan = mp_identity plan \<and>
    (mp_state plan = GS_Refused \<and> mp_refusal_reasons plan \<noteq> [] \<and> mp_steps plan = [] \<or>
     mp_state plan = GS_Planned \<and> mp_refusal_reasons plan = [] \<and> mp_outcome plan \<notin> {MG_Unsupported, MG_Unknown} \<and>
     (mp_outcome plan = MG_MoveNativeState \<longrightarrow>
        supports s ''migration.live_state_transfer'' \<and> supports d ''migration.live_state_transfer'' \<and>
        cross_vendor_live_allowed (request_portability q w p) s d) \<and>
     (mp_outcome plan \<in> {MG_RestoreCheckpoint, MG_RecompileThenRestore} \<longrightarrow>
        supports s ''migration.checkpoint_restore'' \<and> supports d ''migration.checkpoint_restore'') \<and>
     (mp_outcome plan = MG_Reconstruct \<longrightarrow> wp_reconstruction_allowed w \<and> supports d ''migration.state_reconstruction'') \<and>
     (pl_allowed_portability_classes p = [] \<or> mp_portability plan \<in> set (pl_allowed_portability_classes p)) \<and>
     (pl_synthetic_evidence_policy p = SP_Reject \<longrightarrow> me_provenance (mq_destination q) = EP_Real) \<and>
     (\<not> endpoints_same_vendor q \<longrightarrow>
        (wp_migration_need w = MN_LiveStateTransfer \<longrightarrow>
           cross_vendor_state_supported q \<and> pl_allow_cross_vendor_migration p) \<and>
        (requires_state_reconstruction (mp_portability plan) \<longrightarrow> pl_allow_cross_vendor_reconstruction p)) \<and>
     unat (mp_estimated_cost plan) =
       100 * unat (portability_transformation_steps (mp_portability plan)) + length (mp_steps plan))"
proof -
  define c where "c = fst (classify_portability (request_portability q w p))"
  have plan: "plan = build_plan wall q w p c"
    using assms by (simp add: plan_migration_def c_def split: if_splits)
  have class_of: "mp_portability plan = c" by (simp add: plan build_plan_portability)
  have outcome: "request_outcome q w c = derive_migration_outcome c (wp_migration_need w) (wp_reconstruction_allowed w)
      (supports d ''migration.state_reconstruction'')
      (supports s ''migration.checkpoint_restore'' \<and> supports d ''migration.checkpoint_restore'')
      (supports s ''migration.live_state_transfer'' \<and> supports d ''migration.live_state_transfer'')"
    using assms(4,5) by (simp add: request_outcome_def)
  show ?thesis
  proof (cases "mp_state plan = GS_Planned")
    case True
    note planned = build_plan_planned [OF True [unfolded plan], folded plan]
    have known_class: "c \<notin> {PC_Unknown, PC_Unsupported}"
      using planned(1) by (auto simp: migration_refusals_def)
    have live: "cross_vendor_live_allowed (request_portability q w p) s d" if "c = PC_LiveMigrationSupported"
      using classify_live(5) [of "request_portability q w p" s d] that assms(4,5)
      by (simp add: request_portability_def c_def)
    have cost: "unat (mp_estimated_cost plan) = 100 * unat (portability_transformation_steps c) + length (mp_steps plan)"
      unfolding planned by (rule migration_cost_value [OF known_class]) (simp add: outcome_steps_length)
    have policy: "pl_allowed_portability_classes p = [] \<or> c \<in> set (pl_allowed_portability_classes p)"
      "pl_synthetic_evidence_policy p = SP_Reject \<longrightarrow> me_provenance (mq_destination q) = EP_Real"
      "\<not> endpoints_same_vendor q \<longrightarrow> (wp_migration_need w = MN_LiveStateTransfer \<longrightarrow>
         cross_vendor_state_supported q \<and> pl_allow_cross_vendor_migration p) \<and>
         (requires_state_reconstruction c \<longrightarrow> pl_allow_cross_vendor_reconstruction p)"
      using planned(1) known_class by (auto simp: migration_refusals_def cross_vendor_refusals_def split: if_splits)
    show ?thesis
      using True planned(2,3,6) cost live policy derive_outcome_move derive_outcome_checkpoint derive_outcome_reconstruct
      unfolding class_of outcome by (simp add: plan build_plan_identity) metis
  next
    case False
    then have "mp_state plan = GS_Refused" by (simp add: plan build_plan_state split: if_splits)
    with build_plan_refused show ?thesis by (simp add: plan build_plan_identity)
  qed
qed
text \<open>Two devices of different vendors with no shared code object target; both report the inputs the
  classification needs, the destination can be recompiled for and supports reconstruction.\<close>

definition sample_device :: "string \<Rightarrow> string \<Rightarrow> capability_set" where
  "sample_device vendor target = \<lparr>cs_id = Id128 1, cs_generation = 1, cs_records =
     [\<lparr>cr_key = ''architecture.family'', cr_state = CS_Supported, cr_value = CV_Enumeration ''a1'', cr_unit = []\<rparr>,
      \<lparr>cr_key = ''isa.code_object_targets'', cr_state = CS_Supported, cr_value = CV_TokenSet [target], cr_unit = []\<rparr>,
      \<lparr>cr_key = ''migration.state_reconstruction'', cr_state = CS_Supported, cr_value = CV_Presence True, cr_unit = []\<rparr>,
      \<lparr>cr_key = ''portability.recompile_available'', cr_state = CS_Supported, cr_value = CV_Presence True, cr_unit = []\<rparr>,
      \<lparr>cr_key = ''runtime.family'', cr_state = CS_Supported, cr_value = CV_Enumeration ''r1'', cr_unit = []\<rparr>,
      \<lparr>cr_key = ''vendor.id'', cr_state = CS_Supported, cr_value = CV_Enumeration vendor, cr_unit = []\<rparr>],
     cs_closed = []\<rparr>"

text \<open>The same device with checkpoint support.\<close>

definition sample_restorable :: "capability_set \<Rightarrow> capability_set" where
  "sample_restorable s = s\<lparr>cs_records := take 2 (cs_records s) @
     [\<lparr>cr_key = ''migration.checkpoint_restore'', cr_state = CS_Supported, cr_value = CV_Presence True, cr_unit = []\<rparr>] @
     drop 2 (cs_records s)\<rparr>"

definition sample_endpoint :: "id128 \<Rightarrow> string \<Rightarrow> string \<Rightarrow> migration_endpoint" where
  "sample_endpoint i vendor target = \<lparr>me_accelerator = i, me_device_generation = 1, me_capability_generation = 1,
     me_capabilities = Some (sample_device vendor target), me_vendor = vendor, me_provenance = EP_Real,
     me_support_level = SL_Native\<rparr>"

definition sample_move :: "federation_policy \<Rightarrow> workload_profile \<Rightarrow> migration_request" where
  "sample_move p w = \<lparr>mq_federation = Id128 6, mq_federation_generation = 1, mq_epoch = 1, mq_policy_id = pl_id p,
     mq_policy_generation = 1, mq_policy = Some p, mq_source = sample_endpoint (Id128 7) ''acme'' ''t1'',
     mq_destination = sample_endpoint (Id128 8) ''bolt'' ''t2'', mq_workload = Some w, mq_workload_revision = 1,
     mq_source_decision = Id128 9, mq_destination_decision = Id128 10\<rparr>"

lemma sample_move_plan:
  "plan_migration wall (sample_move p w) =
     Inr (build_plan wall (sample_move p w) w p
       (fst (classify_portability (request_portability (sample_move p w) w p))))"
  by (simp add: plan_migration_def sample_move_def sample_endpoint_def is_nil_iff nil_id_def)

theorem planned_move_justified_witness:
  "\<exists>plan. plan_migration 0 (sample_move sample_policy sample_workload) = Inr plan \<and> mp_id plan = mp_identity plan"
  using planned_move_justified [OF sample_move_plan, of sample_policy sample_workload] sample_move_plan
  by (force simp: sample_move_def sample_endpoint_def)

text \<open>C37. The policy switch against cross-vendor reconstruction only guards the
  portability classes that require reconstruction: there is a request between two vendors, under a policy
  that forbids cross-vendor reconstruction, for which the planner plans exactly that.\<close>

theorem reconstruction_gate_bypassed:
  "\<exists>q p plan. mq_policy q = Some p \<and> \<not> pl_allow_cross_vendor_reconstruction p \<and> \<not> endpoints_same_vendor q \<and>
     plan_migration 0 q = Inr plan \<and> mp_state plan = GS_Planned \<and> mp_outcome plan = MG_Reconstruct"
proof -
  define p where "p = sample_policy\<lparr>pl_allow_cross_vendor_reconstruction := False\<rparr>"
  define w where "w = sample_workload\<lparr>wp_migration_need := MN_CheckpointRestore, wp_reconstruction_allowed := True\<rparr>"
  let ?q = "sample_move p w"
  have c: "fst (classify_portability (request_portability ?q w p)) = PC_RecompileRequired"
    and r: "migration_refusals ?q w p PC_RecompileRequired = []"
    and v: "request_outcome ?q w PC_RecompileRequired = MG_Reconstruct"
    and e: "\<not> endpoints_same_vendor ?q"
    unfolding p_def w_def by code_simp+
  have state: "mp_state (build_plan 0 ?q w p PC_RecompileRequired) = GS_Planned" by (simp add: build_plan_state r v)
  then have "mp_outcome (build_plan 0 ?q w p PC_RecompileRequired) = MG_Reconstruct"
    by (simp add: build_plan_planned(2) v)
  with e state show ?thesis
    by (intro exI [of _ ?q] exI [of _ p]) (simp add: sample_move_plan c, simp add: sample_move_def p_def)
qed

text \<open>C38. The policy's consent to cross-vendor migration is only asked for live
  transfers: there is a request between two vendors, under a policy that forbids cross-vendor migration and with no
  device supporting cross-vendor state, for which the planner plans to move the checkpointed state.\<close>

theorem cross_vendor_restore_unconsented:
  "\<exists>q p plan. mq_policy q = Some p \<and> \<not> pl_allow_cross_vendor_migration p \<and> \<not> endpoints_same_vendor q \<and>
     \<not> cross_vendor_state_supported q \<and> plan_migration 0 q = Inr plan \<and> mp_state plan = GS_Planned \<and>
     mp_outcome plan = MG_RecompileThenRestore"
proof -
  define r where "r = (\<lambda>i v t. (sample_endpoint i v t)\<lparr>me_capabilities := Some (sample_restorable (sample_device v t))\<rparr>)"
  define w where "w = sample_workload\<lparr>wp_migration_need := MN_CheckpointRestore\<rparr>"
  define q where "q = (sample_move sample_policy w)\<lparr>mq_source := r (Id128 7) ''acme'' ''t1'', mq_destination := r (Id128 8) ''bolt'' ''t2''\<rparr>"
  have c: "fst (classify_portability (request_portability q w sample_policy)) = PC_RecompileRequired"
    and f: "migration_refusals q w sample_policy PC_RecompileRequired = []"
    and v: "request_outcome q w PC_RecompileRequired = MG_RecompileThenRestore"
    and e: "\<not> endpoints_same_vendor q" "\<not> cross_vendor_state_supported q" "\<not> pl_allow_cross_vendor_migration sample_policy"
    unfolding q_def w_def r_def by code_simp+
  have plan: "plan_migration 0 q = Inr (build_plan 0 q w sample_policy PC_RecompileRequired)"
    unfolding c [symmetric] by (simp add: plan_migration_def q_def r_def sample_move_def sample_endpoint_def is_nil_iff nil_id_def)
  have state: "mp_state (build_plan 0 q w sample_policy PC_RecompileRequired) = GS_Planned" by (simp add: build_plan_state f v)
  then have "mp_outcome (build_plan 0 q w sample_policy PC_RecompileRequired) = MG_RecompileThenRestore"
    by (simp add: build_plan_planned(2) v)
  moreover have "mq_policy q = Some sample_policy" by (simp add: q_def sample_move_def)
  ultimately show ?thesis using e plan state by blast
qed

text \<open>A migration plan with its identity is recovered from its encoding, including its
  position in the lifecycle, and the identity does not change when the plan advances.\<close>

lemma plan_wire_roundtrip:
  assumes "mp_ok plan"
  shows "fst (mp_deserialize (rd_init (mp_serialize plan @ rest))) = Some plan \<and>
    fst (mp_deserialize (rd_init (mp_serialize (plan\<lparr>mp_state := s\<rparr>) @ rest))) = Some (plan\<lparr>mp_state := s\<rparr>) \<and>
    mp_identity (plan\<lparr>mp_state := s\<rparr>) = mp_identity plan"
proof -
  have "mp_ok (plan\<lparr>mp_state := s\<rparr>)" using assms by (simp add: mp_ok_def)
  with assms show ?thesis by (simp add: plan_codec.decode_prefix)
qed

text \<open>C39. A decision or a plan that a decoder accepts, from whatever bytes, carries the
  identity derived from its content: a record altered in a fingerprinted field is refused unless the
  derived identities collide.\<close>

theorem decoded_identity_bound:
  "(fst (cd_deserialize persisted_scale r) = Some d \<longrightarrow> cd_decision_id d = cd_identity d) \<and>
   (fst (mp_deserialize r) = Some plan \<longrightarrow> mp_id plan = mp_identity plan)"
  using yieldsD [OF cd_deserialize_yields] yieldsD [OF mp_deserialize_yields] by blast

theorem decoded_identity_bound_witness:
  "\<exists>plan. fst (mp_deserialize (rd_init (mp_serialize plan))) = Some plan \<and> mp_id plan = mp_identity plan"
proof -
  let ?plan = "refresh_migration_identity (initial_plan 0 (sample_move sample_policy sample_workload) sample_workload
    sample_policy PC_RecompileRequired)"
  have "mp_created_at ?plan = 0" by (simp add: refresh_migration_identity_def Let_def initial_plan_def)
  then have "mp_ok ?plan"
    by (simp add: mp_ok_def refresh_migration_identity_bound) (simp add: initial_plan_def)
  from plan_codec.decode_encode [OF this] decoded_identity_bound show ?thesis by blast
qed

section \<open>Ranking\<close>

definition sample_candidate :: "id128 \<Rightarrow> compatibility_outcome \<Rightarrow> int \<Rightarrow> ranking_candidate" where
  "sample_candidate i outcome score = \<lparr>rc_accelerator = i, rc_decision =
     \<lparr>cd_id = nil_id, cd_decision_id = nil_id, cd_generation = 1, cd_federation = Id128 6,
      cd_federation_generation = 1, cd_epoch = 1, cd_accelerator = i, cd_device_generation = 1,
      cd_capability_generation = 1, cd_evidence_generation = 1, cd_policy_generation = 1, cd_policy = Id128 2,
      cd_workload = Id128 4, cd_workload_requirement = Id128 5, cd_workload_revision = 1, cd_outcome = outcome,
      cd_portability = PC_Native, cd_support_level = SL_Native, cd_provenance = EP_Real, cd_score = score,
      cd_reasons = [], cd_created_at = 0\<rparr>, rc_topology_distance = 0, rc_free_memory_bytes = 0, rc_migration_cost = 0\<rparr>"

text \<open>C40. A ranking lists exactly the eligible candidates, numbered from one, from the highest score
  to the lowest, ties broken by portability and then by identity; the others are excluded; and with
  distinct accelerators the ranking does not depend on the order of the candidates.\<close>

theorem ranking_correct:
  assumes "rank_candidates cs w = Inr r" "distinct (map rc_accelerator cs)"
  shows "mset (map rk_accelerator (rr_ranked r)) =
      mset (map rc_accelerator (filter (\<lambda>c. cd_outcome (rc_decision c) = CO_Eligible) cs)) \<and>
    mset (map rk_accelerator (rr_excluded r)) =
      mset (map rc_accelerator (filter (\<lambda>c. cd_outcome (rc_decision c) \<noteq> CO_Eligible) cs)) \<and>
    map rk_rank (rr_ranked r) = [1..<length (rr_ranked r) + 1] \<and>
    sorted_wrt (\<lambda>a b. rk_rank_score a > rk_rank_score b \<or> rk_rank_score a = rk_rank_score b \<and>
      (rk_portability a > rk_portability b \<or> rk_portability a = rk_portability b \<and> rk_accelerator a < rk_accelerator b))
      (rr_ranked r) \<and>
    (\<forall>us. mset us = mset cs \<longrightarrow> rank_candidates us w = Inr r)"
proof -
  have "\<forall>us. mset us = mset cs \<longrightarrow> rank_candidates us w = Inr r"
    using rank_perm [OF _ assms(2)] assms(1) by (metis (full_types))
  then show ?thesis
    using rank_accelerators [OF assms(1)] rank_numbers [OF assms(1)] rank_sorted [OF assms, unfolded rk_less_iff] by simp
qed

theorem ranking_correct_witness:
  "\<exists>r. rank_candidates [sample_candidate (Id128 2) CO_Eligible 5, sample_candidate (Id128 1) CO_Unknown 9] default_weights = Inr r \<and>
     map rk_rank (rr_ranked r) = [1..<length (rr_ranked r) + 1]"
proof -
  let ?cs = "[sample_candidate (Id128 2) CO_Eligible 5, sample_candidate (Id128 1) CO_Unknown 9]"
  obtain r where "rank_candidates ?cs default_weights = Inr r" by (simp add: rank_candidates_def Let_def)
  with ranking_correct [OF this] show ?thesis by (simp add: sample_candidate_def)
qed

section \<open>The federation\<close>

text \<open>A federation with one observed member, and the federation before that.\<close>

definition sample_capabilities :: capability_set where
  "sample_capabilities = cs_refresh_identity (cs_empty\<lparr>cs_generation := 1, cs_records :=
     [\<lparr>cr_key = ''vendor.id'', cr_state = CS_Supported, cr_value = CV_Enumeration ''acme'', cr_unit = []\<rparr>]\<rparr>)"

definition sample_evidence :: evidence_record where
  "sample_evidence = \<lparr>ev_id = Id128 24, ev_generation = 1, ev_provenance = EP_Real, ev_kind = EK_AdapterProbe,
     ev_adapter = ''probe'', ev_source = ''driver'', ev_adapter_version = ''1'',
     ev_subject = derive_accelerator_id (Id128 20) (Id128 21) (Id128 22) 1, ev_physical_device = Id128 20,
     ev_capability_generation = 1, ev_payload_digest = replicate 32 0, ev_runtime_version = \<lparr>rv_major = 1, rv_minor = 0, rv_patch = 0\<rparr>,
     ev_driver_version = \<lparr>rv_major = 1, rv_minor = 0, rv_patch = 0\<rparr>, ev_observed_at = 0, ev_sequence = 1, ev_freshness_budget_nanos = 1000,
     ev_dynamic = False, ev_requires_revalidation = False, ev_marker = 5\<rparr>"

definition sample_accelerator :: accelerator_descriptor where
  "sample_accelerator = \<lparr>ad_id = derive_accelerator_id (Id128 20) (Id128 21) (Id128 22) 1,
     ad_physical_device = Id128 20, ad_generation = 1, ad_agent = Id128 21, ad_agent_boot = Id128 22,
     ad_node = Id128 23, ad_vendor_token = ''acme'', ad_vendor = vendor_id_from_token ''acme'',
     ad_product_token = ''p1'', ad_architecture_token = ''a1'', ad_architecture = architecture_id_from_token ''a1'',
     ad_device_generation_token = ''g1'', ad_runtime_family = ''r1'', ad_runtime_version = sv_make 1 0 0,
     ad_driver_version = sv_make 1 0 0, ad_capabilities = sample_capabilities, ad_support_level = SL_Native,
     ad_provenance = EP_Real, ad_evidence = [sample_evidence], ad_topology_references = [], ad_observed_at = 0\<rparr>"

definition sample_config :: federation_config where
  "sample_config = \<lparr>cf_id = Id128 6, cf_name = ''lab'', cf_policy = permissive_default, cf_persist = True,
     cf_persist_on_mutation = False, cf_max_recorded_decisions = 8\<rparr>"

abbreviation sample_store :: memory_store where
  "sample_store \<equiv> \<lparr>mem_payload = [], mem_present = False\<rparr>"

definition sample_empty :: "memory_store federation" where
  "sample_empty = fd_create sample_config (Id128 6) sample_store"

definition sample_observe :: operation where
  "sample_observe = Observe sample_accelerator (epoch_only_claim 1 ''join'')"

definition sample_joined :: "memory_store federation" where
  "sample_joined = snd (perform memory_write (\<lambda>_. 0) (\<lambda>_. 0) sample_observe sample_empty)"

lemma sample_capabilities_ok:
  "cs_ok sample_capabilities" "cs_validate sample_capabilities = EC_Ok"
  "cl_value (cs_lookup sample_capabilities ''vendor.id'') = Some (CV_Enumeration ''acme'')"
proof -
  let ?r = "\<lparr>cr_key = ''vendor.id'', cr_state = CS_Supported, cr_value = CV_Enumeration ''acme'', cr_unit = []\<rparr>"
  have r: "cr_ok ?r" "cr_validate ?r = EC_Ok" by code_simp+
  then have "cs_wf sample_capabilities" by (simp add: sample_capabilities_def cs_wf_def cs_empty_def cr_ok_def)
  with r show "cs_ok sample_capabilities"
    by (simp add: cs_ok_def) (simp add: sample_capabilities_def cs_refresh_identity_def cs_digest_def cs_content_def)
  from r show "cs_validate sample_capabilities = EC_Ok"
    by (simp add: cs_validate_def sample_capabilities_def cs_empty_def)
  show "cl_value (cs_lookup sample_capabilities ''vendor.id'') = Some (CV_Enumeration ''acme'')"
  proof -
    have "cs_lookup (cs_refresh_identity s) k = cs_lookup s k" for s k by (simp add: cs_lookup_def Let_def)
    moreover have "cl_value (cs_lookup (cs_empty\<lparr>cs_generation := 1, cs_records := [?r]\<rparr>) ''vendor.id'') =
        Some (CV_Enumeration ''acme'')" by code_simp
    ultimately show ?thesis by (simp add: sample_capabilities_def)
  qed
qed

lemma sample_accelerator_ok: "ad_validate sample_accelerator = EC_Ok" "ad_ok True sample_accelerator"
proof -
  have caps: "cs_records sample_capabilities \<noteq> []" by (simp add: sample_capabilities_def)
  have not_nil: "\<not> is_nil (derive_accelerator_id p a b g)" for p a b g
    by (simp add: derive_accelerator_id_def derive_identity_not_nil)
  have e: "ev_ok sample_evidence" "ev_validate sample_evidence = EC_Ok"
    by (simp_all add: ev_ok_def ev_validate_def sample_evidence_def)
  have "ev_subject sample_evidence = derive_accelerator_id (Id128 20) (Id128 21) (Id128 22) 1"
    "ev_provenance sample_evidence = EP_Real" by (simp_all add: sample_evidence_def)
  with caps e not_nil show valid: "ad_validate sample_accelerator = EC_Ok"
    by (simp add: ad_validate_def ad_tokens_def ad_vendor_disagrees_def sample_accelerator_def sample_capabilities_ok
        Let_def value_token_def) (simp add: is_nil_iff nil_id_def)
  with e sample_capabilities_ok show "ad_ok True sample_accelerator"
    by (simp add: ad_ok_def) (simp add: sample_accelerator_def sv_make_def)
qed

lemma sample_joined_fields:
  "fd_members sample_joined = [(ad_id sample_accelerator,
     \<lparr>en_record = new_record sample_accelerator 0 sample_empty, en_descriptor = sample_accelerator\<rparr>)]"
  "fd_decisions sample_joined = []" "fd_plans sample_joined = []" "fd_workloads sample_joined = []"
  "fd_epoch sample_joined = 1" "fd_id sample_joined = Id128 6" "fd_policy sample_joined = permissive_default"
  "fd_name sample_joined = ''lab''" "fd_persist_enabled sample_joined" "\<not> fd_shutdown sample_joined"
  "fd_generation sample_joined = 2" "\<not> fd_persist_on_mutation sample_joined"
proof -
  have "\<not> is_nil (pl_id permissive_default)" using permissive_default_ok by (simp add: pl_ok_def pl_validate_not_nil)
  moreover have "derive_accelerator_id (ad_physical_device sample_accelerator) (ad_agent sample_accelerator)
      (ad_agent_boot sample_accelerator) (ad_generation sample_accelerator) = ad_id sample_accelerator"
    by (simp add: sample_accelerator_def)
  ultimately show
    "fd_members sample_joined = [(ad_id sample_accelerator,
       \<lparr>en_record = new_record sample_accelerator 0 sample_empty, en_descriptor = sample_accelerator\<rparr>)]"
    "fd_decisions sample_joined = []" "fd_plans sample_joined = []" "fd_workloads sample_joined = []"
    "fd_epoch sample_joined = 1" "fd_id sample_joined = Id128 6" "fd_policy sample_joined = permissive_default"
    "fd_name sample_joined = ''lab''" "fd_persist_enabled sample_joined" "\<not> fd_shutdown sample_joined"
    "fd_generation sample_joined = 2" "\<not> fd_persist_on_mutation sample_joined"
    by (simp_all add: sample_joined_def sample_observe_def observe_def validate_authority_def epoch_only_claim_def
        default_claim_def sample_accelerator_ok sample_empty_def fd_create_def sample_config_def incarnations_def
        duplicate_live_def observe_new_def Let_def call_of_def split_beta om_emplace_def persist_locked_eq
        gen_next_def is_nil_iff nil_id_def)
qed

definition sample_entry :: member_entry where
  "sample_entry = \<lparr>en_record = new_record sample_accelerator 0 sample_empty, en_descriptor = sample_accelerator\<rparr>"

lemma sample_entry_found: "om_find (ad_id sample_accelerator) (fd_members sample_joined) = Some sample_entry"
  by (simp add: sample_joined_fields om_find_def sample_entry_def)

lemma sample_reachable: "reachable sample_empty" "reachable sample_joined"
  by (simp_all add: sample_empty_def sample_joined_def created operated)

lemmas sample_inv = sample_reachable [THEN reachable_inv]

lemma sample_snapshot_ok:
  "sn_ok (snapshot_locked 0 sample_joined)"
  "length (encode_snapshot (snapshot_locked 0 sample_joined)) \<le> 512 * 1024 * 1024"
proof -
  have not_nil: "\<not> is_nil (ad_id sample_accelerator)"
    by (simp add: sample_accelerator_def derive_accelerator_id_def derive_identity_not_nil)
  have r: "mr_ok (new_record sample_accelerator 0 sample_empty)"
    using not_nil by (simp add: mr_ok_def new_record_def)
       (simp add: sample_accelerator_def is_nil_iff nil_id_def std_sort_def sort_by_def)
  have sorted: "sn_sorted (snapshot_locked 0 sample_joined)"
    by (simp add: snapshot_locked_def sn_canonicalize_sorted)
  have raw: "snapshot_locked 0 sample_joined = raw_snapshot 0 sample_joined"
    by (rule snapshot_locked_raw [OF sample_inv(2)])
  show "sn_ok (snapshot_locked 0 sample_joined)"
    using r sorted sample_accelerator_ok permissive_default_ok
    by (simp add: sn_ok_def raw) (simp add: raw_snapshot_def sample_joined_fields is_nil_iff nil_id_def)
  have "length (ad_serialize sample_accelerator) \<le> 4096"
    by (simp add: ad_serialize_def ad_identity_fields_def length_w_id128 length_w_string length_w_u8 w_generation_def
        w_u64_def w_u32_def w_i64_def w_list_def cs_serialize_def cs_content_def ev_serialize_def w_raw_def
        w_runtime_version_def w_boolean_def sample_accelerator_def sample_evidence_def sample_capabilities_def
        cr_serialize_def cv_serialize_def cv_payload_def
        cs_empty_def)
  moreover have "length (mr_serialize (new_record sample_accelerator 0 sample_empty)) \<le> 4096"
    by (simp add: mr_serialize_def length_w_id128 length_w_string length_w_u8 w_generation_def w_u64_def w_u32_def
        w_i64_def w_list_def new_record_def std_sort_def sort_by_def)
  moreover have "length (pl_serialize permissive_default) \<le> 4096"
    by (simp add: pl_serialize_def length_w_id128 length_w_string length_w_u8 w_generation_def w_u64_def w_u32_def
        w_i64_def w_list_def permissive_default_def pl_refresh_identity_def Let_def w_boolean_def range_to_string_def)
  ultimately show "length (encode_snapshot (snapshot_locked 0 sample_joined)) \<le> 512 * 1024 * 1024"
    by (simp add: encode_snapshot_def raw)
       (simp add: raw_snapshot_def sample_joined_fields length_w_id128 length_w_string w_generation_def w_u64_def
         w_u32_def w_i64_def w_list_def sn_digest_def)
qed

text \<open>C6. An operation that carries a claim and arrives after the shutdown, or whose claim names
  another federation generation or another coordinator epoch, changes nothing and is refused with the code of the
  first of these conditions that holds, in this order.\<close>

theorem stale_authority_rejected:
  assumes "operation_claim op = Some claim"
    and "fd_shutdown fd \<or> ac_check_epoch claim \<and> ac_epoch claim \<noteq> fd_epoch fd \<or>
      ac_check_federation_generation claim \<and> ac_federation_generation claim \<noteq> fd_generation fd"
  shows "perform put clock steady op fd =
    (if fd_shutdown fd then EC_ShutdownInProgress
     else if ac_check_federation_generation claim \<and> ac_federation_generation claim \<noteq> fd_generation fd
     then EC_StaleFederationGeneration else EC_StaleEpoch, fd)"
proof -
  have "validate_authority claim fd \<noteq> EC_Ok" using assms(2) by (auto simp: validate_authority_def)
  from perform_rejected [where fd = fd, OF assms(1) this] show ?thesis
    using assms(2) by (auto simp: validate_authority_def)
qed

theorem stale_authority_rejected_witness:
  "let op = Observe sample_accelerator (epoch_only_claim 7 ''late'') in
   perform memory_write (\<lambda>_. 0) (\<lambda>_. 0) op sample_joined = (EC_StaleEpoch, sample_joined)"
  using stale_authority_rejected [of "Observe sample_accelerator (epoch_only_claim 7 ''late'')"
      "epoch_only_claim 7 ''late''" sample_joined memory_write "\<lambda>_. 0" "\<lambda>_. 0"]
  by (simp add: Let_def epoch_only_claim_def default_claim_def sample_joined_fields del: perform.simps)

text \<open>C11. A transition or a capability update whose claim checks the agent, the boot, the
  device generation or the capability generation, and names another one than the member carries, changes nothing.\<close>

theorem stale_agent_rejected:
  assumes "om_find i (fd_members fd) = Some e"
    and "ac_check_agent claim \<and> ac_agent claim \<noteq> mr_agent (en_record e) \<or>
      ac_check_agent_boot claim \<and> ac_agent_boot claim \<noteq> mr_agent_boot (en_record e) \<or>
      ac_check_device_generation claim \<and> ac_device_generation claim \<noteq> mr_device_generation (en_record e) \<or>
      ac_check_capability_generation claim \<and> ac_capability_generation claim \<noteq> mr_capability_generation (en_record e)"
  shows "\<exists>c d. c \<noteq> EC_Ok \<and> transition put clock i target claim fd = (Inl c, fd) \<and>
    d \<noteq> EC_Ok \<and> update_capabilities put clock i caps evs claim fd = (Inl d, fd)"
proof -
  have "validate_member_authority claim e fd \<noteq> EC_Ok"
    using assms(2) by (auto simp: validate_member_authority_def Let_def)
  with assms(1) show ?thesis by (auto simp: transition_def update_capabilities_def Let_def)
qed

theorem stale_agent_rejected_witness:
  "\<exists>c. c \<noteq> EC_Ok \<and> transition memory_write (\<lambda>_. 0) (ad_id sample_accelerator) MS_Admitted
     ((epoch_only_claim 1 [])\<lparr>ac_check_agent := True, ac_agent := Id128 99\<rparr>) sample_joined = (Inl c, sample_joined)"
proof -
  let ?claim = "(epoch_only_claim 1 [])\<lparr>ac_check_agent := True, ac_agent := Id128 99\<rparr>"
  have "ac_check_agent ?claim \<and> ac_agent ?claim \<noteq> mr_agent (en_record sample_entry)"
    by (simp add: sample_entry_def new_record_def sample_accelerator_def)
  from stale_agent_rejected [OF sample_entry_found disjI1 [OF this]] show ?thesis by blast
qed

text \<open>C10. Whatever sequence of operations runs, a member is never dropped, keeps its identity,
  follows legal transitions only, never goes back in any of its generations, and stays retired once retired.\<close>

theorem member_lifecycle:
  assumes "fd_steps fd fd'" "om_find i (fd_members fd) = Some e"
  shows "\<exists>e' path. om_find i (fd_members fd') = Some e' \<and>
    lifecycle (mr_state (en_record e)) path (mr_state (en_record e')) \<and>
    (mr_state (en_record e) = MS_Retired \<longrightarrow> mr_state (en_record e') = MS_Retired) \<and>
    mr_physical_device (en_record e') = mr_physical_device (en_record e) \<and>
    mr_agent (en_record e') = mr_agent (en_record e) \<and> mr_agent_boot (en_record e') = mr_agent_boot (en_record e) \<and>
    mr_device_generation (en_record e') = mr_device_generation (en_record e) \<and>
    mr_state_generation (en_record e) \<le> mr_state_generation (en_record e') \<and>
    mr_capability_generation (en_record e) \<le> mr_capability_generation (en_record e') \<and>
    mr_evidence_generation (en_record e) \<le> mr_evidence_generation (en_record e')"
proof -
  from steps_members [OF assms(1)] assms(2) obtain e' where
    "om_find i (fd_members fd') = Some e'" "member_evolves e e'" by (auto simp: om.evolves_def)
  then show ?thesis unfolding member_evolves_def using lifecycle_retired by blast
qed

theorem member_lifecycle_witness:
  "let fd' = snd (perform memory_write (\<lambda>_. 0) (\<lambda>_. 0)
       (Transition (ad_id sample_accelerator) MS_Admitted (epoch_only_claim 1 [])) sample_joined) in
   \<exists>e'. om_find (ad_id sample_accelerator) (fd_members fd') = Some e' \<and> mr_agent (en_record e') = Id128 21"
proof -
  have "mr_agent (en_record sample_entry) = Id128 21"
    by (simp add: sample_entry_def new_record_def sample_accelerator_def)
  with member_lifecycle [OF steps_step [OF steps_refl] sample_entry_found] show ?thesis unfolding Let_def by metis
qed

text \<open>C7. In every state that a federation reaches from its creation, or from opening an empty store,
  by operations and by restarts from a stored snapshot within the limits of the decoder, each member is
  stored under the identity derived from its device, agent, boot and device generation; each recorded decision is
  bound to its content, to the current policy and to a known member and workload, and there are never more
  decisions than configured; each plan moves between two different known members of the generations it names.\<close>

theorem federation_consistent:
  assumes "reachable fd"
  shows "(\<forall>i e. om_find i (fd_members fd) = Some e \<longrightarrow> mr_accelerator (en_record e) = i \<and> ad_id (en_descriptor e) = i \<and>
      derive_accelerator_id (mr_physical_device (en_record e)) (mr_agent (en_record e)) (mr_agent_boot (en_record e))
        (mr_device_generation (en_record e)) = i \<and>
      mr_federation (en_record e) = fd_id fd \<and> cs_validate (ad_capabilities (en_descriptor e)) = EC_Ok \<and>
      (\<forall>v \<in> set (ad_evidence (en_descriptor e)). ev_subject v = i)) \<and>
    (\<forall>k d. om_find k (fd_decisions fd) = Some d \<longrightarrow> cd_identity d = k \<and> cd_policy d = pl_id (fd_policy fd) \<and>
      om_find (cd_accelerator d) (fd_members fd) \<noteq> None \<and> om_find (cd_workload d) (fd_workloads fd) \<noteq> None) \<and>
    length (fd_decisions fd) \<le> fd_max_recorded_decisions fd \<and>
    (\<forall>k p. om_find k (fd_plans fd) = Some p \<longrightarrow> mp_identity p = k \<and> mp_source p \<noteq> mp_destination p \<and>
      (\<exists>s d. om_find (mp_source p) (fd_members fd) = Some s \<and> om_find (mp_destination p) (fd_members fd) = Some d \<and>
        mr_device_generation (en_record s) = mp_source_generation p \<and>
        mr_device_generation (en_record d) = mp_destination_generation p))"
proof -
  note inv = reachable_inv [OF assms, unfolded fd_inv_defs table_ok_def om.holds_def]
  have member: "member_ok (fd_id fd) (fd_epoch fd) i e" if "om_find i (fd_members fd) = Some e" for i e
    using inv that by blast
  have decision: "decision_ok fd k d" if "om_find k (fd_decisions fd) = Some d" for k d
    using inv that by blast
  have plan: "plan_ok fd k p" if "om_find k (fd_plans fd) = Some p" for k p
    using inv that by blast
  have endpoint: "\<exists>e. om_find i (fd_members fd) = Some e \<and> mr_device_generation (en_record e) = g"
    if "endpoint_ok fd i g" for i g
    using that by (simp add: endpoint_ok_def split: option.splits)
  show ?thesis
  proof (intro conjI allI impI)
    show "length (fd_decisions fd) \<le> fd_max_recorded_decisions fd" using inv by blast
  next
    fix k p assume "om_find k (fd_plans fd) = Some p"
    from plan [OF this] endpoint show "\<exists>s d. om_find (mp_source p) (fd_members fd) = Some s \<and>
        om_find (mp_destination p) (fd_members fd) = Some d \<and>
        mr_device_generation (en_record s) = mp_source_generation p \<and>
        mr_device_generation (en_record d) = mp_destination_generation p"
      unfolding plan_ok_def by blast
  qed (use member decision plan in \<open>fastforce simp: member_ok_def record_ok_def descriptor_ok_def record_identity_def
      list_all_iff decision_ok_def plan_ok_def\<close>)+
qed

theorem federation_consistent_witness:
  "derive_accelerator_id (Id128 20) (Id128 21) (Id128 22) 1 = ad_id sample_accelerator \<and>
   length (fd_decisions sample_joined) \<le> fd_max_recorded_decisions sample_joined"
  using federation_consistent [OF sample_reachable(2)] by (simp add: sample_accelerator_def)

text \<open>C8. Once a new policy is accepted, no decision is left, every plan is in a terminal state
  and no claim can move it on, and every member carries the generation of the new policy.\<close>

theorem policy_change_revokes:
  assumes "set_policy put clock policy claim fd = (Inr g, fd')"
  shows "fd_policy fd' = pl_refresh_identity policy \<and> g = pl_generation (fd_policy fd') \<and>
    fd_generation fd' = gen_next (fd_generation fd) \<and>
    (\<forall>k. decision_is_current k fd' = Inl EC_NotFound) \<and>
    (\<forall>k p. om_find k (fd_plans fd') = Some p \<longrightarrow> is_terminal_migration_state (mp_state p)) \<and>
    (\<forall>put' clock' k target claim'. snd (advance_migration put' clock' k target claim' fd') = fd') \<and>
    (\<forall>i. om_find i (fd_members fd') = map_option (\<lambda>e. e\<lparr>en_record := (en_record e)\<lparr>mr_policy_generation := g\<rparr>\<rparr>)
      (om_find i (fd_members fd)))"
proof -
  have fields: "fd_policy fd' = pl_refresh_identity policy" "g = pl_generation (pl_refresh_identity policy)"
    "fd_generation fd' = gen_next (fd_generation fd)" "fd_decisions fd' = []"
    "fd_plans fd' = om_map (\<lambda>p. if is_terminal_migration_state (mp_state p) then p
       else abort_plan EC_StalePolicy ''policy'' ''policy generation advanced while this plan was in flight'' p) (fd_plans fd)"
    "fd_members fd' = om_map (\<lambda>e. e\<lparr>en_record := (en_record e)\<lparr>mr_policy_generation := g\<rparr>\<rparr>) (fd_members fd)"
    using assms by (auto simp: set_policy_def Let_def persisted_def split_beta split: if_splits)
  have aborted: "is_terminal_migration_state (mp_state (abort_plan c subject detail p))" for c subject detail p
    by (simp add: abort_plan_def is_terminal_migration_state_def)
  have terminal: "is_terminal_migration_state (mp_state p)" if "om_find k (fd_plans fd') = Some p" for k p
    using that aborted unfolding fields(5) om_find_map by (auto split: if_splits)
  have stuck: "snd (advance_migration put' clock' k target claim' fd') = fd'" for put' clock' k target claim'
  proof (cases "om_find k (fd_plans fd')")
    case (Some p)
    from terminal_no_transition [OF terminal [OF this]] Some show ?thesis
      by (simp add: advance_migration_def Let_def split: option.split)
  qed (simp add: advance_migration_def)
  show ?thesis
  proof (intro conjI allI impI)
    show "decision_is_current k fd' = Inl EC_NotFound" for k by (simp add: decision_is_current_def fields(4))
    show "is_terminal_migration_state (mp_state p)" if "om_find k (fd_plans fd') = Some p" for k p
      using that by (rule terminal)
    show "g = pl_generation (fd_policy fd')" using fields(1,2) by simp
  qed (simp_all only: fields(1,3,6) stuck om_find_map)
qed

theorem policy_change_revokes_witness:
  "\<exists>g fd'. set_policy memory_write (\<lambda>_. 0) permissive_default (epoch_only_claim 1 []) sample_joined = (Inr g, fd') \<and>
     (\<forall>k. decision_is_current k fd' = Inl EC_NotFound)"
proof -
  have "pl_refresh_identity permissive_default = permissive_default" "pl_validate permissive_default = EC_Ok"
    using permissive_default_ok by (simp_all add: pl_ok_def)
  then have "\<exists>g. fst (set_policy memory_write (\<lambda>_. 0) permissive_default (epoch_only_claim 1 []) sample_joined) = Inr g"
    by (simp add: set_policy_def validate_authority_def epoch_only_claim_def default_claim_def sample_joined_fields
        persisted_def persist_locked_def Let_def split_beta memory_write_def)
  then obtain g fd' where
    "set_policy memory_write (\<lambda>_. 0) permissive_default (epoch_only_claim 1 []) sample_joined = (Inr g, fd')"
    by (metis prod.collapse)
  with policy_change_revokes [OF this] show ?thesis by blast
qed

text \<open>C13. In every reachable state without colliding identities, each violation that the audit
  reports has one of nine known causes; the integrity, ownership, lifecycle and reference checks never fail.\<close>

theorem audit_explained:
  assumes "reachable fd" "no_collision fd"
  shows "av_code ` set (ar_violations (fd_audit set_text profile_text now fd)) \<subseteq>
    {''membership.capability_generation'', ''membership.duplicate_live_boot'', ''decision.stale_capability'',
     ''migration.source_capability'', ''migration.destination_capability'', ''migration.policy'',
     ''migration.refusal'', ''migration.double_authority'', ''capability.empty''}"
  using audit_codes [OF reachable_inv [OF assms(1)] assms(2)] by (auto simp: tolerated_codes_def)

theorem audit_explained_witness:
  "no_collision sample_joined \<and>
   ''membership.ownership'' \<notin> av_code ` set (ar_violations (fd_audit (\<lambda>_. []) (\<lambda>_. []) 0 sample_joined))"
proof -
  have "no_collision sample_joined"
    by (simp add: no_collision_def sample_joined_fields record_incarnation_def descriptor_incarnation_def new_record_def)
  with audit_explained [OF sample_reachable(2) this] show ?thesis by blast
qed

text \<open>C14. When the audit of a federation is clean, no physical device has live members of two
  different boots.\<close>

theorem audit_exclusive_authority:
  assumes "ar_violations (fd_audit set_text profile_text now fd) = []"
    and "om_find i (fd_members fd) = Some e" "om_find j (fd_members fd) = Some e'"
    and "is_live (en_record e)" "is_live (en_record e')"
    and "mr_physical_device (en_record e) = mr_physical_device (en_record e')"
  shows "mr_agent_boot (en_record e) = mr_agent_boot (en_record e')"
proof (rule audit_exclusive [OF assms(1) [unfolded fd_audit_def] _ _ assms(4,5,6)])
  have "en_record e \<in> (en_record \<circ> snd) ` set (fd_members fd)" "en_record e' \<in> (en_record \<circ> snd) ` set (fd_members fd)"
    using om_find_SomeD [OF assms(2)] om_find_SomeD [OF assms(3)] by force+
  then show "en_record e \<in> set (sn_members (snapshot_locked now fd))"
    "en_record e' \<in> set (sn_members (snapshot_locked now fd))"
    by (simp_all add: snapshot_locked_def sn_canonicalize_def)
qed

theorem audit_exclusive_authority_witness:
  "let e = sample_entry\<lparr>en_record := (en_record sample_entry)\<lparr>mr_state := MS_Active\<rparr>\<rparr>;
       fd = sample_joined\<lparr>fd_members := [(ad_id sample_accelerator, e)]\<rparr> in
   ar_violations (fd_audit (\<lambda>_. []) (\<lambda>_. []) 0 fd) = [] \<and> is_live (en_record e) \<and>
   mr_agent_boot (en_record e) = mr_agent_boot (en_record e)"
proof -
  define e where "e = sample_entry\<lparr>en_record := (en_record sample_entry)\<lparr>mr_state := MS_Active\<rparr>\<rparr>"
  define fd where "fd = sample_joined\<lparr>fd_members := [(ad_id sample_accelerator, e)]\<rparr>"
  have live: "is_live (en_record e)" by (simp add: is_live_def e_def)
  have found: "om_find (ad_id sample_accelerator) (fd_members fd) = Some e" by (simp add: fd_def om_find_def)
  have s: "snapshot_locked 0 fd = raw_snapshot 0 fd"
    by (simp add: snapshot_locked_def raw_snapshot_def fd_def sample_joined_fields sn_canonicalize_def sort_by_def)
  have snapshot: "sn_members (raw_snapshot 0 fd) = [en_record e]" "sn_descriptors (raw_snapshot 0 fd) = [sample_accelerator]"
    "sn_workloads (raw_snapshot 0 fd) = []" "sn_decisions (raw_snapshot 0 fd) = []" "sn_plans (raw_snapshot 0 fd) = []"
    "sn_federation (raw_snapshot 0 fd) = Id128 6" "sn_epoch (raw_snapshot 0 fd) = 1"
    "sn_policy (raw_snapshot 0 fd) = pl_id (sn_policy_data (raw_snapshot 0 fd))"
    "sn_policy_generation (raw_snapshot 0 fd) = pl_generation (sn_policy_data (raw_snapshot 0 fd))"
    "find_descriptor (raw_snapshot 0 fd) (ad_id sample_accelerator) = Some sample_accelerator"
    by (simp_all add: raw_snapshot_def fd_def sample_joined_fields e_def sample_entry_def find_descriptor_def Let_def
        lower_bound_def lower_bound_loop.simps)
  have member: "en_record e = (new_record sample_accelerator 0 sample_empty)\<lparr>mr_state := MS_Active\<rparr>"
    "fd_id sample_empty = Id128 6" "fd_epoch sample_empty = 1" "cs_records sample_capabilities \<noteq> []"
    "ad_capabilities sample_accelerator = sample_capabilities" "ad_evidence sample_accelerator = [sample_evidence]"
    "ev_subject sample_evidence = ad_id sample_accelerator"
    by (simp_all add: e_def sample_entry_def sample_empty_def fd_create_def sample_config_def is_nil_iff nil_id_def
        sample_capabilities_def sample_accelerator_def sample_evidence_def)
  have clean: "ar_violations (fd_audit (\<lambda>_. []) (\<lambda>_. []) 0 fd) = []"
    unfolding fd_audit_def audit_clean s
    by (simp add: audit_parts_def audit_unique_def audit_seq_Nil audit_check_Nil audit_member_def audit_lifecycle_def
        audit_policy_def audit_committed_def audit_descriptor_def audit_generations_def Let_def snapshot
        member new_record_def is_live_def sample_capabilities_ok committed_workloads_def std_sort_def sort_by_def
        is_terminal_state_def sort_unique_def)
  from audit_exclusive_authority [OF clean found found live live refl] clean live show ?thesis
    unfolding Let_def e_def fd_def by blast
qed

lemma restored_fromD:
  assumes "restored_from fd fd'"
  shows "fd_epoch fd' = gen_next (fd_epoch fd)" "fd_generation fd' = gen_next (fd_generation fd)" "fd_id fd' = fd_id fd"
    "fd_policy fd' = pl_wire (fd_policy fd)" "fd_decisions fd' = []" "om_find w (fd_workloads fd') = om_find w (fd_workloads fd)"
    "om_find k (fd_plans fd') = map_option restored_plan (om_find k (fd_plans fd))"
    "om_find i (fd_members fd') = None \<longleftrightarrow> om_find i (fd_members fd) = None"
    "om_find i (fd_members fd) = Some e \<Longrightarrow> om_find i (fd_members fd') = Some e' \<Longrightarrow>
      \<exists>now. e' = restored_entry (fd_epoch fd') (fd_generation fd') now (en_record e) (ad_wire (en_descriptor e))"
  using assms unfolding restored_from_def by blast+

text \<open>C4. A federation that has been written to its store can be opened again from it, whatever the
  store, provided that its snapshot is within the limits of the decoder and of 512 megabytes, its epoch
  counter is not at its last value and the store accepts the write of the restored state, and the opened federation has the next epoch and generation, the same identity and workloads, and exactly
  the same members; none of them accepts new work, all of their evidence asks for revalidation, every plan is
  terminal, no decision is left, and a claim of the epoch before the restart is refused.\<close>

theorem restart_recovers:
  assumes "federation_store get put" "reachable fd" "fd_persist_enabled fd" "fd_persist put stamp fd = (EC_Ok, fd1)"
    and "sn_ok (snapshot_locked stamp fd)" "length (encode_snapshot (snapshot_locked stamp fd)) \<le> 512 * 1024 * 1024"
    and "cf_id cf = fd_id fd" "fd_epoch fd \<noteq> 0xFFFFFFFFFFFFFFFF"
    and "\<And>payload. fst (put payload (fd_store fd1)) = EC_Ok"
  shows "\<exists>fd'. fd_open get put clock cf fresh (fd_store fd1) = Inr fd' \<and>
    fd_epoch fd' = gen_next (fd_epoch fd) \<and> fd_generation fd' = gen_next (fd_generation fd) \<and> fd_id fd' = fd_id fd \<and>
    fd_decisions fd' = [] \<and> (\<forall>w. om_find w (fd_workloads fd') = om_find w (fd_workloads fd)) \<and>
    (\<forall>k p. om_find k (fd_plans fd') = Some p \<longrightarrow> is_terminal_migration_state (mp_state p)) \<and>
    (\<forall>i. om_find i (fd_members fd') = None \<longleftrightarrow> om_find i (fd_members fd) = None) \<and>
    (\<forall>i e. om_find i (fd_members fd') = Some e \<longrightarrow> \<not> accepts_new_work (en_record e) \<and>
       (\<forall>v \<in> set (ad_evidence (en_descriptor e)). ev_requires_revalidation v)) \<and>
    (\<forall>claim. ac_check_epoch claim \<and> ac_epoch claim = fd_epoch fd \<longrightarrow> validate_authority claim fd' \<noteq> EC_Ok)"
proof -
  note stored = persisted_snapshot [OF assms(1,3,4)]
  note inv = reachable_inv [OF assms(2)]
  from open_succeeds [where get = get and put = put and clock = clock and fresh = fresh,
      OF inv assms(5,6) stored assms(7,9)]
  obtain fd' where fd': "fd_open get put clock cf fresh (fd_store fd1) = Inr fd'" by blast
  note restored = restored_fromD [OF open_restored(1) [where get = get and put = put, OF inv assms(5,6) stored assms(7) fd']]
  have member: "\<not> accepts_new_work (en_record e') \<and> (\<forall>v \<in> set (ad_evidence (en_descriptor e')). ev_requires_revalidation v)"
    if e': "om_find i (fd_members fd') = Some e'" for i e'
  proof -
    have "om_find i (fd_members fd) \<noteq> None" using restored(8) [of i] e' by simp
    then obtain e where "om_find i (fd_members fd) = Some e" by blast
    from restored(9) [OF this e'] obtain now where
      "e' = restored_entry (fd_epoch fd') (fd_generation fd') now (en_record e) (ad_wire (en_descriptor e))" by blast
    then show ?thesis by (simp add: accepts_new_work_def restored_state_not_active) (auto simp: restored_evidence_def)
  qed
  have stale: "validate_authority claim fd' \<noteq> EC_Ok" if "ac_check_epoch claim" "ac_epoch claim = fd_epoch fd" for claim
    using that restored(1) less_imp_neq [OF gen_next_gt [OF assms(8)]] by (simp add: validate_authority_def)
  have plan: "is_terminal_migration_state (mp_state p)" if "om_find k (fd_plans fd') = Some p" for k p
    using that restored(7) [of k] restored_plan_terminal by auto
  show ?thesis
    by (rule exI [of _ fd'], intro conjI allI impI) (use fd' restored member stale plan in blast)+
qed

theorem restart_recovers_witness:
  "\<exists>fd1 fd'. fd_persist memory_write 0 sample_joined = (EC_Ok, fd1) \<and>
     fd_open memory_read memory_write (\<lambda>_. 0) sample_config (Id128 6) (fd_store fd1) = Inr fd' \<and> fd_epoch fd' = 2 \<and>
     om_find (ad_id sample_accelerator) (fd_members fd') \<noteq> None"
proof -
  obtain fd1 where fd1: "fd_persist memory_write 0 sample_joined = (EC_Ok, fd1)"
    by (simp add: fd_persist_def persist_locked_def memory_write_def sample_joined_fields)
  have "cf_id sample_config = fd_id sample_joined" "fd_epoch sample_joined \<noteq> 0xFFFFFFFFFFFFFFFF"
    by (simp_all add: sample_config_def sample_joined_fields)
  moreover have "\<And>payload. fst (memory_write payload (fd_store fd1)) = EC_Ok" by (simp add: memory_write_def)
  ultimately obtain fd' where opened: "fd_open memory_read memory_write (\<lambda>_. 0) sample_config (Id128 6) (fd_store fd1) = Inr fd'"
    and epoch: "fd_epoch fd' = gen_next (fd_epoch sample_joined)"
    and members: "\<forall>i. om_find i (fd_members fd') = None \<longleftrightarrow> om_find i (fd_members sample_joined) = None"
    using restart_recovers [OF memory_store.federation_store_axioms sample_reachable(2) sample_joined_fields(9) fd1
      sample_snapshot_ok, of sample_config "\<lambda>_. 0" "Id128 6"] by blast
  from members have "om_find (ad_id sample_accelerator) (fd_members fd') \<noteq> None" by (simp add: sample_entry_found)
  moreover from epoch have "fd_epoch fd' = 2" by (simp add: sample_joined_fields gen_next_def)
  ultimately show ?thesis using fd1 opened by blast
qed





text \<open>C12. One operation leaves every plan in the table: either its state has moved along legal
  transitions and nothing but its state and its refusal reasons has changed, or the planner has just authored a
  fresh plan with the same identity.\<close>

theorem plans_follow_lifecycle:
  assumes "om_find k (fd_plans fd) = Some p"
  shows "\<exists>p'. om_find k (fd_plans (snd (perform put clock steady op fd))) = Some p' \<and>
    ((\<exists>path. plan_run (mp_state p) path (mp_state p')) \<and>
       p'\<lparr>mp_state := mp_state p, mp_refusal_reasons := mp_refusal_reasons p\<rparr> = p \<or>
     mp_state p' \<in> {GS_Planned, GS_Refused} \<and> mp_id p' = mp_identity p' \<and>
       mp_federation_generation p' = fd_generation (snd (perform put clock steady op fd)))"
  using perform_plans [where fd = fd and put = put and clock = clock and steady = steady and op = op] assms
  unfolding om.evolves_def plan_evolves_def fresh_plan_def by blast

text \<open>A verified plan between the sample accelerator and a second one.\<close>

definition sample_plan :: migration_plan where
  "sample_plan = (initial_plan 0 (sample_move sample_policy sample_workload) sample_workload sample_policy PC_RecompileRequired)
     \<lparr>mp_state := GS_Verified, mp_policy_generation := pl_generation permissive_default\<rparr>"

definition sample_migrating :: "memory_store federation" where
  "sample_migrating = sample_joined\<lparr>fd_members := [
       (Id128 7, sample_entry\<lparr>en_record := (en_record sample_entry)\<lparr>mr_state := MS_Active\<rparr>\<rparr>), (Id128 8, sample_entry)],
     fd_plans := [(Id128 30, sample_plan)]\<rparr>"

theorem plans_follow_lifecycle_witness:
  "\<exists>p'. om_find (Id128 30) (fd_plans (snd (perform memory_write (\<lambda>_. 0) (\<lambda>_. 0)
     (Abort_Migration (Id128 30) ''stop'' (epoch_only_claim 1 [])) sample_migrating))) = Some p'"
proof -
  have "om_find (Id128 30) (fd_plans sample_migrating) = Some sample_plan"
    by (simp add: sample_migrating_def om_find_def)
  from plans_follow_lifecycle [OF this] show ?thesis by blast
qed

text \<open>C9. A migration commits only from the verified state, only while both members still have
  the device and capability generations the plan was made for, and the source then no longer accepts new work while
  the destination is untouched.\<close>

theorem commit_transfers_authority:
  assumes "commit_migration put clock k claim fd = (Inr p', fd')" "om_find k (fd_plans fd) = Some p"
    and "mp_state p \<noteq> GS_Committed" "mp_source p \<noteq> mp_destination p"
  shows "mp_state p = GS_Verified \<and> p' = p\<lparr>mp_state := GS_Committed\<rparr> \<and> om_find k (fd_plans fd') = Some p' \<and>
    mp_epoch p = fd_epoch fd \<and> mp_policy_generation p = pl_generation (fd_policy fd) \<and>
    fd_generation fd' = gen_next (fd_generation fd) \<and>
    (\<exists>s s' d. om_find (mp_source p) (fd_members fd) = Some s \<and> om_find (mp_source p) (fd_members fd') = Some s' \<and>
      om_find (mp_destination p) (fd_members fd) = Some d \<and> om_find (mp_destination p) (fd_members fd') = Some d \<and>
      mr_device_generation (en_record s) = mp_source_generation p \<and>
      mr_device_generation (en_record d) = mp_destination_generation p \<and>
      mr_capability_generation (en_record s) = mp_source_capability_generation p \<and>
      mr_capability_generation (en_record d) = mp_destination_capability_generation p \<and>
      \<not> accepts_new_work (en_record s') \<and>
      (mr_state (en_record s) \<in> {MS_Active, MS_Degraded} \<longrightarrow> mr_state (en_record s') = MS_Draining))"
proof -
  have verified: "is_legal_migration_transition s GS_Committed \<Longrightarrow> s = GS_Verified" for s by (cases s) simp_all
  have drained: "\<not> accepts_new_work (en_record (drain_source now s)) \<and>
      (mr_state (en_record s) \<in> {MS_Active, MS_Degraded} \<longrightarrow> mr_state (en_record (drain_source now s)) = MS_Draining)" for now s
    by (simp add: drain_source_def accepts_new_work_def Let_def)
  from assms obtain s d where sd: "om_find (mp_source p) (fd_members fd) = Some s"
    "om_find (mp_destination p) (fd_members fd) = Some d"
    by (auto simp: commit_migration_def advance_migration_def split: if_splits option.splits)
  with assms(1-3) have "is_legal_migration_transition (mp_state p) GS_Committed"
    "p' = p\<lparr>mp_state := GS_Committed\<rparr>" "fd_plans fd' = om_put k p' (fd_plans fd)"
    "fd_members fd' = om_put (mp_source p) (drain_source (clock 0) s) (fd_members fd)"
    "fd_generation fd' = gen_next (fd_generation fd)" "mp_epoch p = fd_epoch fd"
    "mp_policy_generation p = pl_generation (fd_policy fd)"
    "mr_device_generation (en_record s) = mp_source_generation p"
    "mr_device_generation (en_record d) = mp_destination_generation p"
    "mr_capability_generation (en_record s) = mp_source_capability_generation p"
    "mr_capability_generation (en_record d) = mp_destination_capability_generation p"
    by (auto simp: commit_migration_def advance_migration_def Let_def persisted_def split_beta mp_is_current_def
        split: if_splits)
  with sd verified drained assms(4) show ?thesis by (simp add: om_find_put)
qed

theorem commit_transfers_authority_witness:
  "\<exists>p' fd'. commit_migration memory_write (\<lambda>_. 0) (Id128 30) (epoch_only_claim 1 []) sample_migrating = (Inr p', fd') \<and>
     (\<exists>s'. om_find (Id128 7) (fd_members fd') = Some s' \<and> mr_state (en_record s') = MS_Draining)"
proof -
  have plan: "om_find (Id128 30) (fd_plans sample_migrating) = Some sample_plan" "mp_state sample_plan = GS_Verified"
    "mp_source sample_plan = Id128 7" "mp_destination sample_plan = Id128 8" "mp_epoch sample_plan = 1"
    "mp_policy_generation sample_plan = pl_generation permissive_default"
    "mp_source_generation sample_plan = 1" "mp_destination_generation sample_plan = 1"
    "mp_source_capability_generation sample_plan = 1" "mp_destination_capability_generation sample_plan = 1"
    by (simp_all add: sample_migrating_def om_find_def sample_plan_def initial_plan_def sample_move_def sample_endpoint_def)
  have entry: "mr_device_generation (en_record sample_entry) = 1" "mr_capability_generation (en_record sample_entry) = 1"
    by (simp_all add: sample_entry_def new_record_def sample_accelerator_def sample_capabilities_def)
  have "\<exists>p'. fst (commit_migration memory_write (\<lambda>_. 0) (Id128 30) (epoch_only_claim 1 []) sample_migrating) = Inr p'"
    using plan entry
    by (simp add: commit_migration_def advance_migration_def validate_authority_def epoch_only_claim_def default_claim_def
        mp_is_current_def sample_migrating_def sample_joined_fields om_find_def persisted_def Let_def split_beta
        persist_locked_def memory_write_def)
  then obtain p' fd' where
    c: "commit_migration memory_write (\<lambda>_. 0) (Id128 30) (epoch_only_claim 1 []) sample_migrating = (Inr p', fd')"
    by (metis prod.collapse)
  moreover have "om_find (mp_source sample_plan) (fd_members sample_migrating) =
      Some (sample_entry\<lparr>en_record := (en_record sample_entry)\<lparr>mr_state := MS_Active\<rparr>\<rparr>)"
    by (simp add: plan sample_migrating_def om_find_def)
  ultimately show ?thesis
    using commit_transfers_authority [OF c plan(1)] by (auto simp: plan)
qed

section \<open>Frames and stores\<close>

text \<open>C15. A frame that the sender encodes is received as it was sent, whatever follows it on the stream,
  and after a change of any single byte of it the receiver refuses it.\<close>

theorem frame_transport:
  assumes "encode_frame f = Inr bs" "fh_protocol_version (fr_header f) = 1" "length (fr_payload f) \<le> maximum"
  shows "receive_frame maximum (bs @ rest) =
      Inr ((fr_header f)\<lparr>fh_payload_length := of_nat (length (fr_payload f))\<rparr>, fr_payload f, rest) \<and>
    (\<forall>i b. i < length bs \<and> b \<noteq> bs ! i \<longrightarrow> (\<exists>e. receive_frame maximum (bs[i := b] @ rest) = Inl e))"
  using receive_encoded [OF assms] corrupt_frame_refused [OF assms] by blast

theorem frame_transport_witness:
  "let f = \<lparr>fr_header = \<lparr>fh_protocol_version = 1, fh_type = 5, fh_flags = 0, fh_sequence = 9, fh_payload_length = 0\<rparr>,
       fr_payload = [1, 2]\<rparr> in
   \<exists>bs. encode_frame f = Inr bs \<and> receive_frame 1024 (bs @ [3]) = Inr ((fr_header f)\<lparr>fh_payload_length := 2\<rparr>, [1, 2], [3])"
proof -
  let ?f = "\<lparr>fr_header = \<lparr>fh_protocol_version = 1, fh_type = 5, fh_flags = 0, fh_sequence = 9, fh_payload_length = 0\<rparr>,
       fr_payload = [1, 2 :: byte]\<rparr>"
  obtain bs where "encode_frame ?f = Inr bs" by (simp add: encode_frame_def Let_def)
  with frame_transport [OF this, of 1024 "[3]"] show ?thesis by (simp add: Let_def)
qed

text \<open>C16. A write that the file store reports as done can be read back exactly. A write that it
  reports as failed leaves the store file as it was, or, when both renames and the rename back failed, only in the
  backup, or brings back a stale backup that could not be removed when there was no store file. Only a complete
  container is ever read.\<close>

theorem store_replacement:
  assumes "file_write path fails partial payload fs = (e, fs')"
  shows "(e = EC_Ok \<longrightarrow> file_read path (\<lambda>_. False) fs' = Inr payload) \<and>
    (e \<noteq> EC_Ok \<longrightarrow> fs' path = fs path \<or>
      fails 4 \<and> fails 8 \<and> fails 9 \<and> fs' path = None \<and> fs' (path @ ''.bak'') = fs path \<or>
      fails 4 \<and> fails 5 \<and> fails 8 \<and> fs path = None \<and> fs' path = fs (path @ ''.bak'')) \<and>
    (\<forall>gs bs reads p. gs path = Some bs \<longrightarrow> file_read path reads gs = Inr p \<longrightarrow> bs = file_container p)"
proof (intro conjI impI allI)
  assume "e = EC_Ok"
  with assms show "file_read path (\<lambda>_. False) fs' = Inr payload" using file_store.read_written by metis
next
  assume "e \<noteq> EC_Ok"
  from file_write_failed [OF assms this] show "fs' path = fs path \<or>
      fails 4 \<and> fails 8 \<and> fails 9 \<and> fs' path = None \<and> fs' (path @ ''.bak'') = fs path \<or>
      fails 4 \<and> fails 5 \<and> fails 8 \<and> fs path = None \<and> fs' path = fs (path @ ''.bak'')" .
next
  fix gs bs reads p
  assume "gs path = Some bs" "file_read path reads gs = Inr p"
  then have "read_container bs = Inr p" by (simp add: file_read_def split: if_splits)
  then show "bs = file_container p" by (rule read_container_exact)
qed

theorem store_replacement_witness:
  "file_read ''s'' (\<lambda>_. False) (snd (file_write ''s'' (\<lambda>n. n = 4) [] [1, 2, 3] (\<lambda>_. None))) = Inr [1, 2, 3]"
proof -
  have "fst (file_write ''s'' (\<lambda>n. n = 4) [] [1, 2, 3] (\<lambda>_. None)) = EC_Ok"
    by (simp add: file_write_def Let_def max_store_payload_def)
  then show ?thesis
    using store_replacement [of "''s''" "\<lambda>n. n = 4" "[]" "[1, 2, 3]" "\<lambda>_. None"] by (metis prod.collapse)
qed

text \<open>C17. The fallback of the file store can leave the store file missing although it existed: the
  rename over it fails, the file is moved aside, and then neither the new file nor the backup can be moved into place.\<close>

theorem store_target_lost:
  "\<exists>fails fs e fs'. file_write ''s'' fails [] [1] fs = (e, fs') \<and> e \<noteq> EC_Ok \<and> fs ''s'' \<noteq> None \<and>
     file_read ''s'' (\<lambda>_. False) fs' = Inl EC_NotFound"
proof -
  have "file_write ''s'' (\<lambda>n. n \<in> {4, 8, 9}) [] [1] (\<lambda>p. if p = ''s'' then Some [] else None) =
      (EC_PersistenceFailure, (\<lambda>p. if p = ''s'' then Some [] else None)(''s'' := None, ''s.bak'' := Some []))"
    by (simp add: file_write_def Let_def max_store_payload_def fun_eq_iff)
  then show ?thesis by (intro exI conjI) (assumption, simp_all add: file_read_def)
qed

end
